(* ===== verification/Prelude.thy ===== *)
theory Prelude
  imports Main "HOL-Library.Word" "HOL-Library.Signed_Division" "HOL-Library.Multiset"
begin

text \<open>
  Shared material of the development: names for the machine integer types of the C++ sources,
  the result type of code that may throw, facts on signed 64-bit words, and generic lemmas on
  lists and words that the component theories use.

  A C++ \<^verbatim>\<open>std::int64_t\<close> and a \<^verbatim>\<open>std::uint64_t\<close> are both a \<^typ>\<open>64 word\<close>; the signed reading is
  \<^term>\<open>sint\<close> with the comparisons \<open><s\<close> and \<open>\<le>s\<close>, the unsigned one is \<^term>\<open>uint\<close> with \<open><\<close> and
  \<open>\<le>\<close>. Signed arithmetic that the sources do not check wraps around in two's complement, which is
  what the overflow tests of \<^verbatim>\<open>money.hpp\<close> and \<^verbatim>\<open>units.hpp\<close> rely on.
\<close>

unbundle bit_operations_syntax

type_synonym u8 = "8 word"
type_synonym u16 = "16 word"
type_synonym u32 = "32 word"
type_synonym u64 = "64 word"
type_synonym i64 = "64 word"
type_synonym bytes = "u8 list"

text \<open>
  The readings that the successive calls of \<^verbatim>\<open>Clock::now_ms()\<close> made by one operation return: reading
  \<open>k\<close> of the operation is \<open>clk k\<close>. A \<^verbatim>\<open>MockClock\<close> gives the same value every time; for a
  \<^verbatim>\<open>SystemClock\<close> the readings may differ.
\<close>

type_synonym Clock = "nat \<Rightarrow> i64"

named_theorems sint_rules \<open>moving signed machine comparisons and arithmetic to the integers\<close>
named_theorems codec_rules \<open>round-trip rules of the byte codecs\<close>

section \<open>Code that may throw\<close>

text \<open>The result of code that may throw: \<^term>\<open>Inl\<close> the exception, \<^term>\<open>Inr\<close> the value.\<close>

definition bindE :: "'e + 'a \<Rightarrow> ('a \<Rightarrow> 'e + 'b) \<Rightarrow> 'e + 'b" where
  "bindE m f = (case m of Inl e \<Rightarrow> Inl e | Inr x \<Rightarrow> f x)"

lemma bindE_simps [simp]: "bindE (Inl e) f = Inl e" "bindE (Inr x) f = f x"
  by (simp_all add: bindE_def)

lemma bindE_eq_Inr: "bindE m f = Inr y \<longleftrightarrow> (\<exists>x. m = Inr x \<and> f x = Inr y)"
  by (cases m) auto

lemma bindE_eq_Inl: "bindE m f = Inl e \<longleftrightarrow> m = Inl e \<or> (\<exists>x. m = Inr x \<and> f x = Inl e)"
  by (cases m) auto

lemma bindE_assoc: "bindE (bindE m f) g = bindE m (\<lambda>x. bindE (f x) g)"
  by (cases m) auto

text \<open>A loop over a list whose body may throw.\<close>

fun foldE :: "('a \<Rightarrow> 's \<Rightarrow> 'e + 's) \<Rightarrow> 'a list \<Rightarrow> 's \<Rightarrow> 'e + 's" where
  "foldE f [] s = Inr s"
| "foldE f (x # xs) s = bindE (f x s) (foldE f xs)"

lemma foldE_append: "foldE f (xs @ ys) s = bindE (foldE f xs s) (foldE f ys)"
  by (induction xs arbitrary: s) (simp_all add: bindE_def split: sum.split)

lemma foldE_map: "foldE f (map g xs) s = foldE (\<lambda>x. f (g x)) xs s"
  by (induction xs arbitrary: s) (simp_all add: bindE_def split: sum.split)

lemma foldE_concat_map: "foldE f (concat (map g xs)) s = foldE (\<lambda>x. foldE f (g x)) xs s"
  by (induction xs arbitrary: s) (simp_all add: foldE_append bindE_def split: sum.split)

lemma foldE_filter: "foldE f (filter P xs) s = foldE (\<lambda>x s. if P x then f x s else Inr s) xs s"
  by (induction xs arbitrary: s) (simp_all add: bindE_def split: sum.split)

lemma foldE_cong:
  "xs = ys \<Longrightarrow> (\<And>x s. x \<in> set ys \<Longrightarrow> f x s = g x s) \<Longrightarrow> foldE f xs s = foldE g ys s"
proof (induction ys arbitrary: xs s)
  case (Cons y ys)
  then show ?case
    by (cases "g y s") simp_all
qed simp

section \<open>Signed 64-bit integers\<close>

text \<open>The integers a \<^verbatim>\<open>std::int64_t\<close> represents.\<close>

definition in_i64 :: "int \<Rightarrow> bool" where
  "in_i64 i \<longleftrightarrow> - (2 ^ 63) \<le> i \<and> i < 2 ^ 63"

abbreviation I64MIN :: i64 where
  "I64MIN \<equiv> 0x8000000000000000"

abbreviation I64MAX :: i64 where
  "I64MAX \<equiv> 0x7FFFFFFFFFFFFFFF"

lemma sint_I64MIN [simp]: "sint I64MIN = - (2 ^ 63)"
  by simp

lemma sint_I64MAX [simp]: "sint I64MAX = 2 ^ 63 - 1"
  by simp

lemma in_i64_sint [simp]: "in_i64 (sint (a :: i64))"
  using sint_ge [of a] sint_lt [of a] by (simp add: in_i64_def)

lemma in_i64_of_sint: "sint (c :: i64) = i \<Longrightarrow> in_i64 i"
  by auto

lemma sint_of_int: "in_i64 i \<Longrightarrow> sint (word_of_int i :: i64) = i"
  unfolding in_i64_def by (simp add: int_word_sint)

lemma word_of_sint [simp]: "word_of_int (sint a) = (a :: i64)"
  by simp

lemma sint_eq_iff: "sint a = sint b \<longleftrightarrow> a = (b :: i64)"
  by (metis word_of_sint)

lemma sint_wrap: "sint (word_of_int i :: i64) = (i + 2 ^ 63) mod 2 ^ 64 - 2 ^ 63"
  by (simp add: int_word_sint)

lemma sint_of_int_eq_iff: "sint (word_of_int i :: i64) = i \<longleftrightarrow> in_i64 i"
  by (metis in_i64_sint sint_of_int)

lemma sint_of_int_dvd: "\<exists>k. sint (word_of_int i :: i64) = i + k * 2 ^ 64"
proof
  show "sint (word_of_int i :: i64) = i + (- ((i + 2 ^ 63) div 2 ^ 64)) * 2 ^ 64"
    unfolding sint_wrap by (simp add: minus_div_mult_eq_mod [symmetric])
qed

lemma i64_add_eq: "a + b = (word_of_int (sint a + sint b) :: i64)"
  by simp

lemma i64_mult_eq: "a * b = (word_of_int (sint a * sint b) :: i64)"
  by simp

lemma i64_minus_eq: "- a = (word_of_int (- sint a) :: i64)"
  by simp

lemma sint_add [sint_rules]: "in_i64 (sint a + sint b) \<Longrightarrow> sint (a + b :: i64) = sint a + sint b"
  by (subst i64_add_eq) (rule sint_of_int)

lemma sint_diff [sint_rules]: "in_i64 (sint a - sint b) \<Longrightarrow> sint (a - b :: i64) = sint a - sint b"
  using sint_of_int [of "sint a - sint b"] by simp

lemma sint_mult [sint_rules]: "in_i64 (sint a * sint b) \<Longrightarrow> sint (a * b :: i64) = sint a * sint b"
  using sint_of_int [of "sint a * sint b"] by simp

lemma sint_neg [sint_rules]: "a \<noteq> I64MIN \<Longrightarrow> sint (- a :: i64) = - sint a"
proof -
  assume "a \<noteq> I64MIN"
  then have "sint a \<noteq> - (2 ^ 63)"
    using sint_eq_iff [of a I64MIN] by simp
  then have "in_i64 (- sint a)"
    using in_i64_sint [of a] by (simp add: in_i64_def)
  then show ?thesis
    by (subst i64_minus_eq) (rule sint_of_int)
qed

lemmas sless_sint [sint_rules] = word_sless_alt [where 'a = 64]
  and sle_sint [sint_rules] = word_sle_eq [where 'a = 64]

text \<open>C++ integer division and remainder of \<^verbatim>\<open>std::int64_t\<close>: rounded towards zero.\<close>

definition i64_div :: "i64 \<Rightarrow> i64 \<Rightarrow> i64" where
  "i64_div a b = word_of_int (sint a sdiv sint b)"

definition i64_mod :: "i64 \<Rightarrow> i64 \<Rightarrow> i64" where
  "i64_mod a b = word_of_int (sint a smod sint b)"

section \<open>Enumerations with a fixed underlying type\<close>

text \<open>
  An \<^verbatim>\<open>enum class E : std::uint8_t\<close> holds any of the 256 values of its underlying type; a
  \<^verbatim>\<open>static_cast\<close> from a byte read from a file or a socket may give one that no enumerator names.
  Each enumeration that is read from bytes has, beside the enumerators of the source, a
  constructor for these values. The interface says how the casts in both directions behave.
\<close>

definition enum_cast :: "'e list \<Rightarrow> (u8 \<Rightarrow> 'e) \<Rightarrow> u8 \<Rightarrow> 'e" where
  "enum_cast es raw b = (if unat b < length es then es ! unat b else raw b)"

definition enum_wf :: "'e list \<Rightarrow> (u8 \<Rightarrow> 'e) \<Rightarrow> 'e \<Rightarrow> bool" where
  "enum_wf es raw e \<longleftrightarrow> e \<in> set es \<or> (\<exists>b. e = raw b \<and> length es \<le> unat b)"

locale enum_class =
  fixes to_u8 :: "'e \<Rightarrow> u8"
    and es :: "'e list"
    and raw :: "u8 \<Rightarrow> 'e"
  assumes codes: "map to_u8 es = map of_nat [0..<length es]"
    and few: "length es \<le> 256"
    and raw_code: "to_u8 (raw b) = b"
begin

lemma to_u8_nth: "i < length es \<Longrightarrow> to_u8 (es ! i) = of_nat i"
  using arg_cong [OF codes, of "\<lambda>xs. xs ! i"] by simp

lemma to_of: "to_u8 (enum_cast es raw b) = b"
  by (simp add: enum_cast_def to_u8_nth raw_code)

lemma wf_of: "enum_wf es raw (enum_cast es raw b)"
  by (auto simp: enum_cast_def enum_wf_def)

lemma of_to: "enum_wf es raw e \<Longrightarrow> enum_cast es raw (to_u8 e) = e"
proof -
  assume "enum_wf es raw e"
  then consider i where "i < length es" "e = es ! i" | b where "e = raw b" "length es \<le> unat b"
    by (auto simp: enum_wf_def in_set_conv_nth)
  then show ?thesis
  proof cases
    case 1
    with few have "unat (of_nat i :: u8) = i"
      by (simp add: unat_of_nat)
    with 1 show ?thesis
      by (simp add: enum_cast_def to_u8_nth)
  next
    case 2
    then show ?thesis
      by (simp add: enum_cast_def raw_code)
  qed
qed

lemma to_u8_inj: "enum_wf es raw e \<Longrightarrow> enum_wf es raw e' \<Longrightarrow> to_u8 e = to_u8 e' \<longleftrightarrow> e = e'"
  by (metis of_to)

end

section \<open>Transition systems\<close>

text \<open>What every reachable state satisfies when the steps preserve it.\<close>

locale safe_system =
  fixes initial :: "'s \<Rightarrow> bool"
    and step :: "'s \<Rightarrow> 's \<Rightarrow> bool"
    and inv :: "'s \<Rightarrow> bool"
  assumes inv_initial: "initial s \<Longrightarrow> inv s"
    and inv_step: "inv s \<Longrightarrow> step s s' \<Longrightarrow> inv s'"
begin

lemma inv_steps: "step\<^sup>*\<^sup>* s s' \<Longrightarrow> inv s \<Longrightarrow> inv s'"
  by (induction rule: rtranclp_induct) (auto intro: inv_step)

lemma inv_reachable: "initial s \<Longrightarrow> step\<^sup>*\<^sup>* s s' \<Longrightarrow> inv s'"
  by (blast intro: inv_initial inv_steps)

end

section \<open>Sums\<close>

lemma sum_list_map_update:
  "i < length xs \<Longrightarrow> (\<Sum>x\<leftarrow>xs[i := y]. f x) = (\<Sum>x\<leftarrow>xs. f x) - f (xs ! i) + (f y :: int)"
proof (induction xs arbitrary: i)
  case (Cons x xs)
  then show ?case
    by (cases i) auto
qed simp

section \<open>Magnitudes\<close>

lemma uint_of_sint: "uint (a :: 64 word) = sint a mod 2 ^ 64"
  by (simp add: uint_sint take_bit_eq_mod)

lemma uint_nonneg_sint: "0 \<le> sint a \<Longrightarrow> uint (a :: 64 word) = sint a"
  using in_i64_sint [of a] by (simp add: uint_of_sint in_i64_def)

lemma uint_neg_sint: "sint a < 0 \<Longrightarrow> uint (- a :: 64 word) = - sint a"
proof -
  assume neg: "sint a < 0"
  have "uint (- a) = (- uint a) mod 2 ^ 64"
    by (simp add: uint_word_ariths)
  also have "\<dots> = (- sint a) mod 2 ^ 64"
    by (simp add: uint_of_sint mod_minus_eq)
  finally show ?thesis
    using neg in_i64_sint [of a] by (simp add: in_i64_def)
qed

end
