(* ===== verification/Identity.thy ===== *)
theory Identity
  imports Prelude
begin

text \<open>
  Identities and statuses (\<^verbatim>\<open>include/costgovernor/identity.hpp\<close>, \<^verbatim>\<open>status.hpp\<close>): the strongly typed
  64-bit identity, with a phantom tag type for each authority domain so that identities of
  different domains have different types here as in the sources; the typed outcome statuses; and
  the exceptions the runtime throws.
\<close>

section \<open>Typed identities\<close>

datatype 'tag Id = mk_Id (Id_value: u64)

definition Id_valid :: "'tag Id \<Rightarrow> bool" where
  "Id_valid i \<longleftrightarrow> Id_value i \<noteq> 0"

text \<open>The default-constructed identity, which names nothing.\<close>

definition Id_none :: "'tag Id" where
  "Id_none = mk_Id 0"

text \<open>The next generation of an identity: \<^verbatim>\<open>T(x.value() + 1)\<close>, wrapping at 64 bits.\<close>

definition Id_next :: "'tag Id \<Rightarrow> 'tag Id" where
  "Id_next i = mk_Id (Id_value i + 1)"

definition Id_less_eq :: "'tag Id \<Rightarrow> 'tag Id \<Rightarrow> bool" where
  "Id_less_eq a b \<longleftrightarrow> Id_value a \<le> Id_value b"

definition Id_less :: "'tag Id \<Rightarrow> 'tag Id \<Rightarrow> bool" where
  "Id_less a b \<longleftrightarrow> Id_value a < Id_value b"

instantiation Id :: (type) linorder
begin

definition less_eq_Id :: "'a Id \<Rightarrow> 'a Id \<Rightarrow> bool" where
  "less_eq_Id = Id_less_eq"

definition less_Id :: "'a Id \<Rightarrow> 'a Id \<Rightarrow> bool" where
  "less_Id = Id_less"

instance
  by standard (auto simp: less_eq_Id_def less_Id_def Id_less_eq_def Id_less_def Id.expand)

end

lemma Id_valid_none [simp]: "\<not> Id_valid Id_none"
  by (simp add: Id_valid_def Id_none_def)

lemma Id_valid_mk [simp]: "Id_valid (mk_Id n) \<longleftrightarrow> n \<noteq> 0"
  by (simp add: Id_valid_def)

text \<open>A generation that advances is never the one it was, also when it wraps.\<close>

lemma Id_next_neq [simp]: "Id_next i \<noteq> i" "i \<noteq> Id_next i"
  by (cases i; simp add: Id_next_def)+

typedecl CoordinatorEpochTag
typedecl WorkerIdTag
typedecl WorkerBootIdTag
typedecl ServiceIdTag
typedecl ServiceGenerationTag
typedecl WorkloadIdTag
typedecl WorkloadGenerationTag
typedecl RequestIdTag
typedecl RequestGenerationTag
typedecl AttemptIdTag
typedecl AttemptGenerationTag
typedecl PlanIdTag
typedecl PlanGenerationTag
typedecl CostPolicyIdTag
typedecl CostPolicyGenerationTag
typedecl BudgetIdTag
typedecl BudgetGenerationTag
typedecl PriceScheduleIdTag
typedecl PriceScheduleGenerationTag
typedecl EvidenceIdTag
typedecl EvidenceGenerationTag
typedecl ResourceIdTag
typedecl ResourceGenerationTag
typedecl DeviceIdTag
typedecl DeviceGenerationTag
typedecl PlacementIdTag
typedecl PlacementGenerationTag
typedecl RecoveryGenerationTag
typedecl DispatchIdTag
typedecl InterventionIdTag
typedecl InterventionGenerationTag
typedecl ReservationIdTag

type_synonym CoordinatorEpoch = "CoordinatorEpochTag Id"
type_synonym WorkerId = "WorkerIdTag Id"
type_synonym WorkerBootId = "WorkerBootIdTag Id"
type_synonym ServiceId = "ServiceIdTag Id"
type_synonym ServiceGeneration = "ServiceGenerationTag Id"
type_synonym WorkloadId = "WorkloadIdTag Id"
type_synonym WorkloadGeneration = "WorkloadGenerationTag Id"
type_synonym RequestId = "RequestIdTag Id"
type_synonym RequestGeneration = "RequestGenerationTag Id"
type_synonym AttemptId = "AttemptIdTag Id"
type_synonym AttemptGeneration = "AttemptGenerationTag Id"
type_synonym PlanId = "PlanIdTag Id"
type_synonym PlanGeneration = "PlanGenerationTag Id"
type_synonym CostPolicyId = "CostPolicyIdTag Id"
type_synonym CostPolicyGeneration = "CostPolicyGenerationTag Id"
type_synonym BudgetId = "BudgetIdTag Id"
type_synonym BudgetGeneration = "BudgetGenerationTag Id"
type_synonym PriceScheduleId = "PriceScheduleIdTag Id"
type_synonym PriceScheduleGeneration = "PriceScheduleGenerationTag Id"
type_synonym EvidenceId = "EvidenceIdTag Id"
type_synonym EvidenceGeneration = "EvidenceGenerationTag Id"
type_synonym ResourceId = "ResourceIdTag Id"
type_synonym ResourceGeneration = "ResourceGenerationTag Id"
type_synonym DeviceId = "DeviceIdTag Id"
type_synonym DeviceGeneration = "DeviceGenerationTag Id"
type_synonym PlacementId = "PlacementIdTag Id"
type_synonym PlacementGeneration = "PlacementGenerationTag Id"
type_synonym RecoveryGeneration = "RecoveryGenerationTag Id"
type_synonym DispatchId = "DispatchIdTag Id"
type_synonym InterventionId = "InterventionIdTag Id"
type_synonym InterventionGeneration = "InterventionGenerationTag Id"
type_synonym ReservationId = "ReservationIdTag Id"

section \<open>Statuses and exceptions\<close>

datatype Status =
    OK | INVALID_INPUT | INSUFFICIENT_EVIDENCE | STALE_EVIDENCE | STALE_AUTHORITY
    | MISSING_PRICE | CURRENCY_MISMATCH | BUDGET_EXCEEDED | BUDGET_EXPIRED | PLAN_INFEASIBLE
    | PLAN_SUPERSEDED | INTERVENTION_FAILED | OUTCOME_UNKNOWN | PERSISTENCE_CORRUPT
    | PROTOCOL_ERROR | RESOURCE_EXHAUSTED | CANCELLED | SHUTTING_DOWN
    | PERSISTENCE_UNSUPPORTED_VERSION | raw_Status u8

primrec Status_u8 :: "Status \<Rightarrow> u8" where
  "Status_u8 Status.OK = 0"
| "Status_u8 Status.INVALID_INPUT = 1"
| "Status_u8 Status.INSUFFICIENT_EVIDENCE = 2"
| "Status_u8 Status.STALE_EVIDENCE = 3"
| "Status_u8 Status.STALE_AUTHORITY = 4"
| "Status_u8 Status.MISSING_PRICE = 5"
| "Status_u8 Status.CURRENCY_MISMATCH = 6"
| "Status_u8 Status.BUDGET_EXCEEDED = 7"
| "Status_u8 Status.BUDGET_EXPIRED = 8"
| "Status_u8 Status.PLAN_INFEASIBLE = 9"
| "Status_u8 Status.PLAN_SUPERSEDED = 10"
| "Status_u8 Status.INTERVENTION_FAILED = 11"
| "Status_u8 Status.OUTCOME_UNKNOWN = 12"
| "Status_u8 Status.PERSISTENCE_CORRUPT = 13"
| "Status_u8 Status.PROTOCOL_ERROR = 14"
| "Status_u8 Status.RESOURCE_EXHAUSTED = 15"
| "Status_u8 Status.CANCELLED = 16"
| "Status_u8 Status.SHUTTING_DOWN = 17"
| "Status_u8 Status.PERSISTENCE_UNSUPPORTED_VERSION = 18"
| "Status_u8 (raw_Status b) = b"

definition Status_enumerators :: "Status list" where
  "Status_enumerators =
    [Status.OK, Status.INVALID_INPUT, Status.INSUFFICIENT_EVIDENCE, Status.STALE_EVIDENCE
     , Status.STALE_AUTHORITY, Status.MISSING_PRICE, Status.CURRENCY_MISMATCH
     , Status.BUDGET_EXCEEDED, Status.BUDGET_EXPIRED, Status.PLAN_INFEASIBLE
     , Status.PLAN_SUPERSEDED, Status.INTERVENTION_FAILED, Status.OUTCOME_UNKNOWN
     , Status.PERSISTENCE_CORRUPT, Status.PROTOCOL_ERROR, Status.RESOURCE_EXHAUSTED
     , Status.CANCELLED, Status.SHUTTING_DOWN, Status.PERSISTENCE_UNSUPPORTED_VERSION]"

definition Status_of_u8 :: "u8 \<Rightarrow> Status" where
  "Status_of_u8 = enum_cast Status_enumerators raw_Status"

definition Status_wf :: "Status \<Rightarrow> bool" where
  "Status_wf = enum_wf Status_enumerators raw_Status"

primrec status_name :: "Status \<Rightarrow> string" where
  "status_name Status.OK = ''OK''"
| "status_name Status.INVALID_INPUT = ''INVALID_INPUT''"
| "status_name Status.INSUFFICIENT_EVIDENCE = ''INSUFFICIENT_EVIDENCE''"
| "status_name Status.STALE_EVIDENCE = ''STALE_EVIDENCE''"
| "status_name Status.STALE_AUTHORITY = ''STALE_AUTHORITY''"
| "status_name Status.MISSING_PRICE = ''MISSING_PRICE''"
| "status_name Status.CURRENCY_MISMATCH = ''CURRENCY_MISMATCH''"
| "status_name Status.BUDGET_EXCEEDED = ''BUDGET_EXCEEDED''"
| "status_name Status.BUDGET_EXPIRED = ''BUDGET_EXPIRED''"
| "status_name Status.PLAN_INFEASIBLE = ''PLAN_INFEASIBLE''"
| "status_name Status.PLAN_SUPERSEDED = ''PLAN_SUPERSEDED''"
| "status_name Status.INTERVENTION_FAILED = ''INTERVENTION_FAILED''"
| "status_name Status.OUTCOME_UNKNOWN = ''OUTCOME_UNKNOWN''"
| "status_name Status.PERSISTENCE_CORRUPT = ''PERSISTENCE_CORRUPT''"
| "status_name Status.PROTOCOL_ERROR = ''PROTOCOL_ERROR''"
| "status_name Status.RESOURCE_EXHAUSTED = ''RESOURCE_EXHAUSTED''"
| "status_name Status.CANCELLED = ''CANCELLED''"
| "status_name Status.SHUTTING_DOWN = ''SHUTTING_DOWN''"
| "status_name Status.PERSISTENCE_UNSUPPORTED_VERSION = ''PERSISTENCE_UNSUPPORTED_VERSION''"
| "status_name (raw_Status b) = ''UNKNOWN''"

interpretation Status_cast: enum_class Status_u8 Status_enumerators raw_Status
  by unfold_locales (simp_all add: Status_enumerators_def)

lemma Status_codec [codec_rules]: "Status_wf e \<Longrightarrow> Status_of_u8 (Status_u8 e) = e"
  by (simp add: Status_of_u8_def Status_wf_def Status_cast.of_to)

text \<open>
  The exceptions of the runtime: the standard library's \<^verbatim>\<open>overflow_error\<close>, \<^verbatim>\<open>domain_error\<close> and
  \<^verbatim>\<open>runtime_error\<close> with their message, and \<^verbatim>\<open>StatusError\<close> with a typed status and a message.
\<close>

datatype exn = overflow_error string | domain_error string | runtime_error string
  | StatusError Status string

definition throw_status :: "Status \<Rightarrow> string \<Rightarrow> exn + 'a" where
  "throw_status s msg = Inl (StatusError s msg)"

lemma throw_status_neq_Inr [simp]: "throw_status s m \<noteq> Inr x"
  by (simp add: throw_status_def)

end
