(* ===== verification/Money.thy ===== *)
theory Money
  imports Identity
begin

text \<open>
  Exact money and typed amounts (\<^verbatim>\<open>include/costgovernor/money.hpp\<close>, \<^verbatim>\<open>units.hpp\<close>). Both classes carry a
  signed 64-bit integer and check every operation. The interface \<open>checked_i64\<close> states what
  the checks promise: the exact integer result, or an exception when it is not representable. It is
  interpreted on the operations of \<^verbatim>\<open>MoneyMicros\<close> and on those of \<^verbatim>\<open>Amount\<close>.
\<close>

section \<open>Overflow tests\<close>

text \<open>
  The test after a wrapping addition, and the test after a wrapping multiplication, that the two
  classes share word for word.
\<close>

definition add_overflowed :: "i64 \<Rightarrow> i64 \<Rightarrow> i64 \<Rightarrow> bool" where
  "add_overflowed a b r \<longleftrightarrow> 0 <s a \<and> 0 <s b \<and> r <s 0 \<or> a <s 0 \<and> b <s 0 \<and> 0 \<le>s r"

lemma sint_add_cases:
  fixes a b :: i64
  defines "s \<equiv> sint a + sint b"
  shows "sint (a + b) = (if s < - (2 ^ 63) then s + 2 ^ 64 else if 2 ^ 63 \<le> s then s - 2 ^ 64 else s)"
proof -
  have "in_i64 (sint a)" "in_i64 (sint b)"
    by simp_all
  then have bounds: "- (2 ^ 64) \<le> s" "s < 2 ^ 64"
    by (auto simp: s_def in_i64_def)
  have "sint (a + b) = (s + 2 ^ 63) mod 2 ^ 64 - 2 ^ 63"
    unfolding s_def by (subst i64_add_eq) (rule sint_wrap)
  moreover have "(s + 2 ^ 63) mod 2 ^ 64 = (s + 2 ^ 63 + 2 ^ 64) mod 2 ^ 64"
    by (rule mod_add_self2 [symmetric])
  moreover have "(s + 2 ^ 63) mod 2 ^ 64 = (s + 2 ^ 63 - 2 ^ 64) mod 2 ^ 64"
    by (rule minus_mod_self2 [symmetric])
  ultimately show ?thesis
    using bounds mod_pos_pos_trivial [of "s + 2 ^ 63 + 2 ^ 64" "2 ^ 64"]
      mod_pos_pos_trivial [of "s + 2 ^ 63 - 2 ^ 64" "2 ^ 64"]
      mod_pos_pos_trivial [of "s + 2 ^ 63" "2 ^ 64"]
    by auto
qed

lemma add_overflowed_iff: "add_overflowed a b (a + b) \<longleftrightarrow> \<not> in_i64 (sint a + sint b)"
proof -
  have "in_i64 (sint a)" "in_i64 (sint b)"
    by simp_all
  then show ?thesis
    unfolding add_overflowed_def sless_sint sle_sint sint_add_cases in_i64_def
    by auto
qed

lemma quotient_exact:
  fixes a b r k :: int
  assumes r: "r = a * b + k * 2 ^ 64" and q: "r sdiv a = b" and a: "a \<noteq> 0" "\<bar>a\<bar> \<le> 2 ^ 63"
  shows "k = 0"
proof -
  have "r smod a = r - b * a"
    using q by (metis minus_sdiv_mult_eq_smod)
  then have "k * 2 ^ 64 = r smod a"
    using r by (simp add: algebra_simps)
  moreover have "\<bar>r smod a\<bar> < 2 ^ 63"
    using smod_int_range [OF a(1), of r] a(2) by auto
  ultimately have "\<bar>k * 2 ^ 64\<bar> < 2 ^ 63"
    by simp
  then show ?thesis
    by simp
qed

definition mul_overflowed :: "i64 \<Rightarrow> i64 \<Rightarrow> i64 \<Rightarrow> bool" where
  "mul_overflowed a b r \<longleftrightarrow> i64_div r a \<noteq> b"

lemma sdiv_mult_self: "a \<noteq> 0 \<Longrightarrow> a * b sdiv a = b" for a b :: int
  by (auto simp: signed_divide_int_def abs_mult sgn_if zero_less_mult_iff)

lemma sint_abs_le: "\<bar>sint (a :: i64)\<bar> \<le> 2 ^ 63"
  using in_i64_sint [of a] by (auto simp: in_i64_def)

lemma i64_div_sint:
  assumes "\<not> (a = I64MIN \<and> b = -1)"
  shows "sint (i64_div a b) = sint a sdiv sint b"
proof -
  have "in_i64 (sint a sdiv sint b)"
  proof (cases "sint a = - (2 ^ 63)")
    case False
    then have "\<bar>sint a\<bar> < 2 ^ 63"
      using in_i64_sint [of a] by (auto simp: in_i64_def)
    then show ?thesis
      using sdiv_int_range [of "sint a" "sint b"] by (auto simp: in_i64_def)
  next
    case True
    then have "a = I64MIN"
      by (metis sint_I64MIN sint_eq_iff)
    with assms have "b \<noteq> -1"
      by simp
    then have "sint b \<noteq> -1"
      by (metis sint_eq_iff sint_n1)
    then have "sint a sdiv sint b \<noteq> 2 ^ 63"
      using True int_sdiv_negated_is_minus1 [of "sint a" "sint b"] by simp
    then show ?thesis
      using True sdiv_int_range [of "sint a" "sint b"] by (auto simp: in_i64_def)
  qed
  then show ?thesis
    unfolding i64_div_def by (rule sint_of_int)
qed

text \<open>
  The division test after the wrapping product detects exactly the products that are not
  representable, once the two operand pairs whose quotient itself overflows are excluded.
\<close>

lemma mul_overflowed_iff:
  assumes "a \<noteq> 0" and "\<not> (a = I64MIN \<and> b = -1)" and "\<not> (b = I64MIN \<and> a = -1)"
  shows "mul_overflowed a b (a * b) \<longleftrightarrow> \<not> in_i64 (sint a * sint b)"
proof -
  have a0: "sint a \<noteq> 0"
    using assms(1) by (metis sint_0 sint_eq_iff)
  have "\<not> (a * b = I64MIN \<and> a = -1)"
    using assms(3) minus_equation_iff [of b I64MIN] by auto
  then have q: "sint (i64_div (a * b) a) = sint (a * b) sdiv sint a"
    by (rule i64_div_sint)
  show ?thesis
  proof
    assume over: "mul_overflowed a b (a * b)"
    show "\<not> in_i64 (sint a * sint b)"
    proof
      assume "in_i64 (sint a * sint b)"
      then have "sint (a * b) = sint a * sint b"
        by (subst i64_mult_eq) (rule sint_of_int)
      with q a0 have "sint (i64_div (a * b) a) = sint b"
        by (simp add: sdiv_mult_self)
      with over show False
        by (simp add: mul_overflowed_def sint_eq_iff)
    qed
  next
    assume not_in: "\<not> in_i64 (sint a * sint b)"
    obtain k where k: "sint (a * b) = sint a * sint b + k * 2 ^ 64"
      using sint_of_int_dvd [of "sint a * sint b"] by auto
    show "mul_overflowed a b (a * b)"
    proof (rule ccontr)
      assume "\<not> mul_overflowed a b (a * b)"
      with q have "sint (a * b) sdiv sint a = sint b"
        by (simp add: mul_overflowed_def)
      then have "k = 0"
        using k quotient_exact a0 sint_abs_le by blast
      with k not_in show False
        by (metis add_0_right in_i64_sint mult_zero_left)
    qed
  qed
qed

section \<open>The interface of checked arithmetic\<close>

text \<open>
  What a client of a checked 64-bit type relies on: each operation returns the exact integer result
  or throws, and it throws only when the result is not representable. The one exception is
  subtraction, which also refuses the least integer as its right operand.
\<close>

locale checked_i64 =
  fixes cadd csub cmul :: "i64 \<Rightarrow> i64 \<Rightarrow> exn + i64"
    and add_exn sub_exn mul_exn :: exn
  assumes cadd_spec: "cadd a b = (if in_i64 (sint a + sint b) then Inr (a + b) else Inl add_exn)"
    and csub_spec: "csub a b = (if b = I64MIN then Inl sub_exn
        else if in_i64 (sint a - sint b) then Inr (a - b) else Inl add_exn)"
    and cmul_spec: "cmul a b = (if in_i64 (sint a * sint b) then Inr (a * b) else Inl mul_exn)"
begin

lemma cadd_eq_Inr: "cadd a b = Inr c \<longleftrightarrow> sint c = sint a + sint b"
  by (auto simp: cadd_spec sint_add sint_eq_iff [symmetric] dest: in_i64_of_sint)

lemma csub_eq_Inr: "csub a b = Inr c \<longleftrightarrow> b \<noteq> I64MIN \<and> sint c = sint a - sint b"
  by (auto simp: csub_spec sint_diff sint_eq_iff [of _ c, symmetric] dest: in_i64_of_sint)

lemma cmul_eq_Inr: "cmul a b = Inr c \<longleftrightarrow> sint c = sint a * sint b"
  by (auto simp: cmul_spec sint_mult sint_eq_iff [symmetric] dest: in_i64_of_sint)

lemma cadd_commute: "cadd a b = cadd b a"
  by (simp add: cadd_spec add.commute)

lemma cmul_commute: "cmul a b = cmul b a"
  by (simp add: cmul_spec mult.commute)

lemma csub_cadd: "cadd a b = Inr c \<Longrightarrow> b \<noteq> I64MIN \<Longrightarrow> csub c b = Inr a"
  by (simp add: cadd_eq_Inr csub_eq_Inr)

lemma cadd_csub: "csub a b = Inr c \<Longrightarrow> cadd c b = Inr a"
  by (simp add: cadd_eq_Inr csub_eq_Inr)

end

section \<open>MoneyMicros\<close>

datatype MoneyMicros = MoneyMicros (total_micros: i64)

definition kMicrosPerUnit :: i64 where
  "kMicrosPerUnit = 1000000"

definition kDefaultCurrency :: string where
  "kDefaultCurrency = ''USD''"

definition from_micros :: "i64 \<Rightarrow> MoneyMicros" where
  "from_micros m = MoneyMicros m"

definition from_units :: "i64 \<Rightarrow> MoneyMicros" where
  "from_units units = MoneyMicros (units * kMicrosPerUnit)"

definition total_units :: "MoneyMicros \<Rightarrow> i64" where
  "total_units m = i64_div (total_micros m) kMicrosPerUnit"

definition money_negative :: "MoneyMicros \<Rightarrow> bool" where
  "money_negative m \<longleftrightarrow> total_micros m <s 0"

definition money_is_zero :: "MoneyMicros \<Rightarrow> bool" where
  "money_is_zero m \<longleftrightarrow> total_micros m = 0"

text \<open>The comparison operators of the class are the order of its type.\<close>

definition money_less_eq :: "MoneyMicros \<Rightarrow> MoneyMicros \<Rightarrow> bool" where
  "money_less_eq a b \<longleftrightarrow> total_micros a \<le>s total_micros b"

definition money_less :: "MoneyMicros \<Rightarrow> MoneyMicros \<Rightarrow> bool" where
  "money_less a b \<longleftrightarrow> total_micros a <s total_micros b"

instantiation MoneyMicros :: linorder
begin

definition less_eq_MoneyMicros :: "MoneyMicros \<Rightarrow> MoneyMicros \<Rightarrow> bool" where
  "less_eq_MoneyMicros = money_less_eq"

definition less_MoneyMicros :: "MoneyMicros \<Rightarrow> MoneyMicros \<Rightarrow> bool" where
  "less_MoneyMicros = money_less"

instance
  by standard
    (auto simp: less_eq_MoneyMicros_def less_MoneyMicros_def money_less_eq_def money_less_def sless_sint sle_sint sint_eq_iff
      intro: MoneyMicros.expand)

end

definition MoneyMicros_checked_add :: "i64 \<Rightarrow> i64 \<Rightarrow> exn + i64" where
  "MoneyMicros_checked_add a b =
    (let r = a + b
     in if add_overflowed a b r then Inl (overflow_error ''money addition overflow'') else Inr r)"

definition MoneyMicros_checked_sub :: "i64 \<Rightarrow> i64 \<Rightarrow> exn + i64" where
  "MoneyMicros_checked_sub a b =
    (if b = I64MIN then Inl (overflow_error ''money subtraction overflow'')
     else MoneyMicros_checked_add a (- b))"

definition MoneyMicros_checked_mul_i64 :: "i64 \<Rightarrow> i64 \<Rightarrow> exn + i64" where
  "MoneyMicros_checked_mul_i64 a b =
    (if a = 0 \<or> b = 0 then Inr 0
     else if a = I64MIN \<and> b = -1 \<or> b = I64MIN \<and> a = -1
       then Inl (overflow_error ''money multiply overflow'')
     else let r = a * b
       in if mul_overflowed a b r then Inl (overflow_error ''money multiply overflow'') else Inr r)"

text \<open>The operators \<^verbatim>\<open>+\<close>, \<^verbatim>\<open>-\<close>, \<^verbatim>\<open>+=\<close> and \<^verbatim>\<open>-=\<close> of the class.\<close>

definition money_add :: "MoneyMicros \<Rightarrow> MoneyMicros \<Rightarrow> exn + MoneyMicros" where
  "money_add a b = map_sum id MoneyMicros (MoneyMicros_checked_add (total_micros a) (total_micros b))"

definition money_sub :: "MoneyMicros \<Rightarrow> MoneyMicros \<Rightarrow> exn + MoneyMicros" where
  "money_sub a b = map_sum id MoneyMicros (MoneyMicros_checked_sub (total_micros a) (total_micros b))"

definition money_checked_mul :: "MoneyMicros \<Rightarrow> i64 \<Rightarrow> exn + MoneyMicros" where
  "money_checked_mul m factor =
    map_sum id MoneyMicros (MoneyMicros_checked_mul_i64 (total_micros m) factor)"

datatype Rounding = kTruncate | kCeil | kFloor

definition money_checked_div :: "MoneyMicros \<Rightarrow> i64 \<Rightarrow> Rounding \<Rightarrow> exn + MoneyMicros" where
  "money_checked_div m divisor r =
    (if divisor = 0 then Inl (domain_error ''division by zero'')
     else if total_micros m = I64MIN \<and> divisor = -1 then Inl (overflow_error ''money division overflow'')
     else let q = i64_div (total_micros m) divisor; rem = i64_mod (total_micros m) divisor
       in if rem = 0 then Inr (MoneyMicros q)
          else if r = kCeil \<and> (0 <s rem) = (0 <s divisor) then Inr (MoneyMicros (q + 1))
          else if r = kFloor \<and> (0 <s rem) \<noteq> (0 <s divisor) then Inr (MoneyMicros (q - 1))
          else Inr (MoneyMicros q))"

subsection \<open>The operators are exact\<close>

abbreviation micros :: "MoneyMicros \<Rightarrow> int" where
  "micros m \<equiv> sint (total_micros m)"

lemma add_test_exact:
  "(let r = a + b in if add_overflowed a b r then Inl e else Inr r) =
    (if in_i64 (sint a + sint b) then Inr (a + b) else Inl e)"
  by (simp add: add_overflowed_iff)

lemma sub_test_exact:
  "(if b = I64MIN then Inl e
    else let r = a + (- b) in if add_overflowed a (- b) r then Inl e' else Inr r) =
    (if b = I64MIN then Inl e else if in_i64 (sint a - sint b) then Inr (a - b) else Inl e')"
  using add_overflowed_iff [of a "- b"] by (simp add: sint_neg)

lemma mul_test_exact:
  "(if a = 0 \<or> b = 0 then Inr 0
    else if a = I64MIN \<and> b = -1 \<or> b = I64MIN \<and> a = -1 then Inl e
    else let r = a * b in if mul_overflowed a b r then Inl e else Inr r) =
    (if in_i64 (sint a * sint b) then Inr (a * b) else Inl e)"
proof (cases "a = 0 \<or> b = 0")
  case True
  then show ?thesis
    by (auto simp: in_i64_def)
next
  case False
  show ?thesis
  proof (cases "a = I64MIN \<and> b = -1 \<or> b = I64MIN \<and> a = -1")
    case True
    then show ?thesis
      by (auto simp: in_i64_def)
  next
    case no_special: False
    with False show ?thesis
      by (auto simp: mul_overflowed_iff)
  qed
qed

interpretation money: checked_i64 MoneyMicros_checked_add MoneyMicros_checked_sub
  MoneyMicros_checked_mul_i64 "overflow_error ''money addition overflow''"
  "overflow_error ''money subtraction overflow''" "overflow_error ''money multiply overflow''"
  by unfold_locales
    ((simp only: MoneyMicros_checked_add_def add_test_exact)?,
      (simp only: MoneyMicros_checked_sub_def MoneyMicros_checked_add_def sub_test_exact)?,
      (simp only: MoneyMicros_checked_mul_i64_def mul_test_exact)?)

lemma money_le_micros [sint_rules]: "a \<le> b \<longleftrightarrow> micros a \<le> micros b"
  by (simp add: less_eq_MoneyMicros_def money_less_eq_def sle_sint)

lemma money_less_micros [sint_rules]: "a < b \<longleftrightarrow> micros a < micros b"
  by (simp add: less_MoneyMicros_def money_less_def sless_sint)

lemma money_eq_micros: "a = b \<longleftrightarrow> micros a = micros b"
  by (cases a; cases b) (simp add: sint_eq_iff)

lemma money_negative_micros [sint_rules]: "money_negative a \<longleftrightarrow> micros a < 0"
  by (simp add: money_negative_def sless_sint)

lemma money_is_zero_micros [sint_rules]: "money_is_zero a \<longleftrightarrow> micros a = 0"
  by (metis money_is_zero_def sint_0 sint_eq_iff)

lemma money_add_eq_Inr: "money_add a b = Inr c \<longleftrightarrow> micros c = micros a + micros b"
proof -
  have "money_add a b = Inr c \<longleftrightarrow>
      MoneyMicros_checked_add (total_micros a) (total_micros b) = Inr (total_micros c)"
    by (cases "MoneyMicros_checked_add (total_micros a) (total_micros b)"; cases c)
      (auto simp: money_add_def)
  then show ?thesis
    by (simp add: money.cadd_eq_Inr)
qed

lemma money_sub_eq_Inr:
  "money_sub a b = Inr c \<longleftrightarrow> total_micros b \<noteq> I64MIN \<and> micros c = micros a - micros b"
proof -
  have "money_sub a b = Inr c \<longleftrightarrow>
      MoneyMicros_checked_sub (total_micros a) (total_micros b) = Inr (total_micros c)"
    by (cases "MoneyMicros_checked_sub (total_micros a) (total_micros b)"; cases c)
      (auto simp: money_sub_def)
  then show ?thesis
    by (simp add: money.csub_eq_Inr)
qed

lemma money_mul_eq_Inr: "money_checked_mul m f = Inr c \<longleftrightarrow> micros c = micros m * sint f"
proof -
  have "money_checked_mul m f = Inr c \<longleftrightarrow>
      MoneyMicros_checked_mul_i64 (total_micros m) f = Inr (total_micros c)"
    by (cases "MoneyMicros_checked_mul_i64 (total_micros m) f"; cases c)
      (auto simp: money_checked_mul_def)
  then show ?thesis
    by (simp add: money.cmul_eq_Inr)
qed

subsection \<open>Division rounds as asked\<close>

lemma mod_with_sign:
  fixes v d :: int
  assumes "d \<noteq> 0"
  obtains m where "v mod d = m" "0 < d \<Longrightarrow> 0 \<le> m \<and> m < d" "d < 0 \<Longrightarrow> d < m \<and> m \<le> 0"
  using assms by (metis neg_mod_bound neg_mod_sign pos_mod_bound pos_mod_sign)

lemma ceil_from_trunc:
  fixes v d :: int
  assumes "d \<noteq> 0"
  shows "- ((- v) div d) =
    v sdiv d + (if v smod d \<noteq> 0 \<and> (0 < v smod d) = (0 < d) then 1 else 0)"
proof -
  obtain m where "v mod d = m" "0 < d \<Longrightarrow> 0 \<le> m \<and> m < d" "d < 0 \<Longrightarrow> d < m \<and> m \<le> 0"
    using mod_with_sign [OF assms, of v] by blast
  with assms show ?thesis
    by (cases "0 < d") (auto simp: signed_divide_int_def signed_modulo_int_def sgn_if
      zdiv_zminus1_eq_if zdiv_zminus2_eq_if zmod_zminus1_eq_if zmod_zminus2_eq_if)
qed

lemma floor_from_trunc:
  fixes v d :: int
  assumes "d \<noteq> 0"
  shows "v div d = v sdiv d - (if v smod d \<noteq> 0 \<and> (0 < v smod d) \<noteq> (0 < d) then 1 else 0)"
proof -
  obtain m where "v mod d = m" "0 < d \<Longrightarrow> 0 \<le> m \<and> m < d" "d < 0 \<Longrightarrow> d < m \<and> m \<le> 0"
    using mod_with_sign [OF assms, of v] by blast
  with assms show ?thesis
    by (cases "0 < d") (auto simp: signed_divide_int_def signed_modulo_int_def sgn_if
      zdiv_zminus1_eq_if zdiv_zminus2_eq_if zmod_zminus1_eq_if zmod_zminus2_eq_if)
qed

lemma quotient_small:
  fixes v d :: int
  assumes "v smod d \<noteq> 0" and "\<bar>v\<bar> \<le> 2 ^ 63"
  shows "\<bar>v sdiv d\<bar> < 2 ^ 63 - 1"
proof -
  from assms(1) have "2 \<le> \<bar>d\<bar> \<or> d = 0"
    by (cases "\<bar>d\<bar> = 1") (auto simp: signed_modulo_int_def)
  then have "\<bar>v\<bar> div \<bar>d\<bar> \<le> \<bar>v\<bar> div 2"
    using zdiv_mono2 [of "\<bar>v\<bar>" 2 "\<bar>d\<bar>"] by auto
  moreover have "\<bar>v sdiv d\<bar> \<le> \<bar>v\<bar> div \<bar>d\<bar>"
    by (auto simp: signed_divide_int_def sgn_if abs_mult pos_imp_zdiv_nonneg_iff)
  ultimately show ?thesis
    using assms(2) by simp
qed

text \<open>What each rounding mode means, on the integers.\<close>

definition rounded_div :: "Rounding \<Rightarrow> int \<Rightarrow> int \<Rightarrow> int" where
  "rounded_div r v d =
    (case r of kTruncate \<Rightarrow> v sdiv d | kCeil \<Rightarrow> - ((- v) div d) | kFloor \<Rightarrow> v div d)"

lemma money_checked_div_exact:
  assumes "divisor \<noteq> 0" and "\<not> (total_micros m = I64MIN \<and> divisor = -1)"
  shows "\<exists>q. money_checked_div m divisor r = Inr q \<and> micros q = rounded_div r (micros m) (sint divisor)"
proof -
  let ?v = "micros m" and ?d = "sint divisor"
  let ?q = "i64_div (total_micros m) divisor" and ?r = "i64_mod (total_micros m) divisor"
  have d: "?d \<noteq> 0"
    using assms(1) by (metis sint_0 sint_eq_iff)
  have q: "sint ?q = ?v sdiv ?d"
    using assms(2) by (rule i64_div_sint)
  have "in_i64 (?v smod ?d)"
    using smod_int_range [OF d, of ?v] sint_abs_le [of divisor] by (auto simp: in_i64_def)
  then have r: "sint ?r = ?v smod ?d"
    unfolding i64_mod_def by (rule sint_of_int)
  then have r0: "?r = 0 \<longleftrightarrow> ?v smod ?d = 0"
    by (metis sint_0 sint_eq_iff)
  have small: "\<bar>?v sdiv ?d\<bar> < 2 ^ 63 - 1" if "?v smod ?d \<noteq> 0"
    using that sint_abs_le by (rule quotient_small)
  have range: "in_i64 (sint ?q + sint (1 :: i64))" "in_i64 (sint ?q - sint (1 :: i64))" if "?v smod ?d \<noteq> 0"
    using small [OF that] by (auto simp: q in_i64_def)
  have up: "sint (?q + 1) = ?v sdiv ?d + 1" "sint (?q - 1) = ?v sdiv ?d - 1" if "?v smod ?d \<noteq> 0"
    using range [OF that] by (simp_all add: sint_add sint_diff q)
  show ?thesis
    using assms up ceil_from_trunc [OF d, of ?v] floor_from_trunc [OF d, of ?v]
    by (cases r) (auto simp: money_checked_div_def rounded_div_def Let_def r0 q r sless_sint)
qed

subsection \<open>Decimal serialisation\<close>

text \<open>The digits that \<^verbatim>\<open>printf\<close>'s \<^verbatim>\<open>%llu\<close> writes, and the zero padding of \<^verbatim>\<open>%06llu\<close>.\<close>

definition digit_char :: "nat \<Rightarrow> char" where
  "digit_char d = char_of (48 + d)"

fun dec_digits :: "nat \<Rightarrow> string" where
  "dec_digits n = (if n < 10 then [digit_char n] else dec_digits (n div 10) @ [digit_char (n mod 10)])"

declare dec_digits.simps [simp del]

definition pad_zeros :: "nat \<Rightarrow> string \<Rightarrow> string" where
  "pad_zeros w s = replicate (w - length s) (CHR ''0'') @ s"

text \<open>\<^verbatim>\<open>MoneyMicros::to_string\<close>: the magnitude is taken in unsigned arithmetic.\<close>

definition money_to_string :: "MoneyMicros \<Rightarrow> string" where
  "money_to_string m =
    (let neg = total_micros m <s 0;
         mag = (if neg then NOT (total_micros m) + 1 else total_micros m);
         units = mag div kMicrosPerUnit;
         frac = mag mod kMicrosPerUnit
     in (if neg then ''-'' else '''') @ dec_digits (unat units) @ ''.'' @
        pad_zeros 6 (dec_digits (unat frac)))"

text \<open>
  The reading of a decimal amount: an optional sign, digits, a point and six digits, in millionths.
\<close>

definition char_digit :: "char \<Rightarrow> nat" where
  "char_digit c = of_char c - 48"

definition read_digits :: "string \<Rightarrow> nat" where
  "read_digits = foldl (\<lambda>n c. 10 * n + char_digit c) 0"

definition read_unsigned_money :: "string \<Rightarrow> nat" where
  "read_unsigned_money s =
    read_digits (takeWhile (\<lambda>c. c \<noteq> CHR ''.'') s) * 1000000
    + read_digits (tl (dropWhile (\<lambda>c. c \<noteq> CHR ''.'') s))"

definition read_money :: "string \<Rightarrow> int" where
  "read_money s =
    (if take 1 s = ''-'' then - int (read_unsigned_money (drop 1 s)) else int (read_unsigned_money s))"

lemma char_digit_digit_char [simp]: "d < 10 \<Longrightarrow> char_digit (digit_char d) = d"
  by (simp add: char_digit_def digit_char_def)

lemma digit_char_no_punctuation: "d < 10 \<Longrightarrow> digit_char d \<noteq> CHR ''.'' \<and> digit_char d \<noteq> CHR ''-''"
proof -
  assume "d < 10"
  then have "of_char (digit_char d) = 48 + d"
    by (simp add: digit_char_def)
  then show ?thesis
    by auto
qed

lemma read_digits_snoc [simp]: "read_digits (s @ [c]) = 10 * read_digits s + char_digit c"
  by (simp add: read_digits_def)

lemma read_dec_digits [simp]: "read_digits (dec_digits n) = n"
proof (induction n rule: dec_digits.induct)
  case (1 n)
  then show ?case
    by (subst dec_digits.simps) (auto simp: read_digits_def)
qed

lemma dec_digits_chars: "set (dec_digits n) \<subseteq> digit_char ` {..<10}"
proof (induction n rule: dec_digits.induct)
  case (1 n)
  then show ?case
    by (subst dec_digits.simps) auto
qed

lemma dec_digits_no_punctuation: "CHR ''.'' \<notin> set (dec_digits n)" "CHR ''-'' \<notin> set (dec_digits n)"
  using dec_digits_chars [of n] digit_char_no_punctuation by force+

lemma dec_digits_nonempty: "dec_digits n \<noteq> []"
  by (subst dec_digits.simps) simp

lemma read_pad_zeros [simp]: "read_digits (pad_zeros w s) = read_digits s"
proof -
  have "foldl (\<lambda>n c. 10 * n + char_digit c) 0 (replicate k (CHR ''0'')) = 0" for k
    by (induction k) (simp_all add: char_digit_def)
  then show ?thesis
    by (simp add: read_digits_def pad_zeros_def)
qed

lemma read_unsigned_money_parts:
  "read_unsigned_money (dec_digits u @ ''.'' @ pad_zeros 6 (dec_digits f)) = u * 1000000 + f"
proof -
  have "\<forall>c \<in> set (dec_digits u). c \<noteq> CHR ''.''"
    using dec_digits_no_punctuation(1) [of u] by auto
  then have "takeWhile (\<lambda>c. c \<noteq> CHR ''.'') (dec_digits u @ ''.'' @ r) = dec_digits u"
    and "dropWhile (\<lambda>c. c \<noteq> CHR ''.'') (dec_digits u @ ''.'' @ r) = ''.'' @ r" for r
    by (simp_all add: takeWhile_append2 dropWhile_append2)
  then show ?thesis
    by (simp add: read_unsigned_money_def)
qed

lemma money_magnitude:
  "int (unat (if total_micros m <s 0 then NOT (total_micros m) + 1 else total_micros m)) = \<bar>micros m\<bar>"
  by (simp add: sless_sint minus_eq_not_plus_1 [symmetric] uint_neg_sint uint_nonneg_sint
    not_less del: of_nat_unat flip: uint_nat)

lemma unat_units_frac: "unat (w div kMicrosPerUnit) * 1000000 + unat (w mod kMicrosPerUnit) = unat w"
  by (simp add: unat_div unat_mod kMicrosPerUnit_def)

section \<open>Amounts\<close>

text \<open>
  The class template \<^verbatim>\<open>Amount<Tag>\<close>: an integer amount whose phantom tag keeps amounts of different
  units apart.
\<close>

datatype 'tag Amount = Amount (count: i64)

definition amount_negative :: "'tag Amount \<Rightarrow> bool" where
  "amount_negative a \<longleftrightarrow> count a <s 0"

definition amount_is_zero :: "'tag Amount \<Rightarrow> bool" where
  "amount_is_zero a \<longleftrightarrow> count a = 0"

definition Amount_checked_add :: "i64 \<Rightarrow> i64 \<Rightarrow> exn + i64" where
  "Amount_checked_add a b =
    (let r = a + b
     in if add_overflowed a b r then Inl (overflow_error ''amount addition overflow'') else Inr r)"

definition Amount_checked_sub :: "i64 \<Rightarrow> i64 \<Rightarrow> exn + i64" where
  "Amount_checked_sub a b =
    (if b = I64MIN then Inl (overflow_error ''amount subtraction overflow'')
     else Amount_checked_add a (- b))"

definition Amount_checked_mul_i64 :: "i64 \<Rightarrow> i64 \<Rightarrow> exn + i64" where
  "Amount_checked_mul_i64 a b =
    (if a = 0 \<or> b = 0 then Inr 0
     else if a = I64MIN \<and> b = -1 \<or> b = I64MIN \<and> a = -1
       then Inl (overflow_error ''amount multiply overflow'')
     else let r = a * b
       in if mul_overflowed a b r then Inl (overflow_error ''amount multiply overflow'') else Inr r)"

definition amount_add :: "'tag Amount \<Rightarrow> 'tag Amount \<Rightarrow> exn + 'tag Amount" where
  "amount_add a b = map_sum id Amount (Amount_checked_add (count a) (count b))"

definition amount_sub :: "'tag Amount \<Rightarrow> 'tag Amount \<Rightarrow> exn + 'tag Amount" where
  "amount_sub a b = map_sum id Amount (Amount_checked_sub (count a) (count b))"

definition amount_checked_mul :: "'tag Amount \<Rightarrow> i64 \<Rightarrow> exn + 'tag Amount" where
  "amount_checked_mul a factor = map_sum id Amount (Amount_checked_mul_i64 (count a) factor)"

definition amount_checked_div :: "'tag Amount \<Rightarrow> i64 \<Rightarrow> exn + 'tag Amount" where
  "amount_checked_div a divisor =
    (if divisor = 0 then Inl (domain_error ''integer division by zero'')
     else if count a = I64MIN \<and> divisor = -1 then Inl (overflow_error ''integer division overflow'')
     else Inr (Amount (i64_div (count a) divisor)))"

definition amount_less :: "'tag Amount \<Rightarrow> 'tag Amount \<Rightarrow> bool" where
  "amount_less a b \<longleftrightarrow> count a <s count b"

definition amount_greater_eq :: "'tag Amount \<Rightarrow> 'tag Amount \<Rightarrow> bool" where
  "amount_greater_eq a b \<longleftrightarrow> count b \<le>s count a"

instantiation Amount :: (type) linorder
begin

definition less_eq_Amount :: "'a Amount \<Rightarrow> 'a Amount \<Rightarrow> bool" where
  "less_eq_Amount a b = amount_greater_eq b a"

definition less_Amount :: "'a Amount \<Rightarrow> 'a Amount \<Rightarrow> bool" where
  "less_Amount = amount_less"

instance
  by standard
    (auto simp: less_eq_Amount_def less_Amount_def amount_less_def amount_greater_eq_def sless_sint sle_sint sint_eq_iff
      intro: Amount.expand)

end

interpretation amount: checked_i64 Amount_checked_add Amount_checked_sub
  Amount_checked_mul_i64 "overflow_error ''amount addition overflow''"
  "overflow_error ''amount subtraction overflow''" "overflow_error ''amount multiply overflow''"
  by unfold_locales
    ((simp only: Amount_checked_add_def add_test_exact)?,
      (simp only: Amount_checked_sub_def Amount_checked_add_def sub_test_exact)?,
      (simp only: Amount_checked_mul_i64_def mul_test_exact)?)

typedecl DurationNsTag
typedecl AccelNsTag
typedecl EnergyMicroJTag
typedecl TransferBytesTag
typedecl MemoryByteNsTag
typedecl BytesTag
typedecl TokensTag
typedecl RequestsTag
typedecl OperationsTag
typedecl RetriesTag

type_synonym DurationNanoseconds = "DurationNsTag Amount"
type_synonym AcceleratorNanoseconds = "AccelNsTag Amount"
type_synonym EnergyMicroJoules = "EnergyMicroJTag Amount"
type_synonym TransferBytes = "TransferBytesTag Amount"
type_synonym MemoryByteNanoseconds = "MemoryByteNsTag Amount"
type_synonym Bytes = "BytesTag Amount"
type_synonym Tokens = "TokensTag Amount"
type_synonym Requests = "RequestsTag Amount"
type_synonym Operations = "OperationsTag Amount"
type_synonym RetryCount = "RetriesTag Amount"

text \<open>The denominators of the price-to-cost conversions (\<^verbatim>\<open>money_scale\<close>).\<close>

definition kNsPerSecond :: i64 where "kNsPerSecond = 1000000000"

definition kBytesPerGB :: i64 where "kBytesPerGB = 1000000000"

definition kMicroJoulesPerKWh :: i64 where "kMicroJoulesPerKWh = 1000000000 * 3600000"

definition kBytesPerGBs :: i64 where "kBytesPerGBs = 1000000000"

section \<open>Properties\<close>

text \<open>
  C34: the checked operators of \<^verbatim>\<open>MoneyMicros\<close> never wrap. A sum and a product are the exact integer
  results whenever these fit in 64 bits and an \<^verbatim>\<open>overflow_error\<close> otherwise; a difference likewise,
  except that the least integer is always refused as right operand. The tests that the code makes on
  the wrapped results (the signs after an addition, a division after a multiplication) are therefore
  complete.
\<close>

theorem money_arithmetic_exact:
  "money_add a b =
    (if in_i64 (micros a + micros b) then Inr (MoneyMicros (word_of_int (micros a + micros b)))
     else Inl (overflow_error ''money addition overflow''))
   \<and> money_sub a b =
    (if total_micros b = I64MIN then Inl (overflow_error ''money subtraction overflow'')
     else if in_i64 (micros a - micros b) then Inr (MoneyMicros (word_of_int (micros a - micros b)))
     else Inl (overflow_error ''money addition overflow''))
   \<and> money_checked_mul a f =
    (if in_i64 (micros a * sint f) then Inr (MoneyMicros (word_of_int (micros a * sint f)))
     else Inl (overflow_error ''money multiply overflow''))"
  by (simp add: money_add_def money_sub_def money_checked_mul_def money.cadd_spec money.csub_spec
    money.cmul_spec)

text \<open>
  Division: \<^verbatim>\<open>checked_div\<close> rejects a zero divisor and the one quotient that overflows; otherwise the result
  is the exact quotient truncated towards zero, rounded up or rounded down as the rounding mode says,
  for every combination of signs.
\<close>

lemma money_division_rounds:
  "money_checked_div m d r =
    (if d = 0 then Inl (domain_error ''division by zero'')
     else if total_micros m = I64MIN \<and> d = -1 then Inl (overflow_error ''money division overflow'')
     else Inr (MoneyMicros (word_of_int (rounded_div r (micros m) (sint d)))))"
proof (cases "d = 0 \<or> total_micros m = I64MIN \<and> d = -1")
  case True
  then show ?thesis
    by (auto simp: money_checked_div_def)
next
  case False
  then obtain q where "money_checked_div m d r = Inr q" "micros q = rounded_div r (micros m) (sint d)"
    using money_checked_div_exact by blast
  then show ?thesis
    using False by (cases q) (metis MoneyMicros.sel word_of_sint)
qed


end
