(* ===== verification/Codec.thy ===== *)
theory Codec
  imports Money
begin

text \<open>
  The little-endian byte codecs. The repository has two pairs of \<^verbatim>\<open>Writer\<close> and \<^verbatim>\<open>Reader\<close> classes with
  the same layout, one in \<^verbatim>\<open>persistence.cpp\<close> and one in \<^verbatim>\<open>chan.hpp\<close>; they differ in the exception that
  a short input raises and in the treatment of long strings. The model has one set of operations, with
  the pair that is meant as an argument.

  A reader is a function from the bytes it has not read yet; a writer appends its bytes to the end of
  the buffer, so it is given by those bytes.
\<close>

section \<open>Readers\<close>

type_synonym 'a reader = "bytes \<Rightarrow> exn + 'a \<times> bytes"

definition returnR :: "'a \<Rightarrow> 'a reader" where
  "returnR x = (\<lambda>bs. Inr (x, bs))"

definition bindR :: "'a reader \<Rightarrow> ('a \<Rightarrow> 'b reader) \<Rightarrow> 'b reader" where
  "bindR m f = (\<lambda>bs. bindE (m bs) (\<lambda>(x, rest). f x rest))"

definition throwR :: "exn \<Rightarrow> 'a reader" where
  "throwR e = (\<lambda>bs. Inl e)"

lemma reader_simps [simp]:
  "returnR x bs = Inr (x, bs)" "throwR e bs = Inl e"
  "m bs = Inr (y, rest) \<Longrightarrow> bindR m f bs = f y rest"
  "m bs = Inl e' \<Longrightarrow> bindR m f bs = Inl e'"
  by (simp_all add: returnR_def throwR_def bindR_def)

section \<open>The two codecs\<close>

datatype Stream = snapshot_stream | frame_stream

definition truncated :: "Stream \<Rightarrow> exn" where
  "truncated st = (case st of
      snapshot_stream \<Rightarrow> StatusError Status.PERSISTENCE_CORRUPT ''truncated snapshot''
    | frame_stream \<Rightarrow> runtime_error ''protocol truncated'')"

definition string_bound :: "Stream \<Rightarrow> nat" where
  "string_bound st = (case st of snapshot_stream \<Rightarrow> 16 * 1024 * 1024 | frame_stream \<Rightarrow> 2 ^ 20)"

definition string_error :: "Stream \<Rightarrow> exn" where
  "string_error st = (case st of
      snapshot_stream \<Rightarrow> StatusError Status.PERSISTENCE_CORRUPT ''string length exceeds bound''
    | frame_stream \<Rightarrow> runtime_error ''string too large'')"

definition trailing :: "Stream \<Rightarrow> exn" where
  "trailing st = (case st of
      snapshot_stream \<Rightarrow> StatusError Status.PERSISTENCE_CORRUPT ''trailing garbage in snapshot''
    | frame_stream \<Rightarrow> runtime_error ''protocol trailing bytes'')"

section \<open>Writing\<close>

text \<open>The loop that pushes the low \<open>n\<close> bytes of a value, the lowest first.\<close>

definition le_bytes :: "nat \<Rightarrow> 'a :: len word \<Rightarrow> bytes" where
  "le_bytes n v = map (\<lambda>i. ucast (drop_bit (8 * i) v AND 0xFF)) [0..<n]"

definition Writer_u8 :: "u8 \<Rightarrow> bytes" where
  "Writer_u8 v = [v]"

definition Writer_u16 :: "u16 \<Rightarrow> bytes" where
  "Writer_u16 v = le_bytes 2 v"

definition Writer_u32 :: "u32 \<Rightarrow> bytes" where
  "Writer_u32 v = le_bytes 4 v"

definition Writer_u64 :: "u64 \<Rightarrow> bytes" where
  "Writer_u64 v = le_bytes 8 v"

definition Writer_i64 :: "i64 \<Rightarrow> bytes" where
  "Writer_i64 v = Writer_u64 v"

text \<open>The bytes of a \<^verbatim>\<open>std::string\<close>.\<close>

definition char_byte :: "char \<Rightarrow> u8" where
  "char_byte c = of_nat (of_char c)"

definition byte_char :: "u8 \<Rightarrow> char" where
  "byte_char b = char_of (unat b)"

definition Writer_str :: "Stream \<Rightarrow> string \<Rightarrow> exn + bytes" where
  "Writer_str st s =
    (if st = snapshot_stream \<and> 0xFFFFFFFF < length s
       then throw_status Status.RESOURCE_EXHAUSTED ''string too large in snapshot''
     else Inr (Writer_u32 (of_nat (length s)) @ map char_byte s))"

definition Writer_bool :: "bool \<Rightarrow> bytes" where
  "Writer_bool b = Writer_u8 (if b then 1 else 0)"

definition write_id :: "'tag Id \<Rightarrow> bytes" where
  "write_id i = Writer_u64 (Id_value i)"

section \<open>Reading\<close>

definition take_bytes :: "Stream \<Rightarrow> nat \<Rightarrow> bytes reader" where
  "take_bytes st k bs = (if length bs < k then Inl (truncated st) else Inr (take k bs, drop k bs))"

text \<open>The loop that assembles a value from its bytes.\<close>

definition le_value :: "nat \<Rightarrow> bytes \<Rightarrow> 'a :: len word" where
  "le_value n bs = fold (\<lambda>i v. v OR push_bit (8 * i) (ucast (bs ! i))) [0..<n] 0"

definition Reader_u8 :: "Stream \<Rightarrow> u8 reader" where
  "Reader_u8 st = bindR (take_bytes st 1) (\<lambda>bs. returnR (hd bs))"

definition Reader_u16 :: "Stream \<Rightarrow> u16 reader" where
  "Reader_u16 st = bindR (take_bytes st 2) (\<lambda>bs. returnR (le_value 2 bs))"

definition Reader_u32 :: "Stream \<Rightarrow> u32 reader" where
  "Reader_u32 st = bindR (take_bytes st 4) (\<lambda>bs. returnR (le_value 4 bs))"

definition Reader_u64 :: "Stream \<Rightarrow> u64 reader" where
  "Reader_u64 st = bindR (take_bytes st 8) (\<lambda>bs. returnR (le_value 8 bs))"

definition Reader_i64 :: "Stream \<Rightarrow> i64 reader" where
  "Reader_i64 st = Reader_u64 st"

definition Reader_str :: "Stream \<Rightarrow> string reader" where
  "Reader_str st = bindR (Reader_u32 st) (\<lambda>len.
    if string_bound st < unat len then throwR (string_error st)
    else bindR (take_bytes st (unat len)) (\<lambda>bs. returnR (map byte_char bs)))"

definition Reader_bool :: "Stream \<Rightarrow> bool reader" where
  "Reader_bool st = bindR (Reader_u8 st) (\<lambda>b. returnR (b \<noteq> 0))"

definition read_id :: "Stream \<Rightarrow> 'tag Id reader" where
  "read_id st = bindR (Reader_u64 st) (\<lambda>v. returnR (mk_Id v))"

definition read_micros :: "Stream \<Rightarrow> MoneyMicros reader" where
  "read_micros st = bindR (Reader_i64 st) (\<lambda>v. returnR (MoneyMicros v))"

definition read_count :: "Stream \<Rightarrow> 'tag Amount reader" where
  "read_count st = bindR (Reader_i64 st) (\<lambda>v. returnR (Amount v))"

definition expect_end :: "Stream \<Rightarrow> unit reader" where
  "expect_end st bs = (if bs = [] then Inr ((), bs) else Inl (trailing st))"

text \<open>The loops over a counted sequence.\<close>

primrec write_all :: "('a \<Rightarrow> exn + bytes) \<Rightarrow> 'a list \<Rightarrow> exn + bytes" where
  "write_all w [] = Inr []"
| "write_all w (x # xs) = bindE (w x) (\<lambda>bs. bindE (write_all w xs) (\<lambda>bs'. Inr (bs @ bs')))"

primrec read_n :: "'a reader \<Rightarrow> nat \<Rightarrow> 'a list reader" where
  "read_n r 0 = returnR []"
| "read_n r (Suc n) = bindR r (\<lambda>x. bindR (read_n r n) (\<lambda>xs. returnR (x # xs)))"

section \<open>What is written is read back\<close>

lemma length_le_bytes [simp]: "length (le_bytes n v) = n"
  by (simp add: le_bytes_def)

lemma le_bytes_bit:
  fixes v :: "'a :: len word"
  assumes "i < n" and "k < 8" and "8 * i + k < LENGTH('a)"
  shows "bit (le_bytes n v ! i) k \<longleftrightarrow> bit v (8 * i + k)"
proof -
  have "(0xFF :: 'a word) = mask 8"
    by (simp add: mask_eq_exp_minus_1)
  moreover have "bit (mask 8 :: 'a word) k"
    using assms by (simp only: bit_mask_iff) simp
  ultimately have "bit (0xFF :: 'a word) k"
    by simp
  then show ?thesis
    using assms by (simp add: le_bytes_def bit_simps)
qed

lemma le_value_bit:
  "bit (le_value n bs :: 'a :: len word) k \<longleftrightarrow> k < LENGTH('a) \<and> k < 8 * n \<and> bit (bs ! (k div 8)) (k mod 8)"
proof (induction n)
  case 0
  then show ?case
    by (simp add: le_value_def)
next
  case (Suc n)
  have step: "(le_value (Suc n) bs :: 'a word) = le_value n bs OR push_bit (8 * n) (ucast (bs ! n))"
    by (simp add: le_value_def)
  have "bit (bs ! n) (k - 8 * n) \<Longrightarrow> k - 8 * n < 8"
    using bit_imp_le_length [of "bs ! n" "k - 8 * n"] by simp
  moreover have "k div 8 = n \<and> k mod 8 = k - 8 * n" if "8 * n \<le> k" "k < 8 * Suc n"
    using that by (auto simp: div_nat_eqI modulo_nat_def)
  ultimately show ?case
    using Suc by (cases "8 * n \<le> k") (auto simp: step bit_simps)
qed

lemma le_value_le_bytes:
  fixes v :: "'a :: len word"
  assumes "8 * n = LENGTH('a)"
  shows "le_value n (le_bytes n v) = v"
proof (rule bit_word_eqI)
  fix k
  assume k: "k < LENGTH('a)"
  then have "bit (le_bytes n v ! (k div 8)) (k mod 8) \<longleftrightarrow> bit v (8 * (k div 8) + k mod 8)"
    using assms by (intro le_bytes_bit) auto
  then show "bit (le_value n (le_bytes n v) :: 'a word) k \<longleftrightarrow> bit v k"
    using k assms by (simp add: le_value_bit)
qed

lemma take_bytes_append [simp]:
  "length bs = k \<Longrightarrow> take_bytes st k (bs @ rest) = Inr (bs, rest)"
  by (simp add: take_bytes_def)

lemma Reader_u8_put [codec_rules]: "Reader_u8 st (Writer_u8 v @ rest) = Inr (v, rest)"
  by (simp add: Reader_u8_def Writer_u8_def take_bytes_def)

lemma Reader_u16_put [codec_rules]: "Reader_u16 st (Writer_u16 v @ rest) = Inr (v, rest)"
  by (simp add: Reader_u16_def Writer_u16_def le_value_le_bytes)

lemma Reader_u32_put [codec_rules]: "Reader_u32 st (Writer_u32 v @ rest) = Inr (v, rest)"
  by (simp add: Reader_u32_def Writer_u32_def le_value_le_bytes)

lemma Reader_u64_put [codec_rules]: "Reader_u64 st (Writer_u64 v @ rest) = Inr (v, rest)"
  by (simp add: Reader_u64_def Writer_u64_def le_value_le_bytes)

lemma Reader_i64_put [codec_rules]: "Reader_i64 st (Writer_i64 v @ rest) = Inr (v, rest)"
  by (simp add: Reader_i64_def Writer_i64_def codec_rules)

lemma Reader_bool_put [codec_rules]: "Reader_bool st (Writer_bool b @ rest) = Inr (b, rest)"
  by (simp add: Reader_bool_def Writer_bool_def codec_rules)

lemma read_id_put [codec_rules]: "read_id st (write_id i @ rest) = Inr (i, rest)"
  by (cases i) (simp add: read_id_def write_id_def codec_rules)

lemma read_micros_put [codec_rules]: "read_micros st (Writer_i64 (total_micros m) @ rest) = Inr (m, rest)"
  by (simp add: read_micros_def codec_rules)

lemma read_count_put [codec_rules]: "read_count st (Writer_i64 (Amount.count a) @ rest) = Inr (a, rest)"
  by (simp add: read_count_def codec_rules)

lemma byte_char_byte [simp]: "byte_char (char_byte c) = c"
  by (simp add: byte_char_def char_byte_def unat_of_nat)

text \<open>The strings that both sides of a codec handle.\<close>

definition string_ok :: "Stream \<Rightarrow> string \<Rightarrow> bool" where
  "string_ok st s \<longleftrightarrow> length s \<le> string_bound st"

lemma Writer_str_eq:
  "string_ok st s \<Longrightarrow> Writer_str st s = Inr (Writer_u32 (of_nat (length s)) @ map char_byte s)"
  by (auto simp: Writer_str_def string_ok_def string_bound_def)

lemma Reader_str_put:
  assumes "string_ok st s"
  shows "Reader_str st (Writer_u32 (of_nat (length s)) @ map char_byte s @ rest) = Inr (s, rest)"
proof -
  have "length s < 2 ^ 32"
    using assms by (cases st) (auto simp: string_ok_def string_bound_def)
  then have "unat (of_nat (length s) :: u32) = length s"
    by (simp add: unat_of_nat)
  moreover have "take_bytes st (length s) (map char_byte s @ rest) = Inr (map char_byte s, rest)"
    by simp
  ultimately show ?thesis
    using assms by (simp add: Reader_str_def codec_rules string_ok_def comp_def)
qed

section \<open>The interface of a codec\<close>

text \<open>
  A writer and a reader of one type of value: what the writer produces for a value of the domain, the
  reader reads back and leaves the rest of the input.
\<close>

locale byte_codec =
  fixes put :: "'a \<Rightarrow> exn + bytes"
    and get :: "'a reader"
    and ok :: "'a \<Rightarrow> bool"
  assumes put_returns: "ok x \<Longrightarrow> \<exists>bs. put x = Inr bs"
    and get_put: "ok x \<Longrightarrow> put x = Inr bs \<Longrightarrow> get (bs @ rest) = Inr (x, rest)"
begin

lemma put_inj: "ok x \<Longrightarrow> ok y \<Longrightarrow> put x = Inr bs \<Longrightarrow> put y = Inr bs \<Longrightarrow> x = y"
  using get_put [of x bs "[]"] get_put [of y bs "[]"] by simp

text \<open>No encoding is a prefix of the encoding of another value.\<close>

lemma put_prefix_free:
  "ok x \<Longrightarrow> ok y \<Longrightarrow> put x = Inr bs \<Longrightarrow> put y = Inr (bs @ more) \<Longrightarrow> x = y \<and> more = []"
  using get_put [of x bs more] get_put [of y "bs @ more" "[]"] by simp

lemma write_all_returns: "list_all ok xs \<Longrightarrow> \<exists>bs. write_all put xs = Inr bs"
proof (induction xs)
  case (Cons x xs)
  then show ?case
    using put_returns [of x] by auto
qed simp

lemma read_n_write_all:
  "list_all ok xs \<Longrightarrow> write_all put xs = Inr bs \<Longrightarrow> read_n get (length xs) (bs @ rest) = Inr (xs, rest)"
proof (induction xs arbitrary: bs)
  case (Cons x xs)
  then obtain b bs' where b: "put x = Inr b" "write_all put xs = Inr bs'" "bs = b @ bs'"
    by (auto simp: bindE_eq_Inr)
  then have "get (b @ bs' @ rest) = Inr (x, bs' @ rest)" "read_n get (length xs) (bs' @ rest) = Inr (xs, rest)"
    using Cons by (auto intro: get_put)
  then show ?case
    using b by simp
qed simp

end

end
