(* ===== verification/Crc32.thy ===== *)
theory Crc32
  imports Codec
begin

text \<open>
  The checksum of snapshots and frames (\<^verbatim>\<open>crc32\<close> in \<^verbatim>\<open>persistence.cpp\<close> and \<^verbatim>\<open>chan.hpp\<close>) and what it
  detects: two inputs of one length that differ only within a window of four adjacent bytes never have
  the same checksum.
\<close>

section \<open>The computation\<close>

definition crc_poly :: u32 where
  "crc_poly = 0xEDB88320"

definition crc_step :: "u32 \<Rightarrow> u32" where
  "crc_step crc = drop_bit 1 crc XOR (crc_poly AND (NOT ((crc AND 1) - 1)))"

definition crc_byte :: "u8 \<Rightarrow> u32 \<Rightarrow> u32" where
  "crc_byte b crc = (crc_step ^^ 8) (crc XOR ucast b)"

definition crc32 :: "bytes \<Rightarrow> u32" where
  "crc32 bs = NOT (fold crc_byte bs 0xFFFFFFFF)"

section \<open>The step is linear and one-to-one\<close>

lemma crc_step_eq: "crc_step c = drop_bit 1 c XOR (if bit c 0 then crc_poly else 0)"
proof (cases "bit c 0")
  case True
  then have "c AND 1 = 1"
    by (simp add: bit_0 and_one_eq odd_iff_mod_2_eq_one)
  then show ?thesis
    using True by (simp add: crc_step_def)
next
  case False
  then have "c AND 1 = 0"
    by (simp add: bit_0 and_one_eq even_iff_mod_2_eq_zero)
  then show ?thesis
    using False by (simp add: crc_step_def)
qed

lemma crc_step_xor: "crc_step (x XOR y) = crc_step x XOR crc_step y"
  by (auto simp: crc_step_eq bit_xor_iff drop_bit_xor ac_simps)

lemma crc_step_zero: "crc_step x = 0 \<Longrightarrow> x = 0"
proof (cases "bit x 0")
  case True
  assume "crc_step x = 0"
  then have "bit (drop_bit 1 x XOR crc_poly) 31 = bit (0 :: u32) 31"
    using True by (simp add: crc_step_eq)
  moreover have "bit crc_poly 31"
    by (simp add: crc_poly_def)
  moreover have "\<not> bit (drop_bit 1 x) 31"
    using bit_imp_le_length [of x 32] by (auto simp: bit_drop_bit_eq)
  ultimately show ?thesis
    by (simp add: bit_xor_iff)
next
  case False
  assume "crc_step x = 0"
  then have "drop_bit 1 x = 0"
    using False by (simp add: crc_step_eq)
  show ?thesis
  proof (rule bit_word_eqI)
    fix n
    show "bit x n = bit 0 n"
      using False \<open>drop_bit 1 x = 0\<close> bit_drop_bit_eq [of 1 x] by (cases n) (auto simp: fun_eq_iff)
  qed
qed

lemma crc_steps_xor: "(crc_step ^^ n) (x XOR y) = (crc_step ^^ n) x XOR (crc_step ^^ n) y"
  by (induction n) (simp_all add: crc_step_xor)

lemma crc_steps_zero: "(crc_step ^^ n) x = 0 \<Longrightarrow> x = 0"
  by (induction n) (auto dest: crc_step_zero)

lemma crc_steps_inj: "(crc_step ^^ n) x = (crc_step ^^ n) y \<longleftrightarrow> x = y"
proof
  assume "(crc_step ^^ n) x = (crc_step ^^ n) y"
  then have "(crc_step ^^ n) (x XOR y) = 0"
    by (simp add: crc_steps_xor)
  then have "x XOR y = 0"
    by (rule crc_steps_zero)
  then have "(x XOR y) XOR y = y"
    by simp
  then show "x = y"
    by (simp add: xor.assoc)
qed simp

text \<open>Steps on a value whose low bits are zero only shift it.\<close>

lemma crc_steps_shift: "(\<And>k. k < n \<Longrightarrow> \<not> bit x k) \<Longrightarrow> (crc_step ^^ n) x = drop_bit n x"
proof (induction n arbitrary: x)
  case (Suc n)
  have "crc_step x = drop_bit 1 x"
    using Suc.prems [of 0] by (simp add: crc_step_eq)
  moreover have "(crc_step ^^ n) (drop_bit 1 x) = drop_bit n (drop_bit 1 x)"
    using Suc.prems by (intro Suc.IH) (simp add: bit_drop_bit_eq)
  ultimately show ?case
    by (simp add: funpow_swap1 [symmetric] funpow_Suc_right del: funpow.simps)
qed simp

section \<open>Four bytes at a time\<close>

text \<open>At most four bytes enter the register as one little-endian word.\<close>

primrec window :: "bytes \<Rightarrow> u32" where
  "window [] = 0"
| "window (b # bs) = ucast b XOR push_bit 8 (window bs)"

lemma window_bit: "bit (window bs) k \<longleftrightarrow> k < 32 \<and> k div 8 < length bs \<and> bit (bs ! (k div 8)) (k mod 8)"
proof (induction bs arbitrary: k)
  case (Cons b bs)
  have "bit b k \<Longrightarrow> k < 8"
    using bit_imp_le_length [of b k] by simp
  moreover have "k div 8 = Suc ((k - 8) div 8)" "(k - 8) mod 8 = k mod 8" if "8 \<le> k"
    using that by (simp_all add: le_div_geq le_mod_geq)
  moreover have "k div 8 = 0" "k mod 8 = k" if "k < 8"
    using that by simp_all
  ultimately show ?case
    using Cons.IH [of "k - 8"] by (cases "8 \<le> k") (auto simp: bit_simps)
qed simp

lemma window_inj:
  assumes "length bs = length cs" and "length bs \<le> 4" and "window bs = window cs"
  shows "bs = cs"
proof (rule nth_equalityI)
  fix i
  assume i: "i < length bs"
  show "bs ! i = cs ! i"
  proof (rule bit_word_eqI)
    fix k
    assume "k < LENGTH(8)"
    then show "bit (bs ! i) k \<longleftrightarrow> bit (cs ! i) k"
      using assms i window_bit [of bs "8 * i + k"] window_bit [of cs "8 * i + k"] by simp
  qed
qed fact

lemma crc_window: "length bs \<le> 4 \<Longrightarrow> fold crc_byte bs c = (crc_step ^^ (8 * length bs)) (c XOR window bs)"
proof (induction bs arbitrary: c)
  case (Cons b bs)
  have "(crc_step ^^ 8) (push_bit 8 (window bs)) = drop_bit 8 (push_bit 8 (window bs))"
    by (rule crc_steps_shift) (simp add: bit_simps)
  also have "\<dots> = window bs"
    using Cons.prems by (intro bit_word_eqI) (auto simp: bit_simps window_bit)
  finally have shift: "window bs = (crc_step ^^ 8) (push_bit 8 (window bs))"
    by simp
  have "crc_byte b c XOR window bs = (crc_step ^^ 8) (c XOR window (b # bs))"
    by (subst shift) (simp add: crc_byte_def crc_steps_xor [symmetric] xor.assoc)
  then show ?case
    using Cons by (simp add: funpow_add [symmetric, unfolded comp_def fun_eq_iff, rule_format] add.commute)
qed simp

lemma crc_byte_inj: "crc_byte b c = crc_byte b c' \<longleftrightarrow> c = c'"
proof -
  have "c XOR ucast b = c' XOR ucast b \<Longrightarrow> c = c'"
    by (drule arg_cong [of _ _ "\<lambda>x. x XOR ucast b"]) (simp add: xor.assoc)
  then show ?thesis
    by (auto simp: crc_byte_def crc_steps_inj)
qed

lemma crc_suffix_inj: "fold crc_byte bs c = fold crc_byte bs c' \<longleftrightarrow> c = c'"
  by (induction bs arbitrary: c c') (simp_all add: crc_byte_inj)

lemma crc32_window:
  assumes "length bs = length cs" and "length bs \<le> 4" and "bs \<noteq> cs"
  shows "crc32 (pre @ bs @ post) \<noteq> crc32 (pre @ cs @ post)"
proof
  assume eq: "crc32 (pre @ bs @ post) = crc32 (pre @ cs @ post)"
  let ?c = "fold crc_byte pre 0xFFFFFFFF"
  have "NOT (NOT (fold crc_byte post (fold crc_byte bs ?c))) = NOT (NOT (fold crc_byte post (fold crc_byte cs ?c)))"
    using eq unfolding crc32_def by simp
  then have "fold crc_byte bs ?c = fold crc_byte cs ?c"
    by (simp only: bit.double_compl crc_suffix_inj)
  then have "?c XOR window bs = ?c XOR window cs"
    using assms by (simp add: crc_window crc_steps_inj)
  then have "?c XOR (?c XOR window bs) = ?c XOR (?c XOR window cs)"
    by simp
  then have "window bs = window cs"
    by (simp add: xor.assoc [symmetric])
  then show False
    using assms window_inj by blast
qed

end
