(* ===== verification/Containers.thy ===== *)
theory Containers
  imports Prelude
begin

text \<open>
  The two associative containers of the sources.

  A \<^verbatim>\<open>std::map\<close> is an association list sorted by key, which is also the order in which it is
  iterated. Its interface is the locale \<open>std_map\<close>.

  A \<^verbatim>\<open>std::unordered_map\<close> is a function to \<^typ>\<open>'v option\<close>. The order in which one iteration over it
  visits the entries is not specified by the language, so code that iterates takes the list of keys
  in the order visited as an argument.
\<close>

section \<open>Ordered maps\<close>

fun smap_put :: "'k::linorder \<Rightarrow> 'v \<Rightarrow> ('k \<times> 'v) list \<Rightarrow> ('k \<times> 'v) list" where
  "smap_put k v [] = [(k, v)]"
| "smap_put k v ((k', v') # m) =
    (if k < k' then (k, v) # (k', v') # m
     else if k = k' then (k, v) # m
     else (k', v') # smap_put k v m)"

definition smap_find :: "('k \<times> 'v) list \<Rightarrow> 'k \<Rightarrow> 'v option" where
  "smap_find m k = map_of m k"

definition smap_ok :: "('k::linorder \<times> 'v) list \<Rightarrow> bool" where
  "smap_ok m \<longleftrightarrow> sorted_wrt (<) (map fst m)"

text \<open>\<^verbatim>\<open>emplace\<close> keeps an entry that is already there.\<close>

definition smap_emplace :: "'k::linorder \<Rightarrow> 'v \<Rightarrow> ('k \<times> 'v) list \<Rightarrow> ('k \<times> 'v) list" where
  "smap_emplace k v m = (case smap_find m k of None \<Rightarrow> smap_put k v m | Some _ \<Rightarrow> m)"

lemma map_of_entries_eq:
  assumes "map fst xs = map fst ys" and "map_of xs = map_of ys"
    and "distinct (map fst xs)" and "distinct (map fst ys)"
  shows "xs = ys"
proof (rule nth_equalityI)
  show len: "length xs = length ys"
    using assms(1) by (metis length_map)
  fix i assume i: "i < length xs"
  have fst: "fst (xs ! i) = fst (ys ! i)"
    using assms(1) i len by (metis nth_map)
  have "map_of xs (fst (xs ! i)) = Some (snd (xs ! i))" "map_of ys (fst (ys ! i)) = Some (snd (ys ! i))"
    using assms(3, 4) i len by simp_all
  then show "xs ! i = ys ! i"
    using assms(2) fst by (simp add: prod_eq_iff)
qed

locale std_map =
  fixes empty :: "'m"
    and put :: "'k::linorder \<Rightarrow> 'v \<Rightarrow> 'm \<Rightarrow> 'm"
    and find :: "'m \<Rightarrow> 'k \<Rightarrow> 'v option"
    and entries :: "'m \<Rightarrow> ('k \<times> 'v) list"
    and ok :: "'m \<Rightarrow> bool"
  assumes find_empty: "find empty k = None"
    and ok_empty: "ok empty"
    and find_put: "find (put k v m) k' = (if k = k' then Some v else find m k')"
    and ok_put: "ok m \<Longrightarrow> ok (put k v m)"
    and find_entries: "find m k = map_of (entries m) k"
    and keys_sorted: "ok m \<Longrightarrow> sorted_wrt (<) (map fst (entries m))"
begin

lemma entries_distinct: "ok m \<Longrightarrow> distinct (map fst (entries m))"
  using keys_sorted [of m] by (simp add: strict_sorted_iff)

lemma in_entries: "ok m \<Longrightarrow> (k, v) \<in> set (entries m) \<longleftrightarrow> find m k = Some v"
  by (simp add: find_entries entries_distinct map_of_eq_Some_iff)

text \<open>What an iteration visits depends only on what the lookups return.\<close>

lemma entries_unique: "ok m \<Longrightarrow> ok m' \<Longrightarrow> find m = find m' \<Longrightarrow> entries m = entries m'"
proof -
  assume ok: "ok m" "ok m'" and same: "find m = find m'"
  have "set (entries m) = set (entries m')"
    using in_entries [OF ok(1)] in_entries [OF ok(2)] same by auto
  then have "map fst (entries m) = map fst (entries m')"
    using keys_sorted [OF ok(1)] keys_sorted [OF ok(2)]
    by (intro strict_sorted_equal) simp_all
  moreover have "map_of (entries m) = map_of (entries m')"
    using same by (simp add: find_entries fun_eq_iff)
  ultimately show "entries m = entries m'"
    using entries_distinct [OF ok(1)] entries_distinct [OF ok(2)] by (rule map_of_entries_eq)
qed

lemma find_put_same: "find (put k v m) k = Some v"
  by (simp add: find_put)

lemma find_put_other: "k \<noteq> k' \<Longrightarrow> find (put k v m) k' = find m k'"
  by (simp add: find_put)

end

lemma smap_find_put: "smap_find (smap_put k v m) k' = (if k = k' then Some v else smap_find m k')"
  by (induction k v m rule: smap_put.induct) (auto simp: smap_find_def)

lemma keys_smap_put: "fst ` set (smap_put k v m) = insert k (fst ` set m)"
  by (induction k v m rule: smap_put.induct) auto

lemma smap_ok_Cons: "smap_ok ((k, v) # m) \<longleftrightarrow> (\<forall>k'\<in>fst ` set m. k < k') \<and> smap_ok m"
  by (simp add: smap_ok_def)

lemma smap_ok_put: "smap_ok m \<Longrightarrow> smap_ok (smap_put k v m)"
proof (induction k v m rule: smap_put.induct)
  case (2 k v k' v' m)
  then show ?case
    unfolding smap_put.simps by (auto simp: smap_ok_Cons keys_smap_put split: if_splits)
qed (simp add: smap_ok_def)

interpretation smap: std_map "[]" smap_put smap_find "\<lambda>m. m" smap_ok
  by unfold_locales (simp_all add: smap_find_put smap_ok_put, simp_all add: smap_find_def smap_ok_def)

lemma smap_find_emplace:
  "smap_find (smap_emplace k v m) k' = (if k = k' \<and> smap_find m k = None then Some v else smap_find m k')"
  by (auto simp: smap_emplace_def smap_find_put split: option.split)

lemma smap_ok_emplace: "smap_ok m \<Longrightarrow> smap_ok (smap_emplace k v m)"
  by (simp add: smap_emplace_def smap_ok_put split: option.split)

section \<open>Unordered maps\<close>

text \<open>The keys an iteration visits, in the order visited: each key of the map once.\<close>

definition iteration_order :: "('k \<rightharpoonup> 'v) \<Rightarrow> 'k list \<Rightarrow> bool" where
  "iteration_order m ks \<longleftrightarrow> distinct ks \<and> set ks = dom m"

text \<open>The values visited.\<close>

definition umap_values :: "('k \<rightharpoonup> 'v) \<Rightarrow> 'k list \<Rightarrow> 'v list" where
  "umap_values m ks = List.map_filter m ks"

lemma set_umap_values: "iteration_order m ks \<Longrightarrow> set (umap_values m ks) = ran m"
  by (force simp: iteration_order_def umap_values_def List.map_filter_def ran_def dom_def image_iff)

lemma mset_umap_values:
  assumes "iteration_order m ks" "iteration_order m ks'"
  shows "mset (umap_values m ks) = mset (umap_values m ks')"
proof -
  have "mset ks = mset ks'"
    using assms by (metis iteration_order_def set_eq_iff_mset_eq_distinct)
  then show ?thesis
    by (simp add: umap_values_def List.map_filter_def mset_map mset_filter)
qed

definition umap_emplace :: "'k \<Rightarrow> 'v \<Rightarrow> ('k \<rightharpoonup> 'v) \<Rightarrow> ('k \<rightharpoonup> 'v)" where
  "umap_emplace k v m = (case m k of None \<Rightarrow> m(k \<mapsto> v) | Some _ \<Rightarrow> m)"

lemma umap_emplace_apply: "umap_emplace k v m k' = (if k' = k \<and> m k = None then Some v else m k')"
  by (auto simp: umap_emplace_def split: option.split)

end
