(* ===== verification/Prices.thy ===== *)
theory Prices
  imports Money
begin

text \<open>
  Price evidence and the cost policy (\<^verbatim>\<open>include/costgovernor/price.hpp\<close>, \<^verbatim>\<open>policy.hpp\<close>): price kinds,
  provenance, data labels, price observations and schedules, and the policy with the labels it
  accepts.
\<close>

section \<open>Price evidence\<close>

datatype PriceKind =
    ACCELERATOR_TIME | ENERGY | TRANSFER | MEMORY_HOLDING | STORAGE | RESIDENCY_HOLDING
    | REQUEST | TOKEN | OPERATION | CUSTOM_TYPED_COMPONENT | raw_PriceKind u8

primrec PriceKind_u8 :: "PriceKind \<Rightarrow> u8" where
  "PriceKind_u8 PriceKind.ACCELERATOR_TIME = 0"
| "PriceKind_u8 PriceKind.ENERGY = 1"
| "PriceKind_u8 PriceKind.TRANSFER = 2"
| "PriceKind_u8 PriceKind.MEMORY_HOLDING = 3"
| "PriceKind_u8 PriceKind.STORAGE = 4"
| "PriceKind_u8 PriceKind.RESIDENCY_HOLDING = 5"
| "PriceKind_u8 PriceKind.REQUEST = 6"
| "PriceKind_u8 PriceKind.TOKEN = 7"
| "PriceKind_u8 PriceKind.OPERATION = 8"
| "PriceKind_u8 PriceKind.CUSTOM_TYPED_COMPONENT = 9"
| "PriceKind_u8 (raw_PriceKind b) = b"

definition PriceKind_enumerators :: "PriceKind list" where
  "PriceKind_enumerators =
    [PriceKind.ACCELERATOR_TIME, PriceKind.ENERGY, PriceKind.TRANSFER
     , PriceKind.MEMORY_HOLDING, PriceKind.STORAGE, PriceKind.RESIDENCY_HOLDING
     , PriceKind.REQUEST, PriceKind.TOKEN, PriceKind.OPERATION
     , PriceKind.CUSTOM_TYPED_COMPONENT]"

definition PriceKind_of_u8 :: "u8 \<Rightarrow> PriceKind" where
  "PriceKind_of_u8 = enum_cast PriceKind_enumerators raw_PriceKind"

definition PriceKind_wf :: "PriceKind \<Rightarrow> bool" where
  "PriceKind_wf = enum_wf PriceKind_enumerators raw_PriceKind"

primrec price_kind_name :: "PriceKind \<Rightarrow> string" where
  "price_kind_name PriceKind.ACCELERATOR_TIME = ''ACCELERATOR_TIME''"
| "price_kind_name PriceKind.ENERGY = ''ENERGY''"
| "price_kind_name PriceKind.TRANSFER = ''TRANSFER''"
| "price_kind_name PriceKind.MEMORY_HOLDING = ''MEMORY_HOLDING''"
| "price_kind_name PriceKind.STORAGE = ''STORAGE''"
| "price_kind_name PriceKind.RESIDENCY_HOLDING = ''RESIDENCY_HOLDING''"
| "price_kind_name PriceKind.REQUEST = ''REQUEST''"
| "price_kind_name PriceKind.TOKEN = ''TOKEN''"
| "price_kind_name PriceKind.OPERATION = ''OPERATION''"
| "price_kind_name PriceKind.CUSTOM_TYPED_COMPONENT = ''CUSTOM_TYPED_COMPONENT''"
| "price_kind_name (raw_PriceKind b) = ''UNKNOWN''"

interpretation PriceKind_cast: enum_class PriceKind_u8 PriceKind_enumerators raw_PriceKind
  by unfold_locales (simp_all add: PriceKind_enumerators_def)

lemma PriceKind_codec [codec_rules]: "PriceKind_wf e \<Longrightarrow> PriceKind_of_u8 (PriceKind_u8 e) = e"
  by (simp add: PriceKind_of_u8_def PriceKind_wf_def PriceKind_cast.of_to)

datatype Provenance =
    CONFIGURED_POLICY | MEASURED | REPORTED | DERIVED | SYNTHETIC | UNKNOWN
    | raw_Provenance u8

primrec Provenance_u8 :: "Provenance \<Rightarrow> u8" where
  "Provenance_u8 Provenance.CONFIGURED_POLICY = 0"
| "Provenance_u8 Provenance.MEASURED = 1"
| "Provenance_u8 Provenance.REPORTED = 2"
| "Provenance_u8 Provenance.DERIVED = 3"
| "Provenance_u8 Provenance.SYNTHETIC = 4"
| "Provenance_u8 Provenance.UNKNOWN = 5"
| "Provenance_u8 (raw_Provenance b) = b"

definition Provenance_enumerators :: "Provenance list" where
  "Provenance_enumerators =
    [Provenance.CONFIGURED_POLICY, Provenance.MEASURED, Provenance.REPORTED
     , Provenance.DERIVED, Provenance.SYNTHETIC, Provenance.UNKNOWN]"

definition Provenance_of_u8 :: "u8 \<Rightarrow> Provenance" where
  "Provenance_of_u8 = enum_cast Provenance_enumerators raw_Provenance"

definition Provenance_wf :: "Provenance \<Rightarrow> bool" where
  "Provenance_wf = enum_wf Provenance_enumerators raw_Provenance"

primrec provenance_name :: "Provenance \<Rightarrow> string" where
  "provenance_name Provenance.CONFIGURED_POLICY = ''CONFIGURED_POLICY''"
| "provenance_name Provenance.MEASURED = ''MEASURED''"
| "provenance_name Provenance.REPORTED = ''REPORTED''"
| "provenance_name Provenance.DERIVED = ''DERIVED''"
| "provenance_name Provenance.SYNTHETIC = ''SYNTHETIC''"
| "provenance_name Provenance.UNKNOWN = ''UNKNOWN''"
| "provenance_name (raw_Provenance b) = ''UNKNOWN''"

interpretation Provenance_cast: enum_class Provenance_u8 Provenance_enumerators raw_Provenance
  by unfold_locales (simp_all add: Provenance_enumerators_def)

lemma Provenance_codec [codec_rules]: "Provenance_wf e \<Longrightarrow> Provenance_of_u8 (Provenance_u8 e) = e"
  by (simp add: Provenance_of_u8_def Provenance_wf_def Provenance_cast.of_to)

datatype DataLabel =
    REAL | SYNTHETIC | POLICY | UNSUPPORTED | raw_DataLabel u8

primrec DataLabel_u8 :: "DataLabel \<Rightarrow> u8" where
  "DataLabel_u8 DataLabel.REAL = 0"
| "DataLabel_u8 DataLabel.SYNTHETIC = 1"
| "DataLabel_u8 DataLabel.POLICY = 2"
| "DataLabel_u8 DataLabel.UNSUPPORTED = 3"
| "DataLabel_u8 (raw_DataLabel b) = b"

definition DataLabel_enumerators :: "DataLabel list" where
  "DataLabel_enumerators =
    [DataLabel.REAL, DataLabel.SYNTHETIC, DataLabel.POLICY, DataLabel.UNSUPPORTED]"

definition DataLabel_of_u8 :: "u8 \<Rightarrow> DataLabel" where
  "DataLabel_of_u8 = enum_cast DataLabel_enumerators raw_DataLabel"

definition DataLabel_wf :: "DataLabel \<Rightarrow> bool" where
  "DataLabel_wf = enum_wf DataLabel_enumerators raw_DataLabel"

primrec data_label_name :: "DataLabel \<Rightarrow> string" where
  "data_label_name DataLabel.REAL = ''REAL''"
| "data_label_name DataLabel.SYNTHETIC = ''SYNTHETIC''"
| "data_label_name DataLabel.POLICY = ''POLICY''"
| "data_label_name DataLabel.UNSUPPORTED = ''UNSUPPORTED''"
| "data_label_name (raw_DataLabel b) = ''UNKNOWN''"

interpretation DataLabel_cast: enum_class DataLabel_u8 DataLabel_enumerators raw_DataLabel
  by unfold_locales (simp_all add: DataLabel_enumerators_def)

lemma DataLabel_codec [codec_rules]: "DataLabel_wf e \<Longrightarrow> DataLabel_of_u8 (DataLabel_u8 e) = e"
  by (simp add: DataLabel_of_u8_def DataLabel_wf_def DataLabel_cast.of_to)

record PriceObservation =
  po_id :: EvidenceId
  po_kind :: PriceKind
  po_resource_scope :: ResourceId
  po_device :: DeviceId
  po_amount :: MoneyMicros
  po_currency :: string
  po_provenance :: Provenance
  po_label :: DataLabel
  po_valid_from_ms :: i64
  po_valid_to_ms :: i64
  po_observed_at_ms :: i64
  po_generation :: EvidenceGeneration
  po_epoch :: CoordinatorEpoch
  po_worker :: WorkerId
  po_boot :: WorkerBootId

definition PriceObservation_default :: PriceObservation where
  "PriceObservation_default =
    \<lparr>po_id = Id_none, po_kind = PriceKind.ACCELERATOR_TIME, po_resource_scope = Id_none,
     po_device = Id_none, po_amount = MoneyMicros 0, po_currency = kDefaultCurrency,
     po_provenance = Provenance.CONFIGURED_POLICY, po_label = DataLabel.POLICY, po_valid_from_ms = 0,
     po_valid_to_ms = 0, po_observed_at_ms = 0, po_generation = Id_none, po_epoch = Id_none,
     po_worker = Id_none, po_boot = Id_none\<rparr>"

definition valid_currency :: "PriceObservation \<Rightarrow> string \<Rightarrow> bool" where
  "valid_currency p policy_currency \<longleftrightarrow> po_currency p = policy_currency"

record PriceSchedule =
  ps_id :: PriceScheduleId
  ps_generation :: PriceScheduleGeneration
  ps_observations :: "PriceObservation list"
  ps_created_at_ms :: i64

text \<open>The default-constructed schedule, which has no price.\<close>

definition PriceSchedule_default :: PriceSchedule where
  "PriceSchedule_default =
    \<lparr>ps_id = Id_none, ps_generation = Id_none, ps_observations = [], ps_created_at_ms = 0\<rparr>"

section \<open>The cost policy\<close>

datatype RankingMode =
    LEXICOGRAPHIC | WEIGHTED_SCORE | raw_RankingMode u8

primrec RankingMode_u8 :: "RankingMode \<Rightarrow> u8" where
  "RankingMode_u8 RankingMode.LEXICOGRAPHIC = 0"
| "RankingMode_u8 RankingMode.WEIGHTED_SCORE = 1"
| "RankingMode_u8 (raw_RankingMode b) = b"

definition RankingMode_enumerators :: "RankingMode list" where
  "RankingMode_enumerators =
    [RankingMode.LEXICOGRAPHIC, RankingMode.WEIGHTED_SCORE]"

definition RankingMode_of_u8 :: "u8 \<Rightarrow> RankingMode" where
  "RankingMode_of_u8 = enum_cast RankingMode_enumerators raw_RankingMode"

definition RankingMode_wf :: "RankingMode \<Rightarrow> bool" where
  "RankingMode_wf = enum_wf RankingMode_enumerators raw_RankingMode"

interpretation RankingMode_cast: enum_class RankingMode_u8 RankingMode_enumerators raw_RankingMode
  by unfold_locales (simp_all add: RankingMode_enumerators_def)

lemma RankingMode_codec [codec_rules]: "RankingMode_wf e \<Longrightarrow> RankingMode_of_u8 (RankingMode_u8 e) = e"
  by (simp add: RankingMode_of_u8_def RankingMode_wf_def RankingMode_cast.of_to)

text \<open>Every mode but the lexicographic one is named as the weighted score.\<close>

definition ranking_mode_name :: "RankingMode \<Rightarrow> string" where
  "ranking_mode_name m =
    (if m = RankingMode.LEXICOGRAPHIC then ''LEXICOGRAPHIC'' else ''WEIGHTED_SCORE'')"

record CostPolicy =
  pol_id :: CostPolicyId
  pol_generation :: CostPolicyGeneration
  pol_epoch :: CoordinatorEpoch
  pol_currency :: string
  pol_ranking :: RankingMode
  pol_min_evidence_freshness_ms :: i64
  pol_max_evidence_age_ms :: i64
  pol_price_schedule_max_age_ms :: i64
  pol_max_projection_uncertainty :: i64
  pol_hysteresis_ms :: i64
  pol_cooldown_ms :: i64
  pol_near_budget_percent :: i64
  pol_at_risk_percent :: i64
  pol_retry_budget :: MoneyMicros
  pol_recovery_budget :: MoneyMicros
  pol_recovery_cost_known :: bool
  pol_allow_synthetic :: bool
  pol_allow_policy :: bool
  pol_allow_measured :: bool

definition CostPolicy_default :: CostPolicy where
  "CostPolicy_default =
    \<lparr>pol_id = Id_none, pol_generation = Id_none, pol_epoch = Id_none,
     pol_currency = kDefaultCurrency, pol_ranking = RankingMode.LEXICOGRAPHIC,
     pol_min_evidence_freshness_ms = 0, pol_max_evidence_age_ms = 30000,
     pol_price_schedule_max_age_ms = 30000, pol_max_projection_uncertainty = 100,
     pol_hysteresis_ms = 0, pol_cooldown_ms = 0, pol_near_budget_percent = 80,
     pol_at_risk_percent = 90, pol_retry_budget = MoneyMicros 0, pol_recovery_budget = MoneyMicros 0,
     pol_recovery_cost_known = False, pol_allow_synthetic = False, pol_allow_policy = True,
     pol_allow_measured = True\<rparr>"

definition is_generation_current :: "CostPolicy \<Rightarrow> CostPolicyGeneration \<Rightarrow> bool" where
  "is_generation_current p g \<longleftrightarrow> g = pol_generation p"

definition accepts_label :: "CostPolicy \<Rightarrow> DataLabel \<Rightarrow> bool" where
  "accepts_label p l =
    (case l of
       DataLabel.REAL \<Rightarrow> pol_allow_measured p
     | DataLabel.POLICY \<Rightarrow> pol_allow_policy p
     | DataLabel.SYNTHETIC \<Rightarrow> pol_allow_synthetic p
     | _ \<Rightarrow> False)"

end
