(* ===== verification/Budgets.thy ===== *)
theory Budgets
  imports Prices
begin

text \<open>
  Budgets and reservations (\<^verbatim>\<open>include/costgovernor/budget.hpp\<close> and the reservation of
  \<^verbatim>\<open>include/costgovernor/governor.hpp\<close>). The members \<^verbatim>\<open>transition\<close> and \<^verbatim>\<open>valid_transition\<close> of a budget
  are declared there and defined nowhere.
\<close>

datatype BudgetMode =
    HARD | SOFT | ADVISORY | raw_BudgetMode u8

primrec BudgetMode_u8 :: "BudgetMode \<Rightarrow> u8" where
  "BudgetMode_u8 BudgetMode.HARD = 0"
| "BudgetMode_u8 BudgetMode.SOFT = 1"
| "BudgetMode_u8 BudgetMode.ADVISORY = 2"
| "BudgetMode_u8 (raw_BudgetMode b) = b"

definition BudgetMode_enumerators :: "BudgetMode list" where
  "BudgetMode_enumerators =
    [BudgetMode.HARD, BudgetMode.SOFT, BudgetMode.ADVISORY]"

definition BudgetMode_of_u8 :: "u8 \<Rightarrow> BudgetMode" where
  "BudgetMode_of_u8 = enum_cast BudgetMode_enumerators raw_BudgetMode"

definition BudgetMode_wf :: "BudgetMode \<Rightarrow> bool" where
  "BudgetMode_wf = enum_wf BudgetMode_enumerators raw_BudgetMode"

interpretation BudgetMode_cast: enum_class BudgetMode_u8 BudgetMode_enumerators raw_BudgetMode
  by unfold_locales (simp_all add: BudgetMode_enumerators_def)

lemma BudgetMode_codec [codec_rules]: "BudgetMode_wf e \<Longrightarrow> BudgetMode_of_u8 (BudgetMode_u8 e) = e"
  by (simp add: BudgetMode_of_u8_def BudgetMode_wf_def BudgetMode_cast.of_to)

primrec budget_mode_name :: "BudgetMode \<Rightarrow> string" where
  "budget_mode_name BudgetMode.HARD = ''HARD''"
| "budget_mode_name BudgetMode.SOFT = ''SOFT''"
| "budget_mode_name BudgetMode.ADVISORY = ''ADVISORY''"
| "budget_mode_name (raw_BudgetMode b) = ''UNKNOWN''"

datatype BudgetObjective =
    MAX_COST_PER_REQUEST | MAX_COST_PER_TOKEN | MAX_COST_PER_OPERATION
    | MAX_TOTAL_EXECUTION_COST | MAX_ACCELERATOR_TIME_COST | MAX_ENERGY_COST
    | MAX_TRANSFER_COST | MAX_RECOVERY_COST | MAX_RETRY_COST | raw_BudgetObjective u8

primrec BudgetObjective_u8 :: "BudgetObjective \<Rightarrow> u8" where
  "BudgetObjective_u8 BudgetObjective.MAX_COST_PER_REQUEST = 0"
| "BudgetObjective_u8 BudgetObjective.MAX_COST_PER_TOKEN = 1"
| "BudgetObjective_u8 BudgetObjective.MAX_COST_PER_OPERATION = 2"
| "BudgetObjective_u8 BudgetObjective.MAX_TOTAL_EXECUTION_COST = 3"
| "BudgetObjective_u8 BudgetObjective.MAX_ACCELERATOR_TIME_COST = 4"
| "BudgetObjective_u8 BudgetObjective.MAX_ENERGY_COST = 5"
| "BudgetObjective_u8 BudgetObjective.MAX_TRANSFER_COST = 6"
| "BudgetObjective_u8 BudgetObjective.MAX_RECOVERY_COST = 7"
| "BudgetObjective_u8 BudgetObjective.MAX_RETRY_COST = 8"
| "BudgetObjective_u8 (raw_BudgetObjective b) = b"

definition BudgetObjective_enumerators :: "BudgetObjective list" where
  "BudgetObjective_enumerators =
    [BudgetObjective.MAX_COST_PER_REQUEST, BudgetObjective.MAX_COST_PER_TOKEN
     , BudgetObjective.MAX_COST_PER_OPERATION, BudgetObjective.MAX_TOTAL_EXECUTION_COST
     , BudgetObjective.MAX_ACCELERATOR_TIME_COST, BudgetObjective.MAX_ENERGY_COST
     , BudgetObjective.MAX_TRANSFER_COST, BudgetObjective.MAX_RECOVERY_COST
     , BudgetObjective.MAX_RETRY_COST]"

definition BudgetObjective_of_u8 :: "u8 \<Rightarrow> BudgetObjective" where
  "BudgetObjective_of_u8 = enum_cast BudgetObjective_enumerators raw_BudgetObjective"

definition BudgetObjective_wf :: "BudgetObjective \<Rightarrow> bool" where
  "BudgetObjective_wf = enum_wf BudgetObjective_enumerators raw_BudgetObjective"

primrec budget_objective_name :: "BudgetObjective \<Rightarrow> string" where
  "budget_objective_name BudgetObjective.MAX_COST_PER_REQUEST = ''MAX_COST_PER_REQUEST''"
| "budget_objective_name BudgetObjective.MAX_COST_PER_TOKEN = ''MAX_COST_PER_TOKEN''"
| "budget_objective_name BudgetObjective.MAX_COST_PER_OPERATION = ''MAX_COST_PER_OPERATION''"
| "budget_objective_name BudgetObjective.MAX_TOTAL_EXECUTION_COST = ''MAX_TOTAL_EXECUTION_COST''"
| "budget_objective_name BudgetObjective.MAX_ACCELERATOR_TIME_COST = ''MAX_ACCELERATOR_TIME_COST''"
| "budget_objective_name BudgetObjective.MAX_ENERGY_COST = ''MAX_ENERGY_COST''"
| "budget_objective_name BudgetObjective.MAX_TRANSFER_COST = ''MAX_TRANSFER_COST''"
| "budget_objective_name BudgetObjective.MAX_RECOVERY_COST = ''MAX_RECOVERY_COST''"
| "budget_objective_name BudgetObjective.MAX_RETRY_COST = ''MAX_RETRY_COST''"
| "budget_objective_name (raw_BudgetObjective b) = ''UNKNOWN''"

interpretation BudgetObjective_cast: enum_class BudgetObjective_u8 BudgetObjective_enumerators raw_BudgetObjective
  by unfold_locales (simp_all add: BudgetObjective_enumerators_def)

lemma BudgetObjective_codec [codec_rules]: "BudgetObjective_wf e \<Longrightarrow> BudgetObjective_of_u8 (BudgetObjective_u8 e) = e"
  by (simp add: BudgetObjective_of_u8_def BudgetObjective_wf_def BudgetObjective_cast.of_to)

datatype BudgetLifecycle =
    CREATED | ACTIVE | RESERVED | PARTIALLY_CONSUMED | EXHAUSTED | EXPIRED | CANCELLED
    | SUPERSEDED | CLOSED | raw_BudgetLifecycle u8

primrec BudgetLifecycle_u8 :: "BudgetLifecycle \<Rightarrow> u8" where
  "BudgetLifecycle_u8 BudgetLifecycle.CREATED = 0"
| "BudgetLifecycle_u8 BudgetLifecycle.ACTIVE = 1"
| "BudgetLifecycle_u8 BudgetLifecycle.RESERVED = 2"
| "BudgetLifecycle_u8 BudgetLifecycle.PARTIALLY_CONSUMED = 3"
| "BudgetLifecycle_u8 BudgetLifecycle.EXHAUSTED = 4"
| "BudgetLifecycle_u8 BudgetLifecycle.EXPIRED = 5"
| "BudgetLifecycle_u8 BudgetLifecycle.CANCELLED = 6"
| "BudgetLifecycle_u8 BudgetLifecycle.SUPERSEDED = 7"
| "BudgetLifecycle_u8 BudgetLifecycle.CLOSED = 8"
| "BudgetLifecycle_u8 (raw_BudgetLifecycle b) = b"

definition BudgetLifecycle_enumerators :: "BudgetLifecycle list" where
  "BudgetLifecycle_enumerators =
    [BudgetLifecycle.CREATED, BudgetLifecycle.ACTIVE, BudgetLifecycle.RESERVED
     , BudgetLifecycle.PARTIALLY_CONSUMED, BudgetLifecycle.EXHAUSTED
     , BudgetLifecycle.EXPIRED, BudgetLifecycle.CANCELLED, BudgetLifecycle.SUPERSEDED
     , BudgetLifecycle.CLOSED]"

definition BudgetLifecycle_of_u8 :: "u8 \<Rightarrow> BudgetLifecycle" where
  "BudgetLifecycle_of_u8 = enum_cast BudgetLifecycle_enumerators raw_BudgetLifecycle"

definition BudgetLifecycle_wf :: "BudgetLifecycle \<Rightarrow> bool" where
  "BudgetLifecycle_wf = enum_wf BudgetLifecycle_enumerators raw_BudgetLifecycle"

primrec budget_lifecycle_name :: "BudgetLifecycle \<Rightarrow> string" where
  "budget_lifecycle_name BudgetLifecycle.CREATED = ''CREATED''"
| "budget_lifecycle_name BudgetLifecycle.ACTIVE = ''ACTIVE''"
| "budget_lifecycle_name BudgetLifecycle.RESERVED = ''RESERVED''"
| "budget_lifecycle_name BudgetLifecycle.PARTIALLY_CONSUMED = ''PARTIALLY_CONSUMED''"
| "budget_lifecycle_name BudgetLifecycle.EXHAUSTED = ''EXHAUSTED''"
| "budget_lifecycle_name BudgetLifecycle.EXPIRED = ''EXPIRED''"
| "budget_lifecycle_name BudgetLifecycle.CANCELLED = ''CANCELLED''"
| "budget_lifecycle_name BudgetLifecycle.SUPERSEDED = ''SUPERSEDED''"
| "budget_lifecycle_name BudgetLifecycle.CLOSED = ''CLOSED''"
| "budget_lifecycle_name (raw_BudgetLifecycle b) = ''UNKNOWN''"

interpretation BudgetLifecycle_cast: enum_class BudgetLifecycle_u8 BudgetLifecycle_enumerators raw_BudgetLifecycle
  by unfold_locales (simp_all add: BudgetLifecycle_enumerators_def)

lemma BudgetLifecycle_codec [codec_rules]: "BudgetLifecycle_wf e \<Longrightarrow> BudgetLifecycle_of_u8 (BudgetLifecycle_u8 e) = e"
  by (simp add: BudgetLifecycle_of_u8_def BudgetLifecycle_wf_def BudgetLifecycle_cast.of_to)

record Budget =
  b_id :: BudgetId
  b_generation :: BudgetGeneration
  b_policy_generation :: CostPolicyGeneration
  b_epoch :: CoordinatorEpoch
  b_currency :: string
  b_mode :: BudgetMode
  b_objective :: BudgetObjective
  b_limit :: MoneyMicros
  b_lifecycle :: BudgetLifecycle
  b_reserved :: MoneyMicros
  b_consumed :: MoneyMicros
  b_released :: MoneyMicros
  b_created_at_ms :: i64
  b_expires_at_ms :: i64
  b_label :: DataLabel

definition Budget_default :: Budget where
  "Budget_default =
    \<lparr>b_id = Id_none, b_generation = Id_none, b_policy_generation = Id_none, b_epoch = Id_none,
     b_currency = kDefaultCurrency, b_mode = BudgetMode.HARD,
     b_objective = BudgetObjective.MAX_TOTAL_EXECUTION_COST, b_limit = MoneyMicros 0,
     b_lifecycle = BudgetLifecycle.CREATED, b_reserved = MoneyMicros 0, b_consumed = MoneyMicros 0,
     b_released = MoneyMicros 0, b_created_at_ms = 0, b_expires_at_ms = 0,
     b_label = DataLabel.POLICY\<rparr>"

definition is_live :: "Budget \<Rightarrow> bool" where
  "is_live b \<longleftrightarrow>
    b_lifecycle b = BudgetLifecycle.ACTIVE \<or> b_lifecycle b = BudgetLifecycle.RESERVED \<or>
    b_lifecycle b = BudgetLifecycle.PARTIALLY_CONSUMED"

definition is_terminal :: "Budget \<Rightarrow> bool" where
  "is_terminal b \<longleftrightarrow>
    b_lifecycle b = BudgetLifecycle.EXHAUSTED \<or> b_lifecycle b = BudgetLifecycle.EXPIRED \<or>
    b_lifecycle b = BudgetLifecycle.CANCELLED \<or> b_lifecycle b = BudgetLifecycle.SUPERSEDED \<or>
    b_lifecycle b = BudgetLifecycle.CLOSED"

definition remaining :: "Budget \<Rightarrow> exn + MoneyMicros" where
  "remaining b = money_sub (b_limit b) (b_consumed b)"

definition over_hard :: "Budget \<Rightarrow> bool" where
  "over_hard b \<longleftrightarrow> b_consumed b > b_limit b"

text \<open>A member that may not throw: the division by two always returns.\<close>

definition near_budget :: "Budget \<Rightarrow> exn + bool" where
  "near_budget b =
    (if money_is_zero (b_limit b) then Inr False
     else bindE (money_checked_div (b_limit b) 2 kCeil) (\<lambda>half. Inr (b_consumed b \<ge> half)))"

lemma live_not_terminal: "is_live b \<Longrightarrow> \<not> is_terminal b"
  by (auto simp: is_live_def is_terminal_def)

section \<open>Reservations\<close>

datatype ReservationState = ACTIVE | COMMITTED | RELEASED | EXPIRED

record BudgetReservation =
  r_id :: ReservationId
  r_budget :: BudgetId
  r_budget_generation :: BudgetGeneration
  r_epoch :: CoordinatorEpoch
  r_amount :: MoneyMicros
  r_created_at_ms :: i64
  r_expires_at_ms :: i64
  r_state :: ReservationState

definition BudgetReservation_default :: BudgetReservation where
  "BudgetReservation_default =
    \<lparr>r_id = Id_none, r_budget = Id_none, r_budget_generation = Id_none, r_epoch = Id_none,
     r_amount = MoneyMicros 0, r_created_at_ms = 0, r_expires_at_ms = 0,
     r_state = ReservationState.ACTIVE\<rparr>"

end
