(* ===== verification/Costs.thy ===== *)
theory Costs
  imports Prices
begin

text \<open>
  The cost model (\<^verbatim>\<open>include/costgovernor/cost.hpp\<close>, \<^verbatim>\<open>src/cost.cpp\<close>): usage evidence, price lookup,
  exact price-to-cost conversion and the projection of a list of attempts to a cost breakdown.
\<close>

section \<open>Data\<close>

datatype CostComponent =
    ACCELERATOR_TIME | ENERGY | TRANSFER | MEMORY | RESIDENCY | STORAGE | RETRY | RECOVERY
    | RECOMPUTATION | OTHER

primrec component_index :: "CostComponent \<Rightarrow> nat" where
  "component_index CostComponent.ACCELERATOR_TIME = 0"
| "component_index CostComponent.ENERGY = 1"
| "component_index CostComponent.TRANSFER = 2"
| "component_index CostComponent.MEMORY = 3"
| "component_index CostComponent.RESIDENCY = 4"
| "component_index CostComponent.STORAGE = 5"
| "component_index CostComponent.RETRY = 6"
| "component_index CostComponent.RECOVERY = 7"
| "component_index CostComponent.RECOMPUTATION = 8"
| "component_index CostComponent.OTHER = 9"

primrec cost_component_name :: "CostComponent \<Rightarrow> string" where
  "cost_component_name CostComponent.ACCELERATOR_TIME = ''accelerator_time''"
| "cost_component_name CostComponent.ENERGY = ''energy''"
| "cost_component_name CostComponent.TRANSFER = ''transfer''"
| "cost_component_name CostComponent.MEMORY = ''memory''"
| "cost_component_name CostComponent.RESIDENCY = ''residency''"
| "cost_component_name CostComponent.STORAGE = ''storage''"
| "cost_component_name CostComponent.RETRY = ''retry''"
| "cost_component_name CostComponent.RECOVERY = ''recovery''"
| "cost_component_name CostComponent.RECOMPUTATION = ''recomputation''"
| "cost_component_name CostComponent.OTHER = ''other''"

definition kCostComponentCount :: nat where
  "kCostComponentCount = 10"

record CostEvidence =
  ev_id :: EvidenceId
  ev_request :: RequestId
  ev_workload :: WorkloadId
  ev_attempt :: AttemptId
  ev_attempt_gen :: AttemptGeneration
  ev_worker :: WorkerId
  ev_boot :: WorkerBootId
  ev_epoch :: CoordinatorEpoch
  ev_generation :: EvidenceGeneration
  ev_observed_at_ms :: i64
  ev_label :: DataLabel
  ev_completed_successfully :: bool
  ev_is_completion :: bool
  ev_device :: DeviceId
  ev_resource :: ResourceId
  ev_accelerator_time :: AcceleratorNanoseconds
  ev_energy :: EnergyMicroJoules
  ev_transfer :: TransferBytes
  ev_memory_hold :: MemoryByteNanoseconds
  ev_residency_hold :: MemoryByteNanoseconds
  ev_storage_bytes :: Bytes
  ev_requests :: i64
  ev_tokens :: i64
  ev_operations :: i64
  ev_recovery_actions :: i64
  ev_recompute_ns :: i64

definition CostEvidence_default :: CostEvidence where
  "CostEvidence_default =
    \<lparr>ev_id = Id_none, ev_request = Id_none, ev_workload = Id_none, ev_attempt = Id_none,
     ev_attempt_gen = Id_none, ev_worker = Id_none, ev_boot = Id_none, ev_epoch = Id_none,
     ev_generation = Id_none, ev_observed_at_ms = 0, ev_label = DataLabel.POLICY,
     ev_completed_successfully = False, ev_is_completion = False, ev_device = Id_none,
     ev_resource = Id_none, ev_accelerator_time = Amount 0, ev_energy = Amount 0,
     ev_transfer = Amount 0, ev_memory_hold = Amount 0, ev_residency_hold = Amount 0,
     ev_storage_bytes = Amount 0, ev_requests = 1, ev_tokens = 0, ev_operations = 0,
     ev_recovery_actions = 0, ev_recompute_ns = 0\<rparr>"

record ComponentValue =
  cv_known :: bool
  cv_value :: MoneyMicros

record CostBreakdown =
  bd_currency :: string
  bd_label :: DataLabel
  bd_components :: "ComponentValue list"
  bd_total :: MoneyMicros
  bd_any_unknown :: bool

definition CostBreakdown_default :: CostBreakdown where
  "CostBreakdown_default =
    \<lparr>bd_currency = kDefaultCurrency, bd_label = DataLabel.POLICY,
     bd_components = replicate kCostComponentCount \<lparr>cv_known = False, cv_value = MoneyMicros 0\<rparr>,
     bd_total = MoneyMicros 0, bd_any_unknown = False\<rparr>"

definition breakdown_get :: "CostBreakdown \<Rightarrow> CostComponent \<Rightarrow> ComponentValue" where
  "breakdown_get bd c = bd_components bd ! component_index c"

section \<open>Prices of usage\<close>

definition kind_for :: "CostComponent \<Rightarrow> exn + PriceKind" where
  "kind_for c =
    (case c of
       CostComponent.ACCELERATOR_TIME \<Rightarrow> Inr PriceKind.ACCELERATOR_TIME
     | CostComponent.ENERGY \<Rightarrow> Inr PriceKind.ENERGY
     | CostComponent.TRANSFER \<Rightarrow> Inr PriceKind.TRANSFER
     | CostComponent.MEMORY \<Rightarrow> Inr PriceKind.MEMORY_HOLDING
     | CostComponent.RESIDENCY \<Rightarrow> Inr PriceKind.RESIDENCY_HOLDING
     | CostComponent.STORAGE \<Rightarrow> Inr PriceKind.STORAGE
     | _ \<Rightarrow> throw_status Status.INVALID_INPUT ''component is not a measurable amount'')"

definition denominator_for :: "PriceKind \<Rightarrow> exn + i64" where
  "denominator_for k =
    (case k of
       PriceKind.ACCELERATOR_TIME \<Rightarrow> Inr kNsPerSecond
     | PriceKind.ENERGY \<Rightarrow> Inr kMicroJoulesPerKWh
     | PriceKind.TRANSFER \<Rightarrow> Inr kBytesPerGB
     | PriceKind.MEMORY_HOLDING \<Rightarrow> Inr kBytesPerGBs
     | PriceKind.RESIDENCY_HOLDING \<Rightarrow> Inr kBytesPerGBs
     | PriceKind.STORAGE \<Rightarrow> Inr kBytesPerGB
     | _ \<Rightarrow> throw_status Status.INVALID_INPUT ''no scalar unit for price kind'')"

text \<open>Here \<^verbatim>\<open>U64MAX\<close> is the largest word, and the arithmetic is on unsigned words.\<close>

definition ceil_mul_div :: "i64 \<Rightarrow> i64 \<Rightarrow> i64 \<Rightarrow> exn + i64" where
  "ceil_mul_div a b d =
    (if a <s 0 \<or> b <s 0 \<or> d \<le>s 0
       then throw_status Status.INVALID_INPUT ''ceil_mul_div requires non-negative inputs''
     else if a = 0 then Inr 0
     else if b > (-1) div a
       then throw_status Status.RESOURCE_EXHAUSTED ''cost multiplication overflow''
     else let prod = a * b; q = prod div d; r = prod mod d
       in if r \<noteq> 0 \<and> q = -1
            then throw_status Status.RESOURCE_EXHAUSTED ''cost rounding overflow''
          else let q' = (if r \<noteq> 0 then q + 1 else q)
            in if q' > I64MAX
                 then throw_status Status.RESOURCE_EXHAUSTED ''cost exceeds representable micro-units''
               else Inr q')"

text \<open>The policy argument of \<^verbatim>\<open>obs_applies\<close> is a pointer that may be null.\<close>

definition obs_applies ::
  "PriceObservation \<Rightarrow> PriceKind \<Rightarrow> string \<Rightarrow> i64 \<Rightarrow> DeviceId \<Rightarrow> ResourceId \<Rightarrow> CostPolicy option \<Rightarrow> bool"
where
  "obs_applies p want currency now_ms dev res pol =
    (if po_kind p \<noteq> want then False
     else if \<not> valid_currency p currency then False
     else if now_ms <s po_valid_from_ms p then False
     else if po_valid_to_ms p \<noteq> 0 \<and> po_valid_to_ms p \<le>s now_ms then False
     else if money_negative (po_amount p) then False
     else if (case pol of None \<Rightarrow> False | Some pl \<Rightarrow> \<not> accepts_label pl (po_label p)) then False
     else if Id_valid dev \<and> Id_valid (po_device p) \<and> po_device p \<noteq> dev then False
     else if Id_valid res \<and> Id_valid (po_resource_scope p) \<and> po_resource_scope p \<noteq> res then False
     else True)"

text \<open>Whether an applicable observation replaces the best one found so far.\<close>

definition more_specific :: "PriceObservation \<Rightarrow> PriceObservation option \<Rightarrow> bool" where
  "more_specific obs best =
    (case best of
       None \<Rightarrow> True
     | Some b \<Rightarrow> Id_valid (po_device obs) \<and> \<not> Id_valid (po_device b) \<or>
         Id_valid (po_resource_scope obs) \<and> \<not> Id_valid (po_resource_scope b))"

definition find_price ::
  "PriceSchedule \<Rightarrow> PriceKind \<Rightarrow> string \<Rightarrow> i64 \<Rightarrow> DeviceId \<Rightarrow> ResourceId \<Rightarrow> CostPolicy option
    \<Rightarrow> PriceObservation option"
where
  "find_price s want currency now_ms dev res pol =
    fold (\<lambda>obs best.
        if \<not> obs_applies obs want currency now_ms dev res pol then best
        else if more_specific obs best then Some obs else best)
      (ps_observations s) None"

definition project_component ::
  "PriceSchedule \<Rightarrow> CostComponent \<Rightarrow> i64 \<Rightarrow> string \<Rightarrow> i64 \<Rightarrow> DeviceId \<Rightarrow> ResourceId \<Rightarrow> exn + MoneyMicros"
where
  "project_component schedule c amount currency now_ms device resource =
    bindE (kind_for c) (\<lambda>k.
      case find_price schedule k currency now_ms device resource None of
        None \<Rightarrow> throw_status Status.MISSING_PRICE (''no price for component '' @ cost_component_name c)
      | Some p \<Rightarrow>
          bindE (denominator_for (po_kind p)) (\<lambda>denom.
          bindE (ceil_mul_div amount (total_micros (po_amount p)) denom) (\<lambda>m.
          Inr (from_micros m))))"

section \<open>Projection of a list of attempts\<close>

text \<open>
  The measured quantities of an attempt with the component that prices each and the breakdown line
  it is booked on, in the order of the source.
\<close>

definition measurable_usage :: "CostEvidence \<Rightarrow> (CostComponent \<times> i64 \<times> nat) list" where
  "measurable_usage ev =
    [(CostComponent.ACCELERATOR_TIME, count (ev_accelerator_time ev), 0),
     (CostComponent.ENERGY, count (ev_energy ev), 1),
     (CostComponent.TRANSFER, count (ev_transfer ev), 2),
     (CostComponent.MEMORY, count (ev_memory_hold ev), 3),
     (CostComponent.RESIDENCY, count (ev_residency_hold ev), 4),
     (CostComponent.STORAGE, count (ev_storage_bytes ev), 5)]"

definition usage :: "CostEvidence \<Rightarrow> (CostComponent \<times> i64 \<times> nat) list" where
  "usage ev = measurable_usage ev @ [(CostComponent.ACCELERATOR_TIME, ev_recompute_ns ev, 8)]"

definition priced ::
  "PriceSchedule \<Rightarrow> string \<Rightarrow> i64 \<Rightarrow> CostEvidence \<Rightarrow> CostComponent \<Rightarrow> i64 \<Rightarrow> exn + MoneyMicros"
where
  "priced schedule currency now_ms ev kind amount =
    project_component schedule kind amount currency now_ms (ev_device ev) (ev_resource ev)"

definition add_component ::
  "nat \<Rightarrow> MoneyMicros \<Rightarrow> ComponentValue list \<Rightarrow> exn + ComponentValue list"
where
  "add_component i m cs =
    bindE (money_add (cv_value (cs ! i)) m) (\<lambda>v. Inr (cs[i := \<lparr>cv_known = True, cv_value = v\<rparr>]))"

text \<open>The body of the first pricing loop.\<close>

definition charge_attempt ::
  "PriceSchedule \<Rightarrow> string \<Rightarrow> i64 \<Rightarrow> CostEvidence \<Rightarrow> ComponentValue list \<Rightarrow> exn + ComponentValue list"
where
  "charge_attempt schedule currency now_ms ev =
    foldE (\<lambda>(kind, amount, i) cs.
        if amount \<noteq> 0
          then bindE (priced schedule currency now_ms ev kind amount) (\<lambda>m. add_component i m cs)
        else Inr cs)
      (usage ev)"

definition failed_cost :: "PriceSchedule \<Rightarrow> string \<Rightarrow> i64 \<Rightarrow> CostEvidence \<Rightarrow> exn + MoneyMicros" where
  "failed_cost schedule currency now_ms ev =
    foldE (\<lambda>(kind, amount, i) failed.
        if amount \<noteq> 0
          then bindE (priced schedule currency now_ms ev kind amount) (money_add failed)
        else Inr failed)
      (measurable_usage ev) (MoneyMicros 0)"

text \<open>
  The index of the last successful completion, \<open>-1\<close> when there is none. The source compares
  addresses of elements of \<^verbatim>\<open>attempts\<close>; the model compares their indices.
\<close>

definition final_success_index :: "CostEvidence list \<Rightarrow> int" where
  "final_success_index attempts =
    fold (\<lambda>(i, ev) acc. if ev_is_completion ev \<and> ev_completed_successfully ev then int i else acc)
      (enumerate 0 attempts) (- 1)"

definition charge_retry ::
  "PriceSchedule \<Rightarrow> string \<Rightarrow> i64 \<Rightarrow> int \<Rightarrow> nat \<times> CostEvidence \<Rightarrow> ComponentValue list
    \<Rightarrow> exn + ComponentValue list"
where
  "charge_retry schedule currency now_ms success =
    (\<lambda>(i, ev) cs.
      if int i = success then Inr cs
      else if \<not> (ev_is_completion ev \<and> \<not> ev_completed_successfully ev) then Inr cs
      else bindE (failed_cost schedule currency now_ms ev) (\<lambda>failed. add_component 6 failed cs))"

definition add_to_total :: "ComponentValue list \<Rightarrow> nat \<Rightarrow> MoneyMicros \<Rightarrow> exn + MoneyMicros" where
  "add_to_total cs i tot =
    (if i \<noteq> 6 \<and> i \<noteq> 7 \<and> cv_known (cs ! i) then money_add tot (cv_value (cs ! i)) else Inr tot)"

definition project ::
  "PriceSchedule \<Rightarrow> CostEvidence list \<Rightarrow> string \<Rightarrow> i64 \<Rightarrow> exn + CostBreakdown"
where
  "project schedule attempts currency now_ms =
    (let bd = CostBreakdown_default\<lparr>bd_currency := currency\<rparr>;
         any_unknown = fold (\<lambda>ev acc. if ev_label ev = DataLabel.UNSUPPORTED then True else acc) attempts False;
         success = final_success_index attempts
     in bindE (foldE (charge_attempt schedule currency now_ms) attempts (bd_components bd)) (\<lambda>cs.
        bindE (foldE (charge_retry schedule currency now_ms success) (enumerate 0 attempts) cs) (\<lambda>cs.
        bindE (foldE (add_to_total cs) [0..<kCostComponentCount] (bd_total bd)) (\<lambda>tot.
        Inr (bd\<lparr>bd_components := cs, bd_total := tot, bd_any_unknown := any_unknown\<rparr>)))))"

section \<open>Exact conversion\<close>

text \<open>The integer quotient rounded up, as the comments of the source state it.\<close>

definition ceil_div :: "int \<Rightarrow> int \<Rightarrow> int" where
  "ceil_div n d = - ((- n) div d)"

lemma ceil_div_div_mod:
  "0 < d \<Longrightarrow> ceil_div n d = (if n mod d = 0 then n div d else n div d + 1)" for n d :: int
  by (simp add: ceil_div_def zdiv_zminus1_eq_if)

lemma int_le_div_iff: "0 < d \<Longrightarrow> b \<le> n div d \<longleftrightarrow> b * d \<le> n" for b n d :: int
proof
  assume d: "0 < d" and le: "b \<le> n div d"
  have "b * d \<le> n div d * d"
    using le d by (simp add: mult_right_mono)
  also have "\<dots> \<le> n"
    using d by (simp add: minus_mod_eq_div_mult [symmetric])
  finally show "b * d \<le> n" .
next
  assume d: "0 < d" and le: "b * d \<le> n"
  have "b * d div d \<le> n div d"
    using le d by (rule zdiv_mono1)
  then show "b \<le> n div d"
    using d by simp
qed

lemma u64_mult_exact: "b \<le> (-1) div a \<longleftrightarrow> uint a * uint b < 2 ^ 64" if "a \<noteq> 0" for a b :: u64
proof -
  have pos: "0 < uint a"
    using that by (simp add: word_neq_0_conv word_less_def)
  have "uint (-1 :: u64) = 2 ^ 64 - 1"
    by (simp add: unsigned_minus_1_eq_mask mask_eq_exp_minus_1)
  then have "b \<le> (-1) div a \<longleftrightarrow> uint b \<le> (2 ^ 64 - 1) div uint a"
    by (simp only: word_le_def uint_div)
  also have "\<dots> \<longleftrightarrow> uint b * uint a \<le> 2 ^ 64 - 1"
    using pos by (simp add: int_le_div_iff)
  also have "\<dots> \<longleftrightarrow> uint b * uint a < 2 ^ 64"
    by linarith
  finally show ?thesis
    by (simp only: mult.commute)
qed

lemma u64_round_up:
  fixes q r :: u64
  assumes n: "0 \<le> n" "n < 2 ^ 64" and d: "0 < d" and q: "uint q = n div d" and r: "uint r = n mod d"
  shows "uint (if r \<noteq> 0 then q + 1 else q) = ceil_div n d \<and> \<not> (r \<noteq> 0 \<and> q = -1)"
proof (cases "r = 0")
  case True
  then show ?thesis
    using d q r by (simp add: ceil_div_div_mod)
next
  case False
  then have nz: "n mod d \<noteq> 0"
    using r by (metis uint_0_iff)
  then have "1 < d"
    using d by (cases "d = 1") auto
  then have "n div d < 2 ^ 63"
    using n zdiv_mono2 [of n 2 d] by simp
  then have q63: "uint q < 2 ^ 63"
    using q by simp
  then have "q \<noteq> -1"
    by (auto simp: unsigned_minus_1_eq_mask mask_eq_exp_minus_1)
  moreover have "uint (q + 1) = uint q + 1"
    using q63 uint_ge_0 [of q] by (simp add: uint_word_ariths del: uint_ge_0)
  ultimately show ?thesis
    using False nz d q by (simp add: ceil_div_div_mod)
qed

lemma small_u64_sint: "q' \<le> I64MAX \<and> q = q' \<longleftrightarrow> sint q = uint q'" for q q' :: "64 word"
proof
  assume "q' \<le> I64MAX \<and> q = q'"
  then have "uint q < 2 ^ 63" and "q = q'"
    by (simp_all add: word_le_def)
  then show "sint q = uint q'"
    using sint_of_int [of "uint q'"] uint_ge_0 [of q'] by (simp add: in_i64_def del: uint_ge_0)
next
  assume eq: "sint q = uint q'"
  then have "uint q = uint q'"
    using uint_nonneg_sint [of q] by simp
  moreover have "uint q' < 2 ^ 63"
    using eq in_i64_sint [of q] by (simp add: in_i64_def)
  ultimately show "q' \<le> I64MAX \<and> q = q'"
    by (simp add: word_le_def word_uint_eq_iff)
qed

lemma ceil_mul_div_exact:
  "ceil_mul_div a b d = Inr q \<longleftrightarrow>
    0 \<le> sint a \<and> 0 \<le> sint b \<and> 0 < sint d \<and> sint a * sint b < 2 ^ 64 \<and>
    sint q = ceil_div (sint a * sint b) (sint d)"
proof (cases "0 \<le> sint a \<and> 0 \<le> sint b \<and> 0 < sint d \<and> sint a * sint b < 2 ^ 64 \<and> a \<noteq> 0")
  case True
  then have uints: "uint a = sint a" "uint b = sint b" "uint d = sint d"
    by (simp_all add: uint_nonneg_sint)
  let ?n = "sint a * sint b"
  have n: "0 \<le> ?n" "?n < 2 ^ 64"
    using True by simp_all
  have fits: "\<not> (-1) div a < b"
    using True uints u64_mult_exact [of a b] by (simp add: not_less)
  have "uint (a * b) = ?n"
    using n uints by (simp add: uint_word_ariths)
  then have qr: "uint (a * b div d) = ?n div sint d" "uint (a * b mod d) = ?n mod sint d"
    using uints by (simp_all add: uint_div uint_mod)
  have round: "uint (if a * b mod d \<noteq> 0 then a * b div d + 1 else a * b div d) = ceil_div ?n (sint d)"
    "\<not> (a * b mod d \<noteq> 0 \<and> a * b div d = -1)"
    using u64_round_up [OF n(1) n(2) _ qr] True by simp_all
  have "ceil_mul_div a b d = Inr q \<longleftrightarrow>
      (let q' = (if a * b mod d \<noteq> 0 then a * b div d + 1 else a * b div d) in q' \<le> I64MAX \<and> q = q')"
  proof -
    obtain Q R where QR: "a * b div d = Q" "a * b mod d = R"
      by blast
    show ?thesis
      using True fits round(2) unfolding ceil_mul_div_def throw_status_def Let_def QR
      by (auto simp: sint_rules not_less)
  qed
  also have "\<dots> \<longleftrightarrow> sint q = uint (if a * b mod d \<noteq> 0 then a * b div d + 1 else a * b div d)"
    unfolding Let_def by (rule small_u64_sint)
  finally show ?thesis
    using True unfolding round(1) by blast
next
  case False
  then consider "a = 0" | "a \<noteq> 0" "\<not> (0 \<le> sint a \<and> 0 \<le> sint b \<and> 0 < sint d)"
    | "a \<noteq> 0" "0 \<le> sint a" "0 \<le> sint b" "0 < sint d" "\<not> sint a * sint b < 2 ^ 64"
    by blast
  then show ?thesis
  proof cases
    case 1
    then show ?thesis
      using sint_eq_iff [of q 0]
      by (auto simp: ceil_mul_div_def throw_status_def ceil_div_def sint_rules)
  next
    case 2
    then show ?thesis
      by (auto simp: ceil_mul_div_def throw_status_def sint_rules)
  next
    case 3
    then have "(-1) div a < b"
      using u64_mult_exact [of a b] by (simp add: uint_nonneg_sint not_less [symmetric])
    then show ?thesis
      using 3 by (auto simp: ceil_mul_div_def throw_status_def sint_rules)
  qed
qed

lemma denominator_kind:
  "kind_for c = Inr k \<Longrightarrow> \<exists>d. denominator_for k = Inr d \<and> 0 < sint d"
  by (cases c)
    (auto simp: kind_for_def denominator_for_def throw_status_def kNsPerSecond_def
      kMicroJoulesPerKWh_def kBytesPerGB_def kBytesPerGBs_def)

section \<open>Price lookup\<close>

lemma find_price_fold_Some:
  "fold (\<lambda>obs best. if \<not> P obs then best else if Q obs best then Some obs else best) xs init = Some p
    \<Longrightarrow> init = Some p \<or> p \<in> set xs \<and> P p"
  by (induction xs arbitrary: init) (fastforce split: if_splits)+

lemma find_price_Some:
  assumes "find_price s k cur now dev res pol = Some p"
  shows "p \<in> set (ps_observations s)" and "obs_applies p k cur now dev res pol"
  using find_price_fold_Some [OF assms [unfolded find_price_def]] by simp_all

lemma find_price_fold_None:
  "fold (\<lambda>obs best. if \<not> P obs then best else if more_specific obs best then Some obs else best) xs init = None
    \<longleftrightarrow> init = None \<and> (\<forall>p\<in>set xs. \<not> P p)"
  by (induction xs arbitrary: init) (auto simp: more_specific_def split: option.splits)

lemma find_price_None:
  "find_price s k cur now dev res pol = None \<longleftrightarrow>
    (\<forall>p\<in>set (ps_observations s). \<not> obs_applies p k cur now dev res pol)"
  by (simp add: find_price_def find_price_fold_None)

lemma obs_applies_kind: "obs_applies p k cur now dev res pol \<Longrightarrow> po_kind p = k"
  by (simp add: obs_applies_def split: if_splits)

lemma obs_applies_nonneg: "obs_applies p k cur now dev res pol \<Longrightarrow> 0 \<le> micros (po_amount p)"
  by (simp add: obs_applies_def sint_rules split: if_splits)

lemma project_component_eq_Inr:
  "project_component s c a cur now dev res = Inr m \<longleftrightarrow>
    (\<exists>k p d. kind_for c = Inr k \<and> find_price s k cur now dev res None = Some p \<and>
      denominator_for k = Inr d \<and> 0 \<le> sint a \<and> sint a * micros (po_amount p) < 2 ^ 64 \<and>
      micros m = ceil_div (sint a * micros (po_amount p)) (sint d))"
  (is "?lhs \<longleftrightarrow> ?rhs")
proof (cases "kind_for c")
  case (Inr k)
  obtain d where d: "denominator_for k = Inr d" "0 < sint d"
    using denominator_kind [OF Inr] by blast
  show ?thesis
  proof (cases "find_price s k cur now dev res None")
    case (Some p)
    have "po_kind p = k" "0 \<le> micros (po_amount p)"
      using find_price_Some(2) [OF Some] obs_applies_kind obs_applies_nonneg by blast+
    moreover have "Inr (from_micros q) = Inr m \<longleftrightarrow> q = total_micros m" for q
      by (cases m) (auto simp: from_micros_def)
    ultimately show ?thesis
      using Inr Some d
      by (auto simp: project_component_def bindE_eq_Inr ceil_mul_div_exact from_micros_def)
  qed (simp add: project_component_def Inr throw_status_def)
qed (simp add: project_component_def)

lemma ceil_div_nonneg: "0 \<le> n \<Longrightarrow> 0 < d \<Longrightarrow> 0 \<le> ceil_div n d"
  by (simp add: ceil_div_div_mod pos_imp_zdiv_nonneg_iff)

lemma priced_nonneg: "priced s cur now ev c a = Inr m \<Longrightarrow> 0 \<le> micros m"
  unfolding priced_def project_component_eq_Inr
  by (metis ceil_div_nonneg denominator_kind find_price_Some(2) mult_nonneg_nonneg
      obs_applies_nonneg sum.inject(2))

end
