(* ===== verification/Plans.thy ===== *)
theory Plans
  imports Costs
begin

text \<open>
  Execution plans and their economics (\<^verbatim>\<open>include/costgovernor/plan.hpp\<close>).
\<close>

datatype RecoveryKind =
    NONE | RESTORE | RESTART | MIGRATE | REHYDRATE | SHADOW_PROMOTE | FAILOVER | RECOMPUTE

primrec RecoveryKind_u8 :: "RecoveryKind \<Rightarrow> u8" where
  "RecoveryKind_u8 RecoveryKind.NONE = 0"
| "RecoveryKind_u8 RecoveryKind.RESTORE = 1"
| "RecoveryKind_u8 RecoveryKind.RESTART = 2"
| "RecoveryKind_u8 RecoveryKind.MIGRATE = 3"
| "RecoveryKind_u8 RecoveryKind.REHYDRATE = 4"
| "RecoveryKind_u8 RecoveryKind.SHADOW_PROMOTE = 5"
| "RecoveryKind_u8 RecoveryKind.FAILOVER = 6"
| "RecoveryKind_u8 RecoveryKind.RECOMPUTE = 7"

primrec recovery_kind_name :: "RecoveryKind \<Rightarrow> string" where
  "recovery_kind_name RecoveryKind.NONE = ''NONE''"
| "recovery_kind_name RecoveryKind.RESTORE = ''RESTORE''"
| "recovery_kind_name RecoveryKind.RESTART = ''RESTART''"
| "recovery_kind_name RecoveryKind.MIGRATE = ''MIGRATE''"
| "recovery_kind_name RecoveryKind.REHYDRATE = ''REHYDRATE''"
| "recovery_kind_name RecoveryKind.SHADOW_PROMOTE = ''SHADOW_PROMOTE''"
| "recovery_kind_name RecoveryKind.FAILOVER = ''FAILOVER''"
| "recovery_kind_name RecoveryKind.RECOMPUTE = ''RECOMPUTE''"

record ExecutionPlan =
  pl_id :: PlanId
  pl_generation :: PlanGeneration
  pl_workload :: WorkloadId
  pl_workload_generation :: WorkloadGeneration
  pl_resource :: ResourceId
  pl_resource_generation :: ResourceGeneration
  pl_device :: DeviceId
  pl_device_generation :: DeviceGeneration
  pl_placement :: PlacementId
  pl_placement_generation :: PlacementGeneration
  pl_recovery_generation :: RecoveryGeneration
  pl_worker :: WorkerId
  pl_expected_accelerator_time :: AcceleratorNanoseconds
  pl_expected_energy :: EnergyMicroJoules
  pl_expected_transfer :: TransferBytes
  pl_expected_memory_hold :: MemoryByteNanoseconds
  pl_expected_residency_hold :: MemoryByteNanoseconds
  pl_expected_storage :: Bytes
  pl_expected_retries :: i64
  pl_expected_requests :: i64
  pl_expected_tokens :: i64
  pl_expected_operations :: i64
  pl_recovery :: RecoveryKind
  pl_recovery_recompute_ns :: i64
  pl_meets_hard_slo :: bool
  pl_completion_probability_percent :: i64
  pl_label :: DataLabel

definition ExecutionPlan_default :: ExecutionPlan where
  "ExecutionPlan_default =
    \<lparr>pl_id = Id_none, pl_generation = Id_none, pl_workload = Id_none,
     pl_workload_generation = Id_none, pl_resource = Id_none, pl_resource_generation = Id_none,
     pl_device = Id_none, pl_device_generation = Id_none, pl_placement = Id_none,
     pl_placement_generation = Id_none, pl_recovery_generation = Id_none, pl_worker = Id_none,
     pl_expected_accelerator_time = Amount 0, pl_expected_energy = Amount 0,
     pl_expected_transfer = Amount 0, pl_expected_memory_hold = Amount 0,
     pl_expected_residency_hold = Amount 0, pl_expected_storage = Amount 0,
     pl_expected_retries = 0, pl_expected_requests = 1, pl_expected_tokens = 0,
     pl_expected_operations = 0, pl_recovery = RecoveryKind.NONE, pl_recovery_recompute_ns = 0,
     pl_meets_hard_slo = True, pl_completion_probability_percent = 100, pl_label = DataLabel.POLICY\<rparr>"

datatype Feasibility =
    FEASIBLE | INFEASIBLE | DEFER | REVALIDATION_REQUIRED | INSUFFICIENT_EVIDENCE | UNKNOWN

primrec Feasibility_u8 :: "Feasibility \<Rightarrow> u8" where
  "Feasibility_u8 Feasibility.FEASIBLE = 0"
| "Feasibility_u8 Feasibility.INFEASIBLE = 1"
| "Feasibility_u8 Feasibility.DEFER = 2"
| "Feasibility_u8 Feasibility.REVALIDATION_REQUIRED = 3"
| "Feasibility_u8 Feasibility.INSUFFICIENT_EVIDENCE = 4"
| "Feasibility_u8 Feasibility.UNKNOWN = 5"

primrec feasibility_name :: "Feasibility \<Rightarrow> string" where
  "feasibility_name Feasibility.FEASIBLE = ''FEASIBLE''"
| "feasibility_name Feasibility.INFEASIBLE = ''INFEASIBLE''"
| "feasibility_name Feasibility.DEFER = ''DEFER''"
| "feasibility_name Feasibility.REVALIDATION_REQUIRED = ''REVALIDATION_REQUIRED''"
| "feasibility_name Feasibility.INSUFFICIENT_EVIDENCE = ''INSUFFICIENT_EVIDENCE''"
| "feasibility_name Feasibility.UNKNOWN = ''UNKNOWN''"

datatype FeasibilityReason =
    NONE | MISSING_PRICE | STALE_PRICE | MISSING_RESOURCE_EVIDENCE | STALE_RESOURCE_EVIDENCE
    | HARD_BUDGET_EXCEEDED | SLO_CONFLICT | CAPACITY_UNAVAILABLE | PLACEMENT_INVALID
    | RECOVERY_TOO_EXPENSIVE | TRANSFER_TOO_EXPENSIVE | ENERGY_TOO_EXPENSIVE
    | UNKNOWN_COST_COMPONENT

primrec FeasibilityReason_u8 :: "FeasibilityReason \<Rightarrow> u8" where
  "FeasibilityReason_u8 FeasibilityReason.NONE = 0"
| "FeasibilityReason_u8 FeasibilityReason.MISSING_PRICE = 1"
| "FeasibilityReason_u8 FeasibilityReason.STALE_PRICE = 2"
| "FeasibilityReason_u8 FeasibilityReason.MISSING_RESOURCE_EVIDENCE = 3"
| "FeasibilityReason_u8 FeasibilityReason.STALE_RESOURCE_EVIDENCE = 4"
| "FeasibilityReason_u8 FeasibilityReason.HARD_BUDGET_EXCEEDED = 5"
| "FeasibilityReason_u8 FeasibilityReason.SLO_CONFLICT = 6"
| "FeasibilityReason_u8 FeasibilityReason.CAPACITY_UNAVAILABLE = 7"
| "FeasibilityReason_u8 FeasibilityReason.PLACEMENT_INVALID = 8"
| "FeasibilityReason_u8 FeasibilityReason.RECOVERY_TOO_EXPENSIVE = 9"
| "FeasibilityReason_u8 FeasibilityReason.TRANSFER_TOO_EXPENSIVE = 10"
| "FeasibilityReason_u8 FeasibilityReason.ENERGY_TOO_EXPENSIVE = 11"
| "FeasibilityReason_u8 FeasibilityReason.UNKNOWN_COST_COMPONENT = 12"

primrec feasibility_reason_name :: "FeasibilityReason \<Rightarrow> string" where
  "feasibility_reason_name FeasibilityReason.NONE = ''NONE''"
| "feasibility_reason_name FeasibilityReason.MISSING_PRICE = ''MISSING_PRICE''"
| "feasibility_reason_name FeasibilityReason.STALE_PRICE = ''STALE_PRICE''"
| "feasibility_reason_name FeasibilityReason.MISSING_RESOURCE_EVIDENCE = ''MISSING_RESOURCE_EVIDENCE''"
| "feasibility_reason_name FeasibilityReason.STALE_RESOURCE_EVIDENCE = ''STALE_RESOURCE_EVIDENCE''"
| "feasibility_reason_name FeasibilityReason.HARD_BUDGET_EXCEEDED = ''HARD_BUDGET_EXCEEDED''"
| "feasibility_reason_name FeasibilityReason.SLO_CONFLICT = ''SLO_CONFLICT''"
| "feasibility_reason_name FeasibilityReason.CAPACITY_UNAVAILABLE = ''CAPACITY_UNAVAILABLE''"
| "feasibility_reason_name FeasibilityReason.PLACEMENT_INVALID = ''PLACEMENT_INVALID''"
| "feasibility_reason_name FeasibilityReason.RECOVERY_TOO_EXPENSIVE = ''RECOVERY_TOO_EXPENSIVE''"
| "feasibility_reason_name FeasibilityReason.TRANSFER_TOO_EXPENSIVE = ''TRANSFER_TOO_EXPENSIVE''"
| "feasibility_reason_name FeasibilityReason.ENERGY_TOO_EXPENSIVE = ''ENERGY_TOO_EXPENSIVE''"
| "feasibility_reason_name FeasibilityReason.UNKNOWN_COST_COMPONENT = ''UNKNOWN_COST_COMPONENT''"

record PlanEconomics =
  pe_feasible :: Feasibility
  pe_reason :: FeasibilityReason
  pe_projected :: CostBreakdown
  pe_projected_per_request :: MoneyMicros
  pe_projected_per_token :: MoneyMicros
  pe_projected_per_operation :: MoneyMicros
  pe_per_token_valid :: bool

definition PlanEconomics_default :: PlanEconomics where
  "PlanEconomics_default =
    \<lparr>pe_feasible = Feasibility.UNKNOWN, pe_reason = FeasibilityReason.NONE,
     pe_projected = CostBreakdown_default, pe_projected_per_request = MoneyMicros 0,
     pe_projected_per_token = MoneyMicros 0, pe_projected_per_operation = MoneyMicros 0,
     pe_per_token_valid = False\<rparr>"

end
