(* ===== verification/Decisions.thy ===== *)
theory Decisions
  imports Plans
begin

text \<open>
  Authority snapshots, decisions, explanations and interventions
  (\<^verbatim>\<open>include/costgovernor/decision.hpp\<close>).
\<close>

record AuthorityContext =
  ctx_epoch :: CoordinatorEpoch
  ctx_policy_generation :: CostPolicyGeneration
  ctx_price_generation :: PriceScheduleGeneration
  ctx_evidence_generation :: EvidenceGeneration
  ctx_plan_generation :: PlanGeneration
  ctx_workload_generation :: WorkloadGeneration
  ctx_worker :: WorkerId
  ctx_boot :: WorkerBootId
  ctx_resource_generation :: ResourceGeneration
  ctx_placement_generation :: PlacementGeneration
  ctx_recovery_generation :: RecoveryGeneration
  ctx_budget_generation :: BudgetGeneration
  ctx_intervention_generation :: InterventionGeneration

definition AuthorityContext_default :: AuthorityContext where
  "AuthorityContext_default =
    \<lparr>ctx_epoch = Id_none, ctx_policy_generation = Id_none, ctx_price_generation = Id_none,
     ctx_evidence_generation = Id_none, ctx_plan_generation = Id_none,
     ctx_workload_generation = Id_none, ctx_worker = Id_none, ctx_boot = Id_none,
     ctx_resource_generation = Id_none, ctx_placement_generation = Id_none,
     ctx_recovery_generation = Id_none, ctx_budget_generation = Id_none,
     ctx_intervention_generation = Id_none\<rparr>"

definition jurisdiction_changed :: "AuthorityContext \<Rightarrow> AuthorityContext \<Rightarrow> bool" where
  "jurisdiction_changed a b \<longleftrightarrow>
    \<not> (ctx_epoch a = ctx_epoch b \<and> ctx_policy_generation a = ctx_policy_generation b \<and>
       ctx_price_generation a = ctx_price_generation b \<and>
       ctx_evidence_generation a = ctx_evidence_generation b \<and>
       ctx_plan_generation a = ctx_plan_generation b \<and>
       ctx_workload_generation a = ctx_workload_generation b \<and>
       ctx_worker a = ctx_worker b \<and> ctx_boot a = ctx_boot b \<and>
       ctx_resource_generation a = ctx_resource_generation b \<and>
       ctx_placement_generation a = ctx_placement_generation b \<and>
       ctx_recovery_generation a = ctx_recovery_generation b \<and>
       ctx_budget_generation a = ctx_budget_generation b)"

datatype CostState =
    WITHIN_BUDGET | NEAR_BUDGET | AT_RISK | OVER_SOFT_BUDGET | OVER_HARD_BUDGET
    | REVALIDATION_REQUIRED | INSUFFICIENT_EVIDENCE | UNKNOWN

primrec CostState_u8 :: "CostState \<Rightarrow> u8" where
  "CostState_u8 CostState.WITHIN_BUDGET = 0"
| "CostState_u8 CostState.NEAR_BUDGET = 1"
| "CostState_u8 CostState.AT_RISK = 2"
| "CostState_u8 CostState.OVER_SOFT_BUDGET = 3"
| "CostState_u8 CostState.OVER_HARD_BUDGET = 4"
| "CostState_u8 CostState.REVALIDATION_REQUIRED = 5"
| "CostState_u8 CostState.INSUFFICIENT_EVIDENCE = 6"
| "CostState_u8 CostState.UNKNOWN = 7"

primrec cost_state_name :: "CostState \<Rightarrow> string" where
  "cost_state_name CostState.WITHIN_BUDGET = ''WITHIN_BUDGET''"
| "cost_state_name CostState.NEAR_BUDGET = ''NEAR_BUDGET''"
| "cost_state_name CostState.AT_RISK = ''AT_RISK''"
| "cost_state_name CostState.OVER_SOFT_BUDGET = ''OVER_SOFT_BUDGET''"
| "cost_state_name CostState.OVER_HARD_BUDGET = ''OVER_HARD_BUDGET''"
| "cost_state_name CostState.REVALIDATION_REQUIRED = ''REVALIDATION_REQUIRED''"
| "cost_state_name CostState.INSUFFICIENT_EVIDENCE = ''INSUFFICIENT_EVIDENCE''"
| "cost_state_name CostState.UNKNOWN = ''UNKNOWN''"

datatype DecisionKind =
    AUTHORIZE | REJECT | DEFER | REVALIDATE | NO_FEASIBLE_PLAN

primrec DecisionKind_u8 :: "DecisionKind \<Rightarrow> u8" where
  "DecisionKind_u8 DecisionKind.AUTHORIZE = 0"
| "DecisionKind_u8 DecisionKind.REJECT = 1"
| "DecisionKind_u8 DecisionKind.DEFER = 2"
| "DecisionKind_u8 DecisionKind.REVALIDATE = 3"
| "DecisionKind_u8 DecisionKind.NO_FEASIBLE_PLAN = 4"

primrec decision_kind_name :: "DecisionKind \<Rightarrow> string" where
  "decision_kind_name DecisionKind.AUTHORIZE = ''AUTHORIZE''"
| "decision_kind_name DecisionKind.REJECT = ''REJECT''"
| "decision_kind_name DecisionKind.DEFER = ''DEFER''"
| "decision_kind_name DecisionKind.REVALIDATE = ''REVALIDATE''"
| "decision_kind_name DecisionKind.NO_FEASIBLE_PLAN = ''NO_FEASIBLE_PLAN''"

record Alt =
  alt_name :: string
  alt_applicable :: bool
  alt_feasible :: Feasibility
  alt_projected_cost :: MoneyMicros
  alt_delta :: MoneyMicros

definition Alt_default :: Alt where
  "Alt_default = \<lparr>alt_name = [], alt_applicable = False, alt_feasible = Feasibility.UNKNOWN,
    alt_projected_cost = MoneyMicros 0, alt_delta = MoneyMicros 0\<rparr>"

record CostExplanation =
  ex_objective :: string
  ex_currency :: string
  ex_projected :: CostBreakdown
  ex_realized :: CostBreakdown
  ex_prices_used :: "PriceObservation list"
  ex_evidence_age_ms :: i64
  ex_label :: DataLabel
  ex_candidate_set :: "PlanId list"
  ex_rejected :: "PlanId list"
  ex_binding_constraint :: FeasibilityReason
  ex_selected :: PlanId
  ex_tie_break_note :: string
  ex_uncertainty_percent :: i64
  ex_what_would_change :: "Alt list"
  ex_authority :: AuthorityContext

definition CostExplanation_default :: CostExplanation where
  "CostExplanation_default =
    \<lparr>ex_objective = [], ex_currency = kDefaultCurrency, ex_projected = CostBreakdown_default,
     ex_realized = CostBreakdown_default, ex_prices_used = [], ex_evidence_age_ms = 0,
     ex_label = DataLabel.POLICY, ex_candidate_set = [], ex_rejected = [],
     ex_binding_constraint = FeasibilityReason.NONE, ex_selected = Id_none,
     ex_tie_break_note = [], ex_uncertainty_percent = 0, ex_what_would_change = [],
     ex_authority = AuthorityContext_default\<rparr>"

record CostDecision =
  d_kind :: DecisionKind
  d_selected_plan :: PlanId
  d_plan_generation :: PlanGeneration
  d_rejected_plans :: "PlanId list"
  d_binding_constraint :: FeasibilityReason
  d_projected :: CostBreakdown
  d_realized :: CostBreakdown
  d_remaining_budget :: MoneyMicros
  d_state :: CostState
  d_authority :: AuthorityContext
  d_explanation :: CostExplanation
  d_status :: Status
  d_detail :: string

definition CostDecision_default :: CostDecision where
  "CostDecision_default =
    \<lparr>d_kind = DecisionKind.NO_FEASIBLE_PLAN, d_selected_plan = Id_none,
     d_plan_generation = Id_none, d_rejected_plans = [],
     d_binding_constraint = FeasibilityReason.NONE, d_projected = CostBreakdown_default,
     d_realized = CostBreakdown_default, d_remaining_budget = MoneyMicros 0,
     d_state = CostState.UNKNOWN, d_authority = AuthorityContext_default,
     d_explanation = CostExplanation_default, d_status = Status.OK, d_detail = []\<rparr>"

section \<open>Interventions\<close>

datatype InterventionKind =
    NO_ACTION | SELECT_CHEAPER_PLAN | REPLAN | DEFER | REJECT | STOP_IF_SAFE | REDUCE_BATCH
    | CHANGE_PLACEMENT | CHANGE_ACCELERATOR_CLASS | PREFER_LOCAL_STATE | AVOID_TRANSFER
    | REUSE_WARM_STATE | EVICT_IDLE_STATE | RELEASE_RESERVATION | PREEMPT_LOWER_VALUE_WORK
    | REQUEST_CHEAPER_RECOVERY | SHED_LOW_VALUE_WORK | ESCALATE_BUDGET
    | MANUAL_INTERVENTION_REQUIRED | raw_InterventionKind u8

primrec InterventionKind_u8 :: "InterventionKind \<Rightarrow> u8" where
  "InterventionKind_u8 InterventionKind.NO_ACTION = 0"
| "InterventionKind_u8 InterventionKind.SELECT_CHEAPER_PLAN = 1"
| "InterventionKind_u8 InterventionKind.REPLAN = 2"
| "InterventionKind_u8 InterventionKind.DEFER = 3"
| "InterventionKind_u8 InterventionKind.REJECT = 4"
| "InterventionKind_u8 InterventionKind.STOP_IF_SAFE = 5"
| "InterventionKind_u8 InterventionKind.REDUCE_BATCH = 6"
| "InterventionKind_u8 InterventionKind.CHANGE_PLACEMENT = 7"
| "InterventionKind_u8 InterventionKind.CHANGE_ACCELERATOR_CLASS = 8"
| "InterventionKind_u8 InterventionKind.PREFER_LOCAL_STATE = 9"
| "InterventionKind_u8 InterventionKind.AVOID_TRANSFER = 10"
| "InterventionKind_u8 InterventionKind.REUSE_WARM_STATE = 11"
| "InterventionKind_u8 InterventionKind.EVICT_IDLE_STATE = 12"
| "InterventionKind_u8 InterventionKind.RELEASE_RESERVATION = 13"
| "InterventionKind_u8 InterventionKind.PREEMPT_LOWER_VALUE_WORK = 14"
| "InterventionKind_u8 InterventionKind.REQUEST_CHEAPER_RECOVERY = 15"
| "InterventionKind_u8 InterventionKind.SHED_LOW_VALUE_WORK = 16"
| "InterventionKind_u8 InterventionKind.ESCALATE_BUDGET = 17"
| "InterventionKind_u8 InterventionKind.MANUAL_INTERVENTION_REQUIRED = 18"
| "InterventionKind_u8 (raw_InterventionKind b) = b"

definition InterventionKind_enumerators :: "InterventionKind list" where
  "InterventionKind_enumerators =
    [InterventionKind.NO_ACTION, InterventionKind.SELECT_CHEAPER_PLAN
     , InterventionKind.REPLAN, InterventionKind.DEFER, InterventionKind.REJECT
     , InterventionKind.STOP_IF_SAFE, InterventionKind.REDUCE_BATCH
     , InterventionKind.CHANGE_PLACEMENT, InterventionKind.CHANGE_ACCELERATOR_CLASS
     , InterventionKind.PREFER_LOCAL_STATE, InterventionKind.AVOID_TRANSFER
     , InterventionKind.REUSE_WARM_STATE, InterventionKind.EVICT_IDLE_STATE
     , InterventionKind.RELEASE_RESERVATION, InterventionKind.PREEMPT_LOWER_VALUE_WORK
     , InterventionKind.REQUEST_CHEAPER_RECOVERY, InterventionKind.SHED_LOW_VALUE_WORK
     , InterventionKind.ESCALATE_BUDGET, InterventionKind.MANUAL_INTERVENTION_REQUIRED]"

definition InterventionKind_of_u8 :: "u8 \<Rightarrow> InterventionKind" where
  "InterventionKind_of_u8 = enum_cast InterventionKind_enumerators raw_InterventionKind"

definition InterventionKind_wf :: "InterventionKind \<Rightarrow> bool" where
  "InterventionKind_wf = enum_wf InterventionKind_enumerators raw_InterventionKind"

primrec intervention_kind_name :: "InterventionKind \<Rightarrow> string" where
  "intervention_kind_name InterventionKind.NO_ACTION = ''NO_ACTION''"
| "intervention_kind_name InterventionKind.SELECT_CHEAPER_PLAN = ''SELECT_CHEAPER_PLAN''"
| "intervention_kind_name InterventionKind.REPLAN = ''REPLAN''"
| "intervention_kind_name InterventionKind.DEFER = ''DEFER''"
| "intervention_kind_name InterventionKind.REJECT = ''REJECT''"
| "intervention_kind_name InterventionKind.STOP_IF_SAFE = ''STOP_IF_SAFE''"
| "intervention_kind_name InterventionKind.REDUCE_BATCH = ''REDUCE_BATCH''"
| "intervention_kind_name InterventionKind.CHANGE_PLACEMENT = ''CHANGE_PLACEMENT''"
| "intervention_kind_name InterventionKind.CHANGE_ACCELERATOR_CLASS = ''CHANGE_ACCELERATOR_CLASS''"
| "intervention_kind_name InterventionKind.PREFER_LOCAL_STATE = ''PREFER_LOCAL_STATE''"
| "intervention_kind_name InterventionKind.AVOID_TRANSFER = ''AVOID_TRANSFER''"
| "intervention_kind_name InterventionKind.REUSE_WARM_STATE = ''REUSE_WARM_STATE''"
| "intervention_kind_name InterventionKind.EVICT_IDLE_STATE = ''EVICT_IDLE_STATE''"
| "intervention_kind_name InterventionKind.RELEASE_RESERVATION = ''RELEASE_RESERVATION''"
| "intervention_kind_name InterventionKind.PREEMPT_LOWER_VALUE_WORK = ''PREEMPT_LOWER_VALUE_WORK''"
| "intervention_kind_name InterventionKind.REQUEST_CHEAPER_RECOVERY = ''REQUEST_CHEAPER_RECOVERY''"
| "intervention_kind_name InterventionKind.SHED_LOW_VALUE_WORK = ''SHED_LOW_VALUE_WORK''"
| "intervention_kind_name InterventionKind.ESCALATE_BUDGET = ''ESCALATE_BUDGET''"
| "intervention_kind_name InterventionKind.MANUAL_INTERVENTION_REQUIRED = ''MANUAL_INTERVENTION_REQUIRED''"
| "intervention_kind_name (raw_InterventionKind b) = ''UNKNOWN''"

interpretation InterventionKind_cast: enum_class InterventionKind_u8 InterventionKind_enumerators raw_InterventionKind
  by unfold_locales (simp_all add: InterventionKind_enumerators_def)

lemma InterventionKind_codec [codec_rules]: "InterventionKind_wf e \<Longrightarrow> InterventionKind_of_u8 (InterventionKind_u8 e) = e"
  by (simp add: InterventionKind_of_u8_def InterventionKind_wf_def InterventionKind_cast.of_to)

datatype InterventionLifecycle =
    PROPOSED | AUTHORIZED | DISPATCHED | ACKNOWLEDGED | EFFECTIVE | INEFFECTIVE | FAILED
    | CANCELLED | SUPERSEDED | EXPIRED | OUTCOME_UNKNOWN | raw_InterventionLifecycle u8

primrec InterventionLifecycle_u8 :: "InterventionLifecycle \<Rightarrow> u8" where
  "InterventionLifecycle_u8 InterventionLifecycle.PROPOSED = 0"
| "InterventionLifecycle_u8 InterventionLifecycle.AUTHORIZED = 1"
| "InterventionLifecycle_u8 InterventionLifecycle.DISPATCHED = 2"
| "InterventionLifecycle_u8 InterventionLifecycle.ACKNOWLEDGED = 3"
| "InterventionLifecycle_u8 InterventionLifecycle.EFFECTIVE = 4"
| "InterventionLifecycle_u8 InterventionLifecycle.INEFFECTIVE = 5"
| "InterventionLifecycle_u8 InterventionLifecycle.FAILED = 6"
| "InterventionLifecycle_u8 InterventionLifecycle.CANCELLED = 7"
| "InterventionLifecycle_u8 InterventionLifecycle.SUPERSEDED = 8"
| "InterventionLifecycle_u8 InterventionLifecycle.EXPIRED = 9"
| "InterventionLifecycle_u8 InterventionLifecycle.OUTCOME_UNKNOWN = 10"
| "InterventionLifecycle_u8 (raw_InterventionLifecycle b) = b"

definition InterventionLifecycle_enumerators :: "InterventionLifecycle list" where
  "InterventionLifecycle_enumerators =
    [InterventionLifecycle.PROPOSED, InterventionLifecycle.AUTHORIZED
     , InterventionLifecycle.DISPATCHED, InterventionLifecycle.ACKNOWLEDGED
     , InterventionLifecycle.EFFECTIVE, InterventionLifecycle.INEFFECTIVE
     , InterventionLifecycle.FAILED, InterventionLifecycle.CANCELLED
     , InterventionLifecycle.SUPERSEDED, InterventionLifecycle.EXPIRED
     , InterventionLifecycle.OUTCOME_UNKNOWN]"

definition InterventionLifecycle_of_u8 :: "u8 \<Rightarrow> InterventionLifecycle" where
  "InterventionLifecycle_of_u8 = enum_cast InterventionLifecycle_enumerators raw_InterventionLifecycle"

definition InterventionLifecycle_wf :: "InterventionLifecycle \<Rightarrow> bool" where
  "InterventionLifecycle_wf = enum_wf InterventionLifecycle_enumerators raw_InterventionLifecycle"

primrec intervention_lifecycle_name :: "InterventionLifecycle \<Rightarrow> string" where
  "intervention_lifecycle_name InterventionLifecycle.PROPOSED = ''PROPOSED''"
| "intervention_lifecycle_name InterventionLifecycle.AUTHORIZED = ''AUTHORIZED''"
| "intervention_lifecycle_name InterventionLifecycle.DISPATCHED = ''DISPATCHED''"
| "intervention_lifecycle_name InterventionLifecycle.ACKNOWLEDGED = ''ACKNOWLEDGED''"
| "intervention_lifecycle_name InterventionLifecycle.EFFECTIVE = ''EFFECTIVE''"
| "intervention_lifecycle_name InterventionLifecycle.INEFFECTIVE = ''INEFFECTIVE''"
| "intervention_lifecycle_name InterventionLifecycle.FAILED = ''FAILED''"
| "intervention_lifecycle_name InterventionLifecycle.CANCELLED = ''CANCELLED''"
| "intervention_lifecycle_name InterventionLifecycle.SUPERSEDED = ''SUPERSEDED''"
| "intervention_lifecycle_name InterventionLifecycle.EXPIRED = ''EXPIRED''"
| "intervention_lifecycle_name InterventionLifecycle.OUTCOME_UNKNOWN = ''OUTCOME_UNKNOWN''"
| "intervention_lifecycle_name (raw_InterventionLifecycle b) = ''UNKNOWN''"

interpretation InterventionLifecycle_cast: enum_class InterventionLifecycle_u8 InterventionLifecycle_enumerators raw_InterventionLifecycle
  by unfold_locales (simp_all add: InterventionLifecycle_enumerators_def)

lemma InterventionLifecycle_codec [codec_rules]: "InterventionLifecycle_wf e \<Longrightarrow> InterventionLifecycle_of_u8 (InterventionLifecycle_u8 e) = e"
  by (simp add: InterventionLifecycle_of_u8_def InterventionLifecycle_wf_def InterventionLifecycle_cast.of_to)

record CostIntervention =
  ci_id :: InterventionId
  ci_generation :: InterventionGeneration
  ci_kind :: InterventionKind
  ci_lifecycle :: InterventionLifecycle
  ci_authority :: AuthorityContext
  ci_created_at_ms :: i64
  ci_dispatched_at_ms :: i64
  ci_acknowledged_at_ms :: i64
  ci_verified_at_ms :: i64
  ci_detail :: string

definition CostIntervention_default :: CostIntervention where
  "CostIntervention_default =
    \<lparr>ci_id = Id_none, ci_generation = Id_none, ci_kind = InterventionKind.NO_ACTION,
     ci_lifecycle = InterventionLifecycle.PROPOSED, ci_authority = AuthorityContext_default,
     ci_created_at_ms = 0, ci_dispatched_at_ms = 0, ci_acknowledged_at_ms = 0,
     ci_verified_at_ms = 0, ci_detail = []\<rparr>"

datatype VerificationOutcome =
    EFFECTIVE | PARTIALLY_EFFECTIVE | INEFFECTIVE | WORSE | CREATED_SECONDARY_VIOLATION
    | INSUFFICIENT_POST_ACTION_EVIDENCE | OUTCOME_UNKNOWN

primrec VerificationOutcome_u8 :: "VerificationOutcome \<Rightarrow> u8" where
  "VerificationOutcome_u8 VerificationOutcome.EFFECTIVE = 0"
| "VerificationOutcome_u8 VerificationOutcome.PARTIALLY_EFFECTIVE = 1"
| "VerificationOutcome_u8 VerificationOutcome.INEFFECTIVE = 2"
| "VerificationOutcome_u8 VerificationOutcome.WORSE = 3"
| "VerificationOutcome_u8 VerificationOutcome.CREATED_SECONDARY_VIOLATION = 4"
| "VerificationOutcome_u8 VerificationOutcome.INSUFFICIENT_POST_ACTION_EVIDENCE = 5"
| "VerificationOutcome_u8 VerificationOutcome.OUTCOME_UNKNOWN = 6"

primrec verification_outcome_name :: "VerificationOutcome \<Rightarrow> string" where
  "verification_outcome_name VerificationOutcome.EFFECTIVE = ''EFFECTIVE''"
| "verification_outcome_name VerificationOutcome.PARTIALLY_EFFECTIVE = ''PARTIALLY_EFFECTIVE''"
| "verification_outcome_name VerificationOutcome.INEFFECTIVE = ''INEFFECTIVE''"
| "verification_outcome_name VerificationOutcome.WORSE = ''WORSE''"
| "verification_outcome_name VerificationOutcome.CREATED_SECONDARY_VIOLATION = ''CREATED_SECONDARY_VIOLATION''"
| "verification_outcome_name VerificationOutcome.INSUFFICIENT_POST_ACTION_EVIDENCE = ''INSUFFICIENT_POST_ACTION_EVIDENCE''"
| "verification_outcome_name VerificationOutcome.OUTCOME_UNKNOWN = ''OUTCOME_UNKNOWN''"

end
