(* ===== verification/Governor.thy ===== *)
theory Governor
  imports Containers Budgets Decisions
begin

text \<open>
  The state of the governor (\<^verbatim>\<open>CostGovernor::Impl\<close> of \<^verbatim>\<open>src/governor.cpp\<close>) and the operations that
  configure it, take in evidence and answer queries. Every public operation holds the one mutex of
  the state from its first to its last access, so an operation is a function on the state and a
  concurrent execution is a sequence of operations.
\<close>

section \<open>State\<close>

record HistoryEntry =
  h_request :: RequestId
  h_workload :: WorkloadId
  h_completed_at_ms :: i64
  h_realized_cost :: MoneyMicros
  h_attempts :: i64
  h_tokens :: i64

text \<open>
  The clock and the mutex of the source have no field here; the state store is the path it was made
  for, if one was set.
\<close>

record Impl =
  g_policy :: CostPolicy
  g_schedule :: PriceSchedule
  g_epoch :: CoordinatorEpoch
  g_worker_boots :: "(WorkerId \<times> WorkerBootId) list"
  g_revalidation_needed :: bool
  g_budgets :: "BudgetId \<rightharpoonup> Budget"
  g_attempts :: "RequestId \<rightharpoonup> (AttemptId \<times> CostEvidence) list"
  g_reservations :: "BudgetId \<rightharpoonup> BudgetReservation list"
  g_history :: "HistoryEntry list"
  g_interventions :: "InterventionId \<rightharpoonup> CostIntervention"
  g_next_reservation :: u64
  g_next_intervention :: u64
  g_store :: "string option"

definition Impl_init :: Impl where
  "Impl_init =
    \<lparr>g_policy = CostPolicy_default\<lparr>pol_id := mk_Id 1, pol_generation := mk_Id 1, pol_epoch := mk_Id 1\<rparr>,
     g_schedule = PriceSchedule_default, g_epoch = mk_Id 1, g_worker_boots = [],
     g_revalidation_needed = False, g_budgets = Map.empty, g_attempts = Map.empty,
     g_reservations = Map.empty, g_history = [], g_interventions = Map.empty,
     g_next_reservation = 1, g_next_intervention = 1, g_store = None\<rparr>"

definition set_state_path :: "string \<Rightarrow> Impl \<Rightarrow> Impl" where
  "set_state_path path g = g\<lparr>g_store := Some path\<rparr>"

section \<open>Configuration and authority\<close>

definition set_policy :: "CostPolicy \<Rightarrow> Impl \<Rightarrow> Impl" where
  "set_policy p g =
    g\<lparr>g_policy := p\<lparr>pol_epoch := pol_epoch p\<rparr>, g_epoch := pol_epoch p, g_revalidation_needed := True\<rparr>"

definition set_price_schedule :: "PriceSchedule \<Rightarrow> Impl \<Rightarrow> Impl" where
  "set_price_schedule s g = g\<lparr>g_schedule := s, g_revalidation_needed := False\<rparr>"

definition create_budget :: "Budget \<Rightarrow> Impl \<Rightarrow> Status \<times> Impl" where
  "create_budget budget g =
    (if money_negative (b_limit budget) then (Status.INVALID_INPUT, g)
     else if b_currency budget \<noteq> pol_currency (g_policy g) then (Status.CURRENCY_MISMATCH, g)
     else if b_epoch budget \<noteq> g_epoch g then (Status.STALE_AUTHORITY, g)
     else if b_policy_generation budget \<noteq> pol_generation (g_policy g) then (Status.STALE_AUTHORITY, g)
     else if g_budgets g (b_id budget) \<noteq> None then (Status.INVALID_INPUT, g)
     else let b = budget\<lparr>b_lifecycle := BudgetLifecycle.ACTIVE\<rparr>
       in (Status.OK, g\<lparr>g_budgets := umap_emplace (b_id b) b (g_budgets g)\<rparr>))"

definition advance_epoch :: "Impl \<Rightarrow> Impl" where
  "advance_epoch g = g\<lparr>g_epoch := Id_next (g_epoch g), g_revalidation_needed := True\<rparr>"

definition set_worker_boot :: "WorkerId \<Rightarrow> WorkerBootId \<Rightarrow> Impl \<Rightarrow> Impl" where
  "set_worker_boot worker boot g = g\<lparr>g_worker_boots := smap_put worker boot (g_worker_boots g)\<rparr>"

definition current_boot_for :: "Impl \<Rightarrow> WorkerId \<Rightarrow> WorkerBootId" where
  "current_boot_for g worker =
    (case smap_find (g_worker_boots g) worker of None \<Rightarrow> Id_none | Some boot \<Rightarrow> boot)"

definition worker_boot :: "Impl \<Rightarrow> WorkerId \<Rightarrow> WorkerBootId" where
  "worker_boot g worker = current_boot_for g worker"

section \<open>Price evidence\<close>

text \<open>
  The loop over the observations of the schedule: replace the first one with the id of the new
  one; \<^term>\<open>None\<close> when there is none.
\<close>

fun replace_observation :: "PriceObservation \<Rightarrow> PriceObservation list \<Rightarrow> PriceObservation list option" where
  "replace_observation obs [] = None"
| "replace_observation obs (x # xs) =
    (if po_id x = po_id obs then Some (obs # xs) else map_option (Cons x) (replace_observation obs xs))"

definition publish_price :: "PriceObservation \<Rightarrow> Impl \<Rightarrow> Status \<times> Impl" where
  "publish_price obs g =
    (if po_epoch obs \<noteq> g_epoch g then (Status.STALE_AUTHORITY, g)
     else if Id_valid (po_boot obs) \<and> po_boot obs \<noteq> current_boot_for g (po_worker obs)
       then (Status.STALE_AUTHORITY, g)
     else if \<not> valid_currency obs (pol_currency (g_policy g)) then (Status.CURRENCY_MISMATCH, g)
     else if money_negative (po_amount obs) then (Status.INVALID_INPUT, g)
     else let s = g_schedule g;
              xs = (case replace_observation obs (ps_observations s) of
                      Some xs \<Rightarrow> xs | None \<Rightarrow> ps_observations s @ [obs])
       in (Status.OK,
           g\<lparr>g_schedule := s\<lparr>ps_observations := xs, ps_generation := Id_next (ps_generation s)\<rparr>,
             g_revalidation_needed := False\<rparr>))"

section \<open>Attempts\<close>

definition evidence_negative :: "CostEvidence \<Rightarrow> bool" where
  "evidence_negative ev \<longleftrightarrow>
    count (ev_accelerator_time ev) <s 0 \<or> count (ev_energy ev) <s 0 \<or> count (ev_transfer ev) <s 0 \<or>
    count (ev_memory_hold ev) <s 0 \<or> count (ev_residency_hold ev) <s 0 \<or>
    count (ev_storage_bytes ev) <s 0 \<or> ev_recompute_ns ev <s 0 \<or> ev_tokens ev <s 0 \<or>
    ev_operations ev <s 0"

definition record_attempt :: "CostEvidence \<Rightarrow> Impl \<Rightarrow> Status \<times> Impl" where
  "record_attempt ev g =
    (if ev_epoch ev \<noteq> g_epoch g then (Status.STALE_AUTHORITY, g)
     else if ev_boot ev \<noteq> current_boot_for g (ev_worker ev) then (Status.STALE_AUTHORITY, g)
     else if ev_label ev = DataLabel.UNSUPPORTED then (Status.INVALID_INPUT, g)
     else if evidence_negative ev then (Status.INVALID_INPUT, g)
     else let req = (case g_attempts g (ev_request ev) of None \<Rightarrow> [] | Some m \<Rightarrow> m);
              store = (\<lambda>m. g\<lparr>g_attempts := (g_attempts g)(ev_request ev \<mapsto> m)\<rparr>)
       in case smap_find req (ev_attempt ev) of
            Some old \<Rightarrow>
              if ev_attempt_gen old = ev_attempt_gen ev then (Status.INVALID_INPUT, store req)
              else (Status.OK, store (smap_put (ev_attempt ev) ev req))
          | None \<Rightarrow> (Status.OK, store (smap_emplace (ev_attempt ev) ev req)))"

definition attempts :: "Impl \<Rightarrow> RequestId \<Rightarrow> CostEvidence list" where
  "attempts g request = (case g_attempts g request of None \<Rightarrow> [] | Some m \<Rightarrow> map snd m)"

definition realized_request_cost :: "Clock \<Rightarrow> Impl \<Rightarrow> RequestId \<Rightarrow> exn + MoneyMicros" where
  "realized_request_cost clk g request =
    (case g_attempts g request of
       None \<Rightarrow> Inr (MoneyMicros 0)
     | Some m \<Rightarrow>
         bindE (project (g_schedule g) (map snd m) (pol_currency (g_policy g)) (clk 0)) (\<lambda>bd.
         Inr (bd_total bd)))"

definition finalize_request :: "Clock \<Rightarrow> RequestId \<Rightarrow> WorkloadId \<Rightarrow> Impl \<Rightarrow> (exn + Status) \<times> Impl" where
  "finalize_request clk request workload g =
    (if \<exists>h\<in>set (g_history g). h_request h = request then (Inr Status.OK, g)
     else case g_attempts g request of
       None \<Rightarrow> (Inr Status.INVALID_INPUT, g)
     | Some m \<Rightarrow>
         let evs = map snd m
         in case project (g_schedule g) evs (pol_currency (g_policy g)) (clk 0) of
              Inl e \<Rightarrow> (Inl e, g)
            | Inr bd \<Rightarrow>
                let h = \<lparr>h_request = request, h_workload = workload, h_completed_at_ms = clk 1,
                         h_realized_cost = bd_total bd, h_attempts = of_nat (length evs), h_tokens = 0\<rparr>
                in (Inr Status.OK, g\<lparr>g_history := g_history g @ [h]\<rparr>))"

section \<open>Queries\<close>

definition budgets :: "BudgetId list \<Rightarrow> Impl \<Rightarrow> Budget list" where
  "budgets order g = umap_values (g_budgets g) order"

definition find_budget :: "Impl \<Rightarrow> BudgetId \<Rightarrow> Budget option" where
  "find_budget g i = g_budgets g i"

definition history :: "Impl \<Rightarrow> HistoryEntry list" where
  "history g = g_history g"

end
