(* ===== verification/Snapshot.thy ===== *)
theory Snapshot
  imports Crc32 Governor
begin

text \<open>
  The snapshot format (\<^verbatim>\<open>persistence.hpp\<close>, \<^verbatim>\<open>persistence.cpp\<close>): the durable part of the state, the
  byte layout of its records, and the checked header around it.
\<close>

section \<open>Durable data\<close>

record InterventionEntry =
  ie_id :: InterventionId
  ie_kind :: InterventionKind
  ie_lifecycle :: InterventionLifecycle
  ie_generation :: InterventionGeneration
  ie_created_at_ms :: i64

record DurableSnapshot =
  snap_epoch :: CoordinatorEpoch
  snap_policy :: CostPolicy
  snap_price_schedule :: PriceSchedule
  snap_budgets :: "Budget list"
  snap_history :: "HistoryEntry list"
  snap_interventions :: "InterventionEntry list"

section \<open>Records\<close>

definition write_budget :: "Budget \<Rightarrow> exn + bytes" where
  "write_budget b = bindE (Writer_str snapshot_stream (b_currency b)) (\<lambda>currency. Inr
    (write_id (b_id b) @ write_id (b_generation b) @ write_id (b_policy_generation b) @ write_id (b_epoch b) @
     currency @ Writer_u8 (BudgetMode_u8 (b_mode b)) @ Writer_u8 (BudgetObjective_u8 (b_objective b)) @
     Writer_i64 (total_micros (b_limit b)) @ Writer_u8 (BudgetLifecycle_u8 (b_lifecycle b)) @
     Writer_i64 (total_micros (b_reserved b)) @ Writer_i64 (total_micros (b_consumed b)) @
     Writer_i64 (total_micros (b_released b)) @
     Writer_i64 (b_created_at_ms b) @ Writer_i64 (b_expires_at_ms b) @ Writer_u8 (DataLabel_u8 (b_label b))))"

definition read_budget :: "Budget reader" where
  "read_budget =
    bindR (read_id snapshot_stream) (\<lambda>id. bindR (read_id snapshot_stream) (\<lambda>generation.
    bindR (read_id snapshot_stream) (\<lambda>policy_generation. bindR (read_id snapshot_stream) (\<lambda>epoch.
    bindR (Reader_str snapshot_stream) (\<lambda>currency. bindR (Reader_u8 snapshot_stream) (\<lambda>mode.
    bindR (Reader_u8 snapshot_stream) (\<lambda>objective.
    bindR (read_micros snapshot_stream) (\<lambda>limit. bindR (Reader_u8 snapshot_stream) (\<lambda>lifecycle.
    bindR (read_micros snapshot_stream) (\<lambda>reserved. bindR (read_micros snapshot_stream) (\<lambda>consumed.
    bindR (read_micros snapshot_stream) (\<lambda>released. bindR (Reader_i64 snapshot_stream) (\<lambda>created_at_ms.
    bindR (Reader_i64 snapshot_stream) (\<lambda>expires_at_ms.
    bindR (Reader_u8 snapshot_stream) (\<lambda>label.
    returnR \<lparr>b_id = id, b_generation = generation, b_policy_generation = policy_generation, b_epoch = epoch,
      b_currency = currency, b_mode = BudgetMode_of_u8 mode, b_objective = BudgetObjective_of_u8 objective,
      b_limit = limit, b_lifecycle = BudgetLifecycle_of_u8 lifecycle, b_reserved = reserved,
      b_consumed = consumed, b_released = released, b_created_at_ms = created_at_ms,
      b_expires_at_ms = expires_at_ms, b_label = DataLabel_of_u8 label\<rparr>)))))))))))))))"

text \<open>Both codecs write a price observation in the same layout.\<close>

definition write_obs :: "Stream \<Rightarrow> PriceObservation \<Rightarrow> exn + bytes" where
  "write_obs st p = bindE (Writer_str st (po_currency p)) (\<lambda>currency. Inr
    (write_id (po_id p) @ Writer_u8 (PriceKind_u8 (po_kind p)) @
     write_id (po_resource_scope p) @ write_id (po_device p) @ Writer_i64 (total_micros (po_amount p)) @
     currency @ Writer_u8 (Provenance_u8 (po_provenance p)) @ Writer_u8 (DataLabel_u8 (po_label p)) @
     Writer_i64 (po_valid_from_ms p) @ Writer_i64 (po_valid_to_ms p) @ Writer_i64 (po_observed_at_ms p) @
     write_id (po_generation p) @ write_id (po_epoch p) @ write_id (po_worker p) @ write_id (po_boot p)))"

definition read_obs :: "Stream \<Rightarrow> PriceObservation reader" where
  "read_obs st =
    bindR (read_id st) (\<lambda>id. bindR (Reader_u8 st) (\<lambda>kind.
    bindR (read_id st) (\<lambda>resource_scope. bindR (read_id st) (\<lambda>device. bindR (read_micros st) (\<lambda>amount.
    bindR (Reader_str st) (\<lambda>currency. bindR (Reader_u8 st) (\<lambda>provenance. bindR (Reader_u8 st) (\<lambda>label.
    bindR (Reader_i64 st) (\<lambda>valid_from_ms. bindR (Reader_i64 st) (\<lambda>valid_to_ms.
    bindR (Reader_i64 st) (\<lambda>observed_at_ms.
    bindR (read_id st) (\<lambda>generation. bindR (read_id st) (\<lambda>epoch.
    bindR (read_id st) (\<lambda>worker. bindR (read_id st) (\<lambda>boot.
    returnR \<lparr>po_id = id, po_kind = PriceKind_of_u8 kind, po_resource_scope = resource_scope, po_device = device,
      po_amount = amount, po_currency = currency, po_provenance = Provenance_of_u8 provenance,
      po_label = DataLabel_of_u8 label, po_valid_from_ms = valid_from_ms, po_valid_to_ms = valid_to_ms,
      po_observed_at_ms = observed_at_ms, po_generation = generation, po_epoch = epoch,
      po_worker = worker, po_boot = boot\<rparr>)))))))))))))))"

definition write_policy :: "CostPolicy \<Rightarrow> exn + bytes" where
  "write_policy p = bindE (Writer_str snapshot_stream (pol_currency p)) (\<lambda>currency. Inr
    (write_id (pol_id p) @ write_id (pol_generation p) @ write_id (pol_epoch p) @ currency @
     Writer_u8 (RankingMode_u8 (pol_ranking p)) @ Writer_i64 (pol_min_evidence_freshness_ms p) @
     Writer_i64 (pol_max_evidence_age_ms p) @
     Writer_i64 (pol_price_schedule_max_age_ms p) @ Writer_i64 (pol_max_projection_uncertainty p) @
     Writer_i64 (pol_hysteresis_ms p) @ Writer_i64 (pol_cooldown_ms p) @
     Writer_i64 (pol_near_budget_percent p) @ Writer_i64 (pol_at_risk_percent p) @
     Writer_i64 (total_micros (pol_retry_budget p)) @ Writer_i64 (total_micros (pol_recovery_budget p)) @
     Writer_bool (pol_recovery_cost_known p) @ Writer_bool (pol_allow_synthetic p) @
     Writer_bool (pol_allow_policy p) @ Writer_bool (pol_allow_measured p)))"

definition read_policy :: "CostPolicy reader" where
  "read_policy =
    bindR (read_id snapshot_stream) (\<lambda>id. bindR (read_id snapshot_stream) (\<lambda>generation.
    bindR (read_id snapshot_stream) (\<lambda>epoch.
    bindR (Reader_str snapshot_stream) (\<lambda>currency. bindR (Reader_u8 snapshot_stream) (\<lambda>ranking.
    bindR (Reader_i64 snapshot_stream) (\<lambda>min_evidence_freshness_ms.
    bindR (Reader_i64 snapshot_stream) (\<lambda>max_evidence_age_ms.
    bindR (Reader_i64 snapshot_stream) (\<lambda>price_schedule_max_age_ms.
    bindR (Reader_i64 snapshot_stream) (\<lambda>max_projection_uncertainty.
    bindR (Reader_i64 snapshot_stream) (\<lambda>hysteresis_ms. bindR (Reader_i64 snapshot_stream) (\<lambda>cooldown_ms.
    bindR (Reader_i64 snapshot_stream) (\<lambda>near_budget_percent.
    bindR (Reader_i64 snapshot_stream) (\<lambda>at_risk_percent. bindR (read_micros snapshot_stream) (\<lambda>retry_budget.
    bindR (read_micros snapshot_stream) (\<lambda>recovery_budget.
    bindR (Reader_bool snapshot_stream) (\<lambda>recovery_cost_known.
    bindR (Reader_bool snapshot_stream) (\<lambda>allow_synthetic.
    bindR (Reader_bool snapshot_stream) (\<lambda>allow_policy. bindR (Reader_bool snapshot_stream) (\<lambda>allow_measured.
    returnR \<lparr>pol_id = id, pol_generation = generation, pol_epoch = epoch, pol_currency = currency,
      pol_ranking = RankingMode_of_u8 ranking, pol_min_evidence_freshness_ms = min_evidence_freshness_ms,
      pol_max_evidence_age_ms = max_evidence_age_ms, pol_price_schedule_max_age_ms = price_schedule_max_age_ms,
      pol_max_projection_uncertainty = max_projection_uncertainty, pol_hysteresis_ms = hysteresis_ms,
      pol_cooldown_ms = cooldown_ms, pol_near_budget_percent = near_budget_percent,
      pol_at_risk_percent = at_risk_percent, pol_retry_budget = retry_budget,
      pol_recovery_budget = recovery_budget, pol_recovery_cost_known = recovery_cost_known,
      pol_allow_synthetic = allow_synthetic, pol_allow_policy = allow_policy,
      pol_allow_measured = allow_measured\<rparr>)))))))))))))))))))"

definition write_history :: "HistoryEntry \<Rightarrow> exn + bytes" where
  "write_history h = Inr (write_id (h_request h) @ write_id (h_workload h) @ Writer_i64 (h_completed_at_ms h) @
    Writer_i64 (total_micros (h_realized_cost h)) @ Writer_i64 (h_attempts h) @ Writer_i64 (h_tokens h))"

definition read_history :: "HistoryEntry reader" where
  "read_history =
    bindR (read_id snapshot_stream) (\<lambda>request. bindR (read_id snapshot_stream) (\<lambda>workload.
    bindR (Reader_i64 snapshot_stream) (\<lambda>completed_at_ms. bindR (read_micros snapshot_stream) (\<lambda>realized_cost.
    bindR (Reader_i64 snapshot_stream) (\<lambda>attempts. bindR (Reader_i64 snapshot_stream) (\<lambda>tokens.
    returnR \<lparr>h_request = request, h_workload = workload, h_completed_at_ms = completed_at_ms,
      h_realized_cost = realized_cost, h_attempts = attempts, h_tokens = tokens\<rparr>))))))"

definition write_interv :: "InterventionEntry \<Rightarrow> exn + bytes" where
  "write_interv i = Inr (write_id (ie_id i) @ Writer_u8 (InterventionKind_u8 (ie_kind i)) @
    Writer_u8 (InterventionLifecycle_u8 (ie_lifecycle i)) @ write_id (ie_generation i) @
    Writer_i64 (ie_created_at_ms i))"

definition read_interv :: "InterventionEntry reader" where
  "read_interv =
    bindR (read_id snapshot_stream) (\<lambda>id. bindR (Reader_u8 snapshot_stream) (\<lambda>kind.
    bindR (Reader_u8 snapshot_stream) (\<lambda>lifecycle.
    bindR (read_id snapshot_stream) (\<lambda>generation. bindR (Reader_i64 snapshot_stream) (\<lambda>created_at_ms.
    returnR \<lparr>ie_id = id, ie_kind = InterventionKind_of_u8 kind,
      ie_lifecycle = InterventionLifecycle_of_u8 lifecycle, ie_generation = generation,
      ie_created_at_ms = created_at_ms\<rparr>)))))"

section \<open>The snapshot\<close>

definition kMagic :: bytes where
  "kMagic = map char_byte ''CGSNAP01''"

definition kVersion :: u32 where
  "kVersion = 2"

text \<open>A counted sequence.\<close>

definition write_counted :: "('a \<Rightarrow> exn + bytes) \<Rightarrow> 'a list \<Rightarrow> exn + bytes" where
  "write_counted w xs = bindE (write_all w xs) (\<lambda>bs. Inr (Writer_u32 (of_nat (length xs)) @ bs))"

definition read_counted :: "string \<Rightarrow> 'a reader \<Rightarrow> 'a list reader" where
  "read_counted too_many r = bindR (Reader_u32 snapshot_stream) (\<lambda>n.
    if 1000000 < unat n then throwR (StatusError Status.PERSISTENCE_CORRUPT too_many)
    else read_n r (unat n))"

definition write_payload :: "DurableSnapshot \<Rightarrow> exn + bytes" where
  "write_payload s =
    bindE (write_policy (snap_policy s)) (\<lambda>policy.
    bindE (write_counted (write_obs snapshot_stream) (ps_observations (snap_price_schedule s))) (\<lambda>observations.
    bindE (write_counted write_budget (snap_budgets s)) (\<lambda>budgets.
    bindE (write_counted write_history (snap_history s)) (\<lambda>history.
    bindE (write_counted write_interv (snap_interventions s)) (\<lambda>interventions.
    Inr (write_id (snap_epoch s) @ policy @ write_id (ps_id (snap_price_schedule s)) @
      write_id (ps_generation (snap_price_schedule s)) @ Writer_i64 (ps_created_at_ms (snap_price_schedule s)) @
      observations @ budgets @ history @ interventions))))))"

definition encode_header :: "bytes \<Rightarrow> bytes" where
  "encode_header payload =
    kMagic @ le_bytes 4 kVersion @ le_bytes 8 (of_nat (length payload) :: u64) @ le_bytes 4 (crc32 payload)"

definition encode :: "DurableSnapshot \<Rightarrow> exn + bytes" where
  "encode s = bindE (write_payload s) (\<lambda>payload. Inr (encode_header payload @ payload))"

definition read_payload :: "DurableSnapshot reader" where
  "read_payload =
    bindR (read_id snapshot_stream) (\<lambda>epoch. bindR read_policy (\<lambda>policy.
    bindR (read_id snapshot_stream) (\<lambda>schedule_id. bindR (read_id snapshot_stream) (\<lambda>generation.
    bindR (Reader_i64 snapshot_stream) (\<lambda>created_at_ms.
    bindR (read_counted ''observation count exceeds bound'' (read_obs snapshot_stream)) (\<lambda>observations.
    bindR (read_counted ''budget count exceeds bound'' read_budget) (\<lambda>budgets.
    bindR (read_counted ''history count exceeds bound'' read_history) (\<lambda>history.
    bindR (read_counted ''intervention count exceeds bound'' read_interv) (\<lambda>interventions.
    bindR (expect_end snapshot_stream) (\<lambda>_.
    returnR \<lparr>snap_epoch = epoch, snap_policy = policy,
      snap_price_schedule = \<lparr>ps_id = schedule_id, ps_generation = generation, ps_observations = observations,
        ps_created_at_ms = created_at_ms\<rparr>,
      snap_budgets = budgets, snap_history = history, snap_interventions = interventions\<rparr>))))))))))"

definition kHeader :: nat where
  "kHeader = 8 + 4 + 8 + 4"

definition decode :: "bytes \<Rightarrow> exn + DurableSnapshot" where
  "decode bs =
    (if length bs < kHeader then throw_status Status.PERSISTENCE_CORRUPT ''snapshot too short''
     else if take 8 bs \<noteq> kMagic then throw_status Status.PERSISTENCE_CORRUPT ''bad snapshot magic''
     else let version = le_value 4 (drop 8 bs) :: u32
       in if version = 1
            then throw_status Status.PERSISTENCE_UNSUPPORTED_VERSION
              ''snapshot format v1 (Cost Governor 1.0.0) is unsupported; regenerate state under the current format''
          else if version \<noteq> kVersion then throw_status Status.PERSISTENCE_CORRUPT ''unknown snapshot version''
          else let len = unat (le_value 8 (drop 12 bs) :: u64); stored_crc = le_value 4 (drop 20 bs) :: u32
            in if len \<noteq> length bs - kHeader
                 then throw_status Status.PERSISTENCE_CORRUPT
                   (if length bs - kHeader < len then ''truncated snapshot'' else ''trailing garbage'')
               else if crc32 (take len (drop kHeader bs)) \<noteq> stored_crc
                 then throw_status Status.PERSISTENCE_CORRUPT ''snapshot checksum mismatch''
               else bindE (read_payload (take len (drop kHeader bs))) (\<lambda>(s, _). Inr s))"

section \<open>What the codec handles\<close>

definition budget_ok :: "Budget \<Rightarrow> bool" where
  "budget_ok b \<longleftrightarrow> string_ok snapshot_stream (b_currency b) \<and> BudgetMode_wf (b_mode b) \<and>
    BudgetObjective_wf (b_objective b) \<and> BudgetLifecycle_wf (b_lifecycle b) \<and> DataLabel_wf (b_label b)"

definition obs_ok :: "Stream \<Rightarrow> PriceObservation \<Rightarrow> bool" where
  "obs_ok st p \<longleftrightarrow> string_ok st (po_currency p) \<and> PriceKind_wf (po_kind p) \<and>
    Provenance_wf (po_provenance p) \<and> DataLabel_wf (po_label p)"

definition policy_ok :: "CostPolicy \<Rightarrow> bool" where
  "policy_ok p \<longleftrightarrow> string_ok snapshot_stream (pol_currency p) \<and> RankingMode_wf (pol_ranking p)"

definition interv_ok :: "InterventionEntry \<Rightarrow> bool" where
  "interv_ok i \<longleftrightarrow> InterventionKind_wf (ie_kind i) \<and> InterventionLifecycle_wf (ie_lifecycle i)"

interpretation budget_codec: byte_codec write_budget read_budget budget_ok
  by unfold_locales
    (auto simp: write_budget_def read_budget_def budget_ok_def Writer_str_eq Reader_str_put codec_rules)

interpretation obs_codec: byte_codec "write_obs st" "read_obs st" "obs_ok st" for st
  by unfold_locales
    (auto simp: write_obs_def read_obs_def obs_ok_def Writer_str_eq Reader_str_put codec_rules)

interpretation policy_codec: byte_codec write_policy read_policy policy_ok
  by unfold_locales
    (auto simp: write_policy_def read_policy_def policy_ok_def Writer_str_eq Reader_str_put codec_rules)

interpretation history_codec: byte_codec write_history read_history "\<lambda>_. True"
  by unfold_locales (auto simp: write_history_def read_history_def codec_rules)

interpretation interv_codec: byte_codec write_interv read_interv interv_ok
  by unfold_locales (auto simp: write_interv_def read_interv_def interv_ok_def codec_rules)

end
