(* ===== verification/Persistence.thy ===== *)
theory Persistence
  imports Snapshot
begin

text \<open>
  Correctness of the snapshot codec: what is encoded decodes to the same snapshot, and damaged,
  truncated and extended snapshots are rejected.
\<close>

section \<open>Counted sequences\<close>

context byte_codec
begin

lemma counted_roundtrip:
  assumes "list_all ok xs" and "length xs \<le> 1000000"
  shows "\<exists>bs. write_counted put xs = Inr bs \<and> (\<forall>rest. read_counted err get (bs @ rest) = Inr (xs, rest))"
proof -
  obtain bs where bs: "write_all put xs = Inr bs"
    using write_all_returns [OF assms(1)] by blast
  have "unat (of_nat (length xs) :: u32) = length xs"
    using assms(2) by (simp add: unat_of_nat)
  then have "read_counted err get (Writer_u32 (of_nat (length xs)) @ bs @ rest) = Inr (xs, rest)" for rest
    using assms bs by (simp add: read_counted_def codec_rules read_n_write_all)
  then show ?thesis
    using bs by (simp add: write_counted_def)
qed

lemma counted_too_many:
  assumes "1000000 < length xs" and "length xs < 2 ^ 32" and "write_counted put xs = Inr bs"
  shows "read_counted err get (bs @ rest) = Inl (StatusError Status.PERSISTENCE_CORRUPT err)"
proof -
  have "unat (of_nat (length xs) :: u32) = length xs"
    using assms(2) by (simp add: unat_of_nat)
  then show ?thesis
    using assms by (auto simp: write_counted_def bindE_eq_Inr read_counted_def codec_rules)
qed

lemma write_all_length:
  assumes "\<And>x bs. ok x \<Longrightarrow> put x = Inr bs \<Longrightarrow> length bs \<le> k"
  shows "list_all ok xs \<Longrightarrow> write_all put xs = Inr bs \<Longrightarrow> length bs \<le> k * length xs"
proof (induction xs arbitrary: bs)
  case (Cons x xs)
  then obtain b bs' where "put x = Inr b" "write_all put xs = Inr bs'" "bs = b @ bs'"
    by (auto simp: bindE_eq_Inr)
  then show ?case
    using Cons assms [of x b] by (auto intro: add_mono)
qed simp

lemma counted_length:
  assumes "\<And>x bs. ok x \<Longrightarrow> put x = Inr bs \<Longrightarrow> length bs \<le> 2 ^ 25"
    and "list_all ok xs" and "length xs \<le> 1000000" and "write_counted put xs = Inr bs"
  shows "length bs \<le> 2 ^ 46"
proof -
  obtain bs' where bs': "write_all put xs = Inr bs'" "bs = Writer_u32 (of_nat (length xs)) @ bs'"
    using assms(4) by (auto simp: write_counted_def bindE_eq_Inr)
  have "length bs' \<le> 2 ^ 25 * length xs"
    using write_all_length [of "2 ^ 25"] assms(1, 2) bs'(1) by blast
  then show ?thesis
    using assms(3) bs'(2) by (simp add: Writer_u32_def)
qed

end

section \<open>The payload\<close>

definition snapshot_ok :: "DurableSnapshot \<Rightarrow> bool" where
  "snapshot_ok s \<longleftrightarrow> policy_ok (snap_policy s) \<and>
    list_all (obs_ok snapshot_stream) (ps_observations (snap_price_schedule s)) \<and>
    list_all budget_ok (snap_budgets s) \<and> list_all interv_ok (snap_interventions s) \<and>
    length (ps_observations (snap_price_schedule s)) \<le> 1000000 \<and> length (snap_budgets s) \<le> 1000000 \<and>
    length (snap_history s) \<le> 1000000 \<and> length (snap_interventions s) \<le> 1000000"

lemma expect_end_Nil [simp]: "expect_end st [] = Inr ((), [])"
  by (simp add: expect_end_def)

lemma snapshot_okD:
  assumes "snapshot_ok (s\<lparr>snap_history := []\<rparr>)"
  shows "policy_ok (snap_policy s)" "list_all (obs_ok snapshot_stream) (ps_observations (snap_price_schedule s))"
    "list_all budget_ok (snap_budgets s)" "list_all interv_ok (snap_interventions s)"
    "length (ps_observations (snap_price_schedule s)) \<le> 1000000" "length (snap_budgets s) \<le> 1000000"
    "length (snap_interventions s) \<le> 1000000"
  using assms by (simp_all add: snapshot_ok_def)

lemma payload_parts:
  assumes "snapshot_ok (s\<lparr>snap_history := []\<rparr>)"
  obtains pol obs bud int where
    "write_policy (snap_policy s) = Inr pol" "\<And>rest. read_policy (pol @ rest) = Inr (snap_policy s, rest)"
    "write_counted (write_obs snapshot_stream) (ps_observations (snap_price_schedule s)) = Inr obs"
    "\<And>rest. read_counted ''observation count exceeds bound'' (read_obs snapshot_stream) (obs @ rest) =
      Inr (ps_observations (snap_price_schedule s), rest)"
    "write_counted write_budget (snap_budgets s) = Inr bud"
    "\<And>rest. read_counted ''budget count exceeds bound'' read_budget (bud @ rest) = Inr (snap_budgets s, rest)"
    "write_counted write_interv (snap_interventions s) = Inr int"
    "\<And>rest. read_counted ''intervention count exceeds bound'' read_interv (int @ rest) = Inr (snap_interventions s, rest)"
proof -
  note ok = snapshot_okD [OF assms]
  obtain pol where "write_policy (snap_policy s) = Inr pol" "\<forall>rest. read_policy (pol @ rest) = Inr (snap_policy s, rest)"
    using policy_codec.put_returns [OF ok(1)] policy_codec.get_put [OF ok(1)] by blast
  then show thesis
    using that ok obs_codec.counted_roundtrip [OF ok(2, 5)] budget_codec.counted_roundtrip [OF ok(3, 6)]
      interv_codec.counted_roundtrip [OF ok(4, 7)] by metis
qed

lemma snapshot_ok_rest: "snapshot_ok s \<Longrightarrow> snapshot_ok (s\<lparr>snap_history := []\<rparr>)"
  by (simp add: snapshot_ok_def)

lemma payload_roundtrip:
  assumes "snapshot_ok s"
  shows "\<exists>payload. write_payload s = Inr payload \<and> read_payload payload = Inr (s, [])"
proof -
  obtain pol obs bud int where parts:
    "write_policy (snap_policy s) = Inr pol" "\<And>rest. read_policy (pol @ rest) = Inr (snap_policy s, rest)"
    "write_counted (write_obs snapshot_stream) (ps_observations (snap_price_schedule s)) = Inr obs"
    "\<And>rest. read_counted ''observation count exceeds bound'' (read_obs snapshot_stream) (obs @ rest) =
      Inr (ps_observations (snap_price_schedule s), rest)"
    "write_counted write_budget (snap_budgets s) = Inr bud"
    "\<And>rest. read_counted ''budget count exceeds bound'' read_budget (bud @ rest) = Inr (snap_budgets s, rest)"
    "write_counted write_interv (snap_interventions s) = Inr int"
    "\<And>rest. read_counted ''intervention count exceeds bound'' read_interv (int @ rest) = Inr (snap_interventions s, rest)"
    using payload_parts [OF snapshot_ok_rest [OF assms]] by metis
  have "list_all (\<lambda>_. True) (snap_history s)" "length (snap_history s) \<le> 1000000"
    using assms by (simp_all add: list_all_iff snapshot_ok_def)
  then obtain his where his: "write_counted write_history (snap_history s) = Inr his"
    "\<And>rest. read_counted ''history count exceeds bound'' read_history (his @ rest) = Inr (snap_history s, rest)"
    using history_codec.counted_roundtrip by metis
  show ?thesis
    using parts(8) [of "[]"]
    by (simp add: write_payload_def read_payload_def parts(1-7) his codec_rules)
qed

text \<open>A payload within the bounds is far shorter than its length field can say.\<close>

lemma Writer_lengths [simp]:
  "length (Writer_u8 b) = 1" "length (Writer_u16 x) = 2" "length (Writer_u32 u) = 4" "length (Writer_u64 v) = 8"
  "length (Writer_i64 w) = 8" "length (Writer_bool c) = 1" "length (write_id i) = 8"
  by (simp_all add: Writer_u8_def Writer_u16_def Writer_u32_def Writer_u64_def Writer_i64_def Writer_bool_def write_id_def)

lemma record_lengths:
  "budget_ok b \<Longrightarrow> write_budget b = Inr bs \<Longrightarrow> length bs \<le> 2 ^ 25"
  "obs_ok snapshot_stream p \<Longrightarrow> write_obs snapshot_stream p = Inr bs \<Longrightarrow> length bs \<le> 2 ^ 25"
  "policy_ok q \<Longrightarrow> write_policy q = Inr bs \<Longrightarrow> length bs \<le> 2 ^ 25"
  "write_history h = Inr bs \<Longrightarrow> length bs \<le> 2 ^ 25"
  "write_interv i = Inr bs \<Longrightarrow> length bs \<le> 2 ^ 25"
  by (auto simp: budget_ok_def write_budget_def obs_ok_def write_obs_def policy_ok_def write_policy_def
      write_history_def write_interv_def Writer_str_eq string_ok_def string_bound_def)

lemma payload_length:
  assumes "snapshot_ok (s\<lparr>snap_history := []\<rparr>)" and "length (snap_history s) < 2 ^ 32" and "write_payload s = Inr payload"
  shows "length payload < 2 ^ 64"
proof -
  obtain pol obs bud his int where parts: "write_policy (snap_policy s) = Inr pol"
    "write_counted (write_obs snapshot_stream) (ps_observations (snap_price_schedule s)) = Inr obs"
    "write_counted write_budget (snap_budgets s) = Inr bud" "write_all write_history (snap_history s) = Inr his"
    "write_counted write_interv (snap_interventions s) = Inr int"
    "length payload = length pol + length obs + length bud + length his + length int + 36"
    using assms(3) by (auto simp: write_payload_def write_counted_def [of write_history] bindE_eq_Inr)
  have "length his \<le> 2 ^ 25 * length (snap_history s)"
    by (rule history_codec.write_all_length [OF record_lengths(4) _ parts(4)]) (auto simp: list_all_iff)
  moreover have "length obs \<le> 2 ^ 46" "length bud \<le> 2 ^ 46" "length int \<le> 2 ^ 46" "length pol \<le> 2 ^ 25"
    using snapshot_okD [OF assms(1)] parts record_lengths
    by (blast intro: obs_codec.counted_length budget_codec.counted_length interv_codec.counted_length)+
  ultimately show ?thesis
    using parts(6) assms(2) by simp
qed

lemma payload_length_ok: "snapshot_ok s \<Longrightarrow> write_payload s = Inr payload \<Longrightarrow> length payload < 2 ^ 64"
  by (rule payload_length [OF snapshot_ok_rest]) (auto simp: snapshot_ok_def)

section \<open>The header\<close>

lemma le_value_append: "n \<le> length bs \<Longrightarrow> (le_value n (bs @ rest) :: 'a :: len word) = le_value n bs"
  by (rule bit_word_eqI) (auto simp: le_value_bit nth_append)

lemma le_bytes_le_value:
  assumes "length bs = n" and "8 * n = LENGTH('a :: len)"
  shows "le_bytes n (le_value n bs :: 'a word) = bs"
proof (rule nth_equalityI)
  fix i
  assume i: "i < length (le_bytes n (le_value n bs :: 'a word))"
  show "le_bytes n (le_value n bs :: 'a word) ! i = bs ! i"
  proof (rule bit_word_eqI)
    fix k
    assume k: "k < LENGTH(8)"
    then have "bit (le_bytes n (le_value n bs :: 'a word) ! i) k \<longleftrightarrow> bit (le_value n bs :: 'a word) (8 * i + k)"
      using i assms by (intro le_bytes_bit) auto
    then show "bit (le_bytes n (le_value n bs :: 'a word) ! i) k \<longleftrightarrow> bit (bs ! i) k"
      using i k assms by (simp add: le_value_bit)
  qed
qed (use assms in simp)

lemma length_kMagic [simp]: "length kMagic = 8"
  by (simp add: kMagic_def)

lemma length_encode_header [simp]: "length (encode_header payload) = kHeader"
  by (simp add: encode_header_def kHeader_def)

text \<open>Decoding a header of the four fields, each given by its bytes.\<close>

lemma decode_fields:
  assumes "length m = 8" "length v = 4" "length l = 8" "length c = 4"
  shows "decode (m @ v @ l @ c @ payload) =
    (if m \<noteq> kMagic then throw_status Status.PERSISTENCE_CORRUPT ''bad snapshot magic''
     else if v = le_bytes 4 (1 :: u32)
       then throw_status Status.PERSISTENCE_UNSUPPORTED_VERSION
         ''snapshot format v1 (Cost Governor 1.0.0) is unsupported; regenerate state under the current format''
     else if v \<noteq> le_bytes 4 kVersion then throw_status Status.PERSISTENCE_CORRUPT ''unknown snapshot version''
     else let len = unat (le_value 8 l :: u64)
       in if len \<noteq> length payload
            then throw_status Status.PERSISTENCE_CORRUPT
              (if length payload < len then ''truncated snapshot'' else ''trailing garbage'')
          else if c \<noteq> le_bytes 4 (crc32 payload)
            then throw_status Status.PERSISTENCE_CORRUPT ''snapshot checksum mismatch''
          else bindE (read_payload payload) (\<lambda>(s, _). Inr s))"
proof -
  have eq: "le_value n bs = w \<longleftrightarrow> bs = le_bytes n w" if "length bs = n" "8 * n = LENGTH('w)"
    for n bs and w :: "'w :: len word"
    using le_bytes_le_value [of bs n, where 'a = 'w] le_value_le_bytes [of n w] that by auto
  have front: "le_value 4 (v @ rest) = (le_value 4 v :: u32)" "le_value 8 (l @ rest) = (le_value 8 l :: u64)"
    "le_value 4 (c @ rest) = (le_value 4 c :: u32)" for rest
    using assms by (simp_all add: le_value_append)
  have field: "le_value 4 v = w \<longleftrightarrow> v = le_bytes 4 w" "w = le_value 4 c \<longleftrightarrow> c = le_bytes 4 w" for w :: u32
    using eq [of v 4 w] eq [of c 4 w] assms by auto
  show ?thesis
    using assms by (simp add: decode_def kHeader_def Let_def front field)
qed

lemma decode_encoded:
  assumes "length payload < 2 ^ 64"
  shows "decode (encode_header payload @ payload) = bindE (read_payload payload) (\<lambda>(s, _). Inr s)"
proof -
  have "le_value 8 (le_bytes 8 (of_nat (length payload) :: u64)) = (of_nat (length payload) :: u64)"
    by (rule le_value_le_bytes) simp
  moreover have "unat (of_nat (length payload) :: u64) = length payload"
    using assms by (simp add: unat_of_nat)
  moreover have "le_bytes 4 kVersion \<noteq> le_bytes 4 (1 :: u32)"
    by (simp add: kVersion_def le_bytes_def upt_rec)
  ultimately show ?thesis
    by (simp add: encode_header_def decode_fields Let_def)
qed

text \<open>The answers for rejected content.\<close>

definition rejected :: "exn + 'a \<Rightarrow> bool" where
  "rejected r \<longleftrightarrow> (\<exists>msg. r = Inl (StatusError Status.PERSISTENCE_CORRUPT msg) \<or>
    r = Inl (StatusError Status.PERSISTENCE_UNSUPPORTED_VERSION msg))"

lemma rejected_throw [simp]:
  "rejected (throw_status Status.PERSISTENCE_CORRUPT msg)"
  "rejected (throw_status Status.PERSISTENCE_UNSUPPORTED_VERSION msg)"
  by (auto simp: rejected_def throw_status_def)

lemma header_damage_rejected:
  assumes "length h = kHeader" and "h \<noteq> encode_header payload" and "length payload < 2 ^ 64"
  shows "rejected (decode (h @ payload))"
proof -
  let ?v = "take 4 (drop 8 h)" and ?l = "take 8 (drop 12 h)" and ?c = "drop 20 h"
  have split: "h = take 8 h @ ?v @ ?l @ ?c"
    using append_take_drop_id [of 8 h] append_take_drop_id [of 4 "drop 8 h"] append_take_drop_id [of 8 "drop 12 h"]
    by simp
  have len: "length (take 8 h) = 8" "length ?v = 4" "length ?l = 8" "length ?c = 4"
    using assms(1) by (simp_all add: kHeader_def)
  have "?l = le_bytes 8 (of_nat (length payload) :: u64)" if "unat (le_value 8 ?l :: u64) = length payload"
  proof -
    have "le_value 8 ?l = (of_nat (length payload) :: u64)"
      using that unat_of_nat [of "length payload", where 'a = 64] assms(3) by (intro word_unat_eq_iff [THEN iffD2]) simp
    then show ?thesis
      using le_bytes_le_value [of ?l 8, where 'a = 64] len(3) by simp
  qed
  moreover have "\<not> (take 8 h = kMagic \<and> ?v = le_bytes 4 kVersion \<and>
      ?l = le_bytes 8 (of_nat (length payload) :: u64) \<and> ?c = le_bytes 4 (crc32 payload))"
    using split assms(2) unfolding encode_header_def by metis
  ultimately have "rejected (decode (take 8 h @ ?v @ ?l @ ?c @ payload))"
    unfolding decode_fields [OF len] by (auto simp: Let_def)
  then show ?thesis
    by (metis split append_assoc)
qed

lemma payload_damage_rejected:
  assumes "length payload' = length payload" and "crc32 payload' \<noteq> crc32 payload" and "length payload < 2 ^ 64"
  shows "rejected (decode (encode_header payload @ payload'))"
proof -
  have "encode_header payload \<noteq> encode_header payload'"
  proof
    assume "encode_header payload = encode_header payload'"
    then have "le_value 4 (le_bytes 4 (crc32 payload)) = (le_value 4 (le_bytes 4 (crc32 payload')) :: u32)"
      by (simp add: encode_header_def)
    then show False
      using assms(2) by (simp add: le_value_le_bytes)
  qed
  then show ?thesis
    using assms by (intro header_damage_rejected) simp_all
qed

lemma length_damage_rejected:
  assumes "length payload' \<noteq> length payload" and "length payload < 2 ^ 64"
  shows "rejected (decode (encode_header payload @ payload'))"
proof -
  have "unat (le_value 8 (le_bytes 8 (of_nat (length payload) :: u64)) :: u64) = length payload"
    using assms(2) by (simp add: le_value_le_bytes unat_of_nat)
  then show ?thesis
    using assms(1) by (simp add: encode_header_def decode_fields Let_def)
qed

text \<open>Replacing the bytes of a file from a position on.\<close>

definition overwrite :: "nat \<Rightarrow> bytes \<Rightarrow> bytes \<Rightarrow> bytes" where
  "overwrite i w bs = take i bs @ w @ drop (i + length w) bs"

lemma overwrite_header:
  "i + length w \<le> length h \<Longrightarrow> overwrite i w (h @ p) = overwrite i w h @ p"
  by (simp add: overwrite_def)

lemma overwrite_payload:
  "length h \<le> i \<Longrightarrow> overwrite i w (h @ p) = h @ overwrite (i - length h) w p"
  by (simp add: overwrite_def)

lemma length_overwrite: "i + length w \<le> length bs \<Longrightarrow> length (overwrite i w bs) = length bs"
  by (simp add: overwrite_def)

lemma overwrite_crc:
  assumes "i + length w \<le> length p" and "length w \<le> 4" and "overwrite i w p \<noteq> p"
  shows "crc32 (overwrite i w p) \<noteq> crc32 p"
proof -
  let ?w = "take (length w) (drop i p)"
  have "p = take i p @ ?w @ drop (i + length w) p"
    using append_take_drop_id [of i p] append_take_drop_id [of "length w" "drop i p"] by (simp add: add.commute)
  moreover have "w \<noteq> ?w"
    using assms(3) calculation unfolding overwrite_def by metis
  ultimately show ?thesis
    using crc32_window [of w ?w "take i p" "drop (i + length w) p"] assms(1, 2)
    unfolding overwrite_def by simp
qed

lemma encode_parts:
  assumes "snapshot_ok s" and "encode s = Inr bs"
  obtains payload where "bs = encode_header payload @ payload" "length payload < 2 ^ 64" "read_payload payload = Inr (s, [])"
proof -
  obtain payload where payload: "write_payload s = Inr payload" "read_payload payload = Inr (s, [])"
    using payload_roundtrip [OF assms(1)] by blast
  then show ?thesis
    using that payload_length_ok [OF assms(1) payload(1)] assms(2) by (auto simp: encode_def)
qed

section \<open>What a decoder returns\<close>

lemma bindR_eq_Inr: "bindR m f bs = Inr (y, rest) \<longleftrightarrow> (\<exists>x mid. m bs = Inr (x, mid) \<and> f x mid = Inr (y, rest))"
  by (auto simp: bindR_def bindE_eq_Inr)

lemma returnR_eq_Inr: "returnR x bs = Inr (y, rest) \<longleftrightarrow> y = x \<and> rest = bs"
  by (auto simp: returnR_def)

lemmas reader_inverts = bindR_eq_Inr returnR_eq_Inr

lemma enum_wf_of_u8 [simp]:
  "PriceKind_wf (PriceKind_of_u8 b)" "Provenance_wf (Provenance_of_u8 b)" "DataLabel_wf (DataLabel_of_u8 b)"
  "RankingMode_wf (RankingMode_of_u8 b)" "BudgetMode_wf (BudgetMode_of_u8 b)"
  "BudgetObjective_wf (BudgetObjective_of_u8 b)" "BudgetLifecycle_wf (BudgetLifecycle_of_u8 b)"
  "InterventionKind_wf (InterventionKind_of_u8 b)" "InterventionLifecycle_wf (InterventionLifecycle_of_u8 b)"
  by (simp_all add: PriceKind_wf_def PriceKind_of_u8_def PriceKind_cast.wf_of
      Provenance_wf_def Provenance_of_u8_def Provenance_cast.wf_of
      DataLabel_wf_def DataLabel_of_u8_def DataLabel_cast.wf_of
      RankingMode_wf_def RankingMode_of_u8_def RankingMode_cast.wf_of
      BudgetMode_wf_def BudgetMode_of_u8_def BudgetMode_cast.wf_of
      BudgetObjective_wf_def BudgetObjective_of_u8_def BudgetObjective_cast.wf_of
      BudgetLifecycle_wf_def BudgetLifecycle_of_u8_def BudgetLifecycle_cast.wf_of
      InterventionKind_wf_def InterventionKind_of_u8_def InterventionKind_cast.wf_of
      InterventionLifecycle_wf_def InterventionLifecycle_of_u8_def InterventionLifecycle_cast.wf_of)

lemma take_bytes_length: "take_bytes st k bs = Inr (x, rest) \<Longrightarrow> length x = k"
  by (auto simp: take_bytes_def split: if_splits)

lemma Reader_str_bounded: "Reader_str st bs = Inr (s, rest) \<Longrightarrow> string_ok st s"
  by (auto simp: Reader_str_def reader_inverts string_ok_def dest!: take_bytes_length split: if_splits)

lemma read_records_ok:
  "read_obs st bs = Inr (p, rest) \<Longrightarrow> obs_ok st p"
  "read_budget bs = Inr (b, rest) \<Longrightarrow> budget_ok b"
  "read_policy bs = Inr (q, rest) \<Longrightarrow> policy_ok q"
  "read_interv bs = Inr (i, rest) \<Longrightarrow> interv_ok i"
  by (auto simp: read_obs_def read_budget_def read_policy_def read_interv_def reader_inverts obs_ok_def budget_ok_def
      policy_ok_def interv_ok_def dest: Reader_str_bounded)

lemma read_n_all:
  assumes "\<And>bs x rest. r bs = Inr (x, rest) \<Longrightarrow> P x"
  shows "read_n r n bs = Inr (xs, rest) \<Longrightarrow> length xs = n \<and> list_all P xs"
  by (induction n arbitrary: bs xs) (auto simp: reader_inverts dest: assms)

lemma read_counted_all:
  assumes "\<And>bs x rest. r bs = Inr (x, rest) \<Longrightarrow> P x" and "read_counted err r bs = Inr (xs, rest)"
  shows "length xs \<le> 1000000 \<and> list_all P xs"
  using assms(2) read_n_all [of r P, OF assms(1)]
  by (auto simp: read_counted_def reader_inverts split: if_splits)

lemma read_payload_ok:
  assumes "read_payload bs = Inr (s, rest)"
  shows "snapshot_ok s"
proof -
  obtain bs1 bs2 bs3 bs4 bs5 r1 r2 r3 r4 r5 where parts:
    "read_policy bs1 = Inr (snap_policy s, r1)"
    "read_counted ''observation count exceeds bound'' (read_obs snapshot_stream) bs2 =
      Inr (ps_observations (snap_price_schedule s), r2)"
    "read_counted ''budget count exceeds bound'' read_budget bs3 = Inr (snap_budgets s, r3)"
    "read_counted ''history count exceeds bound'' read_history bs4 = Inr (snap_history s, r4)"
    "read_counted ''intervention count exceeds bound'' read_interv bs5 = Inr (snap_interventions s, r5)"
    using assms by (auto simp: read_payload_def reader_inverts)
  show ?thesis
    using read_records_ok(3) [OF parts(1)] read_counted_all [OF read_records_ok(1) parts(2)]
      read_counted_all [OF read_records_ok(2) parts(3)] read_counted_all [of read_history "\<lambda>_. True", OF _ parts(4)]
      read_counted_all [OF read_records_ok(4) parts(5)]
    by (simp add: snapshot_ok_def)
qed

lemma decode_ok: "decode bs = Inr s \<Longrightarrow> snapshot_ok s"
  using read_payload_ok by (auto simp: decode_def Let_def bindE_eq_Inr throw_status_def split: if_splits)

section \<open>A concrete snapshot\<close>

definition sample_snapshot :: DurableSnapshot where
  "sample_snapshot =
    \<lparr>snap_epoch = mk_Id 4, snap_policy = CostPolicy_default,
     snap_price_schedule = PriceSchedule_default\<lparr>ps_observations := [PriceObservation_default]\<rparr>,
     snap_budgets = [Budget_default\<lparr>b_id := mk_Id 1, b_limit := MoneyMicros 10000000\<rparr>],
     snap_history = [\<lparr>h_request = mk_Id 9, h_workload = mk_Id 1, h_completed_at_ms = 5,
       h_realized_cost = MoneyMicros 7000000, h_attempts = 2, h_tokens = 0\<rparr>],
     snap_interventions = [\<lparr>ie_id = mk_Id 1, ie_kind = InterventionKind.NO_ACTION,
       ie_lifecycle = InterventionLifecycle.PROPOSED, ie_generation = mk_Id 1, ie_created_at_ms = 5\<rparr>]\<rparr>"

lemma sample_snapshot_ok: "snapshot_ok sample_snapshot"
  by (simp add: snapshot_ok_def sample_snapshot_def policy_ok_def obs_ok_def budget_ok_def interv_ok_def
      string_ok_def string_bound_def CostPolicy_default_def PriceSchedule_default_def PriceObservation_default_def
      Budget_default_def kDefaultCurrency_def enum_wf_def RankingMode_wf_def RankingMode_enumerators_def
      PriceKind_wf_def PriceKind_enumerators_def Provenance_wf_def Provenance_enumerators_def
      DataLabel_wf_def DataLabel_enumerators_def BudgetMode_wf_def BudgetMode_enumerators_def
      BudgetObjective_wf_def BudgetObjective_enumerators_def BudgetLifecycle_wf_def BudgetLifecycle_enumerators_def
      InterventionKind_wf_def InterventionKind_enumerators_def
      InterventionLifecycle_wf_def InterventionLifecycle_enumerators_def)

section \<open>Properties\<close>

text \<open>
  C21: round trip. Every snapshot with at most a million observations, budgets, history entries and
  interventions and with strings of at most 16 MiB is encoded without an error, and decoding the bytes
  gives back the same snapshot, enumerators outside their named range included.
\<close>

theorem snapshot_roundtrip:
  assumes "snapshot_ok s"
  shows "\<exists>bs. encode s = Inr bs \<and> decode bs = Inr s"
proof -
  obtain payload where payload: "write_payload s = Inr payload" "read_payload payload = Inr (s, [])"
    using payload_roundtrip [OF assms] by blast
  then show ?thesis
    using decode_encoded [OF payload_length_ok [OF assms payload(1)]] by (simp add: encode_def)
qed

theorem snapshot_roundtrip_witness: "\<exists>bs. encode sample_snapshot = Inr bs \<and> decode bs = Inr sample_snapshot"
  by (rule snapshot_roundtrip) (rule sample_snapshot_ok)

text \<open>
  C23: integrity. An encoded snapshot in which any bytes of the header are changed, or any bytes within
  four adjacent positions of the payload, is rejected, and so is every proper prefix of it and every
  extension of it.
\<close>

theorem snapshot_damage_rejected:
  assumes ok: "snapshot_ok s" and enc: "encode s = Inr bs"
  shows "(i + length w \<le> length bs \<and> overwrite i w bs \<noteq> bs \<and> (i + length w \<le> kHeader \<or> kHeader \<le> i \<and> length w \<le> 4) \<longrightarrow>
      rejected (decode (overwrite i w bs))) \<and>
    (k < length bs \<longrightarrow> rejected (decode (take k bs))) \<and>
    (extra \<noteq> [] \<longrightarrow> rejected (decode (bs @ extra)))"
proof -
  obtain p where p: "bs = encode_header p @ p" "length p < 2 ^ 64"
    using encode_parts [OF ok enc] by blast
  have "rejected (decode (overwrite i w bs))"
    if "i + length w \<le> length bs" "overwrite i w bs \<noteq> bs" "i + length w \<le> kHeader"
  proof -
    have "overwrite i w bs = overwrite i w (encode_header p) @ p"
      using that(3) p(1) by (simp add: overwrite_header)
    then show ?thesis
      using that p header_damage_rejected [of "overwrite i w (encode_header p)" p] by (auto simp: length_overwrite)
  qed
  moreover have "rejected (decode (overwrite i w bs))"
    if "i + length w \<le> length bs" "overwrite i w bs \<noteq> bs" "kHeader \<le> i" "length w \<le> 4"
  proof -
    let ?p = "overwrite (i - kHeader) w p"
    have eq: "overwrite i w bs = encode_header p @ ?p"
      using that(3) p(1) by (simp add: overwrite_payload)
    then have "?p \<noteq> p" "i - kHeader + length w \<le> length p"
      using that p(1) by auto
    then show ?thesis
      using eq that(4) p(2) payload_damage_rejected [of ?p p] by (simp add: length_overwrite overwrite_crc)
  qed
  moreover have "rejected (decode (take k bs))" if "k < length bs"
  proof (cases "k < kHeader")
    case True
    then show ?thesis
      using that by (simp add: decode_def)
  next
    case False
    then have "take k bs = encode_header p @ take (k - kHeader) p" "length (take (k - kHeader) p) \<noteq> length p"
      using that p(1) by auto
    then show ?thesis
      using length_damage_rejected p(2) by metis
  qed
  moreover have "rejected (decode (bs @ extra))" if "extra \<noteq> []"
    using that length_damage_rejected [of "p @ extra" p] p by simp
  ultimately show ?thesis
    by blast
qed

theorem snapshot_damage_rejected_witness:
  "\<exists>bs. encode sample_snapshot = Inr bs \<and> rejected (decode (bs @ [0])) \<and> rejected (decode (take 10 bs))"
proof -
  obtain bs where bs: "encode sample_snapshot = Inr bs"
    using payload_roundtrip [OF sample_snapshot_ok] by (auto simp: encode_def)
  then have "10 < length bs"
    by (auto simp: encode_def bindE_eq_Inr kHeader_def)
  then show ?thesis
    using snapshot_damage_rejected [OF sample_snapshot_ok bs, of 0 "[]" 10 "[0]"] bs by simp
qed

text \<open>
  The writer does not know the bounds of the reader. A snapshot with more than a million history
  entries, and everything else within the bounds, is encoded without an error; the bytes are rejected
  when they are read back, so a governor can save a state that it can never load.
\<close>

lemma long_history_unreadable:
  assumes rest: "snapshot_ok (s\<lparr>snap_history := []\<rparr>)" and long: "1000000 < length (snap_history s)"
    and countable: "length (snap_history s) < 2 ^ 32"
  shows "\<exists>bs. encode s = Inr bs \<and>
    decode bs = Inl (StatusError Status.PERSISTENCE_CORRUPT ''history count exceeds bound'')"
proof -
  obtain pol obs bud int where parts:
    "write_policy (snap_policy s) = Inr pol" "\<And>rest. read_policy (pol @ rest) = Inr (snap_policy s, rest)"
    "write_counted (write_obs snapshot_stream) (ps_observations (snap_price_schedule s)) = Inr obs"
    "\<And>rest. read_counted ''observation count exceeds bound'' (read_obs snapshot_stream) (obs @ rest) =
      Inr (ps_observations (snap_price_schedule s), rest)"
    "write_counted write_budget (snap_budgets s) = Inr bud"
    "\<And>rest. read_counted ''budget count exceeds bound'' read_budget (bud @ rest) = Inr (snap_budgets s, rest)"
    "write_counted write_interv (snap_interventions s) = Inr int"
    using payload_parts [OF rest] by metis
  obtain his' where "write_all write_history (snap_history s) = Inr his'"
    using history_codec.write_all_returns [of "snap_history s"] by (auto simp: list_all_iff)
  then obtain his where his: "write_counted write_history (snap_history s) = Inr his"
    by (simp add: write_counted_def)
  let ?payload = "write_id (snap_epoch s) @ pol @ write_id (ps_id (snap_price_schedule s)) @
      write_id (ps_generation (snap_price_schedule s)) @ Writer_i64 (ps_created_at_ms (snap_price_schedule s)) @
      obs @ bud @ his @ int"
  have payload: "write_payload s = Inr ?payload"
    by (simp add: write_payload_def parts his)
  have "read_payload ?payload = Inl (StatusError Status.PERSISTENCE_CORRUPT ''history count exceeds bound'')"
    using history_codec.counted_too_many [OF long countable his]
    by (simp add: read_payload_def parts codec_rules)
  then show ?thesis
    using decode_encoded [OF payload_length [OF rest countable payload]] payload by (simp add: encode_def)
qed

lemma long_history_unreadable_witness:
  "\<exists>bs. encode (sample_snapshot\<lparr>snap_history := replicate 1000001 (hd (snap_history sample_snapshot))\<rparr>) = Inr bs \<and>
    decode bs = Inl (StatusError Status.PERSISTENCE_CORRUPT ''history count exceeds bound'')"
  by (rule long_history_unreadable) (simp_all add: snapshot_ok_rest sample_snapshot_ok)



end
