(* ===== verification/Frames.thy ===== *)
theory Frames
  imports Persistence
begin

text \<open>
  The framed transport of the distributed proof (\<^verbatim>\<open>chan.hpp\<close>): the loops that send and receive whole
  buffers over a socket, and the frames around messages. A socket for reading is the list of segments
  that the successive calls of \<^verbatim>\<open>recv\<close> find, where an empty segment or the end of the list is an end of
  file or an error; a socket for writing is the list of counts that \<^verbatim>\<open>send\<close> would accept.
\<close>

section \<open>Messages\<close>

datatype Msg =
    HELLO | PUBLISH_PRICE | REQUEST_EVAL | EVAL_RESULT | RECORD_ATTEMPT | REALIZE | GET_STATE | QUIT
    | RESERVE | COMMIT | RELEASE | PING | PONG | REVALIDATE | raw_Msg u8

primrec Msg_u8 :: "Msg \<Rightarrow> u8" where
  "Msg_u8 HELLO = 1"
| "Msg_u8 PUBLISH_PRICE = 2"
| "Msg_u8 REQUEST_EVAL = 3"
| "Msg_u8 EVAL_RESULT = 4"
| "Msg_u8 RECORD_ATTEMPT = 5"
| "Msg_u8 REALIZE = 6"
| "Msg_u8 GET_STATE = 7"
| "Msg_u8 QUIT = 8"
| "Msg_u8 RESERVE = 9"
| "Msg_u8 COMMIT = 10"
| "Msg_u8 RELEASE = 11"
| "Msg_u8 PING = 12"
| "Msg_u8 PONG = 13"
| "Msg_u8 REVALIDATE = 14"
| "Msg_u8 (raw_Msg b) = b"

definition Msg_enumerators :: "Msg list" where
  "Msg_enumerators = [raw_Msg 0, HELLO, PUBLISH_PRICE, REQUEST_EVAL, EVAL_RESULT, RECORD_ATTEMPT, REALIZE,
    GET_STATE, QUIT, RESERVE, COMMIT, RELEASE, PING, PONG, REVALIDATE]"

definition Msg_of_u8 :: "u8 \<Rightarrow> Msg" where
  "Msg_of_u8 = enum_cast Msg_enumerators raw_Msg"

definition Msg_wf :: "Msg \<Rightarrow> bool" where
  "Msg_wf = enum_wf Msg_enumerators raw_Msg"

interpretation Msg_cast: enum_class Msg_u8 Msg_enumerators raw_Msg
  by unfold_locales (simp_all add: Msg_enumerators_def)

lemma Msg_codec [codec_rules]: "Msg_wf e \<Longrightarrow> Msg_of_u8 (Msg_u8 e) = e"
  by (simp add: Msg_of_u8_def Msg_wf_def Msg_cast.of_to)

section \<open>Sockets\<close>

fun recv_all :: "nat \<Rightarrow> bytes list \<Rightarrow> bytes option \<times> bytes list" where
  "recv_all n [] = (if n = 0 then Some [] else None, [])"
| "recv_all n (seg # segs) =
    (if n = 0 then (Some [], seg # segs)
     else if seg = [] then (None, segs)
     else if n < length seg then (Some (take n seg), drop n seg # segs)
     else case recv_all (n - length seg) segs of
       (Some bs, rest) \<Rightarrow> (Some (seg @ bs), rest)
     | (None, rest) \<Rightarrow> (None, rest))"

fun send_all :: "nat list \<Rightarrow> bytes \<Rightarrow> bool \<times> bytes \<times> nat list" where
  "send_all ks [] = (True, [], ks)"
| "send_all [] bs = (False, [], [])"
| "send_all (k # ks) bs =
    (if k = 0 then (False, [], ks)
     else case send_all ks (drop k bs) of (ok, written, rest) \<Rightarrow> (ok, take k bs @ written, rest))"

section \<open>Frames\<close>

definition frame_magic :: u32 where
  "frame_magic = 0x43475301"

definition frame_version :: u16 where
  "frame_version = 1"

definition kMaxPayload :: nat where
  "kMaxPayload = 2 ^ 20"

definition frame_header :: "Msg \<Rightarrow> bytes \<Rightarrow> bytes" where
  "frame_header type payload =
    Writer_u32 frame_magic @ Writer_u16 frame_version @ Writer_u8 (Msg_u8 type) @ Writer_u8 0 @
    Writer_u32 (of_nat (length payload)) @ Writer_u32 (crc32 payload)"

text \<open>The answer of a send, the bytes that went out, and what is left of the socket.\<close>

definition send_frame :: "Msg \<Rightarrow> bytes \<Rightarrow> nat list \<Rightarrow> (exn + bool) \<times> bytes \<times> nat list" where
  "send_frame type payload ks =
    (if kMaxPayload < length payload then (Inl (runtime_error ''frame too large to send''), [], ks)
     else case send_all ks (frame_header type payload) of
       (False, written, ks') \<Rightarrow> (Inr False, written, ks')
     | (True, written, ks') \<Rightarrow>
         if payload = [] then (Inr True, written, ks')
         else case send_all ks' payload of (ok, written', ks'') \<Rightarrow> (Inr ok, written @ written', ks''))"

text \<open>The fields of a header.\<close>

definition read_frame_header :: "(u32 \<times> u16 \<times> u8 \<times> u32 \<times> u32) reader" where
  "read_frame_header =
    bindR (Reader_u32 frame_stream) (\<lambda>magic. bindR (Reader_u16 frame_stream) (\<lambda>ver.
    bindR (Reader_u8 frame_stream) (\<lambda>t. bindR (Reader_u8 frame_stream) (\<lambda>flags.
    bindR (Reader_u32 frame_stream) (\<lambda>len. bindR (Reader_u32 frame_stream) (\<lambda>crc.
    returnR (magic, ver, t, len, crc)))))))"

text \<open>One frame: nothing at the end of the input or on a transport error, an exception on a protocol error.\<close>

definition recv_frame :: "bytes list \<Rightarrow> (exn + (Msg \<times> bytes) option) \<times> bytes list" where
  "recv_frame segs =
    (case recv_all 16 segs of
       (None, segs1) \<Rightarrow> (Inr None, segs1)
     | (Some hdr, segs1) \<Rightarrow>
         (case read_frame_header hdr of
            Inl e \<Rightarrow> (Inl e, segs1)
          | Inr ((magic, ver, t, len, crc), _) \<Rightarrow>
              if magic \<noteq> frame_magic then (Inl (runtime_error ''frame magic mismatch''), segs1)
              else if ver \<noteq> frame_version then (Inl (runtime_error ''frame version mismatch''), segs1)
              else if kMaxPayload < unat len then (Inl (runtime_error ''frame too large''), segs1)
              else (case if len \<noteq> 0 then recv_all (unat len) segs1 else (Some [], segs1) of
                      (None, segs2) \<Rightarrow> (Inr None, segs2)
                    | (Some payload, segs2) \<Rightarrow>
                        if crc32 payload \<noteq> crc then (Inl (runtime_error ''frame checksum mismatch''), segs2)
                        else (Inr (Some (Msg_of_u8 t, payload)), segs2))))"

section \<open>The loops deliver every byte in order\<close>

lemma recv_all_enough:
  "[] \<notin> set segs \<Longrightarrow> n \<le> length (concat segs) \<Longrightarrow>
    \<exists>rest. recv_all n segs = (Some (take n (concat segs)), rest) \<and> concat rest = drop n (concat segs) \<and> [] \<notin> set rest"
proof (induction segs arbitrary: n)
  case (Cons seg segs)
  show ?case
  proof (cases "n < length seg \<or> n = 0")
    case True
    then show ?thesis
      using Cons.prems by auto
  next
    case False
    have "n - length seg \<le> length (concat segs)" "[] \<notin> set segs"
      using Cons.prems by auto
    then obtain rest where "recv_all (n - length seg) segs = (Some (take (n - length seg) (concat segs)), rest)"
      "concat rest = drop (n - length seg) (concat segs)" "[] \<notin> set rest"
      using Cons.IH [of "n - length seg"] by blast
    then show ?thesis
      using False Cons.prems by auto
  qed
qed simp

lemma recv_all_consumes:
  "recv_all n segs = (r, rest) \<Longrightarrow> length (concat rest) \<le> length (concat segs) \<and>
    (r = Some bs \<longrightarrow> length bs = n \<and> length (concat segs) = n + length (concat rest))"
proof (induction segs arbitrary: n r bs)
  case (Cons seg segs)
  then show ?case
    by (fastforce split: if_splits prod.splits option.splits)
qed (auto split: if_splits)

lemma send_all_ok:
  "send_all ks bs = (True, written, ks') \<Longrightarrow> written = bs"
  by (induction ks bs arbitrary: written rule: send_all.induct) (auto split: if_splits prod.splits)

lemma send_all_prefix:
  "send_all ks bs = (ok, written, ks') \<Longrightarrow> \<exists>more. bs = written @ more"
proof (induction ks bs arbitrary: written rule: send_all.induct)
  case (3 k ks b bs)
  show ?case
  proof (cases "k = 0")
    case False
    then obtain w where w: "written = take k (b # bs) @ w" "send_all ks (drop k (b # bs)) = (ok, w, ks')"
      using "3.prems" by (auto split: prod.splits)
    then obtain more where "drop k (b # bs) = w @ more"
      using "3.IH" False by blast
    then have "b # bs = written @ more"
      using w(1) append_take_drop_id [of k "b # bs"] by (metis append_assoc)
    then show ?thesis
      by blast
  qed (use "3.prems" in auto)
qed auto

section \<open>Frames survive the transport\<close>

lemma length_frame_header [simp]: "length (frame_header t p) = 16"
  by (simp add: frame_header_def)

lemma read_frame_header_put:
  "read_frame_header (frame_header t p) =
    Inr ((frame_magic, frame_version, Msg_u8 t, of_nat (length p), crc32 p), [])"
proof -
  have "Reader_u32 frame_stream (Writer_u32 (crc32 p)) = Inr (crc32 p, [])"
    using Reader_u32_put [of frame_stream "crc32 p" "[]"] by simp
  then show ?thesis
    by (simp add: read_frame_header_def frame_header_def codec_rules)
qed

lemma payload_len:
  assumes "length p \<le> kMaxPayload"
  shows "unat (of_nat (length p) :: u32) = length p" "(of_nat (length p) :: u32) = 0 \<longleftrightarrow> p = []"
proof -
  show "unat (of_nat (length p) :: u32) = length p"
    using assms by (simp add: unat_of_nat kMaxPayload_def)
  then show "(of_nat (length p) :: u32) = 0 \<longleftrightarrow> p = []"
    using unat_eq_zero [of "of_nat (length p) :: u32"] by simp
qed

text \<open>What a receiver finds behind a good header, with whatever payload follows it.\<close>

lemma recv_frame_parts:
  assumes "[] \<notin> set segs" and "concat segs = frame_header t p @ q @ rest" and "length q = length p"
    and "length p \<le> kMaxPayload"
  shows "\<exists>segs'. recv_frame segs =
      (if crc32 q \<noteq> crc32 p then Inl (runtime_error ''frame checksum mismatch'') else Inr (Some (Msg_of_u8 (Msg_u8 t), q)), segs') \<and>
    concat segs' = rest \<and> [] \<notin> set segs'"
proof -
  obtain segs1 where segs1: "recv_all 16 segs = (Some (frame_header t p), segs1)" "concat segs1 = q @ rest" "[] \<notin> set segs1"
    using recv_all_enough [OF assms(1), of 16] assms(2) by auto
  obtain segs2 where segs2: "(if (of_nat (length p) :: u32) \<noteq> 0 then recv_all (length p) segs1 else (Some [], segs1)) = (Some q, segs2)"
    "concat segs2 = rest" "[] \<notin> set segs2"
  proof (cases "p = []")
    case True
    then show thesis
      using that [of segs1] segs1 assms(3) by simp
  next
    case False
    moreover obtain segs2 where "recv_all (length p) segs1 = (Some q, segs2)" "concat segs2 = rest" "[] \<notin> set segs2"
      using recv_all_enough [OF segs1(3), of "length p"] segs1(2) assms(3) by auto
    ultimately show thesis
      using that [of segs2] payload_len(2) [OF assms(4)] by simp
  qed
  show ?thesis
    unfolding recv_frame_def segs1(1) prod.case option.case read_frame_header_put sum.case payload_len(1) [OF assms(4)] segs2(1)
    using segs2(2, 3) assms(4) by simp
qed

lemma send_frame_ok:
  "send_frame t p ks = (Inr True, w, ks') \<Longrightarrow> w = frame_header t p @ p \<and> length p \<le> kMaxPayload"
  by (auto simp: send_frame_def split: if_splits prod.splits bool.splits dest!: send_all_ok)

text \<open>Damage within four adjacent bytes of a payload is reported.\<close>

lemma frame_damage_reported:
  assumes "[] \<notin> set segs" and "concat segs = frame_header t p @ overwrite i w p @ rest" and "length p \<le> kMaxPayload"
    and "i + length w \<le> length p" and "length w \<le> 4" and "overwrite i w p \<noteq> p"
  shows "fst (recv_frame segs) = Inl (runtime_error ''frame checksum mismatch'')"
  using recv_frame_parts [OF assms(1, 2) length_overwrite [OF assms(4)] assms(3)] overwrite_crc [OF assms(4-6)]
  by auto

text \<open>Sending and receiving a sequence of messages.\<close>

fun send_frames :: "(Msg \<times> bytes) list \<Rightarrow> nat list \<Rightarrow> bool \<times> bytes" where
  "send_frames [] ks = (True, [])"
| "send_frames ((t, p) # ms) ks =
    (case send_frame t p ks of
       (Inr True, w, ks') \<Rightarrow> (case send_frames ms ks' of (ok, w') \<Rightarrow> (ok, w @ w'))
     | (_, w, _) \<Rightarrow> (False, w))"

primrec recv_frames :: "nat \<Rightarrow> bytes list \<Rightarrow> (exn + (Msg \<times> bytes) option) list \<times> bytes list" where
  "recv_frames 0 segs = ([], segs)"
| "recv_frames (Suc n) segs =
    (case recv_frame segs of (r, segs') \<Rightarrow> (case recv_frames n segs' of (rs, segs'') \<Rightarrow> (r # rs, segs'')))"

lemma send_all_at_once: "bs \<noteq> [] \<Longrightarrow> length bs \<le> k \<Longrightarrow> send_all (k # ks) bs = (True, bs, ks)"
  by (cases bs) auto

lemma frame_header_nonempty [simp]: "frame_header t p \<noteq> []"
  using length_frame_header [of t p] by (metis list.size(3) zero_neq_numeral)

section \<open>Properties\<close>

text \<open>
  C26: delivery. When a sequence of messages has been sent without an error, in whatever portions the
  socket accepted the bytes, a receiver that finds these bytes followed by others, cut into whatever
  non-empty segments, reads exactly these messages with their payloads in order, and leaves exactly
  the bytes that follow.
\<close>

theorem frames_delivered:
  assumes "list_all (\<lambda>(t, p). Msg_wf t) ms" and "send_frames ms ks = (True, w)"
    and "[] \<notin> set segs" and "concat segs = w @ rest"
  shows "\<exists>segs'. recv_frames (length ms) segs = (map (\<lambda>m. Inr (Some m)) ms, segs') \<and> concat segs' = rest"
  using assms
proof (induction ms arbitrary: ks w segs)
  case (Cons m ms)
  obtain t p where m: "m = (t, p)"
    by (cases m)
  obtain w1 ks1 w2 where sent: "send_frame t p ks = (Inr True, w1, ks1)" "send_frames ms ks1 = (True, w2)" "w = w1 @ w2"
    using Cons.prems(2) by (auto simp: m split: prod.splits sum.splits bool.splits)
  then have "concat segs = frame_header t p @ p @ w2 @ rest" "length p \<le> kMaxPayload"
    using Cons.prems(4) send_frame_ok [OF sent(1)] by simp_all
  then obtain segs1 where segs1: "recv_frame segs = (Inr (Some (Msg_of_u8 (Msg_u8 t), p)), segs1)"
    "concat segs1 = w2 @ rest" "[] \<notin> set segs1"
    using recv_frame_parts [OF Cons.prems(3), of t p p "w2 @ rest"] by auto
  obtain segs' where "recv_frames (length ms) segs1 = (map (\<lambda>m. Inr (Some m)) ms, segs')" "concat segs' = rest"
    using Cons.IH [OF _ sent(2) segs1(3, 2)] Cons.prems(1) by auto
  then show ?case
    using segs1(1) Cons.prems(1) by (simp add: m codec_rules)
qed simp

theorem frames_delivered_witness:
  "\<exists>w. send_frames [(HELLO, [1, 2]), (QUIT, [])] [16, 2, 16] = (True, w) \<and>
    (\<exists>segs'. recv_frames 2 (map (\<lambda>b. [b]) (w @ [7])) = ([Inr (Some (HELLO, [1, 2])), Inr (Some (QUIT, []))], segs') \<and>
      concat segs' = [7])"
proof -
  have "send_frames [(HELLO, [1, 2]), (QUIT, [])] [16, 2, 16] =
      (True, frame_header HELLO [1, 2] @ [1, 2] @ frame_header QUIT [])"
    by (simp add: send_frame_def kMaxPayload_def send_all_at_once)
  moreover have "concat (map (\<lambda>b. [b]) bs) = bs" "[] \<notin> set (map (\<lambda>b. [b]) bs)" for bs :: bytes
    by (induction bs) auto
  ultimately show ?thesis
    using frames_delivered [of "[(HELLO, [1, 2]), (QUIT, [])]" "[16, 2, 16]"]
    by (simp add: Msg_wf_def enum_wf_def Msg_enumerators_def numeral_2_eq_2)
qed

end
