(* ===== verification/Msgs.thy ===== *)
theory Msgs
  imports Frames Decisions
begin

text \<open>
  The bodies of the messages (\<^verbatim>\<open>msgs.hpp\<close>): prices, plans, attempt evidence and decision summaries in
  the byte codec of the transport.
\<close>

section \<open>Writers and readers\<close>

text \<open>The layout of a price observation is the one of a snapshot.\<close>

definition encode_price :: "PriceObservation \<Rightarrow> exn + bytes" where
  "encode_price p = write_obs frame_stream p"

definition decode_price :: "PriceObservation reader" where
  "decode_price = read_obs frame_stream"

definition encode_plan :: "ExecutionPlan \<Rightarrow> exn + bytes" where
  "encode_plan p = Inr
    (write_id (pl_id p) @ write_id (pl_generation p) @ write_id (pl_workload p) @ write_id (pl_workload_generation p) @
     write_id (pl_resource p) @ write_id (pl_resource_generation p) @ write_id (pl_device p) @
     write_id (pl_device_generation p) @ write_id (pl_worker p) @
     Writer_i64 (Amount.count (pl_expected_accelerator_time p)) @ Writer_i64 (Amount.count (pl_expected_energy p)) @
     Writer_i64 (Amount.count (pl_expected_transfer p)) @ Writer_i64 (Amount.count (pl_expected_memory_hold p)) @
     Writer_i64 (Amount.count (pl_expected_residency_hold p)) @ Writer_i64 (Amount.count (pl_expected_storage p)) @
     Writer_i64 (pl_expected_retries p) @ Writer_i64 (pl_expected_requests p) @ Writer_i64 (pl_expected_tokens p) @
     Writer_i64 (pl_expected_operations p) @
     Writer_u8 (DataLabel_u8 (pl_label p)) @ Writer_bool (pl_meets_hard_slo p) @
     Writer_i64 (pl_completion_probability_percent p))"

definition decode_plan :: "ExecutionPlan reader" where
  "decode_plan =
    bindR (read_id frame_stream) (\<lambda>id. bindR (read_id frame_stream) (\<lambda>generation.
    bindR (read_id frame_stream) (\<lambda>workload. bindR (read_id frame_stream) (\<lambda>workload_generation.
    bindR (read_id frame_stream) (\<lambda>resource. bindR (read_id frame_stream) (\<lambda>resource_generation.
    bindR (read_id frame_stream) (\<lambda>device. bindR (read_id frame_stream) (\<lambda>device_generation.
    bindR (read_id frame_stream) (\<lambda>worker.
    bindR (read_count frame_stream) (\<lambda>accelerator_time. bindR (read_count frame_stream) (\<lambda>energy.
    bindR (read_count frame_stream) (\<lambda>transfer. bindR (read_count frame_stream) (\<lambda>memory_hold.
    bindR (read_count frame_stream) (\<lambda>residency_hold. bindR (read_count frame_stream) (\<lambda>storage.
    bindR (Reader_i64 frame_stream) (\<lambda>retries. bindR (Reader_i64 frame_stream) (\<lambda>requests.
    bindR (Reader_i64 frame_stream) (\<lambda>tokens. bindR (Reader_i64 frame_stream) (\<lambda>operations.
    bindR (Reader_u8 frame_stream) (\<lambda>label. bindR (Reader_bool frame_stream) (\<lambda>meets_hard_slo.
    bindR (Reader_i64 frame_stream) (\<lambda>completion_probability_percent.
    returnR (ExecutionPlan_default\<lparr>pl_id := id, pl_generation := generation, pl_workload := workload,
      pl_workload_generation := workload_generation, pl_resource := resource,
      pl_resource_generation := resource_generation, pl_device := device, pl_device_generation := device_generation,
      pl_worker := worker, pl_expected_accelerator_time := accelerator_time, pl_expected_energy := energy,
      pl_expected_transfer := transfer, pl_expected_memory_hold := memory_hold,
      pl_expected_residency_hold := residency_hold, pl_expected_storage := storage,
      pl_expected_retries := retries, pl_expected_requests := requests, pl_expected_tokens := tokens,
      pl_expected_operations := operations, pl_label := DataLabel_of_u8 label, pl_meets_hard_slo := meets_hard_slo,
      pl_completion_probability_percent := completion_probability_percent\<rparr>)))))))))))))))))))))))"

definition encode_evidence :: "CostEvidence \<Rightarrow> exn + bytes" where
  "encode_evidence e = Inr
    (write_id (ev_id e) @ write_id (ev_request e) @ write_id (ev_workload e) @ write_id (ev_attempt e) @
     write_id (ev_attempt_gen e) @
     write_id (ev_worker e) @ write_id (ev_boot e) @ write_id (ev_epoch e) @ write_id (ev_generation e) @
     Writer_i64 (ev_observed_at_ms e) @
     write_id (ev_device e) @ write_id (ev_resource e) @
     Writer_u8 (DataLabel_u8 (ev_label e)) @ Writer_bool (ev_completed_successfully e) @ Writer_bool (ev_is_completion e) @
     Writer_i64 (Amount.count (ev_accelerator_time e)) @ Writer_i64 (Amount.count (ev_energy e)) @
     Writer_i64 (Amount.count (ev_transfer e)) @ Writer_i64 (Amount.count (ev_memory_hold e)) @
     Writer_i64 (Amount.count (ev_residency_hold e)) @ Writer_i64 (Amount.count (ev_storage_bytes e)) @
     Writer_i64 (ev_requests e) @ Writer_i64 (ev_tokens e) @ Writer_i64 (ev_operations e) @
     Writer_i64 (ev_recovery_actions e) @ Writer_i64 (ev_recompute_ns e))"

definition decode_evidence :: "CostEvidence reader" where
  "decode_evidence =
    bindR (read_id frame_stream) (\<lambda>id. bindR (read_id frame_stream) (\<lambda>request.
    bindR (read_id frame_stream) (\<lambda>workload. bindR (read_id frame_stream) (\<lambda>attempt.
    bindR (read_id frame_stream) (\<lambda>attempt_gen. bindR (read_id frame_stream) (\<lambda>worker.
    bindR (read_id frame_stream) (\<lambda>boot.
    bindR (read_id frame_stream) (\<lambda>epoch. bindR (read_id frame_stream) (\<lambda>generation.
    bindR (Reader_i64 frame_stream) (\<lambda>observed_at_ms. bindR (read_id frame_stream) (\<lambda>device.
    bindR (read_id frame_stream) (\<lambda>resource. bindR (Reader_u8 frame_stream) (\<lambda>label.
    bindR (Reader_bool frame_stream) (\<lambda>completed_successfully. bindR (Reader_bool frame_stream) (\<lambda>is_completion.
    bindR (read_count frame_stream) (\<lambda>accelerator_time. bindR (read_count frame_stream) (\<lambda>energy.
    bindR (read_count frame_stream) (\<lambda>transfer. bindR (read_count frame_stream) (\<lambda>memory_hold.
    bindR (read_count frame_stream) (\<lambda>residency_hold. bindR (read_count frame_stream) (\<lambda>storage_bytes.
    bindR (Reader_i64 frame_stream) (\<lambda>requests. bindR (Reader_i64 frame_stream) (\<lambda>tokens.
    bindR (Reader_i64 frame_stream) (\<lambda>operations. bindR (Reader_i64 frame_stream) (\<lambda>recovery_actions.
    bindR (Reader_i64 frame_stream) (\<lambda>recompute_ns.
    returnR \<lparr>ev_id = id, ev_request = request, ev_workload = workload, ev_attempt = attempt,
      ev_attempt_gen = attempt_gen, ev_worker = worker, ev_boot = boot, ev_epoch = epoch, ev_generation = generation,
      ev_observed_at_ms = observed_at_ms, ev_label = DataLabel_of_u8 label,
      ev_completed_successfully = completed_successfully, ev_is_completion = is_completion,
      ev_device = device, ev_resource = resource, ev_accelerator_time = accelerator_time, ev_energy = energy,
      ev_transfer = transfer, ev_memory_hold = memory_hold, ev_residency_hold = residency_hold,
      ev_storage_bytes = storage_bytes, ev_requests = requests, ev_tokens = tokens, ev_operations = operations,
      ev_recovery_actions = recovery_actions, ev_recompute_ns = recompute_ns\<rparr>))))))))))))))))))))))))))"

record DecisionResult =
  dr_kind :: u8
  dr_selected :: u64
  dr_total_micros :: i64
  dr_rejected_count :: u64
  dr_state :: u8
  dr_status :: u8

definition encode_decision :: "CostDecision \<Rightarrow> bytes" where
  "encode_decision d =
    Writer_u8 (DecisionKind_u8 (d_kind d)) @ Writer_u64 (Id_value (d_selected_plan d)) @
    Writer_i64 (total_micros (bd_total (d_projected d))) @ Writer_u64 (of_nat (length (d_rejected_plans d))) @
    Writer_u8 (CostState_u8 (d_state d)) @ Writer_u8 (Status_u8 (d_status d))"

definition decode_decision :: "DecisionResult reader" where
  "decode_decision =
    bindR (Reader_u8 frame_stream) (\<lambda>kind. bindR (Reader_u64 frame_stream) (\<lambda>selected.
    bindR (Reader_i64 frame_stream) (\<lambda>total. bindR (Reader_u64 frame_stream) (\<lambda>rejected_count.
    bindR (Reader_u8 frame_stream) (\<lambda>state. bindR (Reader_u8 frame_stream) (\<lambda>status.
    returnR \<lparr>dr_kind = kind, dr_selected = selected, dr_total_micros = total, dr_rejected_count = rejected_count,
      dr_state = state, dr_status = status\<rparr>))))))"

section \<open>What arrives\<close>

text \<open>
  Prices and evidence arrive as they were sent. A plan arrives without its placement, its recovery
  and their generations: the fields that \<^verbatim>\<open>encode_plan\<close> leaves out.
\<close>

definition plan_on_wire :: "ExecutionPlan \<Rightarrow> ExecutionPlan" where
  "plan_on_wire p = p\<lparr>pl_placement := Id_none, pl_placement_generation := Id_none, pl_recovery_generation := Id_none,
    pl_recovery := RecoveryKind.NONE, pl_recovery_recompute_ns := 0\<rparr>"

definition plan_ok :: "ExecutionPlan \<Rightarrow> bool" where
  "plan_ok p \<longleftrightarrow> DataLabel_wf (pl_label p) \<and> plan_on_wire p = p"

definition evidence_ok :: "CostEvidence \<Rightarrow> bool" where
  "evidence_ok e \<longleftrightarrow> DataLabel_wf (ev_label e)"

lemma decode_plan_put:
  "DataLabel_wf (pl_label p) \<Longrightarrow> encode_plan p = Inr bs \<Longrightarrow> decode_plan (bs @ rest) = Inr (plan_on_wire p, rest)"
  by (auto simp: encode_plan_def decode_plan_def codec_rules plan_on_wire_def ExecutionPlan_default_def)

interpretation price_codec: byte_codec encode_price decode_price "obs_ok frame_stream"
  unfolding encode_price_def decode_price_def by (rule obs_codec.byte_codec_axioms)

interpretation plan_codec: byte_codec encode_plan decode_plan plan_ok
proof
  fix p :: ExecutionPlan and bs rest
  show "\<exists>bs. encode_plan p = Inr bs"
    by (simp add: encode_plan_def)
  assume "plan_ok p" "encode_plan p = Inr bs"
  then show "decode_plan (bs @ rest) = Inr (p, rest)"
    using decode_plan_put [of p bs rest] by (simp add: plan_ok_def)
qed

interpretation evidence_codec: byte_codec encode_evidence decode_evidence evidence_ok
  by unfold_locales (auto simp: encode_evidence_def decode_evidence_def evidence_ok_def codec_rules)

definition decision_summary :: "CostDecision \<Rightarrow> DecisionResult" where
  "decision_summary d =
    \<lparr>dr_kind = DecisionKind_u8 (d_kind d), dr_selected = Id_value (d_selected_plan d),
     dr_total_micros = total_micros (bd_total (d_projected d)), dr_rejected_count = of_nat (length (d_rejected_plans d)),
     dr_state = CostState_u8 (d_state d), dr_status = Status_u8 (d_status d)\<rparr>"

lemma decode_decision_put: "decode_decision (encode_decision d @ rest) = Inr (decision_summary d, rest)"
  by (simp add: encode_decision_def decode_decision_def decision_summary_def codec_rules)

end
