(* ===== verification/Store.thy ===== *)
theory Store
  imports Persistence
begin

text \<open>
  The file-backed store (\<^verbatim>\<open>StateStore\<close> in \<^verbatim>\<open>persistence.cpp\<close>). The file system is a map from paths to
  contents; what the operating system answers to the calls of one operation is an argument. A save
  writes a temporary file and renames it, and the model lists the file systems that it passes through,
  so that a crash at any point is covered.
\<close>

section \<open>Saving and loading\<close>

type_synonym FileSystem = "string \<rightharpoonup> bytes"

text \<open>
  The answers of the system to one save: whether the temporary file could be opened, how many bytes
  reached it when writing or flushing failed, and whether the rename succeeded.
\<close>

record SaveIO =
  open_ok :: bool
  write_failed :: "nat option"
  rename_ok :: bool

definition tmp_path :: "string \<Rightarrow> string" where
  "tmp_path path = path @ ''.tmp''"

text \<open>The file systems that a save of the given bytes passes through, in order.\<close>

definition save_trace :: "SaveIO \<Rightarrow> string \<Rightarrow> bytes \<Rightarrow> FileSystem \<Rightarrow> FileSystem list" where
  "save_trace io path bs fs =
    (if \<not> open_ok io then [fs]
     else fs # map (\<lambda>k. fs(tmp_path path \<mapsto> take k bs))
         [0..<Suc (case write_failed io of None \<Rightarrow> length bs | Some k \<Rightarrow> min k (length bs))] @
       (if write_failed io = None \<and> rename_ok io
          then [fs(tmp_path path := None, path \<mapsto> bs)] else []))"

definition save_status :: "SaveIO \<Rightarrow> Status" where
  "save_status io =
    (if \<not> open_ok io then Status.INTERVENTION_FAILED
     else if write_failed io \<noteq> None then Status.INTERVENTION_FAILED
     else if \<not> rename_ok io then Status.INTERVENTION_FAILED
     else Status.OK)"

definition save :: "SaveIO \<Rightarrow> string \<Rightarrow> DurableSnapshot \<Rightarrow> FileSystem \<Rightarrow> (exn + Status) \<times> FileSystem" where
  "save io path s fs =
    (case encode s of
       Inl e \<Rightarrow> (Inl e, fs)
     | Inr bs \<Rightarrow> (Inr (save_status io), last (save_trace io path bs fs)))"

text \<open>The answers of the system to one load of a file that could be opened.\<close>

record LoadIO =
  tell_ok :: bool
  read_ok :: bool

definition load_snapshot :: "LoadIO \<Rightarrow> string \<Rightarrow> FileSystem \<Rightarrow> exn + DurableSnapshot" where
  "load_snapshot io path fs =
    (case fs path of
       None \<Rightarrow> throw_status Status.PERSISTENCE_CORRUPT ''cannot open snapshot''
     | Some bs \<Rightarrow>
         if \<not> tell_ok io then throw_status Status.PERSISTENCE_CORRUPT ''snapshot size unavailable''
         else if \<not> read_ok io then throw_status Status.PERSISTENCE_CORRUPT ''snapshot read failed''
         else decode bs)"

definition state_file_exists :: "string \<Rightarrow> FileSystem \<Rightarrow> bool" where
  "state_file_exists path fs \<longleftrightarrow> fs path \<noteq> None"

definition remove_state_file :: "bool \<Rightarrow> string \<Rightarrow> FileSystem \<Rightarrow> bool \<times> FileSystem" where
  "remove_state_file remove_ok path fs = (if remove_ok then (True, fs(path := None)) else (False, fs))"

section \<open>What a save changes\<close>

lemma tmp_path_differs [simp]: "tmp_path path \<noteq> path" "path \<noteq> tmp_path path"
  by (simp_all add: tmp_path_def)

lemma save_trace_states:
  assumes "fs' \<in> set (save_trace io path bs fs)"
  shows "fs' path = fs path \<or> fs' path = Some bs"
    and "p \<noteq> path \<Longrightarrow> p \<noteq> tmp_path path \<Longrightarrow> fs' p = fs p"
  using assms by (auto simp: save_trace_def split: if_splits)

lemma save_trace_last:
  "last (save_trace io path bs fs) path = (if save_status io = Status.OK then Some bs else fs path)"
proof -
  have "last (map f [0..<Suc n]) = f n" for f :: "nat \<Rightarrow> FileSystem" and n
    by simp
  then show ?thesis
    by (auto simp: save_trace_def save_status_def simp del: upt_Suc split: option.splits)
qed

lemma save_loads:
  assumes "save io path s fs = (Inr Status.OK, fs')" and "snapshot_ok s" and "tell_ok lio" and "read_ok lio"
  shows "load_snapshot lio path fs' = Inr s"
proof -
  obtain bs where bs: "encode s = Inr bs" "save_status io = Status.OK" "fs' = last (save_trace io path bs fs)"
    using assms(1) by (auto simp: save_def split: sum.splits)
  then obtain payload where "bs = encode_header payload @ payload" "length payload < 2 ^ 64"
    "read_payload payload = Inr (s, [])"
    using encode_parts [OF assms(2) bs(1)] by blast
  then show ?thesis
    using bs assms(3, 4) by (simp add: load_snapshot_def save_trace_last decode_encoded)
qed

section \<open>Properties\<close>

text \<open>
  C25: a save is atomic. Whatever the system answers, and also when the process stops at any point of
  it, the state file holds its old content or the complete new snapshot; no other file changes, the
  temporary one apart; the save reports success exactly when the state file holds the new snapshot
  through its rename; and the content of the state file, if it could be loaded before, can be loaded
  after.
\<close>

theorem save_atomic:
  assumes "encode s = Inr bs" and "snapshot_ok s" and "fs' \<in> set (save_trace io path bs fs)"
  shows "(fs' path = fs path \<or> fs' path = Some bs) \<and>
    (\<forall>p. p \<noteq> path \<and> p \<noteq> tmp_path path \<longrightarrow> fs' p = fs p) \<and>
    (snd (save io path s fs) path = (if fst (save io path s fs) = Inr Status.OK then Some bs else fs path)) \<and>
    (tell_ok lio \<and> read_ok lio \<and> load_snapshot lio path fs = Inr old \<longrightarrow>
      load_snapshot lio path fs' = Inr old \<or> load_snapshot lio path fs' = Inr s)"
proof -
  note states = save_trace_states [OF assms(3)]
  have "decode bs = Inr s"
    using encode_parts [OF assms(2, 1)] decode_encoded by fastforce
  then have "load_snapshot lio path fs' = Inr old \<or> load_snapshot lio path fs' = Inr s"
    if "tell_ok lio" "read_ok lio" "load_snapshot lio path fs = Inr old"
    using that states(1) by (auto simp: load_snapshot_def)
  then show ?thesis
    using states assms(1) by (simp add: save_def save_trace_last)
qed

theorem save_atomic_witness:
  "\<exists>bs. encode sample_snapshot = Inr bs \<and>
    (\<exists>fs'. fs' \<in> set (save_trace \<lparr>open_ok = True, write_failed = Some 30, rename_ok = True\<rparr> ''state'' bs
        [''state'' \<mapsto> []]) \<and>
      fs' (tmp_path ''state'') = Some (take 30 bs) \<and> fs' ''state'' = Some [])"
proof -
  obtain bs where bs: "encode sample_snapshot = Inr bs"
    using payload_roundtrip [OF sample_snapshot_ok] by (auto simp: encode_def)
  let ?io = "\<lparr>open_ok = True, write_failed = Some 30, rename_ok = True\<rparr>"
  let ?fs = "[''state'' \<mapsto> [], tmp_path ''state'' \<mapsto> take 30 bs]"
  have "min 30 (length bs) \<in> set [0..<Suc (min 30 (length bs))]" "take (min 30 (length bs)) bs = take 30 bs"
    by (simp_all add: min_def)
  then have "?fs \<in> set (save_trace ?io ''state'' bs [''state'' \<mapsto> []])"
    by (auto simp: save_trace_def simp del: upt_Suc intro!: rev_image_eqI [of "min 30 (length bs)"])
  then show ?thesis
    using save_atomic [OF bs sample_snapshot_ok, of ?fs ?io "''state''" "[''state'' \<mapsto> []]"] bs
    by (intro exI [of _ bs]) (auto intro!: exI [of _ ?fs])
qed

end
