(* ===== verification/Interventions.thy ===== *)
theory Interventions
  imports Governor
begin

text \<open>
  Cost interventions of the governor (\<^verbatim>\<open>governor.cpp\<close>): proposal, authorisation, acknowledgement and
  verification, and the lifecycle that every intervention goes through.
\<close>

section \<open>Operations\<close>

definition propose_intervention :: "Clock \<Rightarrow> CostIntervention \<Rightarrow> Impl \<Rightarrow> Status \<times> CostIntervention \<times> Impl" where
  "propose_intervention clk intervention g =
    (let ci = intervention\<lparr>ci_id := mk_Id (g_next_intervention g), ci_generation := mk_Id 1,
           ci_lifecycle := InterventionLifecycle.PROPOSED, ci_created_at_ms := clk 0\<rparr>
     in (Status.OK, ci,
         g\<lparr>g_next_intervention := g_next_intervention g + 1,
           g_interventions := umap_emplace (ci_id ci) ci (g_interventions g)\<rparr>))"

definition authorize_intervention :: "InterventionId \<Rightarrow> InterventionGeneration \<Rightarrow> Impl \<Rightarrow> Status \<times> Impl" where
  "authorize_intervention i gen g =
    (case g_interventions g i of
       None \<Rightarrow> (Status.INVALID_INPUT, g)
     | Some ci \<Rightarrow>
         if ci_generation ci \<noteq> gen then (Status.STALE_AUTHORITY, g)
         else if ci_lifecycle ci \<noteq> InterventionLifecycle.PROPOSED then (Status.INTERVENTION_FAILED, g)
         else (Status.OK, g\<lparr>g_interventions := (g_interventions g)(i \<mapsto>
           ci\<lparr>ci_lifecycle := InterventionLifecycle.AUTHORIZED\<rparr>)\<rparr>))"

definition acknowledge_intervention ::
  "Clock \<Rightarrow> InterventionId \<Rightarrow> InterventionGeneration \<Rightarrow> Impl \<Rightarrow> Status \<times> Impl"
where
  "acknowledge_intervention clk i gen g =
    (case g_interventions g i of
       None \<Rightarrow> (Status.INVALID_INPUT, g)
     | Some ci \<Rightarrow>
         if ci_generation ci \<noteq> gen then (Status.STALE_AUTHORITY, g)
         else if ci_lifecycle ci \<noteq> InterventionLifecycle.AUTHORIZED \<and> ci_lifecycle ci \<noteq> InterventionLifecycle.DISPATCHED
           then (Status.INTERVENTION_FAILED, g)
         else (Status.OK, g\<lparr>g_interventions := (g_interventions g)(i \<mapsto>
           ci\<lparr>ci_lifecycle := InterventionLifecycle.ACKNOWLEDGED, ci_acknowledged_at_ms := clk 0\<rparr>)\<rparr>))"

definition verify_intervention ::
  "Clock \<Rightarrow> InterventionId \<Rightarrow> InterventionGeneration \<Rightarrow> CostEvidence list \<Rightarrow> Impl \<Rightarrow> VerificationOutcome \<times> Impl"
where
  "verify_intervention clk i gen post_evidence g =
    (case g_interventions g i of
       None \<Rightarrow> (VerificationOutcome.OUTCOME_UNKNOWN, g)
     | Some ci \<Rightarrow>
         if ci_generation ci \<noteq> gen then (VerificationOutcome.OUTCOME_UNKNOWN, g)
         else if post_evidence = [] then (VerificationOutcome.INSUFFICIENT_POST_ACTION_EVIDENCE, g)
         else if ci_lifecycle ci \<noteq> InterventionLifecycle.ACKNOWLEDGED \<and> ci_lifecycle ci \<noteq> InterventionLifecycle.DISPATCHED
           then (VerificationOutcome.OUTCOME_UNKNOWN, g)
         else (VerificationOutcome.EFFECTIVE, g\<lparr>g_interventions := (g_interventions g)(i \<mapsto>
           ci\<lparr>ci_lifecycle := InterventionLifecycle.EFFECTIVE, ci_verified_at_ms := clk 0\<rparr>)\<rparr>))"

definition interventions :: "InterventionId list \<Rightarrow> Impl \<Rightarrow> CostIntervention list" where
  "interventions order g = umap_values (g_interventions g) order"

section \<open>The lifecycle as a transition system\<close>

inductive intervention_step :: "Impl \<Rightarrow> Impl \<Rightarrow> bool" where
  propose: "propose_intervention clk ci g = (st, ci', g') \<Longrightarrow> intervention_step g g'"
| authorize: "authorize_intervention i gen g = (st, g') \<Longrightarrow> intervention_step g g'"
| acknowledge: "acknowledge_intervention clk i gen g = (st, g') \<Longrightarrow> intervention_step g g'"
| verify: "verify_intervention clk i gen evs g = (oc, g') \<Longrightarrow> intervention_step g g'"

text \<open>The stages of an intervention that the governor itself moves.\<close>

fun next_stage :: "InterventionLifecycle \<Rightarrow> InterventionLifecycle option" where
  "next_stage InterventionLifecycle.PROPOSED = Some InterventionLifecycle.AUTHORIZED"
| "next_stage InterventionLifecycle.AUTHORIZED = Some InterventionLifecycle.ACKNOWLEDGED"
| "next_stage InterventionLifecycle.ACKNOWLEDGED = Some InterventionLifecycle.EFFECTIVE"
| "next_stage _ = None"

definition staged :: "InterventionLifecycle \<Rightarrow> bool" where
  "staged l \<longleftrightarrow> l \<in> {InterventionLifecycle.PROPOSED, InterventionLifecycle.AUTHORIZED,
    InterventionLifecycle.ACKNOWLEDGED, InterventionLifecycle.EFFECTIVE}"

definition interventions_inv :: "Impl \<Rightarrow> bool" where
  "interventions_inv g \<longleftrightarrow> (\<forall>i ci. g_interventions g i = Some ci \<longrightarrow>
    ci_id ci = i \<and> ci_generation ci = mk_Id 1 \<and> staged (ci_lifecycle ci))"

lemmas intervention_ops = propose_intervention_def authorize_intervention_def acknowledge_intervention_def
  verify_intervention_def umap_emplace_def Let_def

text \<open>What one step does to one intervention.\<close>

definition evolves :: "CostIntervention \<Rightarrow> CostIntervention \<Rightarrow> bool" where
  "evolves c c' \<longleftrightarrow> c' = c \<or>
    next_stage (ci_lifecycle c) = Some (ci_lifecycle c') \<and> ci_id c' = ci_id c \<and> ci_generation c' = ci_generation c \<and>
    ci_kind c' = ci_kind c \<and> ci_authority c' = ci_authority c \<and> ci_created_at_ms c' = ci_created_at_ms c"

lemma step_evolves:
  assumes "intervention_step g g'" and "g_interventions g i = Some c" and "staged (ci_lifecycle c)"
  shows "\<exists>c'. g_interventions g' i = Some c' \<and> evolves c c'"
  using assms
  by (induction rule: intervention_step.induct)
    (auto simp: intervention_ops evolves_def staged_def split: option.splits if_splits)

lemma step_keeps_inv: "interventions_inv g \<Longrightarrow> intervention_step g g' \<Longrightarrow> interventions_inv g'"
proof -
  assume inv: "interventions_inv g" and "intervention_step g g'"
  from this(2) show "interventions_inv g'"
    using inv
    by (induction rule: intervention_step.induct)
      (auto simp: interventions_inv_def intervention_ops staged_def split: option.splits if_splits)
qed

interpretation lifecycle: safe_system "\<lambda>g. g_interventions g = Map.empty" intervention_step interventions_inv
  by unfold_locales (simp add: interventions_inv_def, rule step_keeps_inv)

section \<open>Properties\<close>

text \<open>
  C28: the lifecycle of interventions. From a governor without interventions, every stored intervention
  is found under its own id, has its first generation, and is proposed, authorised, acknowledged or
  effective; one further operation keeps it as it is or moves it to the next of these stages, and never
  changes what the intervention is. So no intervention is effective that was not authorised and
  acknowledged before.
\<close>

theorem intervention_lifecycle:
  assumes "g_interventions g0 = Map.empty" and "intervention_step\<^sup>*\<^sup>* g0 g" and "intervention_step g g'"
    and "g_interventions g i = Some c"
  shows "ci_id c = i \<and> ci_generation c = mk_Id 1 \<and> staged (ci_lifecycle c) \<and>
    (\<exists>c'. g_interventions g' i = Some c' \<and> evolves c c')"
proof -
  have "interventions_inv g"
    using assms(1, 2) by (rule lifecycle.inv_reachable)
  then have inv: "ci_id c = i" "ci_generation c = mk_Id 1" "staged (ci_lifecycle c)"
    using assms(4) by (simp_all add: interventions_inv_def)
  then show ?thesis
    using step_evolves [OF assms(3, 4)] by blast
qed

theorem intervention_lifecycle_witness:
  "\<exists>g g' c c'. intervention_step\<^sup>*\<^sup>* Impl_init g \<and> intervention_step g g' \<and>
    g_interventions g (mk_Id 1) = Some c \<and> ci_lifecycle c = InterventionLifecycle.PROPOSED \<and>
    g_interventions g' (mk_Id 1) = Some c' \<and> evolves c c' \<and> ci_lifecycle c' = InterventionLifecycle.AUTHORIZED"
proof -
  define g where "g = snd (snd (propose_intervention (\<lambda>_. 5) CostIntervention_default Impl_init))"
  define g' where "g' = snd (authorize_intervention (mk_Id 1) (mk_Id 1) g)"
  have start: "g_interventions Impl_init = Map.empty"
    by (simp add: Impl_init_def)
  obtain st ci' where "propose_intervention (\<lambda>_. 5) CostIntervention_default Impl_init = (st, ci', g)"
    unfolding g_def by (metis prod.collapse)
  moreover obtain st' where "authorize_intervention (mk_Id 1) (mk_Id 1) g = (st', g')"
    unfolding g'_def by (metis prod.collapse)
  ultimately have step: "intervention_step Impl_init g" "intervention_step g g'"
    by (blast intro: propose authorize)+
  obtain c where c: "g_interventions g (mk_Id 1) = Some c"
    and l: "ci_lifecycle c = InterventionLifecycle.PROPOSED" "ci_generation c = mk_Id 1"
    by (simp add: g_def propose_intervention_def umap_emplace_def Impl_init_def Let_def)
  obtain c' where c': "g_interventions g' (mk_Id 1) = Some c'" "ci_lifecycle c' = InterventionLifecycle.AUTHORIZED"
    using c l by (simp add: g'_def authorize_intervention_def)
  have run: "intervention_step\<^sup>*\<^sup>* Impl_init g"
    using step(1) by blast
  have "evolves c c'"
    using intervention_lifecycle [OF start run step(2) c] c'(1) by auto
  then show ?thesis
    using run step(2) c l(1) c' by blast
qed

end
