(* ===== verification/Evaluation.thy ===== *)
theory Evaluation
  imports Governor
begin

text \<open>
  Plan economics and decisions: the functions of \<^verbatim>\<open>src/governor.cpp\<close> that price a plan, rank the
  feasible plans, build a decision with its explanation, and check a decision again before dispatch.
  None of them changes the state. One evaluation reads the clock once for each plan it prices, and
  visits the budgets in one order, which is an argument.
\<close>

section \<open>Price checks\<close>

definition kind_for_check :: "CostComponent \<Rightarrow> PriceKind" where
  "kind_for_check c =
    (case c of
       CostComponent.ACCELERATOR_TIME \<Rightarrow> PriceKind.ACCELERATOR_TIME
     | CostComponent.ENERGY \<Rightarrow> PriceKind.ENERGY
     | CostComponent.TRANSFER \<Rightarrow> PriceKind.TRANSFER
     | CostComponent.MEMORY \<Rightarrow> PriceKind.MEMORY_HOLDING
     | CostComponent.RESIDENCY \<Rightarrow> PriceKind.RESIDENCY_HOLDING
     | CostComponent.STORAGE \<Rightarrow> PriceKind.STORAGE
     | _ \<Rightarrow> PriceKind.CUSTOM_TYPED_COMPONENT)"

record PriceCheck =
  pc_present :: bool
  pc_stale :: bool
  pc_obs :: "PriceObservation option"

definition in_interval :: "PriceObservation \<Rightarrow> i64 \<Rightarrow> bool" where
  "in_interval p now_ms =
    (if now_ms <s po_valid_from_ms p then False
     else if po_valid_to_ms p \<noteq> 0 \<and> po_valid_to_ms p \<le>s now_ms then False
     else True)"

text \<open>The tests at the head of the loop of \<^verbatim>\<open>check_price\<close>.\<close>

definition check_skips ::
  "PriceObservation \<Rightarrow> PriceKind \<Rightarrow> string \<Rightarrow> i64 \<Rightarrow> CostPolicy \<Rightarrow> DeviceId \<Rightarrow> ResourceId \<Rightarrow> bool"
where
  "check_skips obs want currency now_ms pol dev res \<longleftrightarrow>
    po_kind obs \<noteq> want \<or>
    \<not> valid_currency obs currency \<or>
    \<not> in_interval obs now_ms \<or>
    \<not> accepts_label pol (po_label obs) \<or>
    money_negative (po_amount obs) \<or>
    Id_valid dev \<and> Id_valid (po_device obs) \<and> po_device obs \<noteq> dev \<or>
    Id_valid res \<and> Id_valid (po_resource_scope obs) \<and> po_resource_scope obs \<noteq> res"

text \<open>The ages are differences of clock readings, computed without an overflow check.\<close>

definition check_price ::
  "PriceSchedule \<Rightarrow> PriceKind \<Rightarrow> string \<Rightarrow> i64 \<Rightarrow> CostPolicy \<Rightarrow> DeviceId \<Rightarrow> ResourceId \<Rightarrow> PriceCheck"
where
  "check_price s want currency now_ms pol dev res =
    (let schedule_stale = 0 <s pol_price_schedule_max_age_ms pol \<and>
           pol_price_schedule_max_age_ms pol <s now_ms - ps_created_at_ms s;
         best = fold (\<lambda>obs best.
             if check_skips obs want currency now_ms pol dev res then best
             else if more_specific obs best then Some obs else best)
           (ps_observations s) None
     in case best of
          None \<Rightarrow> \<lparr>pc_present = False, pc_stale = False, pc_obs = None\<rparr>
        | Some b \<Rightarrow>
            let obs_stale = 0 <s pol_max_evidence_age_ms pol \<and>
                  pol_max_evidence_age_ms pol <s now_ms - po_observed_at_ms b
            in \<lparr>pc_present = True, pc_stale = schedule_stale \<or> obs_stale, pc_obs = Some b\<rparr>)"

definition amount_present :: "ExecutionPlan \<Rightarrow> CostComponent \<Rightarrow> bool" where
  "amount_present p c =
    (case c of
       CostComponent.ACCELERATOR_TIME \<Rightarrow> count (pl_expected_accelerator_time p) \<noteq> 0
     | CostComponent.ENERGY \<Rightarrow> count (pl_expected_energy p) \<noteq> 0
     | CostComponent.TRANSFER \<Rightarrow> count (pl_expected_transfer p) \<noteq> 0
     | CostComponent.MEMORY \<Rightarrow> count (pl_expected_memory_hold p) \<noteq> 0
     | CostComponent.RESIDENCY \<Rightarrow> count (pl_expected_residency_hold p) \<noteq> 0
     | CostComponent.STORAGE \<Rightarrow> count (pl_expected_storage p) \<noteq> 0
     | _ \<Rightarrow> False)"

definition plan_to_evidence :: "ExecutionPlan \<Rightarrow> CostEvidence" where
  "plan_to_evidence p =
    CostEvidence_default
      \<lparr>ev_accelerator_time := pl_expected_accelerator_time p,
       ev_energy := pl_expected_energy p,
       ev_transfer := pl_expected_transfer p,
       ev_memory_hold := pl_expected_memory_hold p,
       ev_residency_hold := pl_expected_residency_hold p,
       ev_storage_bytes := pl_expected_storage p,
       ev_requests := pl_expected_requests p,
       ev_tokens := pl_expected_tokens p,
       ev_operations := pl_expected_operations p,
       ev_label := pl_label p,
       ev_recompute_ns := pl_recovery_recompute_ns p,
       ev_device := pl_device p,
       ev_resource := pl_resource p\<rparr>"

section \<open>The economics of a plan\<close>

definition priced_components :: "CostComponent list" where
  "priced_components =
    [CostComponent.ACCELERATOR_TIME, CostComponent.ENERGY, CostComponent.TRANSFER,
     CostComponent.MEMORY, CostComponent.RESIDENCY, CostComponent.STORAGE]"

text \<open>The loop over the components: the first one without a present and fresh price decides.\<close>

fun check_components ::
  "Impl \<Rightarrow> i64 \<Rightarrow> ExecutionPlan \<Rightarrow> CostComponent list \<Rightarrow> (Feasibility \<times> FeasibilityReason) option"
where
  "check_components g now plan [] = None"
| "check_components g now plan (c # cs) =
    (if \<not> amount_present plan c then check_components g now plan cs
     else let pc = check_price (g_schedule g) (kind_for_check c) (pol_currency (g_policy g)) now (g_policy g)
                (pl_device plan) (pl_resource plan)
       in if \<not> pc_present pc then Some (Feasibility.INSUFFICIENT_EVIDENCE, FeasibilityReason.MISSING_PRICE)
          else if pc_stale pc then Some (Feasibility.REVALIDATION_REQUIRED, FeasibilityReason.STALE_PRICE)
          else check_components g now plan cs)"

text \<open>The loop over the budgets: the first hard budget without room for the total decides.\<close>

fun check_budgets :: "MoneyMicros \<Rightarrow> Budget list \<Rightarrow> exn + FeasibilityReason option" where
  "check_budgets tot [] = Inr None"
| "check_budgets tot (b # bs) =
    (if b_mode b = BudgetMode.HARD then
       bindE (remaining b) (\<lambda>rem.
       if tot > rem then
         Inr (Some (if b_objective b = BudgetObjective.MAX_ENERGY_COST then FeasibilityReason.ENERGY_TOO_EXPENSIVE
                    else if b_objective b = BudgetObjective.MAX_TRANSFER_COST
                      then FeasibilityReason.TRANSFER_TOO_EXPENSIVE
                    else FeasibilityReason.HARD_BUDGET_EXCEEDED))
       else check_budgets tot bs)
     else check_budgets tot bs)"

definition verdict :: "Feasibility \<Rightarrow> FeasibilityReason \<Rightarrow> PlanEconomics \<Rightarrow> PlanEconomics" where
  "verdict f r e = e\<lparr>pe_feasible := f, pe_reason := r\<rparr>"

definition evaluate_plan_locked ::
  "i64 \<Rightarrow> BudgetId list \<Rightarrow> Impl \<Rightarrow> ExecutionPlan \<Rightarrow> exn + PlanEconomics"
where
  "evaluate_plan_locked now order g plan =
    (let e = PlanEconomics_default
     in if pl_label plan = DataLabel.UNSUPPORTED
          then Inr (verdict Feasibility.UNKNOWN FeasibilityReason.UNKNOWN_COST_COMPONENT e)
        else if \<not> pl_meets_hard_slo plan
          then Inr (verdict Feasibility.INFEASIBLE FeasibilityReason.SLO_CONFLICT e)
        else if g_revalidation_needed g
          then Inr (verdict Feasibility.REVALIDATION_REQUIRED FeasibilityReason.STALE_PRICE e)
        else case check_components g now plan priced_components of
          Some (f, r) \<Rightarrow> Inr (verdict f r e)
        | None \<Rightarrow>
            case project (g_schedule g) [plan_to_evidence plan] (pol_currency (g_policy g)) now of
              Inl ex \<Rightarrow>
                (case ex of
                   StatusError st _ \<Rightarrow>
                     if st = Status.MISSING_PRICE
                       then Inr (verdict Feasibility.INSUFFICIENT_EVIDENCE FeasibilityReason.MISSING_PRICE e)
                     else Inl ex
                 | _ \<Rightarrow> Inl ex)
            | Inr bd \<Rightarrow>
                if bd_any_unknown bd
                  then Inr (verdict Feasibility.UNKNOWN FeasibilityReason.UNKNOWN_COST_COMPONENT e)
                else
                  bindE (if 0 <s pl_expected_requests plan
                           then money_checked_div (bd_total bd) (pl_expected_requests plan) kCeil
                         else Inr (MoneyMicros 0)) (\<lambda>per_request.
                  bindE (if 0 <s pl_expected_tokens plan
                           then bindE (money_checked_div (bd_total bd) (pl_expected_tokens plan) kCeil) (\<lambda>t. Inr (t, True))
                         else Inr (pe_projected_per_token e, pe_per_token_valid e)) (\<lambda>(per_token, token_valid).
                  let e' = e\<lparr>pe_projected := bd, pe_projected_per_request := per_request,
                             pe_projected_per_token := per_token, pe_per_token_valid := token_valid\<rparr>
                  in bindE (check_budgets (bd_total bd) (umap_values (g_budgets g) order)) (\<lambda>exceeded.
                     Inr (case exceeded of
                            Some r \<Rightarrow> verdict Feasibility.INFEASIBLE r e'
                          | None \<Rightarrow> e'\<lparr>pe_feasible := Feasibility.FEASIBLE\<rparr>)))))"

definition evaluate_plan :: "Clock \<Rightarrow> BudgetId list \<Rightarrow> Impl \<Rightarrow> ExecutionPlan \<Rightarrow> exn + PlanEconomics" where
  "evaluate_plan clk order g plan = evaluate_plan_locked (clk 0) order g plan"

section \<open>Decisions\<close>

text \<open>The loop of \<^verbatim>\<open>state_from_breakdown\<close> from a state reached so far.\<close>

fun cost_state_from :: "CostPolicy \<Rightarrow> MoneyMicros \<Rightarrow> Budget list \<Rightarrow> CostState \<Rightarrow> exn + CostState" where
  "cost_state_from pol tot [] st = Inr st"
| "cost_state_from pol tot (b # bs) st =
    (if b_mode b \<noteq> BudgetMode.HARD \<or> money_is_zero (b_limit b) then cost_state_from pol tot bs st
     else bindE (remaining b) (\<lambda>rem.
       if tot > rem then Inr CostState.OVER_HARD_BUDGET
       else
         bindE (bindE (money_checked_mul (b_limit b) (pol_near_budget_percent pol)) (\<lambda>m. money_checked_div m 100 kCeil)) (\<lambda>near.
         bindE (bindE (money_checked_mul (b_limit b) (pol_at_risk_percent pol)) (\<lambda>m. money_checked_div m 100 kCeil)) (\<lambda>atrisk.
         cost_state_from pol tot bs
           (if tot \<ge> atrisk then CostState.AT_RISK else if tot \<ge> near then CostState.NEAR_BUDGET else st)))))"

definition state_from_breakdown :: "BudgetId list \<Rightarrow> Impl \<Rightarrow> CostBreakdown \<Rightarrow> exn + CostState" where
  "state_from_breakdown order g bd =
    cost_state_from (g_policy g) (bd_total bd) (umap_values (g_budgets g) order) CostState.WITHIN_BUDGET"

definition authority_snapshot_from :: "Impl \<Rightarrow> ExecutionPlan \<Rightarrow> WorkloadGeneration \<Rightarrow> AuthorityContext" where
  "authority_snapshot_from g plan workload_gen =
    AuthorityContext_default
      \<lparr>ctx_epoch := g_epoch g,
       ctx_policy_generation := pol_generation (g_policy g),
       ctx_price_generation := ps_generation (g_schedule g),
       ctx_plan_generation := pl_generation plan,
       ctx_workload_generation := workload_gen,
       ctx_worker := pl_worker plan,
       ctx_boot := current_boot_for g (pl_worker plan),
       ctx_budget_generation := Id_none\<rparr>"

text \<open>The first hard budget that an iteration visits.\<close>

definition first_hard :: "Budget list \<Rightarrow> Budget option" where
  "first_hard bs = find (\<lambda>b. b_mode b = BudgetMode.HARD) bs"

text \<open>
  The explanation. The alternative for a drop of the energy price is computed by the source after
  this one and then not stored, so it is not part of the result.
\<close>

definition build_explanation ::
  "BudgetId list \<Rightarrow> Impl \<Rightarrow> CostDecision \<Rightarrow> ExecutionPlan \<Rightarrow> PlanEconomics \<Rightarrow> WorkloadGeneration
    \<Rightarrow> ExecutionPlan list \<Rightarrow> exn + CostDecision"
where
  "build_explanation order g d best econ workload_gen plans =
    (let others = map pl_id (filter (\<lambda>p. pl_id p \<noteq> pl_id best) plans);
         ex = d_explanation d;
         bud0 = Alt_default\<lparr>alt_name := ''BUDGET_INCREASES'', alt_applicable := False\<rparr>
     in bindE (case first_hard (umap_values (g_budgets g) order) of
                 None \<Rightarrow> Inr bud0
               | Some b \<Rightarrow>
                   bindE (remaining b) (\<lambda>rem.
                   bindE (money_sub rem (bd_total (pe_projected econ))) (\<lambda>delta.
                   Inr (bud0\<lparr>alt_applicable := bd_total (pe_projected econ) > rem,
                             alt_feasible := Feasibility.FEASIBLE,
                             alt_projected_cost := bd_total (pe_projected econ),
                             alt_delta := delta\<rparr>)))) (\<lambda>bud.
        Inr (d\<lparr>d_explanation := ex
                 \<lparr>ex_objective := ''COST_GOVERNED_PLAN'',
                  ex_currency := pol_currency (g_policy g),
                  ex_projected := pe_projected econ,
                  ex_label := pl_label best,
                  ex_selected := pl_id best,
                  ex_authority := authority_snapshot_from g best workload_gen,
                  ex_candidate_set := ex_candidate_set ex @ others @ [pl_id best],
                  ex_rejected := ex_rejected ex @ others,
                  ex_what_would_change := [bud]\<rparr>\<rparr>)))"

type_synonym Candidate = "ExecutionPlan \<times> PlanEconomics"

text \<open>A component of the projected cost, zero when it is not known.\<close>

definition known_value :: "CostComponent \<Rightarrow> Candidate \<Rightarrow> MoneyMicros" where
  "known_value c cand =
    (let v = breakdown_get (pe_projected (snd cand)) c in if cv_known v then cv_value v else MoneyMicros 0)"

abbreviation cand_total :: "Candidate \<Rightarrow> MoneyMicros" where
  "cand_total c \<equiv> bd_total (pe_projected (snd c))"

definition better :: "Candidate \<Rightarrow> Candidate \<Rightarrow> bool" where
  "better a b =
    (if cand_total a \<noteq> cand_total b then cand_total a < cand_total b
     else if pe_projected_per_request (snd a) \<noteq> pe_projected_per_request (snd b)
       then pe_projected_per_request (snd a) < pe_projected_per_request (snd b)
     else if pe_projected_per_token (snd a) \<noteq> pe_projected_per_token (snd b)
       then pe_projected_per_token (snd a) < pe_projected_per_token (snd b)
     else if known_value CostComponent.ENERGY a \<noteq> known_value CostComponent.ENERGY b
       then known_value CostComponent.ENERGY a < known_value CostComponent.ENERGY b
     else if known_value CostComponent.TRANSFER a \<noteq> known_value CostComponent.TRANSFER b
       then known_value CostComponent.TRANSFER a < known_value CostComponent.TRANSFER b
     else if known_value CostComponent.ACCELERATOR_TIME a \<noteq> known_value CostComponent.ACCELERATOR_TIME b
       then known_value CostComponent.ACCELERATOR_TIME a < known_value CostComponent.ACCELERATOR_TIME b
     else if pl_completion_probability_percent (fst a) \<noteq> pl_completion_probability_percent (fst b)
       then pl_completion_probability_percent (fst b) <s pl_completion_probability_percent (fst a)
     else Id_value (pl_id (fst a)) < Id_value (pl_id (fst b)))"

text \<open>\<^verbatim>\<open>std::stable_sort\<close>: sorted by the comparison, equivalent elements in their old order.\<close>

fun insert_by :: "('a \<Rightarrow> 'a \<Rightarrow> bool) \<Rightarrow> 'a \<Rightarrow> 'a list \<Rightarrow> 'a list" where
  "insert_by lt x [] = [x]"
| "insert_by lt x (y # ys) = (if lt y x then y # insert_by lt x ys else x # y # ys)"

definition stable_sort :: "('a \<Rightarrow> 'a \<Rightarrow> bool) \<Rightarrow> 'a list \<Rightarrow> 'a list" where
  "stable_sort lt xs = foldr (insert_by lt) xs []"

text \<open>The loop that prices the plans; reading \<open>i\<close> of the clock is for plan \<open>i\<close>.\<close>

definition evaluate_candidates ::
  "Clock \<Rightarrow> BudgetId list \<Rightarrow> Impl \<Rightarrow> ExecutionPlan list \<Rightarrow> exn + Candidate list \<times> FeasibilityReason"
where
  "evaluate_candidates clk order g plans =
    foldE (\<lambda>(i, plan) (cs, worst).
        bindE (evaluate_plan_locked (clk i) order g plan) (\<lambda>econ.
        Inr (cs @ [(plan, econ)],
             if pe_feasible econ \<noteq> Feasibility.FEASIBLE \<and> pe_reason econ \<noteq> FeasibilityReason.NONE
               then pe_reason econ else worst)))
      (enumerate 0 plans) ([], FeasibilityReason.NONE)"

definition evaluate ::
  "Clock \<Rightarrow> BudgetId list \<Rightarrow> Impl \<Rightarrow> WorkloadId \<Rightarrow> WorkloadGeneration \<Rightarrow> ExecutionPlan list \<Rightarrow> exn + CostDecision"
where
  "evaluate clk order g workload workload_gen plans =
    (let d = CostDecision_default
     in if g_revalidation_needed g then
          Inr (d\<lparr>d_kind := DecisionKind.REVALIDATE, d_status := Status.STALE_EVIDENCE,
                 d_detail := ''recovered dynamic evidence requires revalidation''\<rparr>)
        else if plans = [] then
          Inr (d\<lparr>d_kind := DecisionKind.NO_FEASIBLE_PLAN, d_status := Status.PLAN_INFEASIBLE\<rparr>)
        else bindE (evaluate_candidates clk order g plans) (\<lambda>(candidates, worst).
          case stable_sort better (filter (\<lambda>c. pe_feasible (snd c) = Feasibility.FEASIBLE) candidates) of
            [] \<Rightarrow>
              Inr (d\<lparr>d_kind := DecisionKind.NO_FEASIBLE_PLAN, d_status := Status.PLAN_INFEASIBLE,
                     d_binding_constraint := worst,
                     d_detail := ''no feasible candidate under current economics''\<rparr>)
          | (plan, econ) # _ \<Rightarrow>
              let d1 = d\<lparr>d_kind := DecisionKind.AUTHORIZE, d_selected_plan := pl_id plan,
                         d_plan_generation := pl_generation plan, d_projected := pe_projected econ,
                         d_status := Status.OK, d_binding_constraint := FeasibilityReason.NONE,
                         d_rejected_plans :=
                           map (\<lambda>c. pl_id (fst c)) (filter (\<lambda>c. pl_id (fst c) \<noteq> pl_id plan) candidates)\<rparr>
              in bindE (case first_hard (umap_values (g_budgets g) order) of
                          None \<Rightarrow> Inr (MoneyMicros 0) | Some b \<Rightarrow> remaining b) (\<lambda>rem.
                 bindE (state_from_breakdown order g (pe_projected econ)) (\<lambda>st.
                 build_explanation order g
                   (d1\<lparr>d_remaining_budget := rem, d_state := st,
                       d_authority := authority_snapshot_from g plan workload_gen\<rparr>)
                   plan econ workload_gen plans))))"

section \<open>Revalidation before dispatch\<close>

definition validate_for_dispatch ::
  "Clock \<Rightarrow> BudgetId list \<Rightarrow> Impl \<Rightarrow> CostDecision \<Rightarrow> ExecutionPlan list \<Rightarrow> exn + Status"
where
  "validate_for_dispatch clk order g prior candidate_plans =
    (if d_kind prior \<noteq> DecisionKind.AUTHORIZE then Inr Status.OK
     else if ctx_epoch (d_authority prior) \<noteq> g_epoch g then Inr Status.STALE_AUTHORITY
     else if ctx_policy_generation (d_authority prior) \<noteq> pol_generation (g_policy g)
       then Inr Status.STALE_AUTHORITY
     else if ctx_price_generation (d_authority prior) \<noteq> ps_generation (g_schedule g)
       then Inr Status.STALE_AUTHORITY
     else if ctx_boot (d_authority prior) \<noteq> current_boot_for g (ctx_worker (d_authority prior))
       then Inr Status.STALE_AUTHORITY
     else if g_revalidation_needed g then Inr Status.STALE_EVIDENCE
     else case find (\<lambda>plan. pl_id plan = d_selected_plan prior) candidate_plans of
       None \<Rightarrow> Inr Status.PLAN_SUPERSEDED
     | Some plan \<Rightarrow>
         if \<not> pl_meets_hard_slo plan then Inr Status.PLAN_INFEASIBLE
         else bindE (evaluate_plan_locked (clk 0) order g plan) (\<lambda>e.
           if pe_feasible e \<noteq> Feasibility.FEASIBLE then Inr Status.PLAN_INFEASIBLE
           else bindE (check_budgets (bd_total (pe_projected e)) (umap_values (g_budgets g) order)) (\<lambda>exceeded.
             Inr (case exceeded of Some _ \<Rightarrow> Status.BUDGET_EXCEEDED | None \<Rightarrow> Status.OK))))"

end
