(* ===== verification/Ranking.thy ===== *)
theory Ranking
  imports Evaluation "HOL-Library.Product_Lexorder"
begin

text \<open>
  The ranking of candidate plans: the comparison of \<^verbatim>\<open>CostGovernor::evaluate\<close> is the lexicographic
  order of a key, and the stable sort by it is the sort of the library by that key.
\<close>

section \<open>Comparisons that a key explains\<close>

locale keyed_order =
  fixes lt :: "'a \<Rightarrow> 'a \<Rightarrow> bool"
    and key :: "'a \<Rightarrow> 'k::linorder"
  assumes lt_key: "lt a b \<longleftrightarrow> key a < key b"
begin

text \<open>The comparison is a strict weak order, which \<^verbatim>\<open>std::stable_sort\<close> requires.\<close>

lemma strict_weak:
  "\<not> lt a a" "lt a b \<Longrightarrow> lt b c \<Longrightarrow> lt a c"
  "\<not> lt a b \<Longrightarrow> \<not> lt b a \<Longrightarrow> \<not> lt b c \<Longrightarrow> \<not> lt c b \<Longrightarrow> \<not> lt a c \<and> \<not> lt c a"
  by (auto simp: lt_key)

lemma insert_by_insort: "insert_by lt x xs = insort_key key x xs"
  by (induction xs) (auto simp: lt_key not_less)

lemma stable_sort_sort_key: "stable_sort lt xs = sort_key key xs"
  by (simp add: stable_sort_def sort_key_def insert_by_insort [abs_def])

lemma stable_sort_Nil: "stable_sort lt xs = [] \<longleftrightarrow> xs = []"
  by (metis stable_sort_sort_key length_0_conv length_sort)

lemma stable_sort_head:
  assumes "stable_sort lt xs = x # ys"
  shows "x \<in> set xs" and "\<And>y. y \<in> set xs \<Longrightarrow> \<not> lt y x"
proof -
  have sorted: "sorted (map key (x # ys))"
    using assms by (metis sorted_sort_key stable_sort_sort_key)
  have set: "set xs = insert x (set ys)"
    using assms by (metis list.simps(15) set_sort stable_sort_sort_key)
  then show "x \<in> set xs"
    by simp
  show "\<not> lt y x" if "y \<in> set xs" for y
    using that set sorted by (auto simp: lt_key not_less)
qed

text \<open>Among equivalent elements the first one of the input comes first.\<close>

lemma stable_sort_stable:
  "filter (\<lambda>y. key y = k) (stable_sort lt xs) = filter (\<lambda>y. key y = k) xs"
  by (simp add: stable_sort_sort_key sort_key_stable)

end

section \<open>The ranking of plans\<close>

text \<open>
  Total cost, cost per request, cost per token, energy, transfer, accelerator time, completion
  probability (the higher the better) and plan id.
\<close>

definition rank_key :: "Candidate \<Rightarrow> int \<times> int \<times> int \<times> int \<times> int \<times> int \<times> int \<times> u64" where
  "rank_key c =
    (micros (cand_total c), micros (pe_projected_per_request (snd c)), micros (pe_projected_per_token (snd c)),
     micros (known_value CostComponent.ENERGY c), micros (known_value CostComponent.TRANSFER c),
     micros (known_value CostComponent.ACCELERATOR_TIME c),
     - sint (pl_completion_probability_percent (fst c)), Id_value (pl_id (fst c)))"

lemma lex_pair: "(x, p) < (y, q) \<longleftrightarrow> (if x \<noteq> y then x < y else p < q)"
  for x y :: "'a::linorder" and p q :: "'b::linorder"
  by (auto simp: less_prod_simp)

lemma better_rank_key: "better a b \<longleftrightarrow> rank_key a < rank_key b"
  unfolding better_def rank_key_def lex_pair money_eq_micros money_less_micros sless_sint
  by (simp only: sint_eq_iff neg_equal_iff_equal neg_less_iff_less)

interpretation ranking: keyed_order better rank_key
  by unfold_locales (rule better_rank_key)

end
