(* ===== verification/Accounting.thy ===== *)
theory Accounting
  imports Governor
begin

text \<open>
  Budget accounting: \<^verbatim>\<open>reserve\<close>, \<^verbatim>\<open>commit\<close>, \<^verbatim>\<open>release\<close> and \<^verbatim>\<open>consume\<close> of \<^verbatim>\<open>src/governor.cpp\<close>. An
  operation that throws leaves the state as it was changed up to the throw. The reservation of
  \<^verbatim>\<open>reserve\<close> (an output argument), \<^verbatim>\<open>commit\<close> and \<^verbatim>\<open>release\<close> (changed in place) is returned beside
  the new state.
\<close>

section \<open>Operations\<close>

abbreviation put_budget :: "BudgetId \<Rightarrow> Budget \<Rightarrow> Impl \<Rightarrow> Impl" where
  "put_budget i b g \<equiv> g\<lparr>g_budgets := (g_budgets g)(i \<mapsto> b)\<rparr>"

text \<open>The lifecycle after consumption changed.\<close>

definition consumed_lifecycle :: "Budget \<Rightarrow> BudgetLifecycle" where
  "consumed_lifecycle b =
    (if b_consumed b < b_limit b then BudgetLifecycle.PARTIALLY_CONSUMED else BudgetLifecycle.EXHAUSTED)"

definition reserve ::
  "Clock \<Rightarrow> BudgetId \<Rightarrow> BudgetGeneration \<Rightarrow> CoordinatorEpoch \<Rightarrow> MoneyMicros \<Rightarrow> BudgetReservation \<Rightarrow> Impl
    \<Rightarrow> (exn + Status) \<times> BudgetReservation \<times> Impl"
where
  "reserve clk budget gen epoch amount out g =
    (case g_budgets g budget of
       None \<Rightarrow> (Inr Status.INVALID_INPUT, out, g)
     | Some b \<Rightarrow>
         if b_generation b \<noteq> gen \<or> b_epoch b \<noteq> epoch then (Inr Status.STALE_AUTHORITY, out, g)
         else if b_epoch b \<noteq> g_epoch g then (Inr Status.STALE_AUTHORITY, out, g)
         else if \<not> is_live b then (Inr Status.BUDGET_EXPIRED, out, g)
         else if b_expires_at_ms b \<noteq> 0 \<and> b_expires_at_ms b <s clk 0
           then (Inr Status.BUDGET_EXPIRED, out, put_budget budget (b\<lparr>b_lifecycle := BudgetLifecycle.EXPIRED\<rparr>) g)
         else if money_negative amount then (Inr Status.INVALID_INPUT, out, g)
         else case money_add (b_reserved b) amount of
           Inl e \<Rightarrow> (Inl e, out, g)
         | Inr reserved_after \<Rightarrow>
             if reserved_after > b_limit b then (Inr Status.BUDGET_EXCEEDED, out, g)
             else let b' = b\<lparr>b_reserved := reserved_after, b_lifecycle := BudgetLifecycle.RESERVED\<rparr>;
                      r = BudgetReservation_default\<lparr>r_id := mk_Id (g_next_reservation g), r_budget := budget,
                            r_budget_generation := gen, r_epoch := epoch, r_amount := amount,
                            r_created_at_ms := clk 1, r_expires_at_ms := b_expires_at_ms b\<rparr>;
                      rs = (case g_reservations g budget of None \<Rightarrow> [] | Some rs \<Rightarrow> rs)
               in (Inr Status.OK, r,
                   (put_budget budget b' g)
                     \<lparr>g_next_reservation := g_next_reservation g + 1,
                      g_reservations := (g_reservations g)(budget \<mapsto> rs @ [r])\<rparr>))"

definition commit ::
  "Clock \<Rightarrow> BudgetReservation \<Rightarrow> Impl \<Rightarrow> (exn + Status) \<times> BudgetReservation \<times> Impl"
where
  "commit clk r g =
    (case g_budgets g (r_budget r) of
       None \<Rightarrow> (Inr Status.INVALID_INPUT, r, g)
     | Some b \<Rightarrow>
         if b_generation b \<noteq> r_budget_generation r then (Inr Status.STALE_AUTHORITY, r, g)
         else if r_epoch r \<noteq> g_epoch g then (Inr Status.STALE_AUTHORITY, r, g)
         else if b_epoch b \<noteq> g_epoch g then (Inr Status.STALE_AUTHORITY, r, g)
         else if r_state r \<noteq> ReservationState.ACTIVE then (Inr Status.OK, r, g)
         else if \<not> is_live b then (Inr Status.BUDGET_EXPIRED, r, g)
         else if r_expires_at_ms r \<noteq> 0 \<and> r_expires_at_ms r <s clk 0 then
           let r' = r\<lparr>r_state := ReservationState.EXPIRED\<rparr>
           in case money_sub (b_reserved b) (r_amount r) of
                Inl e \<Rightarrow> (Inl e, r', g)
              | Inr reserved \<Rightarrow>
                  (let b' = b\<lparr>b_reserved := reserved\<rparr>
                   in case money_add (b_released b) (r_amount r) of
                        Inl e \<Rightarrow> (Inl e, r', put_budget (r_budget r) b' g)
                      | Inr released \<Rightarrow>
                          (Inr Status.BUDGET_EXPIRED, r', put_budget (r_budget r) (b'\<lparr>b_released := released\<rparr>) g))
         else case money_add (b_consumed b) (r_amount r) of
                Inl e \<Rightarrow> (Inl e, r, g)
              | Inr consumed_after \<Rightarrow>
                  if b_mode b = BudgetMode.HARD \<and> consumed_after > b_limit b
                    then (Inr Status.BUDGET_EXCEEDED, r, g)
                  else case money_sub (b_reserved b) (r_amount r) of
                         Inl e \<Rightarrow> (Inl e, r, g)
                       | Inr reserved \<Rightarrow>
                           let b' = b\<lparr>b_reserved := reserved, b_consumed := consumed_after\<rparr>
                           in (Inr Status.OK, r\<lparr>r_state := ReservationState.COMMITTED\<rparr>,
                               put_budget (r_budget r) (b'\<lparr>b_lifecycle := consumed_lifecycle b'\<rparr>) g))"

text \<open>
  The lifecycle after a release, from the copies of the reservations that the governor keeps. The
  lookup of the source creates an empty list for a budget that has none.
\<close>

definition released_lifecycle :: "BudgetReservation list \<Rightarrow> Budget \<Rightarrow> BudgetLifecycle" where
  "released_lifecycle rs b =
    (if \<exists>r\<in>set rs. r_state r = ReservationState.ACTIVE then BudgetLifecycle.RESERVED
     else if money_is_zero (b_consumed b) then BudgetLifecycle.ACTIVE
     else BudgetLifecycle.PARTIALLY_CONSUMED)"

definition release :: "BudgetReservation \<Rightarrow> Impl \<Rightarrow> (exn + Status) \<times> BudgetReservation \<times> Impl" where
  "release r g =
    (case g_budgets g (r_budget r) of
       None \<Rightarrow> (Inr Status.INVALID_INPUT, r, g)
     | Some b \<Rightarrow>
         if b_generation b \<noteq> r_budget_generation r then (Inr Status.STALE_AUTHORITY, r, g)
         else if r_epoch r \<noteq> g_epoch g then (Inr Status.STALE_AUTHORITY, r, g)
         else if r_state r \<noteq> ReservationState.ACTIVE then (Inr Status.OK, r, g)
         else case money_sub (b_reserved b) (r_amount r) of
           Inl e \<Rightarrow> (Inl e, r, g)
         | Inr reserved \<Rightarrow>
             let b' = b\<lparr>b_reserved := reserved\<rparr>
             in case money_add (b_released b) (r_amount r) of
                  Inl e \<Rightarrow> (Inl e, r, put_budget (r_budget r) b' g)
                | Inr released \<Rightarrow>
                    let rs = (case g_reservations g (r_budget r) of None \<Rightarrow> [] | Some rs \<Rightarrow> rs);
                        b'' = b'\<lparr>b_released := released\<rparr>
                    in (Inr Status.OK, r\<lparr>r_state := ReservationState.RELEASED\<rparr>,
                        (put_budget (r_budget r) (b''\<lparr>b_lifecycle := released_lifecycle rs b''\<rparr>) g)
                          \<lparr>g_reservations := (g_reservations g)(r_budget r \<mapsto> rs)\<rparr>))"

definition consume ::
  "Clock \<Rightarrow> BudgetId \<Rightarrow> BudgetGeneration \<Rightarrow> CoordinatorEpoch \<Rightarrow> MoneyMicros \<Rightarrow> Impl \<Rightarrow> (exn + Status) \<times> Impl"
where
  "consume clk budget gen epoch amount g =
    (case g_budgets g budget of
       None \<Rightarrow> (Inr Status.INVALID_INPUT, g)
     | Some b \<Rightarrow>
         if b_generation b \<noteq> gen \<or> b_epoch b \<noteq> epoch then (Inr Status.STALE_AUTHORITY, g)
         else if \<not> is_live b then (Inr Status.BUDGET_EXPIRED, g)
         else if money_negative amount then (Inr Status.INVALID_INPUT, g)
         else if b_expires_at_ms b \<noteq> 0 \<and> b_expires_at_ms b <s clk 0
           then (Inr Status.BUDGET_EXPIRED, put_budget budget (b\<lparr>b_lifecycle := BudgetLifecycle.EXPIRED\<rparr>) g)
         else case money_add (b_consumed b) amount of
           Inl e \<Rightarrow> (Inl e, g)
         | Inr consumed_after \<Rightarrow>
             if b_mode b = BudgetMode.HARD \<and> consumed_after > b_limit b
               then (Inr Status.BUDGET_EXCEEDED, g)
             else let b' = b\<lparr>b_consumed := consumed_after\<rparr>
               in (Inr Status.OK, put_budget budget (b'\<lparr>b_lifecycle := consumed_lifecycle b'\<rparr>) g))"

section \<open>Behaviour of the operations\<close>

text \<open>What a commit that returns normally has done.\<close>

definition committed ::
  "BudgetReservation \<Rightarrow> Impl \<Rightarrow> Status \<Rightarrow> BudgetReservation \<Rightarrow> Impl \<Rightarrow> bool"
where
  "committed r g st r' g' \<longleftrightarrow>
    (\<exists>b reserved consumed. st = Status.OK \<and> g_budgets g (r_budget r) = Some b \<and>
      b_generation b = r_budget_generation r \<and> r_epoch r = g_epoch g \<and> b_epoch b = g_epoch g \<and>
      r_state r = ReservationState.ACTIVE \<and> is_live b \<and>
      money_sub (b_reserved b) (r_amount r) = Inr reserved \<and>
      money_add (b_consumed b) (r_amount r) = Inr consumed \<and>
      (b_mode b = BudgetMode.HARD \<longrightarrow> consumed \<le> b_limit b) \<and>
      r' = r\<lparr>r_state := ReservationState.COMMITTED\<rparr> \<and>
      g' = put_budget (r_budget r) (b\<lparr>b_reserved := reserved, b_consumed := consumed,
        b_lifecycle := consumed_lifecycle (b\<lparr>b_reserved := reserved, b_consumed := consumed\<rparr>)\<rparr>) g)"

definition expired ::
  "BudgetReservation \<Rightarrow> Impl \<Rightarrow> Status \<Rightarrow> BudgetReservation \<Rightarrow> Impl \<Rightarrow> bool"
where
  "expired r g st r' g' \<longleftrightarrow>
    (\<exists>b reserved released. st = Status.BUDGET_EXPIRED \<and> g_budgets g (r_budget r) = Some b \<and>
      r_state r = ReservationState.ACTIVE \<and>
      money_sub (b_reserved b) (r_amount r) = Inr reserved \<and>
      money_add (b_released b) (r_amount r) = Inr released \<and>
      r' = r\<lparr>r_state := ReservationState.EXPIRED\<rparr> \<and>
      g' = put_budget (r_budget r) (b\<lparr>b_reserved := reserved, b_released := released\<rparr>) g)"

definition released ::
  "BudgetReservation \<Rightarrow> Impl \<Rightarrow> Status \<Rightarrow> BudgetReservation \<Rightarrow> Impl \<Rightarrow> bool"
where
  "released r g st r' g' \<longleftrightarrow>
    (\<exists>b reserved released lc rs. st = Status.OK \<and> g_budgets g (r_budget r) = Some b \<and>
      r_state r = ReservationState.ACTIVE \<and>
      money_sub (b_reserved b) (r_amount r) = Inr reserved \<and>
      money_add (b_released b) (r_amount r) = Inr released \<and>
      r' = r\<lparr>r_state := ReservationState.RELEASED\<rparr> \<and>
      g' = (put_budget (r_budget r) (b\<lparr>b_reserved := reserved, b_released := released, b_lifecycle := lc\<rparr>) g)
        \<lparr>g_reservations := rs\<rparr>)"

definition consumed ::
  "BudgetId \<Rightarrow> MoneyMicros \<Rightarrow> Impl \<Rightarrow> Status \<Rightarrow> Impl \<Rightarrow> bool"
where
  "consumed i amount g st g' \<longleftrightarrow>
    (\<exists>b consumed. st = Status.OK \<and> g_budgets g i = Some b \<and> is_live b \<and> \<not> money_negative amount \<and>
      money_add (b_consumed b) amount = Inr consumed \<and>
      (b_mode b = BudgetMode.HARD \<longrightarrow> consumed \<le> b_limit b) \<and>
      g' = put_budget i (b\<lparr>b_consumed := consumed,
        b_lifecycle := consumed_lifecycle (b\<lparr>b_consumed := consumed\<rparr>)\<rparr>) g)"

definition reserved ::
  "BudgetId \<Rightarrow> MoneyMicros \<Rightarrow> Impl \<Rightarrow> Status \<Rightarrow> BudgetReservation \<Rightarrow> Impl \<Rightarrow> bool"
where
  "reserved i amount g st r g' \<longleftrightarrow>
    (\<exists>b reserved rs. st = Status.OK \<and> g_budgets g i = Some b \<and> is_live b \<and> \<not> money_negative amount \<and>
      money_add (b_reserved b) amount = Inr reserved \<and> reserved \<le> b_limit b \<and>
      r_budget r = i \<and> r_budget_generation r = b_generation b \<and> r_epoch r = g_epoch g \<and> r_amount r = amount \<and>
      r_state r = ReservationState.ACTIVE \<and> r_id r = mk_Id (g_next_reservation g) \<and>
      g' = (put_budget i (b\<lparr>b_reserved := reserved, b_lifecycle := BudgetLifecycle.RESERVED\<rparr>) g)
        \<lparr>g_next_reservation := g_next_reservation g + 1, g_reservations := rs\<rparr>)"

text \<open>The only change an operation that refuses makes: a budget seen past its expiry is expired.\<close>

definition budget_expired :: "BudgetId \<Rightarrow> Impl \<Rightarrow> Status \<Rightarrow> Impl \<Rightarrow> bool" where
  "budget_expired i g st g' \<longleftrightarrow>
    (\<exists>b. st = Status.BUDGET_EXPIRED \<and> g_budgets g i = Some b \<and>
      g' = put_budget i (b\<lparr>b_lifecycle := BudgetLifecycle.EXPIRED\<rparr>) g)"

lemma commit_outcome:
  assumes "commit clk r g = (Inr st, r', g')"
  shows "r' = r \<and> g' = g \<or> committed r g st r' g' \<or> expired r g st r' g'"
proof (cases "g_budgets g (r_budget r)")
  case None
  then show ?thesis
    using assms by (simp add: commit_def)
next
  case (Some b)
  show ?thesis
    using assms unfolding commit_def Some option.case Let_def committed_def expired_def
    by (simp split: if_split_asm sum.split_asm) (auto simp: not_less)
qed

lemma release_outcome:
  assumes "release r g = (Inr st, r', g')"
  shows "r' = r \<and> g' = g \<or> released r g st r' g'"
proof (cases "g_budgets g (r_budget r)")
  case None
  then show ?thesis
    using assms by (simp add: release_def)
next
  case (Some b)
  show ?thesis
    using assms unfolding release_def Some option.case Let_def released_def
    by (simp split: if_splits sum.splits) auto
qed

lemma consume_outcome:
  assumes "consume clk i gen epoch amount g = (Inr st, g')"
  shows "st \<noteq> Status.OK \<and> (g' = g \<or> budget_expired i g st g') \<or> consumed i amount g st g'"
proof (cases "g_budgets g i")
  case None
  then show ?thesis
    using assms by (simp add: consume_def)
next
  case (Some b)
  show ?thesis
    using assms unfolding consume_def Some option.case Let_def consumed_def budget_expired_def
    by (simp split: if_split_asm sum.split_asm) (auto simp: not_less)
qed

lemma reserve_outcome:
  assumes "reserve clk i gen epoch amount out g = (Inr st, r, g')"
  shows "st \<noteq> Status.OK \<and> r = out \<and> (g' = g \<or> budget_expired i g st g') \<or> reserved i amount g st r g'"
proof (cases "g_budgets g i")
  case None
  then show ?thesis
    using assms by (simp add: reserve_def)
next
  case (Some b)
  show ?thesis
    using assms unfolding reserve_def Some option.case Let_def reserved_def budget_expired_def
    by (simp split: if_splits sum.splits) (auto simp: not_less BudgetReservation_default_def)
qed

end
