(* ===== verification/Ledger.thy ===== *)
theory Ledger
  imports Accounting
begin

text \<open>
  The governor with the reservations its callers hold, as a transition system: any sequence of
  operations by any number of callers, each reservation used through the handle \<^verbatim>\<open>reserve\<close> filled in.
  Shown are the conservation of money between a budget and its reservations, and the limits of a
  hard budget, in every reachable state.
\<close>

section \<open>The system\<close>

text \<open>
  Beside the governor and the handles, the state records for each budget what \<^verbatim>\<open>consume\<close> charged
  directly. This record is not part of the program.
\<close>

record Ledger =
  gov :: Impl
  handles :: "BudgetReservation list"
  direct :: "BudgetId \<Rightarrow> int"

definition fresh_budget :: "Budget \<Rightarrow> bool" where
  "fresh_budget b \<longleftrightarrow>
    b_reserved b = MoneyMicros 0 \<and> b_consumed b = MoneyMicros 0 \<and> b_released b = MoneyMicros 0"

definition ledger_initial :: "Ledger \<Rightarrow> bool" where
  "ledger_initial s \<longleftrightarrow> gov s = Impl_init \<and> handles s = [] \<and> direct s = (\<lambda>_. 0)"

inductive ledger_step :: "Ledger \<Rightarrow> Ledger \<Rightarrow> bool" where
  create: "fresh_budget b \<Longrightarrow> create_budget b (gov s) = (st, g) \<Longrightarrow> ledger_step s (s\<lparr>gov := g\<rparr>)"
| reserve_ok: "reserve clk i gen epoch amount out (gov s) = (Inr Status.OK, r, g) \<Longrightarrow>
    ledger_step s (s\<lparr>gov := g, handles := handles s @ [r]\<rparr>)"
| reserve_refused: "reserve clk i gen epoch amount out (gov s) = (Inr st, r, g) \<Longrightarrow> st \<noteq> Status.OK \<Longrightarrow>
    ledger_step s (s\<lparr>gov := g\<rparr>)"
| commit: "k < length (handles s) \<Longrightarrow> commit clk (handles s ! k) (gov s) = (Inr st, r, g) \<Longrightarrow>
    ledger_step s (s\<lparr>gov := g, handles := (handles s)[k := r]\<rparr>)"
| release: "k < length (handles s) \<Longrightarrow> release (handles s ! k) (gov s) = (Inr st, r, g) \<Longrightarrow>
    ledger_step s (s\<lparr>gov := g, handles := (handles s)[k := r]\<rparr>)"
| consume_ok: "consume clk i gen epoch amount (gov s) = (Inr Status.OK, g) \<Longrightarrow>
    ledger_step s (s\<lparr>gov := g, direct := (direct s)(i := direct s i + micros amount)\<rparr>)"
| consume_refused: "consume clk i gen epoch amount (gov s) = (Inr st, g) \<Longrightarrow> st \<noteq> Status.OK \<Longrightarrow>
    ledger_step s (s\<lparr>gov := g\<rparr>)"
| policy: "ledger_step s (s\<lparr>gov := set_policy p (gov s)\<rparr>)"
| schedule: "ledger_step s (s\<lparr>gov := set_price_schedule sch (gov s)\<rparr>)"
| epoch: "ledger_step s (s\<lparr>gov := advance_epoch (gov s)\<rparr>)"
| boot: "ledger_step s (s\<lparr>gov := set_worker_boot w bt (gov s)\<rparr>)"
| publish: "publish_price obs (gov s) = (st, g) \<Longrightarrow> ledger_step s (s\<lparr>gov := g\<rparr>)"
| attempt: "record_attempt ev (gov s) = (st, g) \<Longrightarrow> ledger_step s (s\<lparr>gov := g\<rparr>)"
| finalize: "finalize_request clk req w (gov s) = (res, g) \<Longrightarrow> ledger_step s (s\<lparr>gov := g\<rparr>)"

section \<open>The invariant\<close>

definition handle_sum :: "(ReservationState \<Rightarrow> bool) \<Rightarrow> BudgetId \<Rightarrow> BudgetReservation list \<Rightarrow> int" where
  "handle_sum P i hs = (\<Sum>r\<leftarrow>hs. if r_budget r = i \<and> P (r_state r) then micros (r_amount r) else 0)"

definition held :: "BudgetId \<Rightarrow> BudgetReservation list \<Rightarrow> int" where
  "held = handle_sum (\<lambda>st. st = ReservationState.ACTIVE)"

definition charged :: "BudgetId \<Rightarrow> BudgetReservation list \<Rightarrow> int" where
  "charged = handle_sum (\<lambda>st. st = ReservationState.COMMITTED)"

definition returned :: "BudgetId \<Rightarrow> BudgetReservation list \<Rightarrow> int" where
  "returned = handle_sum (\<lambda>st. st = ReservationState.RELEASED \<or> st = ReservationState.EXPIRED)"

definition budget_inv :: "Budget \<Rightarrow> bool" where
  "budget_inv b \<longleftrightarrow>
    0 \<le> micros (b_limit b) \<and> 0 \<le> micros (b_reserved b) \<and> 0 \<le> micros (b_consumed b) \<and>
    0 \<le> micros (b_released b) \<and> micros (b_reserved b) \<le> micros (b_limit b) \<and>
    (b_mode b = BudgetMode.HARD \<longrightarrow> micros (b_consumed b) \<le> micros (b_limit b))"

definition balanced :: "Ledger \<Rightarrow> BudgetId \<Rightarrow> Budget \<Rightarrow> bool" where
  "balanced s i b \<longleftrightarrow>
    micros (b_reserved b) = held i (handles s) \<and>
    micros (b_consumed b) = charged i (handles s) + direct s i \<and>
    micros (b_released b) = returned i (handles s)"

definition ledger_inv :: "Ledger \<Rightarrow> bool" where
  "ledger_inv s \<longleftrightarrow>
    (\<forall>i b. g_budgets (gov s) i = Some b \<longrightarrow> budget_inv b \<and> balanced s i b) \<and>
    (\<forall>i. g_budgets (gov s) i = None \<longrightarrow> direct s i = 0) \<and>
    (\<forall>r\<in>set (handles s). 0 \<le> micros (r_amount r) \<and> g_budgets (gov s) (r_budget r) \<noteq> None)"

lemma handle_sum_append [simp]: "handle_sum P i (xs @ ys) = handle_sum P i xs + handle_sum P i ys"
  by (simp add: handle_sum_def)

lemma handle_sum_single:
  "handle_sum P i [r] = (if r_budget r = i \<and> P (r_state r) then micros (r_amount r) else 0)"
  by (simp add: handle_sum_def)

lemma handle_sum_update:
  "k < length hs \<Longrightarrow> handle_sum P i (hs[k := r]) = handle_sum P i hs - handle_sum P i [hs ! k] + handle_sum P i [r]"
  by (simp add: handle_sum_def sum_list_map_update)

lemma handle_sum_none: "\<forall>r\<in>set hs. r_budget r \<noteq> i \<Longrightarrow> handle_sum P i hs = 0"
  by (induction hs) (auto simp: handle_sum_def)

lemma handle_sum_nonneg: "\<forall>r\<in>set hs. 0 \<le> micros (r_amount r) \<Longrightarrow> 0 \<le> handle_sum P i hs"
  unfolding handle_sum_def by (rule sum_list_nonneg) auto

lemma handle_sum_member:
  assumes "\<forall>r\<in>set hs. 0 \<le> micros (r_amount r)" "r \<in> set hs" "P (r_state r)"
  shows "micros (r_amount r) \<le> handle_sum P (r_budget r) hs"
  unfolding handle_sum_def using assms
  by (intro member_le_sum_list) force+

lemmas sums = held_def charged_def returned_def

lemma ledger_invI:
  assumes "\<And>i b. g_budgets (gov s) i = Some b \<Longrightarrow> budget_inv b \<and> balanced s i b"
    and "\<And>i. g_budgets (gov s) i = None \<Longrightarrow> direct s i = 0"
    and "\<And>r. r \<in> set (handles s) \<Longrightarrow> 0 \<le> micros (r_amount r) \<and> g_budgets (gov s) (r_budget r) \<noteq> None"
  shows "ledger_inv s"
  using assms by (simp add: ledger_inv_def)

lemma ledger_inv_same_budgets:
  "ledger_inv s \<Longrightarrow> g_budgets g = g_budgets (gov s) \<Longrightarrow> ledger_inv (s\<lparr>gov := g\<rparr>)"
  by (simp add: ledger_inv_def balanced_def)

section \<open>Every operation preserves it\<close>

lemma inv_create:
  assumes inv: "ledger_inv s" and fresh: "fresh_budget b" and op: "create_budget b (gov s) = (st, g)"
  shows "ledger_inv (s\<lparr>gov := g\<rparr>)"
proof (cases "g = gov s")
  case False
  then have new: "g_budgets (gov s) (b_id b) = None" "\<not> money_negative (b_limit b)"
    and g: "g_budgets g = (g_budgets (gov s))(b_id b \<mapsto> b\<lparr>b_lifecycle := BudgetLifecycle.ACTIVE\<rparr>)"
    using op by (auto simp: create_budget_def umap_emplace_def split: if_splits)
  have "\<forall>r\<in>set (handles s). r_budget r \<noteq> b_id b"
    using inv new by (auto simp: ledger_inv_def)
  then have "handle_sum P (b_id b) (handles s) = 0" for P
    by (rule handle_sum_none)
  then have "balanced s (b_id b) (b\<lparr>b_lifecycle := BudgetLifecycle.ACTIVE\<rparr>)"
    using inv new fresh by (simp add: balanced_def sums fresh_budget_def ledger_inv_def)
  moreover have "budget_inv (b\<lparr>b_lifecycle := BudgetLifecycle.ACTIVE\<rparr>)"
    using fresh new by (simp add: budget_inv_def fresh_budget_def sint_rules)
  ultimately show ?thesis
    using inv g by (auto simp: ledger_inv_def balanced_def)
qed (use inv in simp)

lemma inv_update_handle:
  assumes inv: "ledger_inv s" and k: "k < length (handles s)" and r: "r = handles s ! k"
    and g: "g_budgets g = (g_budgets (gov s))(r_budget r \<mapsto> b')"
    and b': "budget_inv b'" "balanced (s\<lparr>handles := (handles s)[k := r\<lparr>r_state := st\<rparr>]\<rparr>) (r_budget r) b'"
  shows "ledger_inv (s\<lparr>gov := g, handles := (handles s)[k := r\<lparr>r_state := st\<rparr>]\<rparr>)" (is "ledger_inv ?s")
proof (rule ledger_invI)
  fix i b
  assume look: "g_budgets (gov ?s) i = Some b"
  show "budget_inv b \<and> balanced ?s i b"
  proof (cases "i = r_budget r")
    case True
    then show ?thesis
      using look b' g by (simp add: balanced_def)
  next
    case False
    then have "handle_sum P i ((handles s)[k := r\<lparr>r_state := st\<rparr>]) = handle_sum P i (handles s)" for P
      using k r by (simp add: handle_sum_update handle_sum_single)
    then show ?thesis
      using inv look False g by (simp add: ledger_inv_def balanced_def sums)
  qed
next
  fix i
  assume "g_budgets (gov ?s) i = None"
  then show "direct ?s i = 0"
    using inv g by (auto simp: ledger_inv_def split: if_splits)
next
  fix x
  assume "x \<in> set (handles ?s)"
  then have "x = r\<lparr>r_state := st\<rparr> \<or> x \<in> set (handles s)"
    using set_update_subset_insert [of "handles s" k] by auto
  moreover have "r \<in> set (handles s)"
    using k r by simp
  ultimately show "0 \<le> micros (r_amount x) \<and> g_budgets (gov ?s) (r_budget x) \<noteq> None"
    using inv g by (auto simp: ledger_inv_def)
qed

text \<open>Moving a held reservation into another state moves its amount between the sums.\<close>

lemma held_update:
  assumes "k < length hs" "r = hs ! k" "r_state r = ReservationState.ACTIVE"
  shows "handle_sum P (r_budget r) (hs[k := r\<lparr>r_state := st\<rparr>]) = handle_sum P (r_budget r) hs
    - (if P ReservationState.ACTIVE then micros (r_amount r) else 0) + (if P st then micros (r_amount r) else 0)"
  using assms by (simp add: handle_sum_update handle_sum_single)

lemma held_bounds:
  assumes "ledger_inv s" "k < length (handles s)" "r = handles s ! k" "r_state r = ReservationState.ACTIVE"
    and "g_budgets (gov s) (r_budget r) = Some b"
  shows "0 \<le> micros (r_amount r)" "micros (r_amount r) \<le> micros (b_reserved b)"
proof -
  have r: "r \<in> set (handles s)"
    using assms by simp
  then show "0 \<le> micros (r_amount r)"
    using assms by (simp add: ledger_inv_def)
  show "micros (r_amount r) \<le> micros (b_reserved b)"
    using assms r handle_sum_member [of "handles s" r "\<lambda>st. st = ReservationState.ACTIVE"]
    by (simp add: ledger_inv_def balanced_def sums)
qed

lemma inv_commit:
  assumes inv: "ledger_inv s" and k: "k < length (handles s)"
    and op: "commit clk (handles s ! k) (gov s) = (Inr st, r', g)"
  shows "ledger_inv (s\<lparr>gov := g, handles := (handles s)[k := r']\<rparr>)"
proof -
  define r where "r = handles s ! k"
  consider "r' = r" "g = gov s" | "committed r (gov s) st r' g" | "expired r (gov s) st r' g"
    using commit_outcome [OF op] r_def by auto
  then show ?thesis
  proof cases
    case 1
    then show ?thesis
      using inv r_def by simp
  next
    case 2
    then obtain b reserved consumed where b: "g_budgets (gov s) (r_budget r) = Some b"
      "r_state r = ReservationState.ACTIVE" "money_sub (b_reserved b) (r_amount r) = Inr reserved"
      "money_add (b_consumed b) (r_amount r) = Inr consumed" "b_mode b = BudgetMode.HARD \<longrightarrow> consumed \<le> b_limit b"
      and r': "r' = r\<lparr>r_state := ReservationState.COMMITTED\<rparr>"
      and g: "g = put_budget (r_budget r) (b\<lparr>b_reserved := reserved, b_consumed := consumed,
        b_lifecycle := consumed_lifecycle (b\<lparr>b_reserved := reserved, b_consumed := consumed\<rparr>)\<rparr>) (gov s)"
      unfolding committed_def by blast
    note bounds = held_bounds [OF inv k r_def b(2,1)]
    have old: "budget_inv b" "balanced s (r_budget r) b"
      using inv b by (auto simp: ledger_inv_def)
    show ?thesis
      unfolding r'
    proof (rule inv_update_handle [OF inv k r_def])
      show "g_budgets g = (g_budgets (gov s))(r_budget r \<mapsto> b\<lparr>b_reserved := reserved, b_consumed := consumed,
          b_lifecycle := consumed_lifecycle (b\<lparr>b_reserved := reserved, b_consumed := consumed\<rparr>)\<rparr>)"
        by (simp add: g)
    qed (use old bounds b held_update [OF k r_def b(2)] in
      \<open>simp_all add: budget_inv_def balanced_def sums money_add_eq_Inr money_sub_eq_Inr sint_rules\<close>)
  next
    case 3
    then obtain b reserved released where b: "g_budgets (gov s) (r_budget r) = Some b"
      "r_state r = ReservationState.ACTIVE" "money_sub (b_reserved b) (r_amount r) = Inr reserved"
      "money_add (b_released b) (r_amount r) = Inr released"
      and r': "r' = r\<lparr>r_state := ReservationState.EXPIRED\<rparr>"
      and g: "g = put_budget (r_budget r) (b\<lparr>b_reserved := reserved, b_released := released\<rparr>) (gov s)"
      unfolding expired_def by blast
    note bounds = held_bounds [OF inv k r_def b(2,1)]
    have old: "budget_inv b" "balanced s (r_budget r) b"
      using inv b by (auto simp: ledger_inv_def)
    show ?thesis
      unfolding r'
    proof (rule inv_update_handle [OF inv k r_def])
      show "g_budgets g = (g_budgets (gov s))(r_budget r \<mapsto> b\<lparr>b_reserved := reserved, b_released := released\<rparr>)"
        by (simp add: g)
    qed (use old bounds b held_update [OF k r_def b(2)] in
      \<open>simp_all add: budget_inv_def balanced_def sums money_add_eq_Inr money_sub_eq_Inr\<close>)
  qed
qed

lemma inv_release:
  assumes inv: "ledger_inv s" and k: "k < length (handles s)"
    and op: "release (handles s ! k) (gov s) = (Inr st, r', g)"
  shows "ledger_inv (s\<lparr>gov := g, handles := (handles s)[k := r']\<rparr>)"
proof -
  define r where "r = handles s ! k"
  consider "r' = r" "g = gov s" | "released r (gov s) st r' g"
    using release_outcome [OF op] r_def by auto
  then show ?thesis
  proof cases
    case 1
    then show ?thesis
      using inv r_def by simp
  next
    case 2
    then obtain b reserved released lc rs where b: "g_budgets (gov s) (r_budget r) = Some b"
      "r_state r = ReservationState.ACTIVE" "money_sub (b_reserved b) (r_amount r) = Inr reserved"
      "money_add (b_released b) (r_amount r) = Inr released"
      and r': "r' = r\<lparr>r_state := ReservationState.RELEASED\<rparr>"
      and g: "g = (put_budget (r_budget r) (b\<lparr>b_reserved := reserved, b_released := released, b_lifecycle := lc\<rparr>) (gov s))
        \<lparr>g_reservations := rs\<rparr>"
      unfolding released_def by blast
    note bounds = held_bounds [OF inv k r_def b(2,1)]
    have old: "budget_inv b" "balanced s (r_budget r) b"
      using inv b by (auto simp: ledger_inv_def)
    show ?thesis
      unfolding r'
    proof (rule inv_update_handle [OF inv k r_def])
      show "g_budgets g = (g_budgets (gov s))(r_budget r \<mapsto>
          b\<lparr>b_reserved := reserved, b_released := released, b_lifecycle := lc\<rparr>)"
        by (simp add: g)
    qed (use old bounds b held_update [OF k r_def b(2)] in
      \<open>simp_all add: budget_inv_def balanced_def sums money_add_eq_Inr money_sub_eq_Inr\<close>)
  qed
qed

lemma inv_budget_expired:
  assumes inv: "ledger_inv s" and exp: "budget_expired i (gov s) st g"
  shows "ledger_inv (s\<lparr>gov := g\<rparr>)"
proof -
  obtain b where b: "g_budgets (gov s) i = Some b"
    and g: "g = put_budget i (b\<lparr>b_lifecycle := BudgetLifecycle.EXPIRED\<rparr>) (gov s)"
    using exp by (auto simp: budget_expired_def)
  have "budget_inv b" "balanced s i b"
    using inv b by (auto simp: ledger_inv_def)
  then have "budget_inv (b\<lparr>b_lifecycle := BudgetLifecycle.EXPIRED\<rparr>)"
    "balanced s i (b\<lparr>b_lifecycle := BudgetLifecycle.EXPIRED\<rparr>)"
    by (simp_all add: budget_inv_def balanced_def)
  then show ?thesis
    using inv b g by (auto simp: ledger_inv_def balanced_def)
qed

lemma inv_reserve_ok:
  assumes inv: "ledger_inv s" and op: "reserve clk i gen epoch amount out (gov s) = (Inr Status.OK, r, g)"
  shows "ledger_inv (s\<lparr>gov := g, handles := handles s @ [r]\<rparr>)" (is "ledger_inv ?s")
proof -
  have "reserved i amount (gov s) Status.OK r g"
    using reserve_outcome [OF op] by simp
  then obtain b res rs where b: "g_budgets (gov s) i = Some b" "\<not> money_negative amount"
    "money_add (b_reserved b) amount = Inr res" "res \<le> b_limit b"
    and r: "r_budget r = i" "r_amount r = amount" "r_state r = ReservationState.ACTIVE"
    and g: "g = (put_budget i (b\<lparr>b_reserved := res, b_lifecycle := BudgetLifecycle.RESERVED\<rparr>) (gov s))
        \<lparr>g_next_reservation := g_next_reservation (gov s) + 1, g_reservations := rs\<rparr>"
    by (auto simp: reserved_def)
  have old: "budget_inv b" "balanced s i b"
    using inv b by (auto simp: ledger_inv_def)
  have new: "budget_inv (b\<lparr>b_reserved := res, b_lifecycle := BudgetLifecycle.RESERVED\<rparr>)"
    "balanced ?s i (b\<lparr>b_reserved := res, b_lifecycle := BudgetLifecycle.RESERVED\<rparr>)"
    using old b r by (simp_all add: budget_inv_def balanced_def sums handle_sum_single money_add_eq_Inr sint_rules)
  show ?thesis
  proof (rule ledger_invI)
    fix j c
    assume "g_budgets (gov ?s) j = Some c"
    then show "budget_inv c \<and> balanced ?s j c"
      using inv g r new by (cases "j = i") (auto simp: ledger_inv_def balanced_def sums handle_sum_single)
  qed (use inv g r b in \<open>auto simp: ledger_inv_def sint_rules split: if_splits\<close>)
qed

lemma inv_consume_ok:
  assumes inv: "ledger_inv s" and op: "consume clk i gen epoch amount (gov s) = (Inr Status.OK, g)"
  shows "ledger_inv (s\<lparr>gov := g, direct := (direct s)(i := direct s i + micros amount)\<rparr>)" (is "ledger_inv ?s")
proof -
  have "consumed i amount (gov s) Status.OK g"
    using consume_outcome [OF op] by simp
  then obtain b con where b: "g_budgets (gov s) i = Some b" "\<not> money_negative amount"
    "money_add (b_consumed b) amount = Inr con" "b_mode b = BudgetMode.HARD \<longrightarrow> con \<le> b_limit b"
    and g: "g = put_budget i (b\<lparr>b_consumed := con,
        b_lifecycle := consumed_lifecycle (b\<lparr>b_consumed := con\<rparr>)\<rparr>) (gov s)"
    unfolding consumed_def by blast
  have old: "budget_inv b" "balanced s i b"
    using inv b by (auto simp: ledger_inv_def)
  let ?b = "b\<lparr>b_consumed := con, b_lifecycle := consumed_lifecycle (b\<lparr>b_consumed := con\<rparr>)\<rparr>"
  have new: "budget_inv ?b" "balanced ?s i ?b"
    using old b by (auto simp: balanced_def budget_inv_def money_add_eq_Inr sint_rules)
  show ?thesis
  proof (rule ledger_invI)
    fix j c
    assume "g_budgets (gov ?s) j = Some c"
    then show "budget_inv c \<and> balanced ?s j c"
      using inv g new by (cases "j = i") (auto simp: ledger_inv_def balanced_def)
  qed (use inv g in \<open>auto simp: ledger_inv_def split: if_splits\<close>)
qed

lemma budgets_unchanged:
  "g_budgets (set_policy p g) = g_budgets g" "g_budgets (set_price_schedule sch g) = g_budgets g"
  "g_budgets (advance_epoch g) = g_budgets g" "g_budgets (set_worker_boot w bt g) = g_budgets g"
  "publish_price obs g = (st, g') \<Longrightarrow> g_budgets g' = g_budgets g"
  "record_attempt ev g = (st, g') \<Longrightarrow> g_budgets g' = g_budgets g"
  "finalize_request clk req wl g = (res, g') \<Longrightarrow> g_budgets g' = g_budgets g"
  by (auto simp: set_policy_def set_price_schedule_def advance_epoch_def set_worker_boot_def publish_price_def
      record_attempt_def finalize_request_def Let_def split: if_splits option.splits sum.splits)

lemma inv_refused:
  "ledger_inv s \<Longrightarrow> reserve clk i gen epoch amount out (gov s) = (Inr st, r, g) \<Longrightarrow> st \<noteq> Status.OK \<Longrightarrow>
    ledger_inv (s\<lparr>gov := g\<rparr>)"
  "ledger_inv s \<Longrightarrow> consume clk i gen epoch amount (gov s) = (Inr st, g) \<Longrightarrow> st \<noteq> Status.OK \<Longrightarrow>
    ledger_inv (s\<lparr>gov := g\<rparr>)"
  by (auto dest!: reserve_outcome consume_outcome simp: reserved_def consumed_def intro: inv_budget_expired)

lemma inv_ledger_step: "ledger_step s s' \<Longrightarrow> ledger_inv s \<Longrightarrow> ledger_inv s'"
  by (induction rule: ledger_step.induct)
    (simp_all add: inv_create inv_reserve_ok inv_commit inv_release inv_consume_ok inv_refused
      ledger_inv_same_budgets budgets_unchanged)

lemma inv_ledger_initial: "ledger_initial s \<Longrightarrow> ledger_inv s"
  by (simp add: ledger_initial_def ledger_inv_def Impl_init_def)

interpretation ledger: safe_system ledger_initial ledger_step ledger_inv
  by unfold_locales (simp_all add: inv_ledger_initial inv_ledger_step)

section \<open>A concrete budget\<close>

text \<open>A hard budget of ten units.\<close>

definition sample_budget :: Budget where
  "sample_budget = Budget_default\<lparr>b_id := mk_Id 1, b_generation := mk_Id 1, b_policy_generation := mk_Id 1,
    b_epoch := mk_Id 1, b_limit := MoneyMicros 10000000\<rparr>"

text \<open>The governor that holds it, and the reservation of six units on it.\<close>

definition sample_governor :: Impl where
  "sample_governor = snd (create_budget sample_budget Impl_init)"

definition sample_reserve :: "(exn + Status) \<times> BudgetReservation \<times> Impl" where
  "sample_reserve = reserve (\<lambda>_. 5) (mk_Id 1) (mk_Id 1) (mk_Id 1) (MoneyMicros 6000000)
    BudgetReservation_default sample_governor"

lemmas sample_ops = sample_budget_def Budget_default_def kDefaultCurrency_def Impl_init_def
  CostPolicy_default_def create_budget_def umap_emplace_def money_negative_def sint_rules

lemma sample_governor_budgets:
  "g_budgets sample_governor = [mk_Id 1 \<mapsto> sample_budget\<lparr>b_lifecycle := BudgetLifecycle.ACTIVE\<rparr>]"
  "g_epoch sample_governor = mk_Id 1"
  by (simp_all add: sample_governor_def sample_ops)

lemma sample_money:
  "money_add (MoneyMicros 0) (MoneyMicros 6000000) = Inr (MoneyMicros 6000000)"
  "money_sub (MoneyMicros 6000000) (MoneyMicros 6000000) = Inr (MoneyMicros 0)"
  "money_add (MoneyMicros 6000000) (MoneyMicros 2000000) = Inr (MoneyMicros 8000000)"
  by (simp_all add: money_add_eq_Inr money_sub_eq_Inr)

lemma sample_reserve_ok:
  "\<exists>r g. sample_reserve = (Inr Status.OK, r, g) \<and> r_state r = ReservationState.ACTIVE \<and>
    r_amount r = MoneyMicros 6000000 \<and> r_budget r = mk_Id 1 \<and> r_budget_generation r = mk_Id 1 \<and> r_epoch r = mk_Id 1 \<and>
    r_expires_at_ms r = 0 \<and> g_epoch g = mk_Id 1 \<and> g_reservations g (mk_Id 1) = Some [r] \<and>
    g_budgets g = [mk_Id 1 \<mapsto> sample_budget\<lparr>b_lifecycle := BudgetLifecycle.RESERVED, b_reserved := MoneyMicros 6000000\<rparr>]"
  unfolding sample_reserve_def reserve_def sample_governor_budgets
  by (simp add: is_live_def sample_money sample_budget_def Budget_default_def money_less_micros sint_rules
      BudgetReservation_default_def sample_governor_def create_budget_def umap_emplace_def Impl_init_def
      CostPolicy_default_def Let_def)

lemma commit_ok_settles: "commit clk r g = (Inr Status.OK, r', g') \<Longrightarrow> r_state r' \<noteq> ReservationState.ACTIVE"
  by (auto simp: commit_def Let_def split: option.splits if_splits sum.splits)

lemma release_ok_settles: "release r g = (Inr Status.OK, r', g') \<Longrightarrow> r_state r' \<noteq> ReservationState.ACTIVE"
  by (auto simp: release_def Let_def split: option.splits if_splits sum.splits)

lemma commit_ok_committed:
  assumes "commit clk r g = (Inr Status.OK, r', g')" "r_state r = ReservationState.ACTIVE"
  shows "committed r g Status.OK r' g'"
  using commit_outcome [OF assms(1)] commit_ok_settles [OF assms(1)] assms(2) by (auto simp: expired_def)

lemma sample_commit_ok:
  "\<exists>r' g'. commit (\<lambda>_. 5) (fst (snd sample_reserve)) (snd (snd sample_reserve)) = (Inr Status.OK, r', g')"
proof -
  obtain r g where s: "sample_reserve = (Inr Status.OK, r, g)" and r: "r_state r = ReservationState.ACTIVE"
    "r_amount r = MoneyMicros 6000000" "r_budget r = mk_Id 1" "r_budget_generation r = mk_Id 1" "r_epoch r = mk_Id 1"
    "r_expires_at_ms r = 0" "g_epoch g = mk_Id 1"
    "g_budgets g = [mk_Id 1 \<mapsto> sample_budget\<lparr>b_lifecycle := BudgetLifecycle.RESERVED, b_reserved := MoneyMicros 6000000\<rparr>]"
    using sample_reserve_ok by blast
  show ?thesis
    unfolding s fst_conv snd_conv commit_def r fun_upd_same option.case
    by (simp add: is_live_def sample_money sample_budget_def Budget_default_def money_less_micros Let_def)
qed

lemma sample_reserve_refused:
  "\<exists>r g. reserve (\<lambda>_. 5) (mk_Id 1) (mk_Id 1) (mk_Id 1) (MoneyMicros 20000000) BudgetReservation_default
      sample_governor = (Inr Status.BUDGET_EXCEEDED, r, g)"
proof -
  have "money_add (MoneyMicros 0) (MoneyMicros 20000000) = Inr (MoneyMicros 20000000)"
    by (simp add: money_add_eq_Inr)
  then show ?thesis
    unfolding reserve_def sample_governor_budgets
    by (simp add: is_live_def sample_budget_def Budget_default_def money_less_micros sint_rules)
qed

section \<open>Properties\<close>



text \<open>
  C9: a reservation is settled once. After a commit or release that succeeds, every later commit or
  release of it, on any state of the governor, changes neither the reservation nor the governor.
\<close>

theorem settled_reservation_inert:
  assumes "commit clk r g = (Inr Status.OK, r', g') \<or> release r g = (Inr Status.OK, r', g')"
  shows "r_state r' \<noteq> ReservationState.ACTIVE \<and>
    snd (commit clk' r' h) = (r', h) \<and> snd (release r' h) = (r', h)"
proof -
  have "r_state r' \<noteq> ReservationState.ACTIVE"
    using assms commit_ok_settles release_ok_settles by blast
  then show ?thesis
    by (simp add: commit_def release_def split: option.split)
qed

theorem settled_reservation_inert_witness:
  "\<exists>r' g'. commit (\<lambda>_. 5) (fst (snd sample_reserve)) (snd (snd sample_reserve)) = (Inr Status.OK, r', g') \<and>
    snd (commit (\<lambda>_. 6) r' g') = (r', g') \<and> snd (release r' g') = (r', g')"
proof -
  obtain r' g' where "commit (\<lambda>_. 5) (fst (snd sample_reserve)) (snd (snd sample_reserve)) = (Inr Status.OK, r', g')"
    using sample_commit_ok by blast
  then show ?thesis
    using settled_reservation_inert by blast
qed

text \<open>
  C10: an accounting operation that refuses changes nothing. With any status but \<^verbatim>\<open>OK\<close> and
  \<^verbatim>\<open>BUDGET_EXPIRED\<close> the governor and the reservation are as before; with \<^verbatim>\<open>BUDGET_EXPIRED\<close> no limit and
  no consumed amount of any budget has changed.
\<close>

theorem refusal_changes_nothing:
  assumes "commit clk r g = (Inr st, r', g') \<or> release r g = (Inr st, r', g') \<or>
      reserve clk i gen epoch amount r g = (Inr st, r', g') \<or>
      consume clk i gen epoch amount g = (Inr st, g') \<and> r' = r"
    and "st \<noteq> Status.OK"
  shows "(st \<noteq> Status.BUDGET_EXPIRED \<longrightarrow> r' = r \<and> g' = g) \<and>
    map_option b_consumed (find_budget g' j) = map_option b_consumed (find_budget g j) \<and>
    map_option b_limit (find_budget g' j) = map_option b_limit (find_budget g j)"
  using assms
  by (auto dest!: commit_outcome release_outcome reserve_outcome consume_outcome
      simp: committed_def expired_def released_def reserved_def consumed_def budget_expired_def find_budget_def)

theorem refusal_changes_nothing_witness:
  "reserve (\<lambda>_. 5) (mk_Id 1) (mk_Id 1) (mk_Id 1) (MoneyMicros 20000000) BudgetReservation_default sample_governor =
    (Inr Status.BUDGET_EXCEEDED, BudgetReservation_default, sample_governor)"
proof -
  obtain r g where "reserve (\<lambda>_. 5) (mk_Id 1) (mk_Id 1) (mk_Id 1) (MoneyMicros 20000000) BudgetReservation_default
      sample_governor = (Inr Status.BUDGET_EXCEEDED, r, g)"
    using sample_reserve_refused by blast
  moreover from this have "r = BudgetReservation_default \<and> g = sample_governor"
    using refusal_changes_nothing [where r = BudgetReservation_default and st = Status.BUDGET_EXCEEDED
        and g = sample_governor and r' = r and g' = g] by blast
  ultimately show ?thesis
    by simp
qed

text \<open>
  C11: an epoch advance fences reservations. After it no budget of the old epoch can be reserved, and
  no reservation of the old epoch committed or released: the operation answers \<^verbatim>\<open>STALE_AUTHORITY\<close> (or
  that the budget is unknown) and changes nothing.
\<close>

theorem epoch_advance_fences:
  assumes "r_epoch r = g_epoch g" and "\<And>b. find_budget g i = Some b \<Longrightarrow> b_epoch b = g_epoch g"
  shows "\<exists>st st' st''. {st, st', st''} \<subseteq> {Status.STALE_AUTHORITY, Status.INVALID_INPUT} \<and>
    commit clk r (advance_epoch g) = (Inr st, r, advance_epoch g) \<and>
    release r (advance_epoch g) = (Inr st', r, advance_epoch g) \<and>
    reserve clk i gen epoch amount out (advance_epoch g) = (Inr st'', out, advance_epoch g)"
proof -
  have "\<exists>st\<in>{Status.STALE_AUTHORITY, Status.INVALID_INPUT}. commit clk r (advance_epoch g) = (Inr st, r, advance_epoch g)"
    "\<exists>st\<in>{Status.STALE_AUTHORITY, Status.INVALID_INPUT}. release r (advance_epoch g) = (Inr st, r, advance_epoch g)"
    using assms(1) by (auto simp: commit_def release_def advance_epoch_def split: option.split)
  moreover have "\<exists>st\<in>{Status.STALE_AUTHORITY, Status.INVALID_INPUT}.
      reserve clk i gen epoch amount out (advance_epoch g) = (Inr st, out, advance_epoch g)"
    using assms(2) by (auto simp: reserve_def advance_epoch_def find_budget_def split: option.split)
  ultimately show ?thesis
    by blast
qed

theorem epoch_advance_fences_witness:
  "\<exists>st. commit (\<lambda>_. 5) (fst (snd sample_reserve)) (advance_epoch (snd (snd sample_reserve))) =
    (Inr st, fst (snd sample_reserve), advance_epoch (snd (snd sample_reserve)))"
proof -
  obtain r g where r: "sample_reserve = (Inr Status.OK, r, g)" "r_epoch r = g_epoch g"
    and g: "g_budgets g = [mk_Id 1 \<mapsto> sample_budget\<lparr>b_lifecycle := BudgetLifecycle.RESERVED, b_reserved := MoneyMicros 6000000\<rparr>]"
      "g_epoch g = mk_Id 1"
    using sample_reserve_ok by auto
  have "\<And>b. find_budget g (mk_Id 1) = Some b \<Longrightarrow> b_epoch b = g_epoch g"
    using g by (auto simp: find_budget_def sample_budget_def)
  from epoch_advance_fences [OF r(2) this] show ?thesis
    unfolding r(1) by fastforce
qed

text \<open>
  Direct consumption is not fenced by the epoch. Whatever \<^verbatim>\<open>consume\<close> does on a budget of the
  current epoch, it does after an epoch advance as well, with the old epoch as its argument.
\<close>

lemma consume_ignores_epoch:
  "consume clk i gen epoch amount (advance_epoch g) =
    (fst (consume clk i gen epoch amount g), advance_epoch (snd (consume clk i gen epoch amount g)))"
  by (simp add: consume_def advance_epoch_def Let_def split: option.split sum.split)

text \<open>
  A release revives any budget. Releasing an active reservation that was obtained from
  \<^verbatim>\<open>reserve\<close> (the governor still keeps its copy) leaves the budget in the live state \<^verbatim>\<open>RESERVED\<close>, also
  when it was exhausted, expired, cancelled, superseded or closed before, and also when it was the
  last reservation.
\<close>

lemma release_revives_budget:
  assumes "release r g = (Inr Status.OK, r', g')" and "r_state r = ReservationState.ACTIVE"
    and "g_reservations g (r_budget r) = Some rs" and "r \<in> set rs"
  shows "\<exists>b. find_budget g' (r_budget r) = Some b \<and> b_lifecycle b = BudgetLifecycle.RESERVED \<and> is_live b"
proof -
  have "\<exists>x\<in>set rs. r_state x = ReservationState.ACTIVE"
    using assms by blast
  then show ?thesis
    using assms
    by (auto simp: release_def Let_def released_lifecycle_def find_budget_def is_live_def
        split: option.splits if_splits sum.splits)
qed

text \<open>The reservation of six units, released after its budget was closed.\<close>

definition sample_closed :: Impl where
  "sample_closed = put_budget (mk_Id 1) (sample_budget\<lparr>b_lifecycle := BudgetLifecycle.CLOSED,
    b_reserved := MoneyMicros 6000000\<rparr>) (snd (snd sample_reserve))"

lemma release_revives_budget_witness:
  "\<exists>r' g' b. release (fst (snd sample_reserve)) sample_closed = (Inr Status.OK, r', g') \<and>
    find_budget g' (mk_Id 1) = Some b \<and> b_lifecycle b = BudgetLifecycle.RESERVED"
proof -
  obtain r g where s: "sample_reserve = (Inr Status.OK, r, g)" and r: "r_state r = ReservationState.ACTIVE"
    "r_amount r = MoneyMicros 6000000" "r_budget r = mk_Id 1" "r_budget_generation r = mk_Id 1" "r_epoch r = mk_Id 1"
    and g: "g_epoch g = mk_Id 1" "g_reservations g (mk_Id 1) = Some [r]"
    using sample_reserve_ok by blast
  have "\<exists>r' g'. release r sample_closed = (Inr Status.OK, r', g')"
    unfolding release_def sample_closed_def s snd_conv using r g
    by (simp add: sample_money sample_budget_def Budget_default_def Let_def)
  then obtain r' g' where rel: "release r sample_closed = (Inr Status.OK, r', g')"
    by blast
  have "g_reservations sample_closed (r_budget r) = Some [r]"
    unfolding sample_closed_def s using r g by simp
  from release_revives_budget [OF rel r(1) this] show ?thesis
    unfolding s fst_conv snd_conv using rel r by auto
qed

text \<open>
  A copied reservation is charged twice. The governor records nothing of a commit on its own copy
  of the reservation, so committing two copies of one active reservation charges the amount twice
  and takes it twice out of the reserved amount.
\<close>

lemma copied_charged_twice:
  assumes b: "find_budget g (r_budget r) = Some b" and active: "r_state r = ReservationState.ACTIVE"
    and first: "commit clk r g = (Inr Status.OK, r1, g1)"
    and second: "commit clk' r g1 = (Inr Status.OK, r2, g2)"
  shows "\<exists>b'. find_budget g2 (r_budget r) = Some b' \<and>
    micros (b_consumed b') = micros (b_consumed b) + 2 * micros (r_amount r) \<and>
    micros (b_reserved b') = micros (b_reserved b) - 2 * micros (r_amount r)"
proof -
  have "committed r g Status.OK r1 g1" "committed r g1 Status.OK r2 g2"
    using commit_ok_committed [OF first active] commit_ok_committed [OF second active] by simp_all
  note committed = this
  obtain res1 con1 where g1: "money_sub (b_reserved b) (r_amount r) = Inr res1"
    "money_add (b_consumed b) (r_amount r) = Inr con1"
    "g1 = put_budget (r_budget r) (b\<lparr>b_reserved := res1, b_consumed := con1,
      b_lifecycle := consumed_lifecycle (b\<lparr>b_reserved := res1, b_consumed := con1\<rparr>)\<rparr>) g"
    using b committed(1) unfolding committed_def find_budget_def by auto
  obtain b1 res2 con2 where b1: "g_budgets g1 (r_budget r) = Some b1"
    and g2: "money_sub (b_reserved b1) (r_amount r) = Inr res2" "money_add (b_consumed b1) (r_amount r) = Inr con2"
    "g2 = put_budget (r_budget r) (b1\<lparr>b_reserved := res2, b_consumed := con2,
      b_lifecycle := consumed_lifecycle (b1\<lparr>b_reserved := res2, b_consumed := con2\<rparr>)\<rparr>) g1"
    using committed(2) unfolding committed_def by auto
  have "b_reserved b1 = res1 \<and> b_consumed b1 = con1"
    using b1 unfolding g1(3) by auto
  then show ?thesis
    using g1(1, 2) g2(1, 2) unfolding g2(3) by (simp add: find_budget_def money_add_eq_Inr money_sub_eq_Inr)
qed

end
