(* ===== verification/Projection.thy ===== *)
theory Projection
  imports Costs
begin

text \<open>
  What \<^verbatim>\<open>CostCalculator::project\<close> computes: the specification of a cost breakdown by integer sums,
  the proof that the loops of \<^verbatim>\<open>src/cost.cpp\<close> implement it, and the properties of the cost model.
\<close>

section \<open>Booking charges\<close>

text \<open>
  A charge is a breakdown line and the priced amount to book on it. Booking charges one after the
  other succeeds exactly when all of them are priced and every line stays representable.
\<close>

definition book :: "nat \<times> (exn + MoneyMicros) \<Rightarrow> ComponentValue list \<Rightarrow> exn + ComponentValue list" where
  "book = (\<lambda>(i, r) cs. bindE r (\<lambda>m. add_component i m cs))"

definition charge_value :: "exn + MoneyMicros \<Rightarrow> int" where
  "charge_value r = (case r of Inl _ \<Rightarrow> 0 | Inr m \<Rightarrow> micros m)"

lemma charge_value_simps [simp]: "charge_value (Inr m) = micros m" "charge_value (Inl e) = 0"
  by (simp_all add: charge_value_def)

definition line_sum :: "nat \<Rightarrow> (nat \<times> (exn + MoneyMicros)) list \<Rightarrow> int" where
  "line_sum j xs = (\<Sum>(i, r)\<leftarrow>xs. if i = j then charge_value r else 0)"

lemma line_sum_simps [simp]:
  "line_sum j [] = 0"
  "line_sum j ((i, r) # xs) = (if i = j then charge_value r else 0) + line_sum j xs"
  "line_sum j (xs @ ys) = line_sum j xs + line_sum j ys"
  by (simp_all add: line_sum_def)

definition charges_nonneg :: "(nat \<times> (exn + MoneyMicros)) list \<Rightarrow> bool" where
  "charges_nonneg xs \<longleftrightarrow> (\<forall>(i, r)\<in>set xs. 0 \<le> charge_value r)"

lemma line_sum_nonneg: "charges_nonneg xs \<Longrightarrow> 0 \<le> line_sum j xs"
  by (induction xs) (auto simp: charges_nonneg_def)

lemma add_component_eq_Inr:
  "i < length cs \<Longrightarrow>
    add_component i m cs = Inr cs' \<longleftrightarrow> length cs' = length cs \<and> cv_known (cs' ! i) \<and>
      micros (cv_value (cs' ! i)) = micros (cv_value (cs ! i)) + micros m \<and>
      (\<forall>j<length cs. j \<noteq> i \<longrightarrow> cs' ! j = cs ! j)"
  unfolding add_component_def bindE_eq_Inr money_add_eq_Inr
  by (auto simp: nth_list_update intro!: nth_equalityI exI [of _ "cv_value (cs' ! i)"])

lemma book_all_eq_Inr:
  assumes "\<forall>(i, r)\<in>set xs. i < length cs" and "charges_nonneg xs"
    and "\<forall>j<length cs. 0 \<le> micros (cv_value (cs ! j))"
  shows "foldE book xs cs = Inr cs' \<longleftrightarrow>
    (\<forall>(i, r)\<in>set xs. \<exists>m. r = Inr m) \<and> length cs' = length cs \<and>
    (\<forall>j<length cs. (cv_known (cs' ! j) \<longleftrightarrow> cv_known (cs ! j) \<or> j \<in> fst ` set xs) \<and>
      micros (cv_value (cs' ! j)) = micros (cv_value (cs ! j)) + line_sum j xs)"
  using assms
proof (induction xs arbitrary: cs)
  case Nil
  show ?case
    by (auto simp: money_eq_micros intro!: nth_equalityI ComponentValue.equality)
next
  case (Cons x xs)
  obtain i r where x: "x = (i, r)"
    by fastforce
  show ?case
  proof (cases r)
    case (Inl e)
    then show ?thesis
      by (simp add: x book_def)
  next
    case (Inr m)
    have m: "0 \<le> micros m" and xs: "charges_nonneg xs" and i: "i < length cs"
      using Cons.prems by (auto simp: x Inr charges_nonneg_def)
    let ?v = "micros (cv_value (cs ! i)) + micros m"
    show ?thesis
    proof (cases "in_i64 ?v")
      case True
      define cs1 where "cs1 = cs[i := \<lparr>cv_known = True, cv_value = MoneyMicros (word_of_int ?v)\<rparr>]"
      have v: "micros (cv_value (cs1 ! i)) = ?v" and len: "length cs1 = length cs"
        using True i by (simp_all add: cs1_def sint_add)
      have "add_component i m cs = Inr cs1"
        using i v by (simp add: add_component_eq_Inr len) (simp add: cs1_def)
      then have step: "foldE book (x # xs) cs = foldE book xs cs1"
        by (simp add: x Inr book_def)
      have nonneg: "\<forall>j<length cs1. 0 \<le> micros (cv_value (cs1 ! j))"
        using Cons.prems(3) m i v by (auto simp: cs1_def nth_list_update)
      have line: "(cv_known (cs1 ! j) \<longleftrightarrow> cv_known (cs ! j) \<or> j = i) \<and>
          micros (cv_value (cs1 ! j)) = micros (cv_value (cs ! j)) + (if i = j then micros m else 0)"
        if "j < length cs" for j
        using that v by (auto simp: cs1_def nth_list_update)
      have "\<forall>(i, r)\<in>set xs. i < length cs1"
        using Cons.prems(1) len by auto
      from Cons.IH [OF this xs nonneg] show ?thesis
        unfolding step using line by (auto simp: x Inr len)
    next
      case False
      then have "add_component i m cs \<noteq> Inr cs1" for cs1
        using i add_component_eq_Inr [of i cs m cs1] by (auto dest: in_i64_of_sint)
      then have throw: "foldE book (x # xs) cs \<noteq> Inr cs'"
        by (simp add: x Inr book_def bindE_eq_Inr)
      have "0 \<le> micros (cv_value (cs ! i))"
        using Cons.prems(3) i by simp
      then have "2 ^ 63 \<le> ?v"
        using False m by (simp add: in_i64_def)
      then have "micros (cv_value (cs' ! i)) \<noteq> ?v + line_sum i xs"
        using line_sum_nonneg [OF xs, of i] in_i64_sint [of "total_micros (cv_value (cs' ! i))"]
        by (simp add: in_i64_def)
      then show ?thesis
        using throw i by (auto simp: x Inr)
    qed
  qed
qed

lemma money_sum_eq_Inr:
  assumes "\<forall>x\<in>set xs. \<forall>m. P x \<longrightarrow> f x = Inr m \<longrightarrow> 0 \<le> micros m" and "0 \<le> micros t"
  shows "foldE (\<lambda>x t. if P x then bindE (f x) (money_add t) else Inr t) xs t = Inr t' \<longleftrightarrow>
    (\<forall>x\<in>set xs. P x \<longrightarrow> (\<exists>m. f x = Inr m)) \<and>
    micros t' = micros t + (\<Sum>x\<leftarrow>xs. if P x then charge_value (f x) else 0)"
  using assms
proof (induction xs arbitrary: t)
  case Nil
  show ?case
    by (auto simp: money_eq_micros)
next
  case (Cons x xs)
  have nonneg: "0 \<le> (\<Sum>x\<leftarrow>xs. if P x then charge_value (f x) else 0)"
    using Cons.prems(1) by (intro sum_list_nonneg) (fastforce simp: charge_value_def split: sum.split)
  show ?case
  proof (cases "P x")
    case True
    show ?thesis
    proof (cases "f x")
      case (Inr m)
      have m: "0 \<le> micros m"
        using Cons.prems(1) True Inr by simp
      show ?thesis
      proof (cases "money_add t m")
        case (Inl e)
        then have "\<not> in_i64 (micros t + micros m)"
          using money_add_eq_Inr [of t m "MoneyMicros (total_micros t + total_micros m)"]
          by (auto simp: sint_add)
        then have "micros t' \<noteq> micros t + (micros m + (\<Sum>x\<leftarrow>xs. if P x then charge_value (f x) else 0))"
          using Cons.prems(2) m nonneg in_i64_sint [of "total_micros t'"] by (simp add: in_i64_def)
        then show ?thesis
          using True Inr Inl by simp
      next
        case add: (Inr t1)
        then have "micros t1 = micros t + micros m"
          by (simp add: money_add_eq_Inr)
        then show ?thesis
          using Cons.IH [of t1] Cons.prems m True Inr add by (simp add: add.assoc)
      qed
    qed (use True in simp)
  qed (use Cons in simp)
qed

lemma failed_cost_eq_Inr:
  "failed_cost s cur now ev = Inr m \<longleftrightarrow>
    (\<forall>(c, a, i)\<in>set (measurable_usage ev). a \<noteq> 0 \<longrightarrow> (\<exists>m. priced s cur now ev c a = Inr m)) \<and>
    micros m = (\<Sum>(c, a, i)\<leftarrow>measurable_usage ev. if a \<noteq> 0 then charge_value (priced s cur now ev c a) else 0)"
proof -
  have "failed_cost s cur now ev =
      foldE (\<lambda>x t. if fst (snd x) \<noteq> 0 then bindE (priced s cur now ev (fst x) (fst (snd x))) (money_add t)
        else Inr t) (measurable_usage ev) (MoneyMicros 0)"
    unfolding failed_cost_def by (rule foldE_cong) auto
  then show ?thesis
    by (simp add: money_sum_eq_Inr priced_nonneg case_prod_unfold)
qed

section \<open>The specification of a projection\<close>

text \<open>What an attempt contributes to a breakdown line.\<close>

definition usage_cost :: "PriceSchedule \<Rightarrow> string \<Rightarrow> i64 \<Rightarrow> CostEvidence \<Rightarrow> nat \<Rightarrow> int" where
  "usage_cost s cur now ev i =
    (\<Sum>(c, a, j)\<leftarrow>usage ev. if j = i \<and> a \<noteq> 0 then charge_value (priced s cur now ev c a) else 0)"

definition uses_line :: "CostEvidence \<Rightarrow> nat \<Rightarrow> bool" where
  "uses_line ev i \<longleftrightarrow> (\<exists>(c, a, j)\<in>set (usage ev). j = i \<and> a \<noteq> 0)"

definition failed_attempt :: "CostEvidence \<Rightarrow> bool" where
  "failed_attempt ev \<longleftrightarrow> ev_is_completion ev \<and> \<not> ev_completed_successfully ev"

definition fully_priced :: "PriceSchedule \<Rightarrow> string \<Rightarrow> i64 \<Rightarrow> CostEvidence \<Rightarrow> bool" where
  "fully_priced s cur now ev \<longleftrightarrow>
    (\<forall>(c, a, i)\<in>set (usage ev). a \<noteq> 0 \<longrightarrow> (\<exists>m. priced s cur now ev c a = Inr m))"

text \<open>The sum of the cost of the lines \<open>0\<close> to \<open>5\<close>, and of all additive lines.\<close>

definition measured_cost :: "PriceSchedule \<Rightarrow> string \<Rightarrow> i64 \<Rightarrow> CostEvidence \<Rightarrow> int" where
  "measured_cost s cur now ev = (\<Sum>i\<leftarrow>[0..<6]. usage_cost s cur now ev i)"

definition attempt_cost :: "PriceSchedule \<Rightarrow> string \<Rightarrow> i64 \<Rightarrow> CostEvidence \<Rightarrow> int" where
  "attempt_cost s cur now ev = measured_cost s cur now ev + usage_cost s cur now ev 8"

definition breakdown_of :: "PriceSchedule \<Rightarrow> CostEvidence list \<Rightarrow> string \<Rightarrow> i64 \<Rightarrow> CostBreakdown \<Rightarrow> bool" where
  "breakdown_of s attempts cur now bd \<longleftrightarrow>
    bd_currency bd = cur \<and> bd_label bd = DataLabel.POLICY \<and>
    (bd_any_unknown bd \<longleftrightarrow> (\<exists>ev\<in>set attempts. ev_label ev = DataLabel.UNSUPPORTED)) \<and>
    length (bd_components bd) = kCostComponentCount \<and>
    (\<forall>i<kCostComponentCount. i \<noteq> 6 \<longrightarrow>
      (cv_known (bd_components bd ! i) \<longleftrightarrow> (\<exists>ev\<in>set attempts. uses_line ev i)) \<and>
      micros (cv_value (bd_components bd ! i)) = (\<Sum>ev\<leftarrow>attempts. usage_cost s cur now ev i)) \<and>
    (cv_known (bd_components bd ! 6) \<longleftrightarrow> (\<exists>ev\<in>set attempts. failed_attempt ev)) \<and>
    micros (cv_value (bd_components bd ! 6)) =
      (\<Sum>ev\<leftarrow>filter failed_attempt attempts. measured_cost s cur now ev) \<and>
    micros (bd_total bd) = (\<Sum>ev\<leftarrow>attempts. attempt_cost s cur now ev)"

lemma usage_cost_nonneg: "0 \<le> usage_cost s cur now ev i"
  unfolding usage_cost_def
  by (rule sum_list_nonneg) (auto simp: charge_value_def dest: priced_nonneg split: sum.split)

lemma measured_cost_nonneg: "0 \<le> measured_cost s cur now ev"
  unfolding measured_cost_def by (rule sum_list_nonneg) (auto simp: usage_cost_nonneg)

lemma measured_cost_sum:
  "measured_cost s cur now ev =
    (\<Sum>(c, a, i)\<leftarrow>measurable_usage ev. if a \<noteq> 0 then charge_value (priced s cur now ev c a) else 0)"
  by (simp add: measured_cost_def usage_cost_def usage_def measurable_usage_def upt_rec)

definition charges :: "PriceSchedule \<Rightarrow> string \<Rightarrow> i64 \<Rightarrow> CostEvidence \<Rightarrow> (nat \<times> (exn + MoneyMicros)) list" where
  "charges s cur now ev =
    map (\<lambda>(c, a, i). (i, priced s cur now ev c a)) (filter (\<lambda>(c, a, i). a \<noteq> 0) (usage ev))"

definition retry_charges :: "PriceSchedule \<Rightarrow> string \<Rightarrow> i64 \<Rightarrow> CostEvidence list \<Rightarrow> (nat \<times> (exn + MoneyMicros)) list" where
  "retry_charges s cur now attempts =
    map (\<lambda>ev. (6, failed_cost s cur now ev)) (filter failed_attempt attempts)"

lemma charge_attempt_book: "charge_attempt s cur now ev cs = foldE book (charges s cur now ev) cs"
  unfolding charge_attempt_def charges_def foldE_map foldE_filter
  by (rule foldE_cong) (auto simp: book_def)

lemma line_sum_charges: "line_sum j (charges s cur now ev) = usage_cost s cur now ev j"
  by (simp add: line_sum_def charges_def usage_cost_def usage_def measurable_usage_def)

lemma lines_charges: "j \<in> fst ` set (charges s cur now ev) \<longleftrightarrow> uses_line ev j"
  by (force simp: charges_def uses_line_def)

lemma priced_charges: "(\<forall>(i, r)\<in>set (charges s cur now ev). \<exists>m. r = Inr m) \<longleftrightarrow> fully_priced s cur now ev"
  by (fastforce simp: charges_def fully_priced_def)

lemma usage_lines: "(c, a, i) \<in> set (usage ev) \<Longrightarrow> i < 10 \<and> i \<noteq> 6 \<and> i \<noteq> 7"
  by (auto simp: usage_def measurable_usage_def)

lemma charges_lines: "(i, r) \<in> set (charges s cur now ev) \<Longrightarrow> i < 10 \<and> i \<noteq> 6 \<and> i \<noteq> 7 \<and> 0 \<le> charge_value r"
  by (auto simp: charges_def charge_value_def dest: priced_nonneg usage_lines split: sum.split)

text \<open>The last successful completion is not a failed attempt, so skipping it changes nothing.\<close>

lemma final_success_index_snoc:
  "final_success_index (attempts @ [ev]) =
    (if ev_is_completion ev \<and> ev_completed_successfully ev then int (length attempts)
     else final_success_index attempts)"
  by (simp add: final_success_index_def enumerate_append_eq)

lemma final_success_completed:
  "final_success_index attempts = int i \<Longrightarrow> i < length attempts \<and> \<not> failed_attempt (attempts ! i)"
proof (induction attempts rule: rev_induct)
  case Nil
  then show ?case
    by (simp add: final_success_index_def)
next
  case (snoc ev attempts)
  then show ?case
    by (auto simp: final_success_index_snoc failed_attempt_def nth_append split: if_splits)
qed

lemma charge_retry_book:
  "foldE (charge_retry s cur now (final_success_index attempts)) (enumerate 0 attempts) cs =
    foldE book (retry_charges s cur now attempts) cs"
proof -
  have "foldE (charge_retry s cur now (final_success_index attempts)) (enumerate 0 attempts) cs =
      foldE (\<lambda>(i, ev) cs. if failed_attempt ev then book (6, failed_cost s cur now ev) cs else Inr cs)
        (enumerate 0 attempts) cs"
  proof (rule foldE_cong)
    fix x cs
    assume "x \<in> set (enumerate 0 attempts)"
    then have "int (fst x) = final_success_index attempts \<Longrightarrow> \<not> failed_attempt (snd x)"
      using final_success_completed [of attempts "fst x"] by (auto simp: in_set_enumerate_eq)
    then show "charge_retry s cur now (final_success_index attempts) x cs =
        (case x of (i, ev) \<Rightarrow> \<lambda>cs. if failed_attempt ev then book (6, failed_cost s cur now ev) cs else Inr cs) cs"
      by (auto simp: charge_retry_def book_def failed_attempt_def split: prod.split)
  qed simp
  also have "\<dots> = foldE (\<lambda>ev cs. if failed_attempt ev then book (6, failed_cost s cur now ev) cs else Inr cs)
      (map snd (enumerate 0 attempts)) cs"
    unfolding foldE_map by (rule foldE_cong) auto
  finally show ?thesis
    by (simp add: retry_charges_def foldE_map foldE_filter)
qed

lemma line_sum_concat: "line_sum j (concat (map f xs)) = (\<Sum>x\<leftarrow>xs. line_sum j (f x))"
  by (induction xs) simp_all

lemma line_sum_retry:
  "line_sum j (retry_charges s cur now attempts) =
    (if j = 6 then \<Sum>ev\<leftarrow>filter failed_attempt attempts. charge_value (failed_cost s cur now ev) else 0)"
  by (auto simp: retry_charges_def line_sum_def o_def)

lemma failed_cost_priced:
  assumes "fully_priced s cur now ev"
  shows "failed_cost s cur now ev = Inr m \<longleftrightarrow> micros m = measured_cost s cur now ev"
  using assms by (auto simp: failed_cost_eq_Inr measured_cost_sum fully_priced_def usage_def)

lemma failed_cost_value:
  "fully_priced s cur now ev \<Longrightarrow> \<exists>m. failed_cost s cur now ev = Inr m \<Longrightarrow>
    charge_value (failed_cost s cur now ev) = measured_cost s cur now ev"
  by (metis charge_value_simps(1) failed_cost_priced)

lemma failed_cost_nonneg: "0 \<le> charge_value (failed_cost s cur now ev)"
proof (cases "failed_cost s cur now ev")
  case (Inr m)
  then have "micros m = measured_cost s cur now ev"
    unfolding failed_cost_eq_Inr measured_cost_sum by simp
  then show ?thesis
    by (simp add: Inr measured_cost_nonneg)
qed simp

definition bookings :: "PriceSchedule \<Rightarrow> string \<Rightarrow> i64 \<Rightarrow> CostEvidence list \<Rightarrow> (nat \<times> (exn + MoneyMicros)) list" where
  "bookings s cur now attempts = concat (map (charges s cur now) attempts) @ retry_charges s cur now attempts"

lemma bookings_wf: "charges_nonneg (bookings s cur now attempts)" "\<forall>(i, r)\<in>set (bookings s cur now attempts). i < 10"
  by (auto simp: charges_nonneg_def bookings_def retry_charges_def failed_cost_nonneg dest: charges_lines)

lemma project_book:
  "project s attempts cur now =
    bindE (foldE book (bookings s cur now attempts) (bd_components CostBreakdown_default)) (\<lambda>cs.
    bindE (foldE (add_to_total cs) [0..<kCostComponentCount] (MoneyMicros 0)) (\<lambda>tot.
    Inr (CostBreakdown_default\<lparr>bd_currency := cur, bd_components := cs, bd_total := tot,
      bd_any_unknown := (\<exists>ev\<in>set attempts. ev_label ev = DataLabel.UNSUPPORTED)\<rparr>)))"
proof -
  have unknown: "fold (\<lambda>ev acc. if ev_label ev = DataLabel.UNSUPPORTED then True else acc) attempts b \<longleftrightarrow>
      b \<or> (\<exists>ev\<in>set attempts. ev_label ev = DataLabel.UNSUPPORTED)" for b
    by (induction attempts arbitrary: b) auto
  show ?thesis
    unfolding project_def bookings_def unknown foldE_append foldE_concat_map charge_retry_book Let_def
      charge_attempt_book bindE_assoc
    by (simp add: CostBreakdown_default_def)
qed

lemma add_to_total_eq_Inr:
  assumes "\<forall>i<10. 0 \<le> micros (cv_value (cs ! i)) \<and> (\<not> cv_known (cs ! i) \<longrightarrow> micros (cv_value (cs ! i)) = 0)"
  shows "foldE (add_to_total cs) [0..<kCostComponentCount] (MoneyMicros 0) = Inr tot \<longleftrightarrow>
    micros tot = (\<Sum>i\<leftarrow>[0, 1, 2, 3, 4, 5, 8, 9]. micros (cv_value (cs ! i)))"
proof -
  have loop: "foldE (add_to_total cs) [0..<kCostComponentCount] (MoneyMicros 0) =
      foldE (\<lambda>i t. if i \<noteq> 6 \<and> i \<noteq> 7 \<and> cv_known (cs ! i) then bindE (Inr (cv_value (cs ! i))) (money_add t)
        else Inr t) [0..<10] (MoneyMicros 0)"
    by (rule foldE_cong) (auto simp: kCostComponentCount_def add_to_total_def)
  have "(\<Sum>i\<leftarrow>[0..<10]. if i \<noteq> 6 \<and> i \<noteq> 7 \<and> cv_known (cs ! i)
        then charge_value (Inr (cv_value (cs ! i))) else 0) =
      (\<Sum>i\<leftarrow>[0..<10]. if i \<noteq> 6 \<and> i \<noteq> 7 then micros (cv_value (cs ! i)) else 0)"
    using assms by (intro arg_cong [where f = sum_list] map_cong) auto
  also have "\<dots> = (\<Sum>i\<leftarrow>[0, 1, 2, 3, 4, 5, 8, 9]. micros (cv_value (cs ! i)))"
    by (simp add: upt_rec eval_nat_numeral)
  finally have sum: "(\<Sum>i\<leftarrow>[0..<10]. if i \<noteq> 6 \<and> i \<noteq> 7 \<and> cv_known (cs ! i)
        then charge_value (Inr (cv_value (cs ! i))) else 0) =
      (\<Sum>i\<leftarrow>[0, 1, 2, 3, 4, 5, 8, 9]. micros (cv_value (cs ! i)))" .
  show ?thesis
    unfolding loop sum [symmetric]
    by (subst money_sum_eq_Inr) (use assms in auto)
qed

lemma line_sum_bookings:
  "line_sum i (bookings s cur now attempts) =
    (\<Sum>ev\<leftarrow>attempts. usage_cost s cur now ev i) +
    (if i = 6 then \<Sum>ev\<leftarrow>filter failed_attempt attempts. charge_value (failed_cost s cur now ev) else 0)"
  by (simp add: bookings_def line_sum_concat line_sum_charges line_sum_retry)

lemma line_bookings:
  "i \<in> fst ` set (bookings s cur now attempts) \<longleftrightarrow>
    (\<exists>ev\<in>set attempts. uses_line ev i) \<or> i = 6 \<and> (\<exists>ev\<in>set attempts. failed_attempt ev)"
proof -
  have "i \<in> fst ` set (bookings s cur now attempts) \<longleftrightarrow>
      (\<exists>ev\<in>set attempts. i \<in> fst ` set (charges s cur now ev)) \<or>
      i \<in> fst ` (\<lambda>ev. (6, failed_cost s cur now ev)) ` {ev \<in> set attempts. failed_attempt ev}"
    by (simp add: bookings_def retry_charges_def image_Un image_UN)
  then show ?thesis
    unfolding lines_charges by (auto simp: image_image)
qed

lemma priced_bookings:
  "(\<forall>(i, r)\<in>set (bookings s cur now attempts). \<exists>m. r = Inr m) \<longleftrightarrow>
    (\<forall>ev\<in>set attempts. fully_priced s cur now ev) \<and>
    (\<forall>ev\<in>set attempts. failed_attempt ev \<longrightarrow> (\<exists>m. failed_cost s cur now ev = Inr m))"
  unfolding bookings_def retry_charges_def priced_charges [symmetric] by (simp add: ball_Un) blast

lemma no_line_6: "\<not> uses_line ev 6" "usage_cost s cur now ev 6 = 0"
  by (auto simp: uses_line_def usage_cost_def usage_def measurable_usage_def)

lemma unused_line: "\<not> uses_line ev i \<Longrightarrow> usage_cost s cur now ev i = 0"
  by (auto simp: uses_line_def usage_cost_def usage_def measurable_usage_def)

lemma failed_costs_priced:
  assumes "\<forall>ev\<in>set attempts. fully_priced s cur now ev"
  shows "in_i64 (\<Sum>ev\<leftarrow>filter failed_attempt attempts. measured_cost s cur now ev) \<Longrightarrow>
      ev \<in> set attempts \<Longrightarrow> failed_attempt ev \<Longrightarrow> \<exists>m. failed_cost s cur now ev = Inr m"
    and "(\<forall>ev\<in>set attempts. failed_attempt ev \<longrightarrow> (\<exists>m. failed_cost s cur now ev = Inr m)) \<Longrightarrow>
      (\<Sum>ev\<leftarrow>filter failed_attempt attempts. charge_value (failed_cost s cur now ev)) =
      (\<Sum>ev\<leftarrow>filter failed_attempt attempts. measured_cost s cur now ev)"
proof -
  assume fits: "in_i64 (\<Sum>ev\<leftarrow>filter failed_attempt attempts. measured_cost s cur now ev)"
    and ev: "ev \<in> set attempts" "failed_attempt ev"
  have "measured_cost s cur now ev \<le> (\<Sum>ev\<leftarrow>filter failed_attempt attempts. measured_cost s cur now ev)"
    using ev by (intro member_le_sum_list) (auto simp: measured_cost_nonneg)
  then have "in_i64 (measured_cost s cur now ev)"
    using fits measured_cost_nonneg [of s cur now ev] by (simp add: in_i64_def)
  then show "\<exists>m. failed_cost s cur now ev = Inr m"
    using assms ev
    by (auto simp: failed_cost_priced sint_of_int intro!: exI [of _ "MoneyMicros (word_of_int (measured_cost s cur now ev))"])
next
  assume "\<forall>ev\<in>set attempts. failed_attempt ev \<longrightarrow> (\<exists>m. failed_cost s cur now ev = Inr m)"
  then show "(\<Sum>ev\<leftarrow>filter failed_attempt attempts. charge_value (failed_cost s cur now ev)) =
      (\<Sum>ev\<leftarrow>filter failed_attempt attempts. measured_cost s cur now ev)"
    using assms by (intro arg_cong [where f = sum_list] map_cong) (auto dest: failed_cost_value)
qed

lemma sum_list_eq_0: "(\<And>x. x \<in> set xs \<Longrightarrow> f x = 0) \<Longrightarrow> (\<Sum>x\<leftarrow>xs. f x) = (0 :: int)"
  by (induction xs) auto

lemma attempt_cost_lines:
  "attempt_cost s cur now ev = (\<Sum>i\<leftarrow>[0, 1, 2, 3, 4, 5, 8, 9]. usage_cost s cur now ev i)"
proof -
  have "usage_cost s cur now ev 9 = 0"
    by (rule unused_line) (auto simp: uses_line_def usage_def measurable_usage_def)
  then show ?thesis
    by (simp add: attempt_cost_def measured_cost_def upt_rec eval_nat_numeral)
qed

lemma sum_attempt_cost:
  "(\<Sum>ev\<leftarrow>attempts. attempt_cost s cur now ev) =
    (\<Sum>i\<leftarrow>[0, 1, 2, 3, 4, 5, 8, 9]. \<Sum>ev\<leftarrow>attempts. usage_cost s cur now ev i)"
  by (induction attempts) (simp_all add: attempt_cost_lines)

lemma booked_eq_Inr:
  "foldE book (bookings s cur now attempts) (bd_components CostBreakdown_default) = Inr cs \<longleftrightarrow>
    (\<forall>ev\<in>set attempts. fully_priced s cur now ev) \<and> length cs = 10 \<and>
    (\<forall>i<10. i \<noteq> 6 \<longrightarrow> (cv_known (cs ! i) \<longleftrightarrow> (\<exists>ev\<in>set attempts. uses_line ev i)) \<and>
      micros (cv_value (cs ! i)) = (\<Sum>ev\<leftarrow>attempts. usage_cost s cur now ev i)) \<and>
    (cv_known (cs ! 6) \<longleftrightarrow> (\<exists>ev\<in>set attempts. failed_attempt ev)) \<and>
    micros (cv_value (cs ! 6)) = (\<Sum>ev\<leftarrow>filter failed_attempt attempts. measured_cost s cur now ev)"
  (is "?run \<longleftrightarrow> ?priced \<and> ?len \<and> ?lines \<and> ?known6 \<and> ?value6")
proof -
  let ?failed = "\<forall>ev\<in>set attempts. failed_attempt ev \<longrightarrow> (\<exists>m. failed_cost s cur now ev = Inr m)"
  let ?sum6 = "\<Sum>ev\<leftarrow>filter failed_attempt attempts. charge_value (failed_cost s cur now ev)"
  have split6: "(\<forall>i<10. P i) \<longleftrightarrow> (\<forall>i<10. i \<noteq> 6 \<longrightarrow> P i) \<and> P (6 :: nat)" for P
    by auto
  have "?run \<longleftrightarrow> (?priced \<and> ?failed) \<and> ?len \<and> (\<forall>i<10.
      (cv_known (cs ! i) \<longleftrightarrow> i \<in> fst ` set (bookings s cur now attempts)) \<and>
      micros (cv_value (cs ! i)) = line_sum i (bookings s cur now attempts))"
    using bookings_wf [of s cur now attempts]
    by (subst book_all_eq_Inr)
      (simp_all add: CostBreakdown_default_def kCostComponentCount_def priced_bookings cong: conj_cong)
  also have "\<dots> \<longleftrightarrow> ?priced \<and> ?failed \<and> ?len \<and> ?lines \<and> ?known6 \<and> micros (cv_value (cs ! 6)) = ?sum6"
    unfolding line_sum_bookings line_bookings by (subst split6) (simp add: no_line_6 conj_assoc cong: conj_cong)
  also have "\<dots> \<longleftrightarrow> ?priced \<and> ?len \<and> ?lines \<and> ?known6 \<and> ?value6"
  proof (cases ?priced)
    case True
    have "?failed" if ?value6
      using failed_costs_priced(1) [OF True] that by (auto dest: in_i64_of_sint)
    then show ?thesis
      using failed_costs_priced(2) [OF True] by auto
  qed auto
  finally show ?thesis .
qed

lemma project_eq_Inr:
  "project s attempts cur now = Inr bd \<longleftrightarrow>
    (\<forall>ev\<in>set attempts. fully_priced s cur now ev) \<and> breakdown_of s attempts cur now bd"
proof -
  let ?priced = "\<forall>ev\<in>set attempts. fully_priced s cur now ev"
  let ?lines = "foldE book (bookings s cur now attempts) (bd_components CostBreakdown_default)"
  have sum: "foldE (add_to_total cs) [0..<kCostComponentCount] (MoneyMicros 0) = Inr tot \<longleftrightarrow>
      micros tot = (\<Sum>ev\<leftarrow>attempts. attempt_cost s cur now ev)" if "?lines = Inr cs" for cs tot
  proof -
    from that have line: "\<forall>i<10. i \<noteq> 6 \<longrightarrow> (cv_known (cs ! i) \<longleftrightarrow> (\<exists>ev\<in>set attempts. uses_line ev i)) \<and>
          micros (cv_value (cs ! i)) = (\<Sum>ev\<leftarrow>attempts. usage_cost s cur now ev i)"
      and line6: "cv_known (cs ! 6) \<longleftrightarrow> (\<exists>ev\<in>set attempts. failed_attempt ev)"
        "micros (cv_value (cs ! 6)) = (\<Sum>ev\<leftarrow>filter failed_attempt attempts. measured_cost s cur now ev)"
      unfolding booked_eq_Inr by blast+
    have "0 \<le> micros (cv_value (cs ! i)) \<and> (\<not> cv_known (cs ! i) \<longrightarrow> micros (cv_value (cs ! i)) = 0)"
      if "i < 10" for i
    proof (cases "i = 6")
      case True
      have "\<not> (\<exists>ev\<in>set attempts. failed_attempt ev) \<Longrightarrow> filter failed_attempt attempts = []"
        by simp
      then show ?thesis
        unfolding True line6 by (auto intro!: sum_list_nonneg measured_cost_nonneg)
    next
      case False
      then show ?thesis
        using line that by (auto intro!: sum_list_nonneg usage_cost_nonneg sum_list_eq_0 simp: unused_line)
    qed
    then show ?thesis
      using line by (subst add_to_total_eq_Inr) (simp_all add: sum_attempt_cost)
  qed
  have "project s attempts cur now = Inr bd \<longleftrightarrow> (\<exists>cs tot. ?lines = Inr cs \<and>
      micros tot = (\<Sum>ev\<leftarrow>attempts. attempt_cost s cur now ev) \<and>
      bd = CostBreakdown_default\<lparr>bd_currency := cur, bd_components := cs, bd_total := tot,
        bd_any_unknown := (\<exists>ev\<in>set attempts. ev_label ev = DataLabel.UNSUPPORTED)\<rparr>)"
    unfolding project_book bindE_eq_Inr using sum by (auto simp: eq_commute)
  also have "\<dots> \<longleftrightarrow> ?priced \<and> breakdown_of s attempts cur now bd"
    unfolding booked_eq_Inr breakdown_of_def kCostComponentCount_def
    by (cases bd) (auto simp: CostBreakdown_default_def)
  finally show ?thesis .
qed

lemma breakdown_fits:
  "breakdown_of s attempts cur now bd \<Longrightarrow> (\<Sum>ev\<leftarrow>attempts. attempt_cost s cur now ev) < 2 ^ 63"
  using in_i64_sint [of "total_micros (bd_total bd)"] by (auto simp: breakdown_of_def in_i64_def)

lemma attempt_cost_nonneg: "0 \<le> attempt_cost s cur now ev"
  by (simp add: attempt_cost_def measured_cost_nonneg usage_cost_nonneg)

lemma usage_cost_le: "usage_cost s cur now ev i \<le> attempt_cost s cur now ev" if "i < 10"
proof -
  have "usage_cost s cur now ev 6 = 0" "usage_cost s cur now ev 7 = 0"
    by (auto simp: usage_cost_def usage_def measurable_usage_def)
  moreover have "i \<in> {6, 7} \<or> i \<in> set [0, 1, 2, 3, 4, 5, 8, 9]"
    using that by (auto simp: numeral_eq_Suc less_Suc_eq)
  moreover have "usage_cost s cur now ev j \<le> attempt_cost s cur now ev"
    if "j \<in> set [0, 1, 2, 3, 4, 5, 8, 9]" for j
    unfolding attempt_cost_lines
    by (rule member_le_sum_list) (use that in \<open>auto simp: usage_cost_nonneg\<close>)
  ultimately show ?thesis
    using attempt_cost_nonneg [of s cur now ev] by (elim disjE) (auto simp del: set_simps)
qed


lemma measured_cost_le: "measured_cost s cur now ev \<le> attempt_cost s cur now ev"
  by (simp add: attempt_cost_def usage_cost_nonneg)

lemma retry_le_total:
  "(\<Sum>ev\<leftarrow>filter failed_attempt attempts. measured_cost s cur now ev) \<le>
    (\<Sum>ev\<leftarrow>attempts. attempt_cost s cur now ev)"
  by (induction attempts) (auto intro: add_mono measured_cost_le add_increasing attempt_cost_nonneg)

lemma breakdown_exists:
  assumes fits: "(\<Sum>ev\<leftarrow>attempts. attempt_cost s cur now ev) < 2 ^ 63"
  shows "\<exists>bd. breakdown_of s attempts cur now bd"
proof -
  define L where "L i = (if i = 6 then \<Sum>ev\<leftarrow>filter failed_attempt attempts. measured_cost s cur now ev
    else \<Sum>ev\<leftarrow>attempts. usage_cost s cur now ev i)" for i
  let ?known = "\<lambda>i. if i = 6 then \<exists>ev\<in>set attempts. failed_attempt ev else \<exists>ev\<in>set attempts. uses_line ev i"
  have line: "sint (word_of_int (L i) :: i64) = L i" if "i < 10" for i
  proof (rule sint_of_int)
    have "0 \<le> L i"
      by (auto intro!: sum_list_nonneg simp: L_def measured_cost_nonneg usage_cost_nonneg)
    moreover have "(\<Sum>ev\<leftarrow>attempts. usage_cost s cur now ev i) \<le> (\<Sum>ev\<leftarrow>attempts. attempt_cost s cur now ev)"
      by (rule sum_list_mono) (rule usage_cost_le [OF that])
    then have "L i < 2 ^ 63"
      using fits retry_le_total [of s cur now attempts] by (simp add: L_def)
    ultimately show "in_i64 (L i)"
      unfolding in_i64_def by linarith
  qed
  have "0 \<le> (\<Sum>ev\<leftarrow>attempts. attempt_cost s cur now ev)"
    by (rule sum_list_nonneg) (auto simp: attempt_cost_nonneg)
  then have total: "in_i64 (\<Sum>ev\<leftarrow>attempts. attempt_cost s cur now ev)"
    using fits unfolding in_i64_def by linarith
  define bd where "bd = \<lparr>bd_currency = cur, bd_label = DataLabel.POLICY,
    bd_components = map (\<lambda>i. \<lparr>cv_known = ?known i, cv_value = MoneyMicros (word_of_int (L i))\<rparr>) [0..<10],
    bd_total = MoneyMicros (word_of_int (\<Sum>ev\<leftarrow>attempts. attempt_cost s cur now ev)),
    bd_any_unknown = (\<exists>ev\<in>set attempts. ev_label ev = DataLabel.UNSUPPORTED)\<rparr>"
  have "breakdown_of s attempts cur now bd"
    using line total unfolding breakdown_of_def bd_def kCostComponentCount_def
    by (simp add: sint_of_int) (simp add: L_def)
  then show ?thesis ..
qed

lemma find_price_device:
  assumes "\<forall>p\<in>set xs. P p \<longrightarrow> \<not> Id_valid (po_resource_scope p)"
    and "fold (\<lambda>obs best. if \<not> P obs then best else if more_specific obs best then Some obs else best) xs init = Some b"
    and "\<not> Id_valid (po_device b)"
  shows "(\<forall>q. init = Some q \<longrightarrow> \<not> Id_valid (po_device q)) \<and> (\<forall>p\<in>set xs. P p \<longrightarrow> \<not> Id_valid (po_device p))"
  using assms
proof (induction xs arbitrary: init)
  case (Cons x xs)
  let ?init = "if \<not> P x then init else if more_specific x init then Some x else init"
  have IH: "(\<forall>q. ?init = Some q \<longrightarrow> \<not> Id_valid (po_device q)) \<and> (\<forall>p\<in>set xs. P p \<longrightarrow> \<not> Id_valid (po_device p))"
    using Cons.prems by (intro Cons.IH) simp_all
  show ?case
  proof (cases "P x")
    case True
    then have scope: "\<not> Id_valid (po_resource_scope x)"
      using Cons.prems(1) by simp
    show ?thesis
    proof (cases "more_specific x init")
      case new: True
      then have "\<not> Id_valid (po_device x)"
        using IH True by simp
      moreover have "init = None"
        using new scope calculation by (simp add: more_specific_def split: option.splits)
      ultimately show ?thesis
        using IH by simp
    next
      case False
      then obtain q where init: "init = Some q"
        by (cases init) (simp_all add: more_specific_def)
      have q: "\<not> Id_valid (po_device q)"
        using conjunct1 [OF IH] True False init by simp
      then have "\<not> Id_valid (po_device x)"
        using False init by (simp add: more_specific_def)
      then show ?thesis
        using init q conjunct2 [OF IH] by simp
    qed
  qed (use IH in simp)
qed simp

lemma project_perm:
  assumes "mset attempts = mset attempts'"
  shows "breakdown_of s attempts cur now bd \<longleftrightarrow> breakdown_of s attempts' cur now bd"
proof -
  have sums: "(\<Sum>ev\<leftarrow>attempts. f ev) = (\<Sum>ev\<leftarrow>attempts'. f ev)" for f :: "CostEvidence \<Rightarrow> int"
    using assms by (metis mset_map sum_mset_sum_list)
  have "mset (filter failed_attempt attempts) = mset (filter failed_attempt attempts')"
    using assms by (metis mset_filter)
  then have failed: "(\<Sum>ev\<leftarrow>filter failed_attempt attempts. f ev) = (\<Sum>ev\<leftarrow>filter failed_attempt attempts'. f ev)"
    for f :: "CostEvidence \<Rightarrow> int"
    by (metis mset_map sum_mset_sum_list)
  show ?thesis
    unfolding breakdown_of_def sums failed mset_eq_setD [OF assms] ..
qed

section \<open>A concrete schedule\<close>

text \<open>One price of 2 units per accelerator second and one of 3 units per kilowatt-hour.\<close>

definition sample_schedule :: PriceSchedule where
  "sample_schedule = PriceSchedule_default\<lparr>ps_observations :=
    [PriceObservation_default\<lparr>po_amount := MoneyMicros 2000000\<rparr>,
     PriceObservation_default\<lparr>po_kind := PriceKind.ENERGY, po_amount := MoneyMicros 3000000\<rparr>]\<rparr>"

text \<open>A global price followed by one for device 7.\<close>

definition sample_device_schedule :: PriceSchedule where
  "sample_device_schedule = PriceSchedule_default\<lparr>ps_observations :=
    [PriceObservation_default\<lparr>po_amount := MoneyMicros 2000000\<rparr>,
     PriceObservation_default\<lparr>po_device := mk_Id 7, po_amount := MoneyMicros 4000000\<rparr>]\<rparr>"

text \<open>A successful attempt of 3 accelerator seconds and a failed one of half a second, of request 9.\<close>

definition sample_success :: CostEvidence where
  "sample_success = CostEvidence_default\<lparr>ev_request := mk_Id 9, ev_attempt := mk_Id 2, ev_epoch := mk_Id 1,
    ev_is_completion := True, ev_completed_successfully := True, ev_accelerator_time := Amount 3000000000\<rparr>"

definition sample_failure :: CostEvidence where
  "sample_failure = CostEvidence_default\<lparr>ev_request := mk_Id 9, ev_attempt := mk_Id 1, ev_epoch := mk_Id 1,
    ev_is_completion := True, ev_accelerator_time := Amount 500000000\<rparr>"

lemmas sample_defs = sample_schedule_def sample_success_def sample_failure_def
  CostEvidence_default_def PriceObservation_default_def PriceSchedule_default_def kDefaultCurrency_def

lemma sample_find_price:
  "find_price sample_schedule PriceKind.ACCELERATOR_TIME ''USD'' 5 Id_none Id_none None =
    Some (PriceObservation_default\<lparr>po_amount := MoneyMicros 2000000\<rparr>)"
  "find_price sample_schedule PriceKind.ENERGY ''USD'' 5 Id_none Id_none None =
    Some (PriceObservation_default\<lparr>po_kind := PriceKind.ENERGY, po_amount := MoneyMicros 3000000\<rparr>)"
  by (simp_all add: find_price_def sample_defs obs_applies_def valid_currency_def more_specific_def
      sint_rules)

lemma sample_project:
  "project_component sample_schedule CostComponent.ACCELERATOR_TIME (of_nat n) ''USD'' 5 Id_none Id_none = Inr m \<longleftrightarrow>
    micros m = ceil_div (int n * 2000000) 1000000000" if "n < 5000000000"
proof -
  have "sint (word_of_int (int n) :: i64) = int n"
    using that by (intro sint_of_int) (simp add: in_i64_def)
  then show ?thesis
    using that
    by (simp add: project_component_eq_Inr kind_for_def sample_find_price denominator_for_def
        kNsPerSecond_def PriceObservation_default_def)
qed

lemma sample_attempts:
  "fully_priced sample_schedule ''USD'' 5 sample_failure" "fully_priced sample_schedule ''USD'' 5 sample_success"
  "attempt_cost sample_schedule ''USD'' 5 sample_failure = 1000000"
  "attempt_cost sample_schedule ''USD'' 5 sample_success = 6000000"
proof -
  have "priced sample_schedule ''USD'' 5 sample_failure CostComponent.ACCELERATOR_TIME 500000000 = Inr (MoneyMicros 1000000)"
    "priced sample_schedule ''USD'' 5 sample_success CostComponent.ACCELERATOR_TIME 3000000000 = Inr (MoneyMicros 6000000)"
    using sample_project [of 500000000 "MoneyMicros 1000000"] sample_project [of 3000000000 "MoneyMicros 6000000"]
    by (simp_all add: priced_def ceil_div_def sample_failure_def sample_success_def CostEvidence_default_def)
  then show "fully_priced sample_schedule ''USD'' 5 sample_failure" "fully_priced sample_schedule ''USD'' 5 sample_success"
    "attempt_cost sample_schedule ''USD'' 5 sample_failure = 1000000"
    "attempt_cost sample_schedule ''USD'' 5 sample_success = 6000000"
    by (simp_all add: fully_priced_def attempt_cost_def measured_cost_sum usage_cost_def usage_def measurable_usage_def
        sample_failure_def sample_success_def CostEvidence_default_def)
qed

lemma component_energy_scale:
  assumes "find_price s PriceKind.ENERGY cur now dev res None = Some p" "micros (po_amount p) < 5000000"
  shows "\<exists>m. project_component s CostComponent.ENERGY 3600000000000 cur now dev res = Inr m \<and>
    micros m = ceil_div (micros (po_amount p)) 1000"
proof -
  let ?n = "micros (po_amount p)"
  have nonneg: "0 \<le> ?n"
    using find_price_Some(2) [OF assms(1)] obs_applies_nonneg by blast
  have scale: "ceil_div (3600000000000 * ?n) 3600000000000000 = ceil_div ?n 1000"
    using div_mult_mult1 [of 3600000000000 "- ?n" 1000] by (simp add: ceil_div_def)
  have "?n div 1000 \<le> ?n"
    using zdiv_mono2 [of ?n 1 1000] nonneg by simp
  then have "ceil_div ?n 1000 \<le> ?n + 1"
    by (simp add: ceil_div_div_mod)
  then have "sint (word_of_int (ceil_div ?n 1000) :: i64) = ceil_div ?n 1000"
    using nonneg assms(2) ceil_div_nonneg [of ?n 1000] by (intro sint_of_int) (simp add: in_i64_def)
  then have "project_component s CostComponent.ENERGY 3600000000000 cur now dev res =
      Inr (MoneyMicros (word_of_int (ceil_div ?n 1000)))"
    using assms scale
    by (simp add: project_component_eq_Inr kind_for_def denominator_for_def kMicroJoulesPerKWh_def)
  then show ?thesis
    using \<open>sint (word_of_int (ceil_div ?n 1000) :: i64) = ceil_div ?n 1000\<close> by simp
qed

lemma component_memory_scale:
  assumes "find_price s PriceKind.MEMORY_HOLDING cur now dev res None = Some q" "micros (po_amount q) < 5000000"
  shows "project_component s CostComponent.MEMORY 1000000000 cur now dev res = Inr (po_amount q)"
  using assms
  by (simp add: project_component_eq_Inr kind_for_def denominator_for_def kBytesPerGBs_def ceil_div_def)

section \<open>Properties\<close>

lemma ceil_mul_div_error:
  "ceil_mul_div a b d = Inl e \<Longrightarrow>
    (\<exists>msg. e = StatusError Status.INVALID_INPUT msg) \<and> (sint a < 0 \<or> sint b < 0 \<or> sint d \<le> 0) \<or>
    (\<exists>msg. e = StatusError Status.RESOURCE_EXHAUSTED msg) \<and> 0 \<le> sint a \<and> 0 \<le> sint b \<and> 0 < sint d"
  unfolding ceil_mul_div_def throw_status_def Let_def
  by (simp only: sint_rules split: if_splits) auto

text \<open>
  C33: the price conversion of the cost model is exact. A returned value is the quotient rounded up of
  non-negative inputs; \<^verbatim>\<open>INVALID_INPUT\<close> is thrown only for an input out of range, and
  \<^verbatim>\<open>RESOURCE_EXHAUSTED\<close> only when the product exceeds 64 unsigned bits or the rounded quotient
  exceeds a signed 64-bit amount.
\<close>

theorem ceil_mul_div_rounds_up:
  "case ceil_mul_div a b d of
     Inr q \<Rightarrow> 0 \<le> sint a \<and> 0 \<le> sint b \<and> 0 < sint d \<and> sint a * sint b < 2 ^ 64 \<and>
       sint q = ceil_div (sint a * sint b) (sint d)
   | Inl e \<Rightarrow>
       (\<exists>msg. e = StatusError Status.INVALID_INPUT msg) \<and> (sint a < 0 \<or> sint b < 0 \<or> sint d \<le> 0) \<or>
       (\<exists>msg. e = StatusError Status.RESOURCE_EXHAUSTED msg) \<and> 0 \<le> sint a \<and> 0 \<le> sint b \<and> 0 < sint d \<and>
         (2 ^ 64 \<le> sint a * sint b \<or> 2 ^ 63 \<le> ceil_div (sint a * sint b) (sint d))"
proof (cases "ceil_mul_div a b d")
  case (Inl e)
  have "2 ^ 64 \<le> sint a * sint b \<or> 2 ^ 63 \<le> ceil_div (sint a * sint b) (sint d)"
    if "0 \<le> sint a" "0 \<le> sint b" "0 < sint d"
  proof (rule ccontr)
    assume "\<not> ?thesis"
    moreover have "0 \<le> ceil_div (sint a * sint b) (sint d)"
      using that by (simp add: ceil_div_nonneg)
    ultimately have "ceil_mul_div a b d = Inr (word_of_int (ceil_div (sint a * sint b) (sint d)))"
      using that by (simp add: ceil_mul_div_exact sint_of_int in_i64_def)
    then show False
      using Inl by simp
  qed
  then show ?thesis
    using ceil_mul_div_error [OF Inl] by (auto simp: Inl)
next
  case (Inr q)
  then show ?thesis
    using ceil_mul_div_exact [of a b d q] by simp
qed



text \<open>
  C29: a projection is exactly the specified sum. It returns \<open>bd\<close> if and only if every non-zero
  quantity of every attempt has a price and \<open>bd\<close> is the breakdown of the attempts: each line is the
  sum of what the attempts are charged on it and is known only if some attempt used it, the retry
  line summarises the failed attempts, and the total counts every charge exactly once.
\<close>

theorem project_exact:
  "project s attempts cur now = Inr bd \<longleftrightarrow>
    list_all (fully_priced s cur now) attempts \<and> breakdown_of s attempts cur now bd"
  by (simp add: project_eq_Inr list_all_iff)

text \<open>
  C30: a projection fails for two reasons only: a quantity without a usable price, or a total that no
  64-bit amount represents. No intermediate sum overflows when the total does not.
\<close>

theorem project_returns:
  "(\<exists>bd. project s attempts cur now = Inr bd) \<longleftrightarrow>
    list_all (fully_priced s cur now) attempts \<and>
    (\<Sum>ev\<leftarrow>attempts. attempt_cost s cur now ev) < 2 ^ 63"
  unfolding project_eq_Inr list_all_iff by (auto intro: breakdown_exists dest: breakdown_fits)

text \<open>
  C31: the cost of a request does not depend on the order in which its attempts are listed.
\<close>

theorem project_order_independent:
  assumes "mset attempts = mset attempts'"
  shows "project s attempts cur now = Inr bd \<longleftrightarrow> project s attempts' cur now = Inr bd"
  unfolding project_eq_Inr project_perm [OF assms] mset_eq_setD [OF assms] ..

theorem project_order_independent_witness:
  "\<exists>bd. project sample_schedule [sample_failure, sample_success] ''USD'' 5 = Inr bd \<and>
    project sample_schedule [sample_success, sample_failure] ''USD'' 5 = Inr bd"
proof -
  have "fully_priced sample_schedule ''USD'' 5 sample_failure" "fully_priced sample_schedule ''USD'' 5 sample_success"
    "attempt_cost sample_schedule ''USD'' 5 sample_failure = 1000000"
    "attempt_cost sample_schedule ''USD'' 5 sample_success = 6000000"
    by (simp_all add: sample_attempts)
  then have "\<exists>bd. project sample_schedule [sample_failure, sample_success] ''USD'' 5 = Inr bd"
    unfolding project_eq_Inr by (auto intro: breakdown_exists)
  moreover have "mset [sample_failure, sample_success] = mset [sample_success, sample_failure]"
    by simp
  ultimately show ?thesis
    using project_order_independent by metis
qed

text \<open>
  The scales of the energy and memory prices. One kilowatt-hour is 3.6e12 microjoules, and the
  code charges a thousandth of the price of a kilowatt-hour for it, rounded up. One byte held for a
  second is 1e9 byte-nanoseconds, and the code charges the full price of a gigabyte-second for it.
\<close>

lemma unit_scales:
  "(find_price s PriceKind.ENERGY cur now dev res None = Some p \<longrightarrow>
      micros (po_amount p) < 5000000 \<longrightarrow>
      (\<exists>m. project_component s CostComponent.ENERGY 3600000000000 cur now dev res = Inr m \<and>
        micros m = ceil_div (micros (po_amount p)) 1000)) \<and>
   (find_price s PriceKind.MEMORY_HOLDING cur now dev res None = Some q \<longrightarrow>
      micros (po_amount q) < 5000000 \<longrightarrow>
      project_component s CostComponent.MEMORY 1000000000 cur now dev res = Inr (po_amount q))"
  using component_energy_scale component_memory_scale by blast

lemma unit_scales_witness:
  "\<exists>m. project_component sample_schedule CostComponent.ENERGY 3600000000000 ''USD'' 5 Id_none Id_none = Inr m \<and>
    micros m = 3000"
  using unit_scales [of sample_schedule "''USD''" 5 Id_none Id_none
      "PriceObservation_default\<lparr>po_kind := PriceKind.ENERGY, po_amount := MoneyMicros 3000000\<rparr>"]
  by (simp add: sample_find_price ceil_div_def)

end
