(* ===== verification/Intake.thy ===== *)
theory Intake
  imports Ledger Projection
begin

text \<open>
  The intake of price and attempt evidence and the accounting of requests: worker incarnations and
  the epoch fence what is accepted, an attempt is recorded once, and a request is written to the
  history once. The operations are those of theory \<^verbatim>\<open>Governor\<close>; the reachable states are those of the
  transition system of theory \<^verbatim>\<open>Ledger\<close>.
\<close>

section \<open>Worker incarnations\<close>

lemma current_boot_set:
  "current_boot_for (set_worker_boot w bt g) w' = (if w = w' then bt else current_boot_for g w')"
  by (simp add: current_boot_for_def set_worker_boot_def smap_find_put)

section \<open>Recorded attempts\<close>

definition request_ok :: "RequestId \<Rightarrow> (AttemptId \<times> CostEvidence) list \<Rightarrow> bool" where
  "request_ok rq m \<longleftrightarrow> smap_ok m \<and>
    (\<forall>(a, ev)\<in>set m. ev_attempt ev = a \<and> ev_request ev = rq \<and> \<not> evidence_negative ev \<and>
      ev_label ev \<noteq> DataLabel.UNSUPPORTED)"

definition attempts_inv :: "Impl \<Rightarrow> bool" where
  "attempts_inv g \<longleftrightarrow>
    (\<forall>rq m. g_attempts g rq = Some m \<longrightarrow> request_ok rq m \<and> m \<noteq> []) \<and>
    distinct (map h_request (g_history g))"

text \<open>What a successful recording stores.\<close>

lemma record_attempt_ok:
  assumes "record_attempt ev g = (Status.OK, g')"
  shows "ev_epoch ev = g_epoch g" "ev_boot ev = current_boot_for g (ev_worker ev)"
    "ev_label ev \<noteq> DataLabel.UNSUPPORTED" "\<not> evidence_negative ev"
    "g' = g\<lparr>g_attempts := (g_attempts g)(ev_request ev \<mapsto>
      smap_put (ev_attempt ev) ev (case g_attempts g (ev_request ev) of None \<Rightarrow> [] | Some m \<Rightarrow> m))\<rparr>"
  using assms
  by (auto simp: record_attempt_def Let_def smap_emplace_def split: if_splits option.splits)

lemma record_attempt_refused:
  assumes "record_attempt ev g = (st, g')" "st \<noteq> Status.OK"
  shows "g' = g"
proof (cases "g_attempts g (ev_request ev)")
  case None
  then show ?thesis
    using assms by (auto simp: record_attempt_def Let_def smap_find_def split: if_splits)
next
  case (Some m)
  then have "(g_attempts g)(ev_request ev \<mapsto> m) = g_attempts g"
    by auto
  then show ?thesis
    using assms Some by (auto simp: record_attempt_def Let_def split: if_splits option.splits)
qed

lemma set_smap_put: "set (smap_put k v m) \<subseteq> insert (k, v) (set m)"
  by (induction k v m rule: smap_put.induct) auto

lemma smap_put_nonempty: "smap_put k v m \<noteq> []"
  by (induction k v m rule: smap_put.induct) auto

lemma stored_request_ok:
  "attempts_inv g \<Longrightarrow> request_ok rq (case g_attempts g rq of None \<Rightarrow> [] | Some m \<Rightarrow> m)"
  by (cases "g_attempts g rq") (auto simp: attempts_inv_def request_ok_def smap_ok_def)

lemma attempts_inv_record:
  assumes inv: "attempts_inv g" and op: "record_attempt ev g = (st, g')"
  shows "attempts_inv g'"
proof (cases "st = Status.OK")
  case True
  note ok = record_attempt_ok [OF op [unfolded True]]
  let ?m = "case g_attempts g (ev_request ev) of None \<Rightarrow> [] | Some m \<Rightarrow> m"
  have old: "request_ok (ev_request ev) ?m"
    by (rule stored_request_ok [OF inv])
  have "smap_ok (smap_put (ev_attempt ev) ev ?m)"
    using old by (simp add: request_ok_def smap_ok_put)
  then have "request_ok (ev_request ev) (smap_put (ev_attempt ev) ev ?m)"
    using old ok(3, 4) set_smap_put [of "ev_attempt ev" ev ?m] unfolding request_ok_def by auto
  then show ?thesis
    using inv smap_put_nonempty [of "ev_attempt ev" ev ?m] unfolding ok(5) by (simp add: attempts_inv_def)
qed (use record_attempt_refused [OF op] inv in simp)

lemma attempts_inv_finalize:
  "attempts_inv g \<Longrightarrow> finalize_request clk rq w g = (res, g') \<Longrightarrow> attempts_inv g'"
  by (simp add: finalize_request_def Let_def split: if_splits option.splits sum.splits)
    (auto simp: attempts_inv_def, blast)

lemma attempts_unchanged:
  "attempts_inv g \<Longrightarrow> g_attempts g' = g_attempts g \<Longrightarrow> g_history g' = g_history g \<Longrightarrow> attempts_inv g'"
  by (simp add: attempts_inv_def)

lemma accounting_keeps_attempts:
  "create_budget b g = (st, g') \<Longrightarrow> g_attempts g' = g_attempts g \<and> g_history g' = g_history g"
  "reserve clk i gen epoch amount out g = (Inr st, r, g') \<Longrightarrow> g_attempts g' = g_attempts g \<and> g_history g' = g_history g"
  "commit clk r' g = (Inr st, r, g') \<Longrightarrow> g_attempts g' = g_attempts g \<and> g_history g' = g_history g"
  "release r' g = (Inr st, r, g') \<Longrightarrow> g_attempts g' = g_attempts g \<and> g_history g' = g_history g"
  "consume clk i gen epoch amount g = (Inr st, g') \<Longrightarrow> g_attempts g' = g_attempts g \<and> g_history g' = g_history g"
  "publish_price obs g = (st, g') \<Longrightarrow> g_attempts g' = g_attempts g \<and> g_history g' = g_history g"
  by (auto dest!: commit_outcome release_outcome reserve_outcome consume_outcome
      simp: committed_def expired_def released_def reserved_def consumed_def budget_expired_def
        create_budget_def publish_price_def Let_def split: if_splits)

lemma config_keeps_attempts:
  "g_attempts (set_policy p g) = g_attempts g" "g_history (set_policy p g) = g_history g"
  "g_attempts (set_price_schedule s g) = g_attempts g" "g_history (set_price_schedule s g) = g_history g"
  "g_attempts (advance_epoch g) = g_attempts g" "g_history (advance_epoch g) = g_history g"
  "g_attempts (set_worker_boot w bt g) = g_attempts g" "g_history (set_worker_boot w bt g) = g_history g"
  by (simp_all add: set_policy_def set_price_schedule_def advance_epoch_def set_worker_boot_def)

lemma attempts_inv_step: "ledger_step s s' \<Longrightarrow> attempts_inv (gov s) \<Longrightarrow> attempts_inv (gov s')"
  by (induction rule: ledger_step.induct)
    (auto intro: attempts_unchanged attempts_inv_record attempts_inv_finalize
      dest: accounting_keeps_attempts simp: config_keeps_attempts)

interpretation intake: safe_system ledger_initial ledger_step "\<lambda>s. attempts_inv (gov s)"
proof unfold_locales
  show "ledger_initial s \<Longrightarrow> attempts_inv (gov s)" for s
    by (simp add: ledger_initial_def attempts_inv_def Impl_init_def)
qed (simp add: attempts_inv_step)

section \<open>The realized cost of a request\<close>

lemma sum_smap_put:
  assumes "smap_ok m"
  shows "(\<Sum>x\<leftarrow>smap_put k v m. f (snd x)) =
    (\<Sum>x\<leftarrow>m. f (snd x)) - (case smap_find m k of None \<Rightarrow> 0 | Some v' \<Rightarrow> f v') + (f v :: int)"
  using assms
proof (induction k v m rule: smap_put.induct)
  case (2 k v k' v' m)
  have later: "smap_find m k = None" if "k \<le> k'"
    using 2(2) that by (auto simp: smap_ok_Cons smap_find_def map_of_eq_None_iff)
  then show ?case
    using 2 by (auto simp: smap_ok_Cons smap_find_def)
qed (simp add: smap_find_def)

lemma realized_cost_eq:
  assumes "g_attempts g rq = Some m"
  shows "realized_request_cost clk g rq = Inr c \<longleftrightarrow>
    list_all (fully_priced (g_schedule g) (pol_currency (g_policy g)) (clk 0)) (map snd m) \<and>
    micros c = (\<Sum>ev\<leftarrow>map snd m. attempt_cost (g_schedule g) (pol_currency (g_policy g)) (clk 0) ev)"
    (is "_ \<longleftrightarrow> list_all ?priced _ \<and> _ = ?sum")
proof -
  have "realized_request_cost clk g rq = Inr c \<longleftrightarrow>
      (\<exists>bd. project (g_schedule g) (map snd m) (pol_currency (g_policy g)) (clk 0) = Inr bd \<and> bd_total bd = c)"
    by (auto simp: realized_request_cost_def assms bindE_eq_Inr)
  also have "\<dots> \<longleftrightarrow> list_all ?priced (map snd m) \<and> micros c = ?sum"
  proof
    assume "\<exists>bd. project (g_schedule g) (map snd m) (pol_currency (g_policy g)) (clk 0) = Inr bd \<and> bd_total bd = c"
    then show "list_all ?priced (map snd m) \<and> micros c = ?sum"
      unfolding project_eq_Inr list_all_iff breakdown_of_def by auto
  next
    assume R: "list_all ?priced (map snd m) \<and> micros c = ?sum"
    then have "?sum < 2 ^ 63"
      using in_i64_sint [of "total_micros c"] by (simp add: in_i64_def)
    then obtain bd where bd: "breakdown_of (g_schedule g) (map snd m) (pol_currency (g_policy g)) (clk 0) bd"
      using breakdown_exists by blast
    then have "bd_total bd = c"
      using R by (simp add: money_eq_micros breakdown_of_def)
    then show "\<exists>bd. project (g_schedule g) (map snd m) (pol_currency (g_policy g)) (clk 0) = Inr bd \<and> bd_total bd = c"
      using bd R by (auto simp: project_eq_Inr list_all_iff)
  qed
  finally show ?thesis .
qed

text \<open>The cost before and after an attempt is stored.\<close>

definition stored_cost :: "Clock \<Rightarrow> Impl \<Rightarrow> CostEvidence \<Rightarrow> int" where
  "stored_cost clk g ev = attempt_cost (g_schedule g) (pol_currency (g_policy g)) (clk 0) ev"

lemma find_attempt:
  "request_ok rq m \<Longrightarrow> find (\<lambda>old. ev_attempt old = a) (map snd m) = smap_find m a"
proof (induction m)
  case (Cons x m)
  then show ?case
    by (cases x) (auto simp: request_ok_def smap_ok_Cons smap_find_def)
qed (simp add: smap_find_def)

lemma realized_cost_sum:
  assumes "realized_request_cost clk g rq = Inr c"
  shows "micros c = (\<Sum>ev\<leftarrow>attempts g rq. stored_cost clk g ev)"
proof (cases "g_attempts g rq")
  case None
  then show ?thesis
    using assms by (auto simp: realized_request_cost_def attempts_def)
next
  case (Some m)
  then show ?thesis
    using assms by (simp add: realized_cost_eq attempts_def stored_cost_def)
qed

lemma finalize_request_once:
  "finalize_request clk rq w g = (Inr Status.OK, g') \<Longrightarrow> finalize_request clk' rq w' g' = (Inr Status.OK, g')"
  by (auto simp: finalize_request_def Let_def split: if_splits option.splits sum.splits)

text \<open>A governor with a price schedule, and the first attempt of a request recorded in it.\<close>

definition sample_intake :: Impl where
  "sample_intake = set_price_schedule sample_schedule Impl_init"

lemma sample_record:
  "\<exists>g. record_attempt sample_success sample_intake = (Status.OK, g) \<and>
    g_attempts g = [mk_Id 9 \<mapsto> [(mk_Id 2, sample_success)]] \<and> g_schedule g = sample_schedule \<and>
    pol_currency (g_policy g) = ''USD'' \<and> g_history g = []"
proof -
  have "ev_epoch sample_success = mk_Id 1" "ev_boot sample_success = Id_none" "ev_attempt sample_success = mk_Id 2"
    "ev_request sample_success = mk_Id 9" "ev_label sample_success = DataLabel.POLICY" "\<not> evidence_negative sample_success"
    by (simp_all add: sample_success_def CostEvidence_default_def evidence_negative_def sint_rules)
  then show ?thesis
    by (simp add: record_attempt_def sample_intake_def set_price_schedule_def Impl_init_def current_boot_for_def
        smap_find_def smap_emplace_def CostPolicy_default_def kDefaultCurrency_def)
qed

section \<open>Properties\<close>

text \<open>
  C12: what is stored for a request. In every reachable state the attempts of a request are listed
  once each in the order of their ids, all of them for that request and with usage that was checked
  on entry, and the history has at most one entry for a request.
\<close>

theorem attempts_recorded_once:
  assumes "ledger_initial s" and "ledger_step\<^sup>*\<^sup>* s s'"
  shows "sorted_wrt (<) (map ev_attempt (attempts (gov s') rq)) \<and>
    list_all (\<lambda>ev. ev_request ev = rq \<and> \<not> evidence_negative ev \<and> ev_label ev \<noteq> DataLabel.UNSUPPORTED)
      (attempts (gov s') rq) \<and>
    distinct (map h_request (history (gov s')))"
proof -
  have inv: "attempts_inv (gov s')"
    by (rule intake.inv_reachable [OF assms])
  show ?thesis
  proof (cases "g_attempts (gov s') rq")
    case None
    then show ?thesis
      using inv by (simp add: attempts_def history_def attempts_inv_def)
  next
    case (Some m)
    then have ok: "request_ok rq m"
      using inv by (simp add: attempts_inv_def)
    then have "map ev_attempt (map snd m) = map fst m"
      by (auto simp: request_ok_def)
    then have "sorted_wrt (<) (map ev_attempt (map snd m))"
      using ok by (simp only: request_ok_def smap_ok_def)
    moreover have "list_all (\<lambda>ev. ev_request ev = rq \<and> \<not> evidence_negative ev \<and>
        ev_label ev \<noteq> DataLabel.UNSUPPORTED) (map snd m)"
      using ok by (auto simp: request_ok_def list_all_iff)
    moreover have "distinct (map h_request (g_history (gov s')))"
      using inv by (simp add: attempts_inv_def)
    ultimately show ?thesis
      by (simp add: attempts_def history_def Some)
  qed
qed

theorem attempts_recorded_once_witness:
  "\<exists>s s'. ledger_initial s \<and> ledger_step\<^sup>*\<^sup>* s s' \<and> length (attempts (gov s') (mk_Id 9)) = 1 \<and>
    sorted_wrt (<) (map ev_attempt (attempts (gov s') (mk_Id 9)))"
proof -
  define ev where "ev = CostEvidence_default\<lparr>ev_request := mk_Id 9, ev_attempt := mk_Id 1, ev_epoch := mk_Id 1\<rparr>"
  define s where "s = \<lparr>gov = Impl_init, handles = [], direct = \<lambda>_. 0\<rparr>"
  define s' where "s' = s\<lparr>gov := snd (record_attempt ev Impl_init)\<rparr>"
  have init: "ledger_initial s"
    by (simp add: ledger_initial_def s_def)
  have "ledger_step s s'"
    unfolding s'_def by (rule attempt [of ev _ "fst (record_attempt ev Impl_init)"]) (simp add: s_def)
  then have run: "ledger_step\<^sup>*\<^sup>* s s'"
    by simp
  have "length (attempts (gov s') (mk_Id 9)) = 1"
    by (simp add: s'_def s_def attempts_def record_attempt_def ev_def CostEvidence_default_def Impl_init_def
        current_boot_for_def smap_find_def smap_emplace_def evidence_negative_def sint_rules)
  then show ?thesis
    using init run attempts_recorded_once [OF init run] by blast
qed

text \<open>
  C13: the realized cost of a request is the sum over its recorded attempts. Recording a new attempt
  adds exactly its cost, and re-recording one with a newer generation replaces the old cost by the
  new one; no attempt is counted twice.
\<close>

theorem realized_cost_additive:
  assumes "attempts_inv g" and "record_attempt ev g = (Status.OK, g')"
    and "realized_request_cost clk g (ev_request ev) = Inr c"
    and "realized_request_cost clk g' (ev_request ev) = Inr c'"
  shows "micros c' = micros c + stored_cost clk g ev -
    (case find (\<lambda>old. ev_attempt old = ev_attempt ev) (attempts g (ev_request ev)) of
       None \<Rightarrow> 0 | Some old \<Rightarrow> stored_cost clk g old)"
proof -
  define m where "m = (case g_attempts g (ev_request ev) of None \<Rightarrow> [] | Some m \<Rightarrow> m)"
  have ok: "request_ok (ev_request ev) m"
    unfolding m_def by (rule stored_request_ok [OF assms(1)])
  have before: "attempts g (ev_request ev) = map snd m"
    by (simp add: m_def attempts_def split: option.split)
  have g': "g' = g\<lparr>g_attempts := (g_attempts g)(ev_request ev \<mapsto> smap_put (ev_attempt ev) ev m)\<rparr>"
    using record_attempt_ok(5) [OF assms(2)] by (simp add: m_def)
  then have after: "attempts g' (ev_request ev) = map snd (smap_put (ev_attempt ev) ev m)"
    by (simp add: attempts_def)
  have same: "stored_cost clk g' x = stored_cost clk g x" for x
    by (simp add: g' stored_cost_def)
  have "(\<Sum>x\<leftarrow>smap_put (ev_attempt ev) ev m. stored_cost clk g (snd x)) = (\<Sum>x\<leftarrow>m. stored_cost clk g (snd x)) -
      (case smap_find m (ev_attempt ev) of None \<Rightarrow> 0 | Some old \<Rightarrow> stored_cost clk g old) + stored_cost clk g ev"
    using ok by (intro sum_smap_put) (simp add: request_ok_def)
  then show ?thesis
    using realized_cost_sum [OF assms(3)] realized_cost_sum [OF assms(4)]
    by (simp add: before after same find_attempt [OF ok] o_def)
qed

theorem realized_cost_additive_witness:
  "\<exists>g c c'. record_attempt sample_success sample_intake = (Status.OK, g) \<and>
    realized_request_cost (\<lambda>_. 5) sample_intake (mk_Id 9) = Inr c \<and>
    realized_request_cost (\<lambda>_. 5) g (mk_Id 9) = Inr c' \<and> micros c' = micros c + 6000000"
proof -
  obtain g where g: "record_attempt sample_success sample_intake = (Status.OK, g)"
    "g_attempts g = [mk_Id 9 \<mapsto> [(mk_Id 2, sample_success)]]" "g_schedule g = sample_schedule"
    "pol_currency (g_policy g) = ''USD''"
    using sample_record by blast
  have before: "realized_request_cost (\<lambda>_. 5) sample_intake (ev_request sample_success) = Inr (MoneyMicros 0)"
    by (simp add: realized_request_cost_def sample_intake_def set_price_schedule_def Impl_init_def)
  have rq: "ev_request sample_success = mk_Id 9"
    by (simp add: sample_success_def)
  have after: "realized_request_cost (\<lambda>_. 5) g (ev_request sample_success) = Inr (MoneyMicros 6000000)"
    unfolding rq by (subst realized_cost_eq [of _ _ "[(mk_Id 2, sample_success)]"]) (simp_all add: g sample_attempts)
  have "attempts_inv sample_intake"
    by (simp add: attempts_inv_def sample_intake_def set_price_schedule_def Impl_init_def)
  from realized_cost_additive [OF this g(1) before after] show ?thesis
    using g(1) before after unfolding rq by (auto simp: sample_attempts)
qed

text \<open>
  C14: a request is finalised once. A successful finalisation leaves one history entry for it, whose
  cost is the realized cost, and every later finalisation of the request changes nothing.
\<close>

theorem finalize_once:
  assumes "finalize_request clk rq w g = (Inr Status.OK, g')" and "\<not> (\<exists>h\<in>set (history g). h_request h = rq)"
  shows "\<exists>h. history g' = history g @ [h] \<and> h_request h = rq \<and>
    realized_request_cost clk g rq = Inr (h_realized_cost h) \<and>
    finalize_request clk' rq w' g' = (Inr Status.OK, g')"
  using assms finalize_request_once [OF assms(1)]
  by (auto simp: finalize_request_def history_def realized_request_cost_def Let_def
      split: if_splits option.splits sum.splits)

theorem finalize_once_witness:
  "\<exists>g g' h. record_attempt sample_success sample_intake = (Status.OK, g) \<and>
    finalize_request (\<lambda>_. 5) (mk_Id 9) (mk_Id 3) g = (Inr Status.OK, g') \<and> history g' = [h] \<and>
    h_realized_cost h = MoneyMicros 6000000"
proof -
  obtain g where g: "record_attempt sample_success sample_intake = (Status.OK, g)"
    "g_attempts g = [mk_Id 9 \<mapsto> [(mk_Id 2, sample_success)]]" "g_schedule g = sample_schedule"
    "pol_currency (g_policy g) = ''USD''" "g_history g = []"
    using sample_record by blast
  have cost: "realized_request_cost (\<lambda>_. 5) g (mk_Id 9) = Inr (MoneyMicros 6000000)"
    by (subst realized_cost_eq [of _ _ "[(mk_Id 2, sample_success)]"]) (simp_all add: g sample_attempts)
  then obtain g' where final: "finalize_request (\<lambda>_. 5) (mk_Id 9) (mk_Id 3) g = (Inr Status.OK, g')"
    by (auto simp: realized_request_cost_def finalize_request_def g bindE_eq_Inr Let_def)
  have "\<not> (\<exists>h\<in>set (history g). h_request h = mk_Id 9)"
    by (simp add: history_def g)
  then obtain h where "history g' = [h]" "h_realized_cost h = MoneyMicros 6000000"
    using finalize_once [OF final, of "\<lambda>_. 5" "mk_Id 3"] cost by (auto simp: history_def g)
  then show ?thesis
    using g(1) final by blast
qed

text \<open>
  C15: evidence is fenced by the epoch and by the incarnation of its worker. Attempt evidence is
  accepted only under the current epoch and the current incarnation of the worker that produced it;
  a price is accepted only under the current epoch, and under the current incarnation unless it
  names none. A restart of one worker changes the incarnation of no other.
\<close>

theorem evidence_fenced:
  "(fst (record_attempt ev g) = Status.OK \<longrightarrow>
      ev_epoch ev = g_epoch g \<and> ev_boot ev = worker_boot g (ev_worker ev)) \<and>
   (fst (publish_price obs g) = Status.OK \<longrightarrow>
      po_epoch obs = g_epoch g \<and> (Id_valid (po_boot obs) \<longrightarrow> po_boot obs = worker_boot g (po_worker obs))) \<and>
   worker_boot (set_worker_boot w bt g) w' = (if w = w' then bt else worker_boot g w')"
  by (cases "record_attempt ev g"; cases "publish_price obs g")
    (auto simp: worker_boot_def current_boot_set publish_price_def dest: record_attempt_ok split: if_splits)

theorem evidence_fenced_witness:
  "fst (record_attempt sample_success sample_intake) = Status.OK \<and>
    ev_boot sample_success = worker_boot sample_intake (ev_worker sample_success)"
  using sample_record evidence_fenced [of sample_success sample_intake] by auto

text \<open>
  Publishing a price changes the schedule in one place. A price that is refused leaves the
  governor as it was. One that is accepted is in the schedule afterwards, every observation with
  another id is still there in the same order, and the generation of the schedule has changed.
\<close>

lemma publish_price_effect:
  assumes "publish_price obs g = (st, g')"
  shows "(st \<noteq> Status.OK \<longrightarrow> g' = g) \<and>
    (st = Status.OK \<longrightarrow>
      obs \<in> set (ps_observations (g_schedule g')) \<and>
      filter (\<lambda>p. po_id p \<noteq> po_id obs) (ps_observations (g_schedule g')) =
        filter (\<lambda>p. po_id p \<noteq> po_id obs) (ps_observations (g_schedule g)) \<and>
      ps_generation (g_schedule g') \<noteq> ps_generation (g_schedule g))"
proof -
  have "obs \<in> set xs' \<and> filter (\<lambda>p. po_id p \<noteq> po_id obs) xs' = filter (\<lambda>p. po_id p \<noteq> po_id obs) xs"
    if "replace_observation obs xs = Some xs'" for xs xs'
    using that by (induction xs arbitrary: xs') (auto split: if_splits)
  then show ?thesis
    using assms by (auto simp: publish_price_def Let_def split: if_splits option.splits)
qed

lemma publish_price_effect_witness:
  "\<exists>g. publish_price (PriceObservation_default\<lparr>po_id := mk_Id 4, po_epoch := mk_Id 1\<rparr>) Impl_init = (Status.OK, g) \<and>
    ps_generation (g_schedule g) \<noteq> ps_generation (g_schedule Impl_init)"
proof -
  obtain g where "publish_price (PriceObservation_default\<lparr>po_id := mk_Id 4, po_epoch := mk_Id 1\<rparr>) Impl_init = (Status.OK, g)"
    by (simp add: publish_price_def PriceObservation_default_def Impl_init_def CostPolicy_default_def
        valid_currency_def sint_rules)
  then show ?thesis
    using publish_price_effect by blast
qed

end
