(* ===== verification/Dispatch.thy ===== *)
theory Dispatch
  imports Ranking Intake
begin

text \<open>
  Correctness of plan evaluation and of the revalidation before dispatch: what a feasible verdict
  guarantees, that the selected plan is the best feasible one, and that a decision is accepted
  again as long as the authority it was made under has not changed.
\<close>

section \<open>Price checks\<close>

lemma check_skips_applies:
  "check_skips obs k cur now pol dev res \<longleftrightarrow> \<not> obs_applies obs k cur now dev res (Some pol)"
  by (auto simp: check_skips_def obs_applies_def in_interval_def)

lemma check_price_eq:
  "check_price s k cur now pol dev res =
    (case find_price s k cur now dev res (Some pol) of
       None \<Rightarrow> \<lparr>pc_present = False, pc_stale = False, pc_obs = None\<rparr>
     | Some b \<Rightarrow> \<lparr>pc_present = True,
         pc_stale = (0 <s pol_price_schedule_max_age_ms pol \<and>
             pol_price_schedule_max_age_ms pol <s now - ps_created_at_ms s \<or>
           0 <s pol_max_evidence_age_ms pol \<and> pol_max_evidence_age_ms pol <s now - po_observed_at_ms b),
         pc_obs = Some b\<rparr>)"
  unfolding check_price_def find_price_def check_skips_applies not_not Let_def by (rule refl)

text \<open>A present and fresh price under the policy.\<close>

definition fresh_price :: "Impl \<Rightarrow> i64 \<Rightarrow> ExecutionPlan \<Rightarrow> CostComponent \<Rightarrow> bool" where
  "fresh_price g now plan c \<longleftrightarrow>
    (let pc = check_price (g_schedule g) (kind_for_check c) (pol_currency (g_policy g)) now (g_policy g)
       (pl_device plan) (pl_resource plan)
     in pc_present pc \<and> \<not> pc_stale pc)"

lemma check_components_None:
  "check_components g now plan cs = None \<longleftrightarrow> (\<forall>c\<in>set cs. amount_present plan c \<longrightarrow> fresh_price g now plan c)"
  by (induction cs) (auto simp: fresh_price_def Let_def)

lemma check_components_Some:
  "check_components g now plan cs = Some (f, r) \<Longrightarrow> f \<noteq> Feasibility.FEASIBLE"
  by (induction cs) (auto simp: Let_def split: if_splits)

section \<open>Budget checks\<close>

definition fits_budget :: "MoneyMicros \<Rightarrow> Budget \<Rightarrow> bool" where
  "fits_budget tot b \<longleftrightarrow>
    (b_mode b = BudgetMode.HARD \<longrightarrow> (\<exists>rem. remaining b = Inr rem \<and> tot \<le> rem))"

lemma check_budgets_None: "check_budgets tot bs = Inr None \<longleftrightarrow> (\<forall>b\<in>set bs. fits_budget tot b)"
proof (induction bs)
  case (Cons b bs)
  then show ?case
    by (cases "remaining b") (auto simp: fits_budget_def)
qed simp

lemma check_budgets_Some:
  "check_budgets tot bs = Inr (Some r) \<Longrightarrow> \<exists>b\<in>set bs. \<not> fits_budget tot b"
proof (induction bs)
  case (Cons b bs)
  then show ?case
    by (cases "remaining b") (auto simp: fits_budget_def split: if_splits)
qed simp

text \<open>With amounts that the accounting keeps, the remaining amount is always representable.\<close>

lemma remaining_returns:
  "budget_inv b \<Longrightarrow> b_mode b = BudgetMode.HARD \<Longrightarrow>
    \<exists>rem. remaining b = Inr rem \<and> micros rem = micros (b_limit b) - micros (b_consumed b)"
proof -
  assume b: "budget_inv b" "b_mode b = BudgetMode.HARD"
  let ?rem = "micros (b_limit b) - micros (b_consumed b)"
  have "in_i64 ?rem"
    using b in_i64_sint [of "total_micros (b_limit b)"] unfolding budget_inv_def in_i64_def by linarith
  moreover have "total_micros (b_consumed b) \<noteq> I64MIN"
    using b(1) sint_I64MIN unfolding budget_inv_def by auto
  ultimately show ?thesis
    by (intro exI [of _ "MoneyMicros (word_of_int ?rem)"]) (simp add: remaining_def money_sub_eq_Inr sint_diff)
qed

lemma check_budgets_returns:
  "\<forall>b\<in>set bs. budget_inv b \<Longrightarrow> \<exists>r. check_budgets tot bs = Inr r"
proof (induction bs)
  case (Cons b bs)
  then show ?case
    using remaining_returns [of b] by (cases "b_mode b = BudgetMode.HARD") auto
qed simp

section \<open>The verdict on a plan\<close>

lemma verdict_sel [simp]:
  "pe_feasible (verdict f r e) = f" "pe_reason (verdict f r e) = r" "pe_projected (verdict f r e) = pe_projected e"
  by (simp_all add: verdict_def)

lemma per_unit_returns: "0 <s d \<Longrightarrow> \<exists>q. money_checked_div m d kCeil = Inr q"
  by (auto simp: money_checked_div_def Let_def sint_rules)

text \<open>The plans that reach the budget check, and the verdict there.\<close>

definition priceable :: "i64 \<Rightarrow> Impl \<Rightarrow> ExecutionPlan \<Rightarrow> CostBreakdown \<Rightarrow> bool" where
  "priceable now g plan bd \<longleftrightarrow>
    pl_label plan \<noteq> DataLabel.UNSUPPORTED \<and> pl_meets_hard_slo plan \<and> \<not> g_revalidation_needed g \<and>
    list_all (\<lambda>c. amount_present plan c \<longrightarrow> fresh_price g now plan c) priced_components \<and>
    project (g_schedule g) [plan_to_evidence plan] (pol_currency (g_policy g)) now = Inr bd"

lemma evaluate_priceable:
  assumes "priceable now g plan bd"
  shows "\<exists>e. pe_projected e = bd \<and> pe_reason e = FeasibilityReason.NONE \<and>
    (\<forall>order. evaluate_plan_locked now order g plan =
      bindE (check_budgets (bd_total bd) (umap_values (g_budgets g) order)) (\<lambda>exceeded.
        Inr (case exceeded of Some r \<Rightarrow> verdict Feasibility.INFEASIBLE r e
               | None \<Rightarrow> e\<lparr>pe_feasible := Feasibility.FEASIBLE\<rparr>)))"
proof -
  have checked: "check_components g now plan priced_components = None"
    using assms by (auto simp: priceable_def check_components_None list_all_iff)
  have bd: "project (g_schedule g) [plan_to_evidence plan] (pol_currency (g_policy g)) now = Inr bd"
    using assms by (simp add: priceable_def)
  then have known: "\<not> bd_any_unknown bd"
    using assms by (auto simp: project_eq_Inr breakdown_of_def priceable_def plan_to_evidence_def)
  obtain q where q: "(if 0 <s pl_expected_requests plan
      then money_checked_div (bd_total bd) (pl_expected_requests plan) kCeil else Inr (MoneyMicros 0)) = Inr q"
    using per_unit_returns by (cases "0 <s pl_expected_requests plan") auto
  obtain t v where t: "(if 0 <s pl_expected_tokens plan
      then bindE (money_checked_div (bd_total bd) (pl_expected_tokens plan) kCeil) (\<lambda>t. Inr (t, True))
      else Inr (pe_projected_per_token PlanEconomics_default, pe_per_token_valid PlanEconomics_default)) = Inr (t, v)"
    using per_unit_returns [of "pl_expected_tokens plan" "bd_total bd"]
    by (cases "0 <s pl_expected_tokens plan") auto
  define e where "e = PlanEconomics_default\<lparr>pe_projected := bd, pe_projected_per_request := q,
    pe_projected_per_token := t, pe_per_token_valid := v\<rparr>"
  have "evaluate_plan_locked now order g plan =
      bindE (check_budgets (bd_total bd) (umap_values (g_budgets g) order)) (\<lambda>exceeded.
        Inr (case exceeded of Some r \<Rightarrow> verdict Feasibility.INFEASIBLE r e
               | None \<Rightarrow> e\<lparr>pe_feasible := Feasibility.FEASIBLE\<rparr>))" for order
    using assms known
    unfolding evaluate_plan_locked_def Let_def checked bd q t priceable_def option.case sum.case bindE_simps prod.case e_def
    by simp
  then show ?thesis
    by (intro exI [of _ e]) (simp add: e_def PlanEconomics_default_def)
qed

lemma evaluate_not_priceable:
  assumes "evaluate_plan_locked now order g plan = Inr e" and "\<nexists>bd. priceable now g plan bd"
  shows "pe_feasible e \<noteq> Feasibility.FEASIBLE"
proof (cases "check_components g now plan priced_components")
  case None
  then have "\<forall>c\<in>set priced_components. amount_present plan c \<longrightarrow> fresh_price g now plan c"
    by (simp add: check_components_None)
  then show ?thesis
    using assms None
    by (auto simp: evaluate_plan_locked_def priceable_def Let_def list_all_iff
        split: if_splits sum.splits exn.splits)
next
  case (Some fr)
  then show ?thesis
    using assms check_components_Some [of g now plan priced_components "fst fr" "snd fr"]
    by (auto simp: evaluate_plan_locked_def Let_def split: if_splits prod.splits)
qed

lemma evaluate_unpriced:
  assumes "\<nexists>bd. priceable now g plan bd"
  shows "evaluate_plan_locked now order g plan = evaluate_plan_locked now order' g plan"
proof (cases "check_components g now plan priced_components")
  case None
  then have "list_all (\<lambda>c. amount_present plan c \<longrightarrow> fresh_price g now plan c) priced_components"
    by (simp add: check_components_None list_all_iff)
  then show ?thesis
    using assms None by (auto simp: evaluate_plan_locked_def priceable_def Let_def split: sum.split)
qed (auto simp: evaluate_plan_locked_def Let_def)

lemma evaluate_feasible:
  assumes e: "evaluate_plan_locked now order g plan = Inr e"
  shows "pe_feasible e = Feasibility.FEASIBLE \<longleftrightarrow>
    (\<exists>bd. priceable now g plan bd \<and> list_all (fits_budget (bd_total bd)) (umap_values (g_budgets g) order))"
proof (cases "\<exists>bd. priceable now g plan bd")
  case True
  then obtain bd where bd: "priceable now g plan bd"
    by blast
  have unique: "priceable now g plan bd' \<Longrightarrow> bd' = bd" for bd'
    using bd by (simp add: priceable_def)
  obtain e' where e': "evaluate_plan_locked now order g plan =
      bindE (check_budgets (bd_total bd) (umap_values (g_budgets g) order)) (\<lambda>exceeded.
        Inr (case exceeded of Some r \<Rightarrow> verdict Feasibility.INFEASIBLE r e'
               | None \<Rightarrow> e'\<lparr>pe_feasible := Feasibility.FEASIBLE\<rparr>))"
    using evaluate_priceable [OF bd] by blast
  then obtain x where x: "check_budgets (bd_total bd) (umap_values (g_budgets g) order) = Inr x"
    and ex: "e = (case x of Some r \<Rightarrow> verdict Feasibility.INFEASIBLE r e'
               | None \<Rightarrow> e'\<lparr>pe_feasible := Feasibility.FEASIBLE\<rparr>)"
    using e unfolding e' bindE_eq_Inr by auto
  have "pe_feasible e = Feasibility.FEASIBLE \<longleftrightarrow> x = None"
    by (simp add: ex split: option.split)
  also have "\<dots> \<longleftrightarrow> list_all (fits_budget (bd_total bd)) (umap_values (g_budgets g) order)"
    using x check_budgets_None [of "bd_total bd" "umap_values (g_budgets g) order"]
    by (auto simp: list_all_iff)
  finally show ?thesis
    using bd unique by blast
next
  case False
  then show ?thesis
    using evaluate_not_priceable [OF e] by blast
qed

section \<open>The selected plan\<close>

lemma evaluate_candidates_fold:
  "foldE (\<lambda>(i, plan) (cs, worst).
        bindE (evaluate_plan_locked (clk i) order g plan) (\<lambda>econ.
        Inr (cs @ [(plan, econ)],
             if pe_feasible econ \<noteq> Feasibility.FEASIBLE \<and> pe_reason econ \<noteq> FeasibilityReason.NONE
               then pe_reason econ else worst)))
      (enumerate n plans) (cs0, w0) = Inr (cs, worst) \<Longrightarrow>
    \<exists>es. cs = cs0 @ zip plans es \<and> length es = length plans \<and>
      (\<forall>i<length plans. evaluate_plan_locked (clk (n + i)) order g (plans ! i) = Inr (es ! i))"
proof (induction plans arbitrary: n cs0 w0)
  case (Cons p plans)
  then obtain econ w1 where econ: "evaluate_plan_locked (clk n) order g p = Inr econ"
    and rest: "foldE (\<lambda>(i, plan) (cs, worst).
        bindE (evaluate_plan_locked (clk i) order g plan) (\<lambda>econ.
        Inr (cs @ [(plan, econ)],
             if pe_feasible econ \<noteq> Feasibility.FEASIBLE \<and> pe_reason econ \<noteq> FeasibilityReason.NONE
               then pe_reason econ else worst)))
      (enumerate (Suc n) plans) (cs0 @ [(p, econ)], w1) = Inr (cs, worst)"
    by (auto simp: bindE_eq_Inr)
  obtain es where es: "cs = (cs0 @ [(p, econ)]) @ zip plans es" "length es = length plans"
    "\<forall>i<length plans. evaluate_plan_locked (clk (Suc n + i)) order g (plans ! i) = Inr (es ! i)"
    using Cons.IH [OF rest] by blast
  then show ?case
    using econ by (intro exI [of _ "econ # es"]) (auto simp: less_Suc_eq_0_disj)
qed simp

lemma evaluate_candidates_eq:
  assumes "evaluate_candidates clk order g plans = Inr (cs, worst)"
  obtains es where "cs = zip plans es" "length es = length plans"
    "\<And>i. i < length plans \<Longrightarrow> evaluate_plan_locked (clk i) order g (plans ! i) = Inr (es ! i)"
  using evaluate_candidates_fold [OF assms [unfolded evaluate_candidates_def]] by auto

lemma build_explanation_keeps:
  "build_explanation order g d best econ wg plans = Inr d' \<Longrightarrow> \<exists>ex. d' = d\<lparr>d_explanation := ex\<rparr>"
  by (auto simp: build_explanation_def Let_def bindE_eq_Inr)

text \<open>The facts about an authorised decision that the properties use.\<close>

definition selects ::
  "Clock \<Rightarrow> BudgetId list \<Rightarrow> Impl \<Rightarrow> ExecutionPlan list \<Rightarrow> CostDecision \<Rightarrow> nat \<Rightarrow> PlanEconomics list \<Rightarrow> bool"
where
  "selects clk order g plans d k es \<longleftrightarrow>
    k < length plans \<and> length es = length plans \<and>
    (\<forall>i<length plans. evaluate_plan_locked (clk i) order g (plans ! i) = Inr (es ! i)) \<and>
    pe_feasible (es ! k) = Feasibility.FEASIBLE \<and>
    (\<forall>i<length plans. pe_feasible (es ! i) = Feasibility.FEASIBLE \<longrightarrow>
      \<not> better (plans ! i, es ! i) (plans ! k, es ! k)) \<and>
    d_selected_plan d = pl_id (plans ! k) \<and> d_projected d = pe_projected (es ! k)"

lemma evaluate_authorize:
  assumes "evaluate clk order g w wg plans = Inr d" and "d_kind d = DecisionKind.AUTHORIZE"
  shows "\<exists>k es. selects clk order g plans d k es \<and> \<not> g_revalidation_needed g \<and>
    d_authority d = authority_snapshot_from g (plans ! k) wg"
proof -
  have fresh: "\<not> g_revalidation_needed g" and plans: "plans \<noteq> []"
    using assms by (auto simp: evaluate_def Let_def split: if_splits)
  obtain cs worst where cs: "evaluate_candidates clk order g plans = Inr (cs, worst)"
    using assms(1) fresh plans by (auto simp: evaluate_def Let_def bindE_eq_Inr)
  obtain es where es: "cs = zip plans es" "length es = length plans"
    "\<And>i. i < length plans \<Longrightarrow> evaluate_plan_locked (clk i) order g (plans ! i) = Inr (es ! i)"
    using evaluate_candidates_eq [OF cs] by blast
  let ?feasible = "filter (\<lambda>c. pe_feasible (snd c) = Feasibility.FEASIBLE) cs"
  have "stable_sort better ?feasible \<noteq> []"
    using assms fresh plans cs by (auto simp: evaluate_def Let_def CostDecision_default_def split: list.splits)
  then obtain plan econ rest where best: "stable_sort better ?feasible = (plan, econ) # rest"
    by (metis list.exhaust surj_pair)
  note head = ranking.stable_sort_head [OF best]
  from head(1) es(1, 2) obtain k where k: "k < length plans" "plan = plans ! k" "econ = es ! k"
    "pe_feasible (es ! k) = Feasibility.FEASIBLE"
    by (auto simp: in_set_conv_nth)
  have min: "\<not> better (plans ! i, es ! i) (plans ! k, es ! k)"
    if "i < length plans" "pe_feasible (es ! i) = Feasibility.FEASIBLE" for i
  proof -
    have "(plans ! i, es ! i) \<in> set (zip plans es)"
      using that es(2) by (auto simp: set_zip)
    then show ?thesis
      using head(2) [of "(plans ! i, es ! i)"] that es(1) k by simp
  qed
  obtain d' where d': "build_explanation order g d' plan econ wg plans = Inr d"
    "d_selected_plan d' = pl_id plan" "d_projected d' = pe_projected econ"
    "d_authority d' = authority_snapshot_from g plan wg"
    using assms(1) fresh plans cs best by (auto simp: evaluate_def Let_def bindE_eq_Inr)
  then have "d_selected_plan d = pl_id plan" "d_projected d = pe_projected econ"
    "d_authority d = authority_snapshot_from g plan wg"
    using build_explanation_keeps [OF d'(1)] by auto
  then show ?thesis
    using k es min fresh by (intro exI [of _ k] exI [of _ es]) (simp add: selects_def)
qed

lemma feasible_facts:
  assumes e: "evaluate_plan_locked now order g plan = Inr e" and feasible: "pe_feasible e = Feasibility.FEASIBLE"
  shows "priceable now g plan (pe_projected e)"
    and "list_all (fits_budget (bd_total (pe_projected e))) (umap_values (g_budgets g) order)"
proof -
  obtain bd where bd: "priceable now g plan bd" "list_all (fits_budget (bd_total bd)) (umap_values (g_budgets g) order)"
    using evaluate_feasible [OF e] feasible by blast
  obtain e' where e': "pe_projected e' = bd" "\<forall>order. evaluate_plan_locked now order g plan =
      bindE (check_budgets (bd_total bd) (umap_values (g_budgets g) order)) (\<lambda>exceeded.
        Inr (case exceeded of Some r \<Rightarrow> verdict Feasibility.INFEASIBLE r e'
               | None \<Rightarrow> e'\<lparr>pe_feasible := Feasibility.FEASIBLE\<rparr>))"
    using evaluate_priceable [OF bd(1)] by blast
  have "check_budgets (bd_total bd) (umap_values (g_budgets g) order) = Inr None"
    using bd(2) by (simp add: check_budgets_None list_all_iff)
  then have "e = e'\<lparr>pe_feasible := Feasibility.FEASIBLE\<rparr>"
    using e e'(2) by simp
  then show "priceable now g plan (pe_projected e)"
    and "list_all (fits_budget (bd_total (pe_projected e))) (umap_values (g_budgets g) order)"
    using bd e'(1) by simp_all
qed

section \<open>A concrete plan\<close>

text \<open>A plan of three accelerator seconds, for a governor with a price for it and a budget of ten units.\<close>

definition sample_plan :: ExecutionPlan where
  "sample_plan = ExecutionPlan_default\<lparr>pl_id := mk_Id 5, pl_expected_accelerator_time := Amount 3000000000\<rparr>"

definition sample_market :: Impl where
  "sample_market = set_price_schedule sample_schedule sample_governor"

lemma sample_market_sel:
  "g_budgets sample_market = [mk_Id 1 \<mapsto> sample_budget\<lparr>b_lifecycle := BudgetLifecycle.ACTIVE\<rparr>]"
  "g_schedule sample_market = sample_schedule" "pol_currency (g_policy sample_market) = ''USD''"
  "\<not> g_revalidation_needed sample_market" "g_policy sample_market = g_policy Impl_init"
  by (simp_all add: sample_market_def set_price_schedule_def sample_governor_budgets)
    (simp_all add: sample_governor_def sample_ops)

lemma sample_budgets:
  "umap_values (g_budgets sample_market) [mk_Id 1] = [sample_budget\<lparr>b_lifecycle := BudgetLifecycle.ACTIVE\<rparr>]"
  by (simp add: umap_values_def List.map_filter_def sample_market_sel)

lemma sample_iteration: "iteration_order (g_budgets sample_market) [mk_Id 1]"
  by (simp add: iteration_order_def sample_market_sel)

lemma sample_remaining:
  "remaining (sample_budget\<lparr>b_lifecycle := BudgetLifecycle.ACTIVE\<rparr>) = Inr (MoneyMicros 10000000)"
  by (simp add: remaining_def money_sub_eq_Inr sample_budget_def Budget_default_def)

lemma accelerator_plan_priceable:
  assumes p: "find_price (g_schedule g) PriceKind.ACCELERATOR_TIME ''USD'' 5 Id_none Id_none None = Some p"
      "micros (po_amount p) = a" "0 \<le> a" "a \<le> 1000000000"
    and fresh: "fresh_price g 5 sample_plan CostComponent.ACCELERATOR_TIME"
    and g: "\<not> g_revalidation_needed g" "pol_currency (g_policy g) = ''USD''"
  shows "\<exists>bd. priceable 5 g sample_plan bd \<and> micros (bd_total bd) = 3 * a"
proof -
  let ?ev = "plan_to_evidence sample_plan" and ?s = "g_schedule g"
  have "in_i64 (3 * a)"
    using p by (simp add: in_i64_def)
  then have "micros (MoneyMicros (word_of_int (3 * a))) = 3 * a"
    unfolding MoneyMicros.sel by (rule sint_of_int)
  then obtain m where m: "micros m = 3 * a"
    by blast
  have "ceil_div (3000000000 * a) 1000000000 = 3 * a"
    using nonzero_mult_div_cancel_right [of 1000000000 "- (3 * a)"] by (simp add: ceil_div_def)
  then have "priced ?s ''USD'' 5 ?ev CostComponent.ACCELERATOR_TIME 3000000000 = Inr m"
    using p m by (simp add: priced_def project_component_eq_Inr kind_for_def denominator_for_def kNsPerSecond_def
        plan_to_evidence_def sample_plan_def ExecutionPlan_default_def)
  then have cost: "attempt_cost ?s ''USD'' 5 ?ev = 3 * a" "fully_priced ?s ''USD'' 5 ?ev"
    using m by (simp_all add: fully_priced_def attempt_cost_def measured_cost_sum usage_cost_def usage_def
        measurable_usage_def plan_to_evidence_def sample_plan_def ExecutionPlan_default_def)
  then obtain bd where bd: "breakdown_of ?s [?ev] ''USD'' 5 bd"
    using breakdown_exists [of ?s "''USD''" 5 "[?ev]"] p by auto
  then have "project ?s [?ev] ''USD'' 5 = Inr bd" "micros (bd_total bd) = 3 * a"
    using cost by (simp_all add: project_eq_Inr breakdown_of_def)
  moreover have "pl_label sample_plan = DataLabel.POLICY" "pl_meets_hard_slo sample_plan"
    by (simp_all add: sample_plan_def ExecutionPlan_default_def)
  moreover have "amount_present sample_plan c \<longrightarrow> fresh_price g 5 sample_plan c" for c
    using fresh by (cases c) (simp_all add: amount_present_def sample_plan_def ExecutionPlan_default_def)
  ultimately show ?thesis
    using g by (auto simp: priceable_def list_all_iff)
qed

lemma sample_policy:
  "pol_price_schedule_max_age_ms (g_policy Impl_init) = 30000" "pol_max_evidence_age_ms (g_policy Impl_init) = 30000"
  "pol_currency (g_policy Impl_init) = ''USD''" "\<not> pol_allow_synthetic (g_policy Impl_init)"
  by (simp_all add: Impl_init_def CostPolicy_default_def kDefaultCurrency_def)

lemma sample_plan_priceable:
  "\<exists>bd. priceable 5 sample_market sample_plan bd \<and> micros (bd_total bd) = 6000000"
proof -
  have "find_price sample_schedule PriceKind.ACCELERATOR_TIME ''USD'' 5 Id_none Id_none (Some (g_policy Impl_init)) =
      Some (PriceObservation_default\<lparr>po_amount := MoneyMicros 2000000\<rparr>)"
    by (simp add: find_price_def sample_defs obs_applies_def valid_currency_def more_specific_def sint_rules
        Impl_init_def CostPolicy_default_def accepts_label_def)
  moreover have "ps_created_at_ms sample_schedule = 0"
    by (simp add: sample_defs)
  ultimately have "fresh_price sample_market 5 sample_plan CostComponent.ACCELERATOR_TIME"
    by (simp add: fresh_price_def check_price_eq sample_market_sel kind_for_check_def sample_policy
        sample_plan_def ExecutionPlan_default_def PriceObservation_default_def sint_rules)
  then show ?thesis
    using accelerator_plan_priceable [of sample_market _ 2000000] sample_find_price(1)
    by (simp add: sample_market_sel(2-4) PriceObservation_default_def)
qed

lemma sample_plan_feasible:
  "\<exists>e. evaluate_plan_locked 5 [mk_Id 1] sample_market sample_plan = Inr e \<and> pe_feasible e = Feasibility.FEASIBLE \<and>
    micros (bd_total (pe_projected e)) = 6000000"
proof -
  obtain bd where bd: "priceable 5 sample_market sample_plan bd" "micros (bd_total bd) = 6000000"
    using sample_plan_priceable by blast
  obtain e' where e': "pe_projected e' = bd" "\<forall>order. evaluate_plan_locked 5 order sample_market sample_plan =
      bindE (check_budgets (bd_total bd) (umap_values (g_budgets sample_market) order)) (\<lambda>exceeded.
        Inr (case exceeded of Some r \<Rightarrow> verdict Feasibility.INFEASIBLE r e'
               | None \<Rightarrow> e'\<lparr>pe_feasible := Feasibility.FEASIBLE\<rparr>))"
    using evaluate_priceable [OF bd(1)] by blast
  have "check_budgets (bd_total bd) (umap_values (g_budgets sample_market) [mk_Id 1]) = Inr None"
    using bd(2) by (simp add: sample_budgets check_budgets_None fits_budget_def sample_remaining sint_rules not_less)
  then show ?thesis
    using e' bd(2) by simp
qed

lemma sample_decision:
  "\<exists>d. evaluate (\<lambda>_. 5) [mk_Id 1] sample_market (mk_Id 3) (mk_Id 1) [sample_plan] = Inr d \<and>
    d_kind d = DecisionKind.AUTHORIZE"
proof -
  obtain e where e: "evaluate_plan_locked 5 [mk_Id 1] sample_market sample_plan = Inr e"
    "pe_feasible e = Feasibility.FEASIBLE" "micros (bd_total (pe_projected e)) = 6000000"
    using sample_plan_feasible by blast
  have cs: "evaluate_candidates (\<lambda>_. 5) [mk_Id 1] sample_market [sample_plan] = Inr ([(sample_plan, e)], FeasibilityReason.NONE)"
    by (simp add: evaluate_candidates_def e)
  let ?b = "sample_budget\<lparr>b_lifecycle := BudgetLifecycle.ACTIVE\<rparr>"
  have b: "first_hard [?b] = Some ?b" "b_mode ?b = BudgetMode.HARD" "b_limit ?b = MoneyMicros 10000000"
    by (simp_all add: first_hard_def sample_budget_def Budget_default_def)
  have pol: "pol_near_budget_percent (g_policy Impl_init) = 80" "pol_at_risk_percent (g_policy Impl_init) = 90"
    by (simp_all add: Impl_init_def CostPolicy_default_def)
  have tot: "bd_total (pe_projected e) = MoneyMicros 6000000"
    using e(3) by (simp add: money_eq_micros)
  have delta: "money_sub (MoneyMicros 10000000) (MoneyMicros 6000000) = Inr (MoneyMicros 4000000)"
    by (simp add: money_sub_eq_Inr)
  have "money_checked_mul (MoneyMicros 10000000) 80 = Inr (MoneyMicros 800000000)"
    "money_checked_mul (MoneyMicros 10000000) 90 = Inr (MoneyMicros 900000000)"
    by (simp_all add: money_mul_eq_Inr)
  moreover obtain near risk where "money_checked_div (MoneyMicros 800000000) 100 kCeil = Inr near"
    "money_checked_div (MoneyMicros 900000000) 100 kCeil = Inr risk"
    using per_unit_returns [of 100 "MoneyMicros 800000000"] per_unit_returns [of 100 "MoneyMicros 900000000"]
    by (auto simp: sint_rules)
  ultimately obtain st where "state_from_breakdown [mk_Id 1] sample_market (pe_projected e) = Inr st"
    using b tot
    by (auto simp: state_from_breakdown_def sample_budgets sample_remaining money_is_zero_def bindE_eq_Inr
        sample_market_sel(5) pol money_less_micros)
  then show ?thesis
    using cs e(2) b tot
    by (auto simp: evaluate_def sample_market_sel(4) Let_def stable_sort_def sample_budgets sample_remaining
        build_explanation_def delta)
qed

section \<open>Validation of a decision\<close>

lemma fresh_validates:
  assumes "evaluate (\<lambda>_. now) order g w wg plans = Inr d" and "d_kind d = DecisionKind.AUTHORIZE"
    and "distinct (map pl_id plans)"
  shows "validate_for_dispatch (\<lambda>_. now) order g d plans = Inr Status.OK"
proof -
  obtain k es where sel: "selects (\<lambda>_. now) order g plans d k es" and fresh: "\<not> g_revalidation_needed g"
    and auth: "d_authority d = authority_snapshot_from g (plans ! k) wg"
    using evaluate_authorize [OF assms(1, 2)] by blast
  have k: "k < length plans" "evaluate_plan_locked now order g (plans ! k) = Inr (es ! k)"
    "pe_feasible (es ! k) = Feasibility.FEASIBLE" "d_selected_plan d = pl_id (plans ! k)"
    using sel by (simp_all add: selects_def)
  have "find (\<lambda>plan. pl_id plan = pl_id (plans ! k)) plans = Some (plans ! k)"
    using assms(3) k(1) by (auto simp: find_Some_iff nth_eq_iff_index_eq distinct_conv_nth)
  moreover have "check_budgets (bd_total (pe_projected (es ! k))) (umap_values (g_budgets g) order) = Inr None"
    using feasible_facts(2) [OF k(2, 3)] by (simp add: check_budgets_None list_all_iff)
  moreover have "pl_meets_hard_slo (plans ! k)"
    using feasible_facts(1) [OF k(2, 3)] by (simp add: priceable_def)
  ultimately show ?thesis
    using assms(2) fresh k by (simp add: validate_for_dispatch_def auth authority_snapshot_from_def)
qed

lemma stale_refused:
  assumes "evaluate clk order g w wg plans = Inr d" and "d_kind d = DecisionKind.AUTHORIZE"
  shows "validate_for_dispatch clk' order' (advance_epoch g) d plans' = Inr Status.STALE_AUTHORITY \<and>
    (publish_price obs g = (Status.OK, g') \<longrightarrow>
      validate_for_dispatch clk' order' g' d plans' = Inr Status.STALE_AUTHORITY) \<and>
    (pol_generation p \<noteq> pol_generation (g_policy g) \<longrightarrow>
      validate_for_dispatch clk' order' (set_policy p g) d plans' = Inr Status.STALE_AUTHORITY) \<and>
    (ps_generation s \<noteq> ps_generation (g_schedule g) \<longrightarrow>
      validate_for_dispatch clk' order' (set_price_schedule s g) d plans' = Inr Status.STALE_AUTHORITY) \<and>
    (bt \<noteq> ctx_boot (d_authority d) \<longrightarrow>
      validate_for_dispatch clk' order' (set_worker_boot (ctx_worker (d_authority d)) bt g) d plans' =
        Inr Status.STALE_AUTHORITY)"
proof -
  obtain k where auth: "d_authority d = authority_snapshot_from g (plans ! k) wg"
    using evaluate_authorize [OF assms] by blast
  have "ps_generation (g_schedule g') \<noteq> ps_generation (g_schedule g) \<and> g_epoch g' = g_epoch g \<and> g_policy g' = g_policy g"
    if "publish_price obs g = (Status.OK, g')"
    using that by (auto simp: publish_price_def Let_def split: if_splits)
  then show ?thesis
    using assms(2)
    by (auto simp: validate_for_dispatch_def auth authority_snapshot_from_def advance_epoch_def set_policy_def
        set_price_schedule_def current_boot_set)
qed

section \<open>Properties\<close>



text \<open>
  C19: the verdict and the projected cost of a plan do not depend on the order in which the budgets
  are visited, for budgets as the accounting keeps them.
\<close>

theorem verdict_order_independent:
  assumes "iteration_order (g_budgets g) order" and "iteration_order (g_budgets g) order'"
    and "\<And>i b. find_budget g i = Some b \<Longrightarrow> budget_inv b"
  shows "case (evaluate_plan clk order g plan, evaluate_plan clk order' g plan) of
      (Inr e, Inr e') \<Rightarrow> pe_feasible e = pe_feasible e' \<and> pe_projected e = pe_projected e'
    | (Inl x, Inl x') \<Rightarrow> x = x'
    | _ \<Rightarrow> False"
proof (cases "\<exists>bd. priceable (clk 0) g plan bd")
  case True
  then obtain bd e where bd: "priceable (clk 0) g plan bd" and e: "\<forall>order. evaluate_plan_locked (clk 0) order g plan =
      bindE (check_budgets (bd_total bd) (umap_values (g_budgets g) order)) (\<lambda>exceeded.
        Inr (case exceeded of Some r \<Rightarrow> verdict Feasibility.INFEASIBLE r e
               | None \<Rightarrow> e\<lparr>pe_feasible := Feasibility.FEASIBLE\<rparr>))"
    using evaluate_priceable by blast
  have sets: "set (umap_values (g_budgets g) order) = ran (g_budgets g)" "set (umap_values (g_budgets g) order') = ran (g_budgets g)"
    using assms(1, 2) by (simp_all add: set_umap_values)
  have inv: "\<forall>b\<in>ran (g_budgets g). budget_inv b"
    using assms(3) by (auto simp: ran_def find_budget_def)
  obtain x y where x: "check_budgets (bd_total bd) (umap_values (g_budgets g) order) = Inr x"
    and y: "check_budgets (bd_total bd) (umap_values (g_budgets g) order') = Inr y"
    using check_budgets_returns inv sets by metis
  have "x = None \<longleftrightarrow> y = None"
    using check_budgets_None [of "bd_total bd" "umap_values (g_budgets g) order"]
      check_budgets_None [of "bd_total bd" "umap_values (g_budgets g) order'"] x y sets by simp
  then show ?thesis
    using e x y by (auto simp: evaluate_plan_def split: option.split)
next
  case False
  then have "evaluate_plan_locked (clk 0) order g plan = evaluate_plan_locked (clk 0) order' g plan"
    by (rule evaluate_unpriced)
  then show ?thesis
    by (simp add: evaluate_plan_def split: sum.split)
qed

definition sample_two_budgets :: Impl where
  "sample_two_budgets = sample_market\<lparr>g_budgets :=
    [mk_Id 1 \<mapsto> sample_budget, mk_Id 2 \<mapsto> sample_budget\<lparr>b_id := mk_Id 2, b_limit := MoneyMicros 5000000\<rparr>]\<rparr>"

theorem verdict_order_independent_witness:
  "case (evaluate_plan (\<lambda>_. 5) [mk_Id 1, mk_Id 2] sample_two_budgets sample_plan,
         evaluate_plan (\<lambda>_. 5) [mk_Id 2, mk_Id 1] sample_two_budgets sample_plan) of
      (Inr e, Inr e') \<Rightarrow> pe_feasible e = pe_feasible e' \<and> pe_projected e = pe_projected e'
    | (Inl x, Inl x') \<Rightarrow> x = x'
    | _ \<Rightarrow> False"
  by (rule verdict_order_independent)
    (auto simp: iteration_order_def sample_two_budgets_def find_budget_def budget_inv_def sample_budget_def
      Budget_default_def split: if_splits)

text \<open>
  C17: the best feasible plan is selected. An authorised decision selects one of the plans it was
  given, which is feasible; no feasible plan is ranked before it, and none has a lower projected cost.
\<close>

theorem evaluate_selects_best:
  assumes "evaluate clk order g w wg plans = Inr d" and "d_kind d = DecisionKind.AUTHORIZE"
  shows "\<exists>k es. selects clk order g plans d k es \<and>
    (\<forall>i<length plans. pe_feasible (es ! i) = Feasibility.FEASIBLE \<longrightarrow>
      bd_total (d_projected d) \<le> bd_total (pe_projected (es ! i)))"
proof -
  obtain k es where sel: "selects clk order g plans d k es"
    using evaluate_authorize [OF assms] by blast
  have "bd_total (d_projected d) \<le> bd_total (pe_projected (es ! i))"
    if "i < length plans" "pe_feasible (es ! i) = Feasibility.FEASIBLE" for i
  proof -
    have "rank_key (plans ! k, es ! k) \<le> rank_key (plans ! i, es ! i)"
      using sel that by (auto simp: selects_def better_rank_key not_less)
    then have "micros (bd_total (pe_projected (es ! k))) \<le> micros (bd_total (pe_projected (es ! i)))"
      by (auto simp: rank_key_def less_eq_prod_simp)
    then show ?thesis
      using sel by (simp add: selects_def money_le_micros)
  qed
  then show ?thesis
    using sel by blast
qed

theorem evaluate_selects_best_witness:
  "\<exists>d k es. evaluate (\<lambda>_. 5) [mk_Id 1] sample_market (mk_Id 3) (mk_Id 1) [sample_plan] = Inr d \<and>
    selects (\<lambda>_. 5) [mk_Id 1] sample_market [sample_plan] d k es"
  using sample_decision evaluate_selects_best [of "\<lambda>_. 5" "[mk_Id 1]" sample_market "mk_Id 3" "mk_Id 1" "[sample_plan]"]
  by blast

text \<open>
  A fresh decision can be dispatched. If nothing has changed since a plan was authorised (state,
  time and candidate plans, whose ids are distinct), the revalidation before dispatch accepts it.
\<close>

lemma fresh_decision_validates:
  assumes "evaluate (\<lambda>_. now) order g w wg plans = Inr d" and "d_kind d = DecisionKind.AUTHORIZE"
    and "distinct (map pl_id plans)"
  shows "validate_for_dispatch (\<lambda>_. now) order g d plans = Inr Status.OK"
  using assms by (rule fresh_validates)

lemma fresh_decision_validates_witness:
  "\<exists>d. evaluate (\<lambda>_. 5) [mk_Id 1] sample_market (mk_Id 3) (mk_Id 1) [sample_plan] = Inr d \<and>
    validate_for_dispatch (\<lambda>_. 5) [mk_Id 1] sample_market d [sample_plan] = Inr Status.OK"
  using sample_decision fresh_decision_validates [of 5 "[mk_Id 1]" sample_market "mk_Id 3" "mk_Id 1" "[sample_plan]"]
  by auto

text \<open>
  C18: a change of authority makes a decision stale. After an epoch advance, a published price, a
  policy or schedule of another generation, or a new incarnation of the worker of the selected plan,
  an authorised decision is refused with \<^verbatim>\<open>STALE_AUTHORITY\<close>, whatever the candidate plans are.
\<close>

theorem stale_decision_refused:
  assumes "evaluate clk order g w wg plans = Inr d" and "d_kind d = DecisionKind.AUTHORIZE"
  shows "validate_for_dispatch clk' order' (advance_epoch g) d plans' = Inr Status.STALE_AUTHORITY \<and>
    (publish_price obs g = (Status.OK, g') \<longrightarrow>
      validate_for_dispatch clk' order' g' d plans' = Inr Status.STALE_AUTHORITY) \<and>
    (pol_generation p \<noteq> pol_generation (g_policy g) \<longrightarrow>
      validate_for_dispatch clk' order' (set_policy p g) d plans' = Inr Status.STALE_AUTHORITY) \<and>
    (ps_generation s \<noteq> ps_generation (g_schedule g) \<longrightarrow>
      validate_for_dispatch clk' order' (set_price_schedule s g) d plans' = Inr Status.STALE_AUTHORITY) \<and>
    (bt \<noteq> ctx_boot (d_authority d) \<longrightarrow>
      validate_for_dispatch clk' order' (set_worker_boot (ctx_worker (d_authority d)) bt g) d plans' =
        Inr Status.STALE_AUTHORITY)"
  using assms by (rule stale_refused)

theorem stale_decision_refused_witness:
  "\<exists>d. evaluate (\<lambda>_. 5) [mk_Id 1] sample_market (mk_Id 3) (mk_Id 1) [sample_plan] = Inr d \<and>
    validate_for_dispatch (\<lambda>_. 6) [mk_Id 1] (advance_epoch sample_market) d [sample_plan] = Inr Status.STALE_AUTHORITY"
  using sample_decision stale_decision_refused [of "\<lambda>_. 5" "[mk_Id 1]" sample_market "mk_Id 3" "mk_Id 1" "[sample_plan]"]
  by blast

text \<open>
  Revalidation never answers \<^verbatim>\<open>BUDGET_EXCEEDED\<close>: a plan that no longer fits a hard budget is
  already refused as infeasible, so the last check of the function is never reached with a violation.
\<close>

lemma validate_never_exceeded:
  "validate_for_dispatch clk order g prior plans \<noteq> Inr Status.BUDGET_EXCEEDED"
proof -
  have "check_budgets (bd_total (pe_projected e)) (umap_values (g_budgets g) order) = Inr None"
    if "evaluate_plan_locked (clk 0) order g plan = Inr e" "pe_feasible e = Feasibility.FEASIBLE" for plan e
    using feasible_facts(2) [OF that] by (simp add: check_budgets_None list_all_iff)
  then show ?thesis
    by (auto simp: validate_for_dispatch_def bindE_eq_Inr split: option.split)
qed

text \<open>
  Revalidation looks at no other generation than those of the policy and the schedule. The plan,
  workload, budget, evidence, resource, placement and recovery generations of the authority of a
  decision have no effect on its outcome.
\<close>

lemma validate_ignores_generations:
  "validate_for_dispatch clk order g
      (d\<lparr>d_plan_generation := pg, d_authority := (d_authority d)\<lparr>ctx_plan_generation := pg',
          ctx_workload_generation := wg, ctx_budget_generation := bg, ctx_evidence_generation := eg,
          ctx_resource_generation := rg, ctx_placement_generation := plg, ctx_recovery_generation := rcg\<rparr>\<rparr>) plans =
    validate_for_dispatch clk order g d plans"
  by (simp add: validate_for_dispatch_def)

end
