(* ===== verification/CostStates.thy ===== *)
theory CostStates
  imports Dispatch
begin

text \<open>
  The cost state that a decision reports against the hard budgets (\<^verbatim>\<open>state_from_breakdown\<close> of
  \<^verbatim>\<open>governor.cpp\<close>): what each state means, where it depends on the order in which the budgets are
  visited, and the limits for which the computation of its thresholds overflows.
\<close>

section \<open>Thresholds\<close>

text \<open>A projected total reaches a percentage of a limit.\<close>

definition reaches :: "MoneyMicros \<Rightarrow> i64 \<Rightarrow> MoneyMicros \<Rightarrow> bool" where
  "reaches limit percent tot \<longleftrightarrow> micros limit * sint percent \<le> 100 * micros tot"

lemma threshold_reaches:
  assumes "bindE (money_checked_mul limit percent) (\<lambda>m. money_checked_div m 100 kCeil) = Inr t"
  shows "t \<le> tot \<longleftrightarrow> reaches limit percent tot"
proof -
  obtain m where m: "money_checked_mul limit percent = Inr m" "money_checked_div m 100 kCeil = Inr t"
    using assms by (auto simp: bindE_eq_Inr)
  have "\<not> (total_micros m = I64MIN \<and> (100 :: i64) = -1)"
    by simp
  then have "micros t = - (- micros m div 100)"
    using m(2) money_checked_div_exact [of 100 m kCeil] by (auto simp: rounded_div_def)
  moreover have "- (- micros m div 100) \<le> micros tot \<longleftrightarrow> - micros tot \<le> - micros m div 100"
    by linarith
  moreover have "\<dots> \<longleftrightarrow> - micros tot * 100 \<le> - micros m"
    by (rule int_le_div_iff) simp
  ultimately show ?thesis
    using m(1) by (simp add: money_le_micros reaches_def money_mul_eq_Inr mult.commute)
qed

text \<open>The budgets that the loop looks at, and the ones that a total exceeds.\<close>

definition constraining :: "Budget \<Rightarrow> bool" where
  "constraining b \<longleftrightarrow> b_mode b = BudgetMode.HARD \<and> \<not> money_is_zero (b_limit b)"

definition exceeds :: "MoneyMicros \<Rightarrow> Budget \<Rightarrow> bool" where
  "exceeds tot b \<longleftrightarrow> constraining b \<and> micros (b_limit b) < micros (b_consumed b) + micros tot"

definition near_or_beyond :: "CostPolicy \<Rightarrow> MoneyMicros \<Rightarrow> Budget \<Rightarrow> bool" where
  "near_or_beyond pol tot b \<longleftrightarrow> exceeds tot b \<or> constraining b \<and>
    (reaches (b_limit b) (pol_near_budget_percent pol) tot \<or> reaches (b_limit b) (pol_at_risk_percent pol) tot)"

lemma remaining_exceeds:
  "remaining b = Inr rem \<Longrightarrow> constraining b \<Longrightarrow> rem < tot \<longleftrightarrow> exceeds tot b"
  by (auto simp: remaining_def exceeds_def constraining_def money_sub_eq_Inr money_less_micros)

lemma cost_state_meaning:
  "cost_state_from pol tot bs st = Inr st' \<Longrightarrow> st \<noteq> CostState.OVER_HARD_BUDGET \<Longrightarrow>
    (st' = CostState.OVER_HARD_BUDGET \<longleftrightarrow> (\<exists>b\<in>set bs. exceeds tot b)) \<and>
    (st' = CostState.WITHIN_BUDGET \<longleftrightarrow> st = CostState.WITHIN_BUDGET \<and> (\<forall>b\<in>set bs. \<not> near_or_beyond pol tot b))"
proof (induction bs arbitrary: st)
  case (Cons b bs)
  show ?case
  proof (cases "constraining b")
    case False
    then show ?thesis
      using Cons by (auto simp: constraining_def exceeds_def near_or_beyond_def split: if_splits)
  next
    case True
    then obtain rem where rem: "remaining b = Inr rem"
      using Cons.prems(1) by (auto simp: constraining_def bindE_eq_Inr)
    note ex = remaining_exceeds [OF rem True, of tot]
    show ?thesis
    proof (cases "rem < tot")
      case over: True
      then have "st' = CostState.OVER_HARD_BUDGET"
        using Cons.prems(1) True rem by (simp add: constraining_def)
      then show ?thesis
        using over ex by (simp add: near_or_beyond_def)
    next
      case False
      obtain near risk where
        near: "bindE (money_checked_mul (b_limit b) (pol_near_budget_percent pol)) (\<lambda>m. money_checked_div m 100 kCeil) = Inr near"
        and risk: "bindE (money_checked_mul (b_limit b) (pol_at_risk_percent pol)) (\<lambda>m. money_checked_div m 100 kCeil) = Inr risk"
        and rest: "cost_state_from pol tot bs
          (if tot \<ge> risk then CostState.AT_RISK else if tot \<ge> near then CostState.NEAR_BUDGET else st) = Inr st'"
        using Cons.prems(1) True rem False by (auto simp: constraining_def bindE_eq_Inr)
      show ?thesis
        using Cons.IH [OF rest] Cons.prems(2) ex False True
          threshold_reaches [OF near, of tot] threshold_reaches [OF risk, of tot]
        by (auto simp: near_or_beyond_def split: if_splits)
    qed
  qed
qed simp

section \<open>A governor with one or two budgets\<close>

definition large_budget :: Budget where
  "large_budget = sample_budget\<lparr>b_limit := MoneyMicros 200000000000000000\<rparr>"

definition large_market :: Impl where
  "large_market = set_price_schedule sample_schedule (snd (create_budget large_budget Impl_init))"

lemma large_market_created:
  "fst (create_budget large_budget Impl_init) = Status.OK"
  "large_market = sample_market\<lparr>g_budgets := [mk_Id 1 \<mapsto> large_budget\<lparr>b_lifecycle := BudgetLifecycle.ACTIVE\<rparr>]\<rparr>"
  by (simp_all add: large_market_def large_budget_def sample_market_def set_price_schedule_def sample_governor_def
      sample_ops)

lemma large_multiply:
  "money_checked_mul (MoneyMicros 200000000000000000) 80 = Inl (overflow_error ''money multiply overflow'')"
proof -
  have "sint (200000000000000000 :: i64) = 200000000000000000" "sint (80 :: i64) = 80"
    by simp_all
  then show ?thesis
    by (simp add: money_checked_mul_def money.cmul_spec in_i64_def)
qed

definition two_limits :: "i64 \<Rightarrow> i64 \<Rightarrow> Impl" where
  "two_limits l1 l2 = Impl_init\<lparr>g_budgets :=
    [mk_Id 1 \<mapsto> sample_budget\<lparr>b_limit := MoneyMicros l1\<rparr>,
     mk_Id 2 \<mapsto> sample_budget\<lparr>b_id := mk_Id 2, b_limit := MoneyMicros l2\<rparr>]\<rparr>"

definition synthetic_schedule :: PriceSchedule where
  "synthetic_schedule = PriceSchedule_default\<lparr>ps_observations :=
    [PriceObservation_default\<lparr>po_label := DataLabel.SYNTHETIC, po_amount := MoneyMicros 1\<rparr>,
     PriceObservation_default\<lparr>po_amount := MoneyMicros 2000000\<rparr>]\<rparr>"

definition synthetic_market :: Impl where
  "synthetic_market = set_price_schedule synthetic_schedule Impl_init"

section \<open>Properties\<close>

text \<open>
  C20: the cost state of a decision. Whatever order the budgets are visited in, the state is
  over-budget exactly when the projected total exceeds what some hard budget with a non-zero limit
  has left, and within-budget exactly when the total stays below both warning percentages of every
  such budget.
\<close>

theorem cost_state_reports:
  assumes "state_from_breakdown order g bd = Inr st" and "iteration_order (g_budgets g) order"
  shows "(st = CostState.OVER_HARD_BUDGET \<longleftrightarrow> (\<exists>i b. find_budget g i = Some b \<and> exceeds (bd_total bd) b)) \<and>
    (st = CostState.WITHIN_BUDGET \<longleftrightarrow>
      (\<nexists>i b. find_budget g i = Some b \<and> near_or_beyond (g_policy g) (bd_total bd) b))"
proof -
  have "set (umap_values (g_budgets g) order) = ran (g_budgets g)"
    by (rule set_umap_values) fact
  then show ?thesis
    using cost_state_meaning [OF assms(1) [unfolded state_from_breakdown_def]]
    by (auto simp: ran_def find_budget_def)
qed

theorem cost_state_reports_witness:
  "state_from_breakdown [mk_Id 1] sample_market (CostBreakdown_default\<lparr>bd_total := MoneyMicros 20000000\<rparr>) =
      Inr CostState.OVER_HARD_BUDGET \<and>
    (\<exists>i b. find_budget sample_market i = Some b \<and> exceeds (MoneyMicros 20000000) b)"
proof -
  have "b_limit sample_budget = MoneyMicros 10000000" "b_mode sample_budget = BudgetMode.HARD"
    by (simp_all add: sample_budget_def Budget_default_def)
  then have "state_from_breakdown [mk_Id 1] sample_market (CostBreakdown_default\<lparr>bd_total := MoneyMicros 20000000\<rparr>) =
      Inr CostState.OVER_HARD_BUDGET"
    by (simp add: state_from_breakdown_def sample_budgets sample_remaining money_is_zero_def money_less_micros)
  then show ?thesis
    using cost_state_reports [OF _ sample_iteration] by fastforce
qed

text \<open>
  Between those two states the answer depends on the order of visits. For a projected total of
  85 against hard limits of 90 and 100, the at-risk state that the first budget gives is
  overwritten by the near-budget state of the second, and kept in the other order.
\<close>

lemma cost_state_order_dependent:
  "state_from_breakdown [mk_Id 1, mk_Id 2] (two_limits 90 100) (CostBreakdown_default\<lparr>bd_total := MoneyMicros 85\<rparr>) =
      Inr CostState.NEAR_BUDGET \<and>
    state_from_breakdown [mk_Id 2, mk_Id 1] (two_limits 90 100) (CostBreakdown_default\<lparr>bd_total := MoneyMicros 85\<rparr>) =
      Inr CostState.AT_RISK"
proof -
  have mul: "money_checked_mul (MoneyMicros 90) 80 = Inr (MoneyMicros 7200)"
    "money_checked_mul (MoneyMicros 90) 90 = Inr (MoneyMicros 8100)"
    "money_checked_mul (MoneyMicros 100) 80 = Inr (MoneyMicros 8000)"
    "money_checked_mul (MoneyMicros 100) 90 = Inr (MoneyMicros 9000)"
    by (simp_all add: money_mul_eq_Inr)
  have dv: "money_checked_div (MoneyMicros 7200) 100 kCeil = Inr (MoneyMicros 72)"
    "money_checked_div (MoneyMicros 8100) 100 kCeil = Inr (MoneyMicros 81)"
    "money_checked_div (MoneyMicros 8000) 100 kCeil = Inr (MoneyMicros 80)"
    "money_checked_div (MoneyMicros 9000) 100 kCeil = Inr (MoneyMicros 90)"
    by (simp_all add: money_checked_div_def i64_div_def i64_mod_def signed_divide_int_def signed_modulo_int_def)
  have rem: "money_sub (MoneyMicros 90) (MoneyMicros 0) = Inr (MoneyMicros 90)"
    "money_sub (MoneyMicros 100) (MoneyMicros 0) = Inr (MoneyMicros 100)"
    by (simp_all add: money_sub_eq_Inr)
  show ?thesis
    by (simp add: state_from_breakdown_def two_limits_def umap_values_def List.map_filter_def sample_budget_def
        Budget_default_def Impl_init_def CostPolicy_default_def remaining_def rem mul dv money_is_zero_def
        money_less_micros money_le_micros)
qed

text \<open>
  A budget whose limit is large enough is accepted when it is created, and makes every
  evaluation of a feasible plan fail: the product of the limit and the warning percentage leaves the
  64-bit range, and the overflow exception escapes from \<^verbatim>\<open>evaluate\<close>.
\<close>

lemma large_limit_overflows:
  "fst (create_budget large_budget Impl_init) = Status.OK \<and>
    evaluate (\<lambda>_. 5) [mk_Id 1] large_market w wg [sample_plan] = Inl (overflow_error ''money multiply overflow'')"
proof -
  let ?b = "large_budget\<lparr>b_lifecycle := BudgetLifecycle.ACTIVE\<rparr>"
  have b: "b_mode ?b = BudgetMode.HARD" "b_limit ?b = MoneyMicros 200000000000000000"
    "remaining ?b = Inr (MoneyMicros 200000000000000000)"
    by (simp_all add: large_budget_def sample_budget_def Budget_default_def remaining_def money_sub_eq_Inr)
  have vals: "umap_values (g_budgets large_market) [mk_Id 1] = [?b]"
    by (simp add: umap_values_def List.map_filter_def large_market_created)
  obtain bd where bd: "priceable 5 large_market sample_plan bd" "micros (bd_total bd) = 6000000"
    using sample_plan_priceable by (auto simp: large_market_created priceable_def fresh_price_def)
  obtain e' where e': "pe_projected e' = bd" "\<forall>order. evaluate_plan_locked 5 order large_market sample_plan =
      bindE (check_budgets (bd_total bd) (umap_values (g_budgets large_market) order)) (\<lambda>exceeded.
        Inr (case exceeded of Some r \<Rightarrow> verdict Feasibility.INFEASIBLE r e'
               | None \<Rightarrow> e'\<lparr>pe_feasible := Feasibility.FEASIBLE\<rparr>))"
    using evaluate_priceable [OF bd(1)] by blast
  have "check_budgets (bd_total bd) [?b] = Inr None"
    using bd(2) b by (simp add: check_budgets_None fits_budget_def sint_rules)
  then obtain e where e: "evaluate_plan_locked 5 [mk_Id 1] large_market sample_plan = Inr e"
    "pe_feasible e = Feasibility.FEASIBLE" "bd_total (pe_projected e) = MoneyMicros 6000000"
    using e' bd(2) vals by (auto simp: money_eq_micros)
  have cs: "evaluate_candidates (\<lambda>_. 5) [mk_Id 1] large_market [sample_plan] = Inr ([(sample_plan, e)], FeasibilityReason.NONE)"
    by (simp add: evaluate_candidates_def e)
  have "pol_near_budget_percent (g_policy large_market) = 80" "\<not> g_revalidation_needed large_market"
    by (simp_all add: large_market_created sample_market_sel) (simp add: Impl_init_def CostPolicy_default_def)
  then show ?thesis
    using cs e b vals large_multiply
    by (simp add: large_market_created(1) evaluate_def Let_def stable_sort_def first_hard_def
        state_from_breakdown_def money_is_zero_def money_less_micros)
qed

text \<open>
  The check and the projection read the schedule differently. The check that a plan can be
  priced asks for a price whose label the policy admits; the projection that follows takes the
  first price of the kind under any label. So a synthetic price that the policy excludes, next to an
  admitted one, passes the check of the other and sets the projected cost: three micro-units for a
  plan whose admitted price gives six units.
\<close>

lemma excluded_label_sets_cost:
  "\<not> accepts_label (g_policy synthetic_market) DataLabel.SYNTHETIC \<and>
    (\<exists>p. find_price (g_schedule synthetic_market) PriceKind.ACCELERATOR_TIME ''USD'' 5 Id_none Id_none
        (Some (g_policy synthetic_market)) = Some p \<and> micros (po_amount p) = 2000000) \<and>
    (\<exists>e. evaluate_plan (\<lambda>_. 5) [] synthetic_market sample_plan = Inr e \<and> pe_feasible e = Feasibility.FEASIBLE \<and>
      micros (bd_total (pe_projected e)) = 3)"
proof -
  have pol: "g_policy synthetic_market = g_policy Impl_init" "g_schedule synthetic_market = synthetic_schedule"
    "g_budgets synthetic_market = Map.empty" "\<not> g_revalidation_needed synthetic_market"
    by (simp_all add: synthetic_market_def set_price_schedule_def) (simp_all add: Impl_init_def)
  have excluded: "\<not> accepts_label (g_policy Impl_init) DataLabel.SYNTHETIC"
    by (simp add: accepts_label_def sample_policy)
  have lookup: "find_price synthetic_schedule PriceKind.ACCELERATOR_TIME ''USD'' 5 Id_none Id_none (Some (g_policy Impl_init)) =
      Some (PriceObservation_default\<lparr>po_amount := MoneyMicros 2000000\<rparr>)"
    "find_price synthetic_schedule PriceKind.ACCELERATOR_TIME ''USD'' 5 Id_none Id_none None =
      Some (PriceObservation_default\<lparr>po_label := DataLabel.SYNTHETIC, po_amount := MoneyMicros 1\<rparr>)"
    by (simp_all add: find_price_def synthetic_schedule_def sample_defs obs_applies_def valid_currency_def
        more_specific_def sint_rules Impl_init_def CostPolicy_default_def accepts_label_def)
  have "ps_created_at_ms synthetic_schedule = 0"
    by (simp add: synthetic_schedule_def PriceSchedule_default_def)
  then have "fresh_price synthetic_market 5 sample_plan CostComponent.ACCELERATOR_TIME"
    using lookup(1) by (simp add: fresh_price_def check_price_eq pol kind_for_check_def sample_policy
        sample_plan_def ExecutionPlan_default_def PriceObservation_default_def sint_rules)
  then obtain bd where bd: "priceable 5 synthetic_market sample_plan bd" "micros (bd_total bd) = 3"
    using accelerator_plan_priceable [of synthetic_market _ 1] lookup(2)
    by (auto simp: pol sample_policy PriceObservation_default_def)
  obtain e where "pe_projected e = bd" "\<forall>order. evaluate_plan_locked 5 order synthetic_market sample_plan =
      bindE (check_budgets (bd_total bd) (umap_values (g_budgets synthetic_market) order)) (\<lambda>exceeded.
        Inr (case exceeded of Some r \<Rightarrow> verdict Feasibility.INFEASIBLE r e
               | None \<Rightarrow> e\<lparr>pe_feasible := Feasibility.FEASIBLE\<rparr>))"
    using evaluate_priceable [OF bd(1)] by blast
  then show ?thesis
    using bd(2) excluded lookup(1)
    by (simp add: pol evaluate_plan_def umap_values_def List.map_filter_def PriceObservation_default_def)
qed

end
