(* ===== verification/Recovery.thy ===== *)
theory Recovery
  imports Store Interventions CostStates
begin

text \<open>
  Persisting and recovering the governor (\<^verbatim>\<open>persist\<close>, \<^verbatim>\<open>load\<close> and \<^verbatim>\<open>state_exists\<close> of
  \<^verbatim>\<open>governor.cpp\<close>), and what a recovered governor can and cannot do.
\<close>

section \<open>Operations\<close>

definition intervention_entry :: "CostIntervention \<Rightarrow> InterventionEntry" where
  "intervention_entry i =
    \<lparr>ie_id = ci_id i, ie_kind = ci_kind i, ie_lifecycle = ci_lifecycle i, ie_generation = ci_generation i,
     ie_created_at_ms = ci_created_at_ms i\<rparr>"

text \<open>The snapshot of a state; the arguments are the orders in which the two tables are iterated.\<close>

definition durable_snapshot :: "BudgetId list \<Rightarrow> InterventionId list \<Rightarrow> Impl \<Rightarrow> DurableSnapshot" where
  "durable_snapshot border iorder g =
    \<lparr>snap_epoch = g_epoch g, snap_policy = g_policy g, snap_price_schedule = g_schedule g,
     snap_budgets = sort_key b_id (umap_values (g_budgets g) border),
     snap_history = g_history g,
     snap_interventions = map intervention_entry (umap_values (g_interventions g) iorder)\<rparr>"

definition persist ::
  "SaveIO \<Rightarrow> BudgetId list \<Rightarrow> InterventionId list \<Rightarrow> Impl \<Rightarrow> FileSystem \<Rightarrow> (exn + Status) \<times> FileSystem"
where
  "persist io border iorder g fs =
    (let snap = durable_snapshot border iorder g
     in case g_store g of
          None \<Rightarrow> (Inr Status.INTERVENTION_FAILED, fs)
        | Some path \<Rightarrow> save io path snap fs)"

definition restored_budget :: "Budget \<Rightarrow> Budget" where
  "restored_budget b =
    (let bb = b\<lparr>b_reserved := MoneyMicros 0\<rparr>
     in if money_is_zero (b_consumed bb) \<and> money_is_zero (b_released bb) \<and> b_lifecycle bb = BudgetLifecycle.RESERVED
        then bb\<lparr>b_lifecycle := BudgetLifecycle.ACTIVE\<rparr> else bb)"

definition restored_intervention :: "InterventionEntry \<Rightarrow> CostIntervention" where
  "restored_intervention e =
    CostIntervention_default\<lparr>ci_id := ie_id e, ci_kind := ie_kind e, ci_lifecycle := ie_lifecycle e,
      ci_generation := ie_generation e, ci_created_at_ms := ie_created_at_ms e\<rparr>"

definition load :: "LoadIO \<Rightarrow> FileSystem \<Rightarrow> Impl \<Rightarrow> (exn + Status) \<times> Impl" where
  "load io fs g =
    (case g_store g of
       None \<Rightarrow> (Inr Status.INTERVENTION_FAILED, g)
     | Some path \<Rightarrow>
         (case load_snapshot io path fs of
            Inl e \<Rightarrow> (Inl e, g)
          | Inr snap \<Rightarrow> (Inr Status.OK,
              g\<lparr>g_epoch := snap_epoch snap, g_policy := snap_policy snap, g_schedule := snap_price_schedule snap,
                g_budgets := fold (\<lambda>b m. umap_emplace (b_id b) (restored_budget b) m) (snap_budgets snap) Map.empty,
                g_history := snap_history snap,
                g_interventions :=
                  fold (\<lambda>e m. umap_emplace (ie_id e) (restored_intervention e) m) (snap_interventions snap) Map.empty,
                g_revalidation_needed := True\<rparr>)))"

definition state_exists :: "string \<Rightarrow> FileSystem \<Rightarrow> bool" where
  "state_exists path fs = state_file_exists path fs"

section \<open>Rebuilding a table\<close>

lemma fold_emplace:
  "fold (\<lambda>x m. umap_emplace (k x) (v x) m) xs m i =
    (case m i of Some y \<Rightarrow> Some y | None \<Rightarrow> map_option v (find (\<lambda>x. k x = i) xs))"
  by (induction xs arbitrary: m) (auto simp: umap_emplace_def split: option.splits)

definition keyed :: "('v \<Rightarrow> 'k) \<Rightarrow> ('k \<rightharpoonup> 'v) \<Rightarrow> bool" where
  "keyed k m \<longleftrightarrow> (\<forall>i v. m i = Some v \<longrightarrow> k v = i)"

lemma keyed_find:
  assumes "keyed k m" and "set xs = ran m"
  shows "find (\<lambda>x. k x = i) xs = m i"
proof (cases "m i")
  case None
  have "k x \<noteq> i" if x: "x \<in> set xs" for x
  proof -
    obtain j where "m j = Some x"
      using x assms(2) by (auto simp: ran_def)
    then show ?thesis
      using assms(1) None by (auto simp: keyed_def)
  qed
  then have "find (\<lambda>x. k x = i) xs = None"
    by (simp add: find_None_iff)
  then show ?thesis
    using None by simp
next
  case (Some v)
  then have "v \<in> set xs" "k v = i"
    using assms by (auto simp: keyed_def ran_def)
  then obtain w where w: "find (\<lambda>x. k x = i) xs = Some w"
    by (metis (mono_tags, lifting) find_None_iff option.exhaust)
  then have "w \<in> set xs" "k w = i"
    by (auto simp: find_Some_iff)
  then have "m i = Some w"
    using assms by (auto simp: keyed_def ran_def)
  then show ?thesis
    using w by simp
qed

lemma find_map_key: "(\<And>x. k' (f x) = k x) \<Longrightarrow> find (\<lambda>y. k' y = i) (map f xs) = map_option f (find (\<lambda>x. k x = i) xs)"
  by (induction xs) auto

text \<open>The snapshot does not depend on the order in which the budget table is iterated.\<close>

lemma durable_budgets_order:
  assumes "iteration_order (g_budgets g) border" "iteration_order (g_budgets g) border'" "keyed b_id (g_budgets g)"
  shows "durable_snapshot border iorder g = durable_snapshot border' iorder g"
proof -
  let ?xs = "umap_values (g_budgets g) border" and ?ys = "umap_values (g_budgets g) border'"
  have "inj_on b_id (set ?xs)"
  proof (rule inj_onI)
    fix b b'
    assume "b \<in> set ?xs" "b' \<in> set ?xs" "b_id b = b_id b'"
    then show "b = b'"
      using assms(1, 3) by (auto simp: set_umap_values ran_def keyed_def)
  qed
  then have "sort_key b_id ?xs = sort_key b_id ?ys"
    using assms mset_umap_values [of "g_budgets g" border border'] by (intro sort_key_inj_key_eq) simp_all
  then show ?thesis
    by (simp add: durable_snapshot_def)
qed

lemma evaluate_needs_revalidation:
  "g_revalidation_needed g \<Longrightarrow> \<exists>d. evaluate clk order g w wg plans = Inr d \<and> d_kind d = DecisionKind.REVALIDATE"
  by (simp add: evaluate_def Let_def)

text \<open>The state that a load leaves when the file has the snapshot of another state.\<close>

definition recovers :: "Impl \<Rightarrow> Impl \<Rightarrow> bool" where
  "recovers g g1 \<longleftrightarrow>
    g_epoch g1 = g_epoch g \<and> g_policy g1 = g_policy g \<and> g_schedule g1 = g_schedule g \<and> g_history g1 = g_history g \<and>
    (\<forall>i. find_budget g1 i = map_option restored_budget (find_budget g i)) \<and>
    (\<forall>i. g_interventions g1 i = map_option (\<lambda>c. restored_intervention (intervention_entry c)) (g_interventions g i)) \<and>
    g_revalidation_needed g1"

lemma load_durable:
  assumes "g_store g0 = Some path" and "load_snapshot lio path fs = Inr (durable_snapshot border iorder g)"
    and "iteration_order (g_budgets g) border" and "iteration_order (g_interventions g) iorder"
    and "keyed b_id (g_budgets g)" and "keyed ci_id (g_interventions g)"
  shows "\<exists>g1. load lio fs g0 = (Inr Status.OK, g1) \<and> recovers g g1 \<and> g_next_intervention g1 = g_next_intervention g0"
proof -
  have "find (\<lambda>b. b_id b = i) (sort_key b_id (umap_values (g_budgets g) border)) = g_budgets g i" for i
    using assms(3, 5) by (intro keyed_find) (simp_all add: set_umap_values)
  moreover have "find (\<lambda>c. ci_id c = i) (umap_values (g_interventions g) iorder) = g_interventions g i" for i
    using assms(4, 6) by (intro keyed_find) (simp_all add: set_umap_values)
  moreover have "find (\<lambda>e. ie_id e = i) (map intervention_entry (umap_values (g_interventions g) iorder)) =
      map_option intervention_entry (find (\<lambda>c. ci_id c = i) (umap_values (g_interventions g) iorder))" for i
    by (rule find_map_key) (simp add: intervention_entry_def)
  ultimately show ?thesis
    using assms(1, 2)
    by (simp add: load_def recovers_def durable_snapshot_def fold_emplace find_budget_def option.map_comp comp_def)
qed

section \<open>Properties\<close>


definition sample_persistent :: Impl where
  "sample_persistent = snd (snd (propose_intervention (\<lambda>_. 5) CostIntervention_default
    (sample_governor\<lparr>g_store := Some ''state''\<rparr>)))"

definition good_save :: SaveIO where
  "good_save = \<lparr>open_ok = True, write_failed = None, rename_ok = True\<rparr>"

definition good_load :: LoadIO where
  "good_load = \<lparr>tell_ok = True, read_ok = True\<rparr>"

lemma sample_persistent_sel:
  "g_budgets sample_persistent = [mk_Id 1 \<mapsto> sample_budget\<lparr>b_lifecycle := BudgetLifecycle.ACTIVE\<rparr>]"
  "g_interventions sample_persistent = [mk_Id 1 \<mapsto> CostIntervention_default\<lparr>ci_id := mk_Id 1, ci_generation := mk_Id 1,
    ci_lifecycle := InterventionLifecycle.PROPOSED, ci_created_at_ms := 5\<rparr>]"
  "g_store sample_persistent = Some ''state''" "g_history sample_persistent = []"
  "g_policy sample_persistent = g_policy Impl_init" "g_schedule sample_persistent = PriceSchedule_default"
  by (simp_all add: sample_persistent_def sample_governor_budgets propose_intervention_def Let_def)
    (simp_all add: sample_governor_def sample_ops)

lemma sample_persistent_durable:
  "snapshot_ok (durable_snapshot [mk_Id 1] [mk_Id 1] sample_persistent)"
  using sample_snapshot_ok
  by (simp add: snapshot_ok_def durable_snapshot_def sample_persistent_sel umap_values_def List.map_filter_def
      sample_snapshot_def policy_ok_def budget_ok_def interv_ok_def intervention_entry_def sample_budget_def
      Impl_init_def CostIntervention_default_def Budget_default_def PriceSchedule_default_def
      BudgetLifecycle_wf_def BudgetLifecycle_enumerators_def BudgetMode_wf_def BudgetMode_enumerators_def enum_wf_def)

lemma sample_persist:
  "\<exists>fs'. persist good_save [mk_Id 1] [mk_Id 1] sample_persistent Map.empty = (Inr Status.OK, fs')"
  using payload_roundtrip [OF sample_persistent_durable]
  by (auto simp: persist_def Let_def sample_persistent_sel save_def encode_def save_status_def good_save_def)


text \<open>
  The counter of interventions is not part of the snapshot. When the file holds an intervention
  under the next id of the governor that loads it, as a fresh governor finds for id 1, the next proposal
  is answered with success and that id, and is not stored: the id still names the recovered
  intervention.
\<close>

lemma proposal_lost_after_recovery:
  assumes "g_store g0 = Some path" and "load_snapshot lio path fs = Inr (durable_snapshot border iorder g)"
    and "iteration_order (g_budgets g) border" and "iteration_order (g_interventions g) iorder"
    and "keyed b_id (g_budgets g)" and "keyed ci_id (g_interventions g)"
    and "g_interventions g (mk_Id (g_next_intervention g0)) = Some c"
  shows "\<exists>g1 ci' g2. load lio fs g0 = (Inr Status.OK, g1) \<and>
    propose_intervention clk ci g1 = (Status.OK, ci', g2) \<and>
    g_interventions g2 (ci_id ci') = Some (restored_intervention (intervention_entry c))"
proof -
  obtain g1 where g1: "load lio fs g0 = (Inr Status.OK, g1)" "recovers g g1" "g_next_intervention g1 = g_next_intervention g0"
    using load_durable [OF assms(1-6)] by blast
  then have "g_interventions g1 (mk_Id (g_next_intervention g1)) = Some (restored_intervention (intervention_entry c))"
    using assms(7) by (simp add: recovers_def)
  then show ?thesis
    using g1(1) by (simp add: propose_intervention_def Let_def umap_emplace_def)
qed

lemma proposal_lost_after_recovery_witness:
  "\<exists>fs' g1 ci' g2. persist good_save [mk_Id 1] [mk_Id 1] sample_persistent Map.empty = (Inr Status.OK, fs') \<and>
    load good_load fs' (Impl_init\<lparr>g_store := Some ''state''\<rparr>) = (Inr Status.OK, g1) \<and>
    propose_intervention (\<lambda>_. 9) (CostIntervention_default\<lparr>ci_kind := InterventionKind.REDUCE_BATCH\<rparr>) g1 = (Status.OK, ci', g2) \<and>
    (\<exists>stored. g_interventions g2 (ci_id ci') = Some stored \<and> ci_kind stored = InterventionKind.NO_ACTION)"
proof -
  obtain fs' where fs': "persist good_save [mk_Id 1] [mk_Id 1] sample_persistent Map.empty = (Inr Status.OK, fs')"
    using sample_persist by blast
  then have "load_snapshot good_load ''state'' fs' = Inr (durable_snapshot [mk_Id 1] [mk_Id 1] sample_persistent)"
    using sample_persistent_durable
    by (intro save_loads) (auto simp: persist_def Let_def sample_persistent_sel good_load_def)
  moreover have "keyed b_id (g_budgets sample_persistent)" "keyed ci_id (g_interventions sample_persistent)"
    "iteration_order (g_budgets sample_persistent) [mk_Id 1]" "iteration_order (g_interventions sample_persistent) [mk_Id 1]"
    by (auto simp: keyed_def sample_persistent_sel sample_budget_def iteration_order_def)
  moreover have "g_next_intervention (Impl_init\<lparr>g_store := Some ''state''\<rparr>) = 1"
    by (simp add: Impl_init_def)
  ultimately show ?thesis
    using proposal_lost_after_recovery [of "Impl_init\<lparr>g_store := Some ''state''\<rparr>" "''state''" good_load fs'
        "[mk_Id 1]" "[mk_Id 1]" sample_persistent _ "\<lambda>_. 9" "CostIntervention_default\<lparr>ci_kind := InterventionKind.REDUCE_BATCH\<rparr>"] fs'
    by (fastforce simp: sample_persistent_sel restored_intervention_def intervention_entry_def CostIntervention_default_def)
qed

end
