(* ===== verification/Coordinator.thy ===== *)
theory Coordinator
  imports Msgs Recovery
begin

text \<open>
  The coordinator process (\<^verbatim>\<open>coordinator.cpp\<close>): its start from a state file or afresh, the handler of
  every message, and the loop of a session over the bytes of its connection. The state has the governor,
  the table of reservations by token, the last decision and the file system. The sources outside the
  program that a message meets are an argument: the iteration orders of the two unordered tables and
  what the system answers to a save.
\<close>

section \<open>State\<close>

record Coord =
  co_gov :: Impl
  co_reservations :: "(u64 \<times> BudgetReservation) list"
  co_last_decision :: CostDecision
  co_fs :: FileSystem

record Env =
  en_border :: "BudgetId list"
  en_iorder :: "InterventionId list"
  en_save :: SaveIO

text \<open>A \<^verbatim>\<open>MockClock\<close> that is never set or advanced, as the coordinator makes one.\<close>

definition MockClock :: "i64 \<Rightarrow> Clock" where
  "MockClock now = (\<lambda>_. now)"

definition kNow :: i64 where
  "kNow = 1000000000"

abbreviation coordinator_clock :: Clock where
  "coordinator_clock \<equiv> MockClock kNow"

section \<open>Start\<close>

definition coordinator_policy :: CostPolicy where
  "coordinator_policy = CostPolicy_default\<lparr>pol_currency := kDefaultCurrency, pol_epoch := mk_Id 1,
    pol_generation := mk_Id 1, pol_max_evidence_age_ms := 120000, pol_price_schedule_max_age_ms := 120000,
    pol_allow_policy := True, pol_allow_measured := True, pol_allow_synthetic := True\<rparr>"

definition coordinator_budget :: "Impl \<Rightarrow> Budget" where
  "coordinator_budget g = Budget_default\<lparr>b_id := mk_Id 1, b_generation := mk_Id 1,
    b_policy_generation := pol_generation (g_policy g), b_epoch := g_epoch g, b_limit := from_units 1,
    b_mode := BudgetMode.HARD\<rparr>"

definition coordinator_start :: "string \<Rightarrow> LoadIO \<Rightarrow> FileSystem \<Rightarrow> exn + Coord" where
  "coordinator_start state_file io fs =
    (let g = set_policy coordinator_policy (set_state_path state_file Impl_init);
         coord = (\<lambda>g. \<lparr>co_gov = g, co_reservations = [], co_last_decision = CostDecision_default, co_fs = fs\<rparr>)
     in if state_exists state_file fs then
          (case load io fs g of
             (Inl e, _) \<Rightarrow> Inl e
           | (Inr _, g1) \<Rightarrow> Inr (coord (advance_epoch g1)))
        else
          let g1 = set_price_schedule (PriceSchedule_default\<lparr>ps_id := mk_Id 1, ps_generation := mk_Id 1,
                ps_created_at_ms := kNow\<rparr>) g
          in Inr (coord (snd (create_budget (coordinator_budget g1) g1))))"

section \<open>Handlers\<close>

text \<open>What a handler does: an exception or the reply it sends, if any, and the new state.\<close>

type_synonym handled = "(exn + (Msg \<times> bytes) option) \<times> Coord"

definition status_reply :: "Status \<Rightarrow> Msg \<times> bytes" where
  "status_reply st = (PONG, Writer_u8 (Status_u8 st) @ Writer_u64 0)"

text \<open>Reading the fields of a payload; the rest of it is not looked at.\<close>

definition reading :: "'a reader \<Rightarrow> bytes \<Rightarrow> Coord \<Rightarrow> ('a \<Rightarrow> handled) \<Rightarrow> handled" where
  "reading r payload c k = (case r payload of Inl e \<Rightarrow> (Inl e, c) | Inr (x, _) \<Rightarrow> k x)"

definition read_pair :: "'a reader \<Rightarrow> 'b reader \<Rightarrow> ('a \<times> 'b) reader" where
  "read_pair r s = bindR r (\<lambda>x. bindR s (\<lambda>y. returnR (x, y)))"

definition handle_hello :: "bytes \<Rightarrow> Coord \<Rightarrow> handled" where
  "handle_hello payload c =
    reading (read_pair (read_id frame_stream) (read_id frame_stream)) payload c (\<lambda>(worker, boot).
      let g = set_worker_boot worker boot (co_gov c)
      in (Inr (Some (PONG, Writer_u64 (Id_value (g_epoch g)) @ Writer_u64 (Id_value boot))), c\<lparr>co_gov := g\<rparr>))"

text \<open>Persisting after an accepted change: the status is dropped, an exception is not.\<close>

definition after_change :: "Env \<Rightarrow> Status \<Rightarrow> Coord \<Rightarrow> handled" where
  "after_change env st c =
    (if st = Status.OK then
       (case persist (en_save env) (en_border env) (en_iorder env) (co_gov c) (co_fs c) of
          (Inl e, fs) \<Rightarrow> (Inl e, c\<lparr>co_fs := fs\<rparr>)
        | (Inr _, fs) \<Rightarrow> (Inr (Some (status_reply st)), c\<lparr>co_fs := fs\<rparr>))
     else (Inr (Some (status_reply st)), c))"

definition handle_publish_price :: "Env \<Rightarrow> bytes \<Rightarrow> Coord \<Rightarrow> handled" where
  "handle_publish_price env payload c =
    reading decode_price payload c (\<lambda>p.
      case publish_price p (co_gov c) of (st, g) \<Rightarrow> after_change env st (c\<lparr>co_gov := g\<rparr>))"

definition handle_record_attempt :: "Env \<Rightarrow> bytes \<Rightarrow> Coord \<Rightarrow> handled" where
  "handle_record_attempt env payload c =
    reading decode_evidence payload c (\<lambda>e.
      case record_attempt e (co_gov c) of (st, g) \<Rightarrow> after_change env st (c\<lparr>co_gov := g\<rparr>))"

text \<open>A counted sequence of at most 4096 plans.\<close>

definition read_plans :: "ExecutionPlan list reader" where
  "read_plans = bindR (Reader_u32 frame_stream) (\<lambda>n.
    if 4096 < unat n then throwR (runtime_error ''plan count too large'') else read_n decode_plan (unat n))"

definition handle_request_eval :: "Env \<Rightarrow> bytes \<Rightarrow> Coord \<Rightarrow> handled" where
  "handle_request_eval env payload c =
    reading (read_pair (read_id frame_stream) (read_pair (read_id frame_stream) read_plans)) payload c (\<lambda>(wl, wg, plans).
      case evaluate coordinator_clock (en_border env) (co_gov c) wl wg plans of
        Inl e \<Rightarrow> (Inl e, c)
      | Inr d \<Rightarrow> (Inr (Some (EVAL_RESULT, encode_decision d)), c\<lparr>co_last_decision := d\<rparr>))"

definition handle_reserve :: "bytes \<Rightarrow> Coord \<Rightarrow> handled" where
  "handle_reserve payload c =
    reading (read_pair (read_pair (read_id frame_stream) (read_id frame_stream))
        (read_pair (read_id frame_stream) (read_micros frame_stream))) payload c (\<lambda>((bid, bg), epch, amt).
      case reserve coordinator_clock bid bg epch amt BudgetReservation_default (co_gov c) of
        (Inl e, _, g) \<Rightarrow> (Inl e, c\<lparr>co_gov := g\<rparr>)
      | (Inr st, res, g) \<Rightarrow>
          (Inr (Some (PONG, Writer_u8 (Status_u8 st) @
             (if st = Status.OK
                then Writer_u64 (Id_value (r_id res)) @ Writer_u64 (Id_value (r_budget_generation res)) @
                  Writer_u64 (Id_value (r_epoch res)) @ Writer_i64 (total_micros (r_amount res))
                else Writer_u64 0 @ Writer_u64 0 @ Writer_u64 0 @ Writer_i64 0))),
           c\<lparr>co_gov := g, co_reservations :=
             if st = Status.OK then smap_put (Id_value (r_id res)) res (co_reservations c) else co_reservations c\<rparr>))"

text \<open>Commit and release work on a copy of the table's reservation and write it back.\<close>

definition handle_settle :: "Msg \<Rightarrow> bytes \<Rightarrow> Coord \<Rightarrow> handled" where
  "handle_settle type payload c =
    reading (Reader_u64 frame_stream) payload c (\<lambda>token.
      case smap_find (co_reservations c) token of
        None \<Rightarrow> (Inr (Some (status_reply Status.INVALID_INPUT)), c)
      | Some res \<Rightarrow>
          (case if type = COMMIT then commit coordinator_clock res (co_gov c) else release res (co_gov c) of
             (Inl e, _, g) \<Rightarrow> (Inl e, c\<lparr>co_gov := g\<rparr>)
           | (Inr st, res', g) \<Rightarrow>
               (Inr (Some (status_reply st)),
                c\<lparr>co_gov := g, co_reservations := smap_put token res' (co_reservations c)\<rparr>)))"

definition handle_realize :: "bytes \<Rightarrow> Coord \<Rightarrow> handled" where
  "handle_realize payload c =
    reading (read_pair (read_id frame_stream) (read_id frame_stream)) payload c (\<lambda>(req, wl).
      case finalize_request coordinator_clock req wl (co_gov c) of
        (Inl e, g) \<Rightarrow> (Inl e, c\<lparr>co_gov := g\<rparr>)
      | (Inr st, g) \<Rightarrow>
          (case realized_request_cost coordinator_clock g req of
             Inl e \<Rightarrow> (Inl e, c\<lparr>co_gov := g\<rparr>)
           | Inr cost \<Rightarrow>
               (Inr (Some (PONG, Writer_u8 (Status_u8 st) @ Writer_i64 (total_micros cost))), c\<lparr>co_gov := g\<rparr>)))"

definition handle_get_state :: "Env \<Rightarrow> Coord \<Rightarrow> handled" where
  "handle_get_state env c =
    (let g = co_gov c
     in (Inr (Some (PONG, Writer_u64 (Id_value (g_epoch g)) @ Writer_u64 (Id_value (ps_generation (g_schedule g))) @
           Writer_u64 (Id_value (pol_generation (g_policy g))) @
           Writer_u64 (of_nat (length (budgets (en_border env) g))) @
           Writer_u64 (of_nat (length (ps_observations (g_schedule g)))))), c))"

definition handle_revalidate :: "Env \<Rightarrow> bytes \<Rightarrow> Coord \<Rightarrow> handled" where
  "handle_revalidate env payload c =
    reading read_plans payload c (\<lambda>plans.
      case validate_for_dispatch coordinator_clock (en_border env) (co_gov c) (co_last_decision c) plans of
        Inl e \<Rightarrow> (Inl e, c)
      | Inr st \<Rightarrow> (Inr (Some (status_reply st)), c))"

definition handle :: "Env \<Rightarrow> Msg \<Rightarrow> bytes \<Rightarrow> Coord \<Rightarrow> handled" where
  "handle env type payload c =
    (case type of
       HELLO \<Rightarrow> handle_hello payload c
     | PUBLISH_PRICE \<Rightarrow> handle_publish_price env payload c
     | REQUEST_EVAL \<Rightarrow> handle_request_eval env payload c
     | RECORD_ATTEMPT \<Rightarrow> handle_record_attempt env payload c
     | RESERVE \<Rightarrow> handle_reserve payload c
     | COMMIT \<Rightarrow> handle_settle type payload c
     | RELEASE \<Rightarrow> handle_settle type payload c
     | REALIZE \<Rightarrow> handle_realize payload c
     | GET_STATE \<Rightarrow> handle_get_state env c
     | REVALIDATE \<Rightarrow> handle_revalidate env payload c
     | QUIT \<Rightarrow> (Inr None, c)
     | _ \<Rightarrow> (Inr (Some (status_reply Status.PROTOCOL_ERROR)), c))"

section \<open>A session\<close>

text \<open>What the loop sends for one handled message: a handler that throws is answered for.\<close>

definition answers :: "exn + (Msg \<times> bytes) option \<Rightarrow> (Msg \<times> bytes) list" where
  "answers r = (case r of
      Inl _ \<Rightarrow> [status_reply Status.INTERVENTION_FAILED]
    | Inr None \<Rightarrow> []
    | Inr (Some m) \<Rightarrow> [m])"

lemma recv_frame_consumes:
  assumes "recv_frame segs = (r, segs')" and "r \<noteq> Inr None"
  shows "length (concat segs') < length (concat segs)"
proof -
  obtain hdr segs1 where hdr: "recv_all 16 segs = (Some hdr, segs1)"
    using assms by (cases "recv_all 16 segs"; cases "fst (recv_all 16 segs)") (auto simp: recv_frame_def)
  have "length (concat segs) = 16 + length (concat segs1)"
    using recv_all_consumes [OF hdr] by blast
  moreover have "length (concat segs2) \<le> length (concat segs1)" if "recv_all n segs1 = (x, segs2)" for n x segs2
    using recv_all_consumes [OF that] by blast
  ultimately have "length (concat segs') + 16 \<le> length (concat segs)"
    using assms by (fastforce simp: recv_frame_def hdr split: sum.splits prod.splits if_splits option.splits)
  then show ?thesis
    by linarith
qed

text \<open>
  The loop, from message number \<open>k\<close> on: the replies it sends, and the state when the connection ends.
  It ends because every frame takes at least its header from the input.
\<close>

function session :: "(nat \<Rightarrow> Env) \<Rightarrow> nat \<Rightarrow> bytes list \<Rightarrow> Coord \<Rightarrow> (Msg \<times> bytes) list \<times> Coord" where
  "session envs k segs c =
    (case recv_frame segs of
       (Inr None, _) \<Rightarrow> ([], c)
     | (Inl e, segs') \<Rightarrow>
         (case session envs (Suc k) segs' c of (rs, c') \<Rightarrow> (status_reply Status.PROTOCOL_ERROR # rs, c'))
     | (Inr (Some (type, payload)), segs') \<Rightarrow>
         (case handle (envs k) type payload c of (r, c1) \<Rightarrow>
           (case session envs (Suc k) segs' c1 of (rs, c') \<Rightarrow> (answers r @ rs, c'))))"
  by pat_completeness auto
termination
  by (relation "measure (\<lambda>(envs, k, segs, c). length (concat segs))") (auto dest: recv_frame_consumes [OF sym])

declare session.simps [simp del]

end
