(* ===== verification/Sessions.thy ===== *)
theory Sessions
  imports Coordinator
begin

text \<open>
  What the coordinator guarantees for every sequence of bytes that a client may send: no hard budget is
  overspent, every message is answered, and, message by message, the coordinator with its table of
  tokens implements the ledger of the governor.
\<close>

section \<open>Budgets under any message\<close>

text \<open>What may happen to a budget: its terms stay, it is only spent, and within a hard limit.\<close>

definition budget_evolves :: "Budget \<Rightarrow> Budget \<Rightarrow> bool" where
  "budget_evolves b b' \<longleftrightarrow>
    b_id b' = b_id b \<and> b_generation b' = b_generation b \<and> b_epoch b' = b_epoch b \<and> b_mode b' = b_mode b \<and>
    b_limit b' = b_limit b \<and> micros (b_consumed b) \<le> micros (b_consumed b') \<and>
    (b_mode b = BudgetMode.HARD \<longrightarrow> micros (b_consumed b') \<le> max (micros (b_consumed b)) (micros (b_limit b)))"

definition gov_evolves :: "Impl \<Rightarrow> Impl \<Rightarrow> bool" where
  "gov_evolves g g' \<longleftrightarrow> g_epoch g' = g_epoch g \<and> dom (g_budgets g') = dom (g_budgets g) \<and>
    (\<forall>i b b'. g_budgets g i = Some b \<longrightarrow> g_budgets g' i = Some b' \<longrightarrow> budget_evolves b b')"

lemma budget_evolves_refl [simp]: "budget_evolves b b"
  by (simp add: budget_evolves_def)

lemma budget_evolves_trans: "budget_evolves a b \<Longrightarrow> budget_evolves b c \<Longrightarrow> budget_evolves a c"
  by (auto simp: budget_evolves_def)

lemma gov_evolves_refl [simp]: "gov_evolves g g"
  by (simp add: gov_evolves_def)

lemma gov_evolves_trans: "gov_evolves a b \<Longrightarrow> gov_evolves b c \<Longrightarrow> gov_evolves a c"
  unfolding gov_evolves_def by (metis budget_evolves_trans domD domI)

lemma gov_evolves_same: "g_budgets g' = g_budgets g \<Longrightarrow> g_epoch g' = g_epoch g \<Longrightarrow> gov_evolves g g'"
  by (auto simp: gov_evolves_def)

lemma gov_evolves_put [simp]:
  "g_budgets g i = Some b \<Longrightarrow> g_budgets g' = (g_budgets g)(i \<mapsto> b') \<Longrightarrow> g_epoch g' = g_epoch g \<Longrightarrow>
    gov_evolves g g' \<longleftrightarrow> budget_evolves b b'"
  by (auto simp: gov_evolves_def)

lemma budget_evolves_unspent [simp]:
  "b_id b' = b_id b \<Longrightarrow> b_generation b' = b_generation b \<Longrightarrow> b_epoch b' = b_epoch b \<Longrightarrow> b_mode b' = b_mode b \<Longrightarrow>
    b_limit b' = b_limit b \<Longrightarrow> b_consumed b' = b_consumed b \<Longrightarrow> budget_evolves b b'"
  by (simp add: budget_evolves_def)

lemma reserve_evolves:
  assumes "reserve clk i gen epoch amount out g = (res, r, g')"
  shows "gov_evolves g g' \<and> (res = Inr Status.OK \<longrightarrow> 0 \<le> micros (r_amount r))"
proof (cases "g_budgets g i")
  case (Some b)
  then show ?thesis
    using assms
    by (auto simp: reserve_def Let_def money_negative_def sint_rules split: if_splits sum.splits)
qed (use assms in \<open>auto simp: reserve_def\<close>)

lemma commit_evolves:
  assumes "commit clk r g = (res, r', g')" and "0 \<le> micros (r_amount r)"
  shows "gov_evolves g g' \<and> r_amount r' = r_amount r"
proof (cases "g_budgets g (r_budget r)")
  case (Some b)
  have spent: "budget_evolves b (b\<lparr>b_reserved := x, b_consumed := c, b_lifecycle := l\<rparr>)"
    if "money_add (b_consumed b) (r_amount r) = Inr c" "b_mode b = BudgetMode.HARD \<longrightarrow> \<not> b_limit b < c" for x c l
    using that assms(2) by (auto simp: budget_evolves_def money_add_eq_Inr sint_rules)
  show ?thesis
    using assms(1) Some
    by (auto simp: commit_def Let_def spent split: if_splits sum.splits)
qed (use assms in \<open>auto simp: commit_def\<close>)

lemma release_evolves:
  assumes "release r g = (res, r', g')"
  shows "gov_evolves g g' \<and> r_amount r' = r_amount r"
proof (cases "g_budgets g (r_budget r)")
  case (Some b)
  then show ?thesis
    using assms by (auto simp: release_def Let_def split: if_splits sum.splits)
qed (use assms in \<open>auto simp: release_def\<close>)

section \<open>Every handler\<close>

text \<open>The amounts in the table of tokens are those of accepted reservations.\<close>

definition table_ok :: "Coord \<Rightarrow> bool" where
  "table_ok c \<longleftrightarrow> (\<forall>token r. smap_find (co_reservations c) token = Some r \<longrightarrow> 0 \<le> micros (r_amount r))"

definition coord_evolves :: "Coord \<Rightarrow> Coord \<Rightarrow> bool" where
  "coord_evolves c c' \<longleftrightarrow> gov_evolves (co_gov c) (co_gov c') \<and> (table_ok c \<longrightarrow> table_ok c')"

lemma coord_evolves_refl [simp]: "coord_evolves c c"
  by (simp add: coord_evolves_def)

lemma coord_evolves_trans: "coord_evolves a b \<Longrightarrow> coord_evolves b c \<Longrightarrow> coord_evolves a c"
  by (auto simp: coord_evolves_def intro: gov_evolves_trans)

lemma coord_evolves_gov:
  "gov_evolves (co_gov c) g \<Longrightarrow> co_gov c' = g \<Longrightarrow> co_reservations c' = co_reservations c \<Longrightarrow> coord_evolves c c'"
  by (simp add: coord_evolves_def table_ok_def)

lemma reading_cases:
  assumes "reading r payload c k = (res, c')"
  obtains e where "res = Inl e" "c' = c" | x rest where "r payload = Inr (x, rest)" "k x = (res, c')"
  using assms by (auto simp: reading_def split: sum.splits)

lemma after_change_gov:
  "after_change env st c = (res, c') \<Longrightarrow> co_gov c' = co_gov c \<and> co_reservations c' = co_reservations c"
  by (auto simp: after_change_def split: if_splits prod.splits sum.splits)

text \<open>The operations that leave the budgets alone.\<close>

lemma intake_evolves:
  "publish_price p g = (st, g') \<Longrightarrow> gov_evolves g g'"
  "record_attempt e g = (st, g') \<Longrightarrow> gov_evolves g g'"
  "finalize_request clk req w g = (r, g') \<Longrightarrow> gov_evolves g g'"
  "gov_evolves g (set_worker_boot worker boot g)"
  by (auto simp: publish_price_def record_attempt_def finalize_request_def set_worker_boot_def Let_def
      intro!: gov_evolves_same split: if_splits option.splits sum.splits)

lemma handle_hello_evolves: "handle_hello payload c = (res, c') \<Longrightarrow> coord_evolves c c'"
  unfolding handle_hello_def
  by (erule reading_cases) (auto simp: Let_def intro: coord_evolves_gov intake_evolves(4) split: prod.splits)

lemma handle_publish_price_evolves: "handle_publish_price env payload c = (res, c') \<Longrightarrow> coord_evolves c c'"
  unfolding handle_publish_price_def
  by (erule reading_cases)
    (auto split: prod.splits dest!: after_change_gov intro: coord_evolves_gov intake_evolves(1))

lemma handle_record_attempt_evolves: "handle_record_attempt env payload c = (res, c') \<Longrightarrow> coord_evolves c c'"
  unfolding handle_record_attempt_def
  by (erule reading_cases)
    (auto split: prod.splits dest!: after_change_gov intro: coord_evolves_gov intake_evolves(2))

lemma handle_request_eval_evolves: "handle_request_eval env payload c = (res, c') \<Longrightarrow> coord_evolves c c'"
  unfolding handle_request_eval_def
  by (erule reading_cases) (auto simp: coord_evolves_def table_ok_def split: prod.splits sum.splits)

lemma handle_revalidate_evolves: "handle_revalidate env payload c = (res, c') \<Longrightarrow> coord_evolves c c'"
  unfolding handle_revalidate_def
  by (erule reading_cases) (auto split: sum.splits)

lemma handle_realize_evolves: "handle_realize payload c = (res, c') \<Longrightarrow> coord_evolves c c'"
  unfolding handle_realize_def
  by (erule reading_cases) (auto split: prod.splits sum.splits dest!: intake_evolves(3) intro: coord_evolves_gov)

lemma handle_reserve_evolves: "handle_reserve payload c = (res, c') \<Longrightarrow> coord_evolves c c'"
  unfolding handle_reserve_def
  by (erule reading_cases)
    (auto simp: coord_evolves_def table_ok_def smap_find_put split: prod.splits sum.splits if_splits dest!: reserve_evolves)

lemma handle_settle_evolves:
  assumes "handle_settle type payload c = (res, c')" and "table_ok c"
  shows "gov_evolves (co_gov c) (co_gov c') \<and> table_ok c'"
  using assms(1) unfolding handle_settle_def
proof (cases rule: reading_cases)
  case (2 token rest)
  show ?thesis
  proof (cases "smap_find (co_reservations c) token")
    case (Some r)
    then have "0 \<le> micros (r_amount r)"
      using assms(2) by (auto simp: table_ok_def)
    then show ?thesis
      using 2(2) Some assms(2)
      by (auto simp: table_ok_def smap_find_put split: if_splits prod.splits sum.splits
          dest!: commit_evolves release_evolves)
  qed (use 2 assms(2) in auto)
qed (use assms(2) in auto)

lemma handle_get_state_same: "handle_get_state env c = (res, c') \<Longrightarrow> c' = c"
  by (auto simp: handle_get_state_def Let_def)

lemma handle_evolves:
  assumes "handle env type payload c = (res, c')" and "table_ok c"
  shows "gov_evolves (co_gov c) (co_gov c') \<and> table_ok c'"
proof (cases "type = COMMIT \<or> type = RELEASE")
  case True
  then show ?thesis
    using assms handle_settle_evolves by (auto simp: handle_def)
next
  case False
  then have "coord_evolves c c'"
    using assms(1)
    by (cases type) (auto simp: handle_def intro: handle_hello_evolves handle_publish_price_evolves
        handle_request_eval_evolves handle_record_attempt_evolves handle_reserve_evolves handle_realize_evolves
        handle_revalidate_evolves dest: handle_get_state_same)
  then show ?thesis
    using assms(2) by (simp add: coord_evolves_def)
qed

text \<open>One round of the loop.\<close>

lemma session_end: "recv_frame segs = (Inr None, segs') \<Longrightarrow> session envs k segs c = ([], c)"
  by (simp add: session.simps [of envs k segs])

lemma session_bad_frame:
  "recv_frame segs = (Inl e, segs') \<Longrightarrow> session envs (Suc k) segs' c = (rs, c') \<Longrightarrow>
    session envs k segs c = (status_reply Status.PROTOCOL_ERROR # rs, c')"
  by (simp add: session.simps [of envs k segs])

lemma session_message:
  "recv_frame segs = (Inr (Some (type, payload)), segs') \<Longrightarrow> handle (envs k) type payload c = (r, c1) \<Longrightarrow>
    session envs (Suc k) segs' c1 = (rs, c') \<Longrightarrow> session envs k segs c = (answers r @ rs, c')"
  by (simp add: session.simps [of envs k segs])

lemma session_induct [case_names ended bad message]:
  assumes "\<And>k segs segs' c. recv_frame segs = (Inr None, segs') \<Longrightarrow> P k segs c"
    and "\<And>k segs e segs' c. recv_frame segs = (Inl e, segs') \<Longrightarrow> P (Suc k) segs' c \<Longrightarrow> P k segs c"
    and "\<And>k segs type payload segs' c. recv_frame segs = (Inr (Some (type, payload)), segs') \<Longrightarrow>
      (\<And>c1. P (Suc k) segs' c1) \<Longrightarrow> P k segs c"
  shows "P k segs c"
proof (induction "length (concat segs)" arbitrary: k segs c rule: less_induct)
  case less
  obtain r segs' where r: "recv_frame segs = (r, segs')"
    by (cases "recv_frame segs")
  show ?case
  proof (cases "r = Inr None")
    case False
    then have IH: "P (Suc k) segs' c1" for c1
      using less recv_frame_consumes [OF r] by blast
    show ?thesis
    proof (cases r)
      case (Inr m)
      then show ?thesis
        using False r IH assms(3) by (cases m) auto
    qed (use r IH assms(2) in auto)
  qed (use r assms(1) in blast)
qed

lemma session_evolves:
  "session envs k segs c = (rs, c') \<Longrightarrow> table_ok c \<Longrightarrow> gov_evolves (co_gov c) (co_gov c') \<and> table_ok c'"
proof (induction k segs c arbitrary: rs rule: session_induct)
  case (bad k segs e segs' c)
  obtain rs1 c1 where s: "session envs (Suc k) segs' c = (rs1, c1)"
    by (cases "session envs (Suc k) segs' c")
  then show ?case
    using bad session_bad_frame [OF bad(1) s] by simp
next
  case (message k segs type payload segs' c)
  obtain r c1 where h: "handle (envs k) type payload c = (r, c1)"
    by (cases "handle (envs k) type payload c")
  obtain rs1 c2 where s: "session envs (Suc k) segs' c1 = (rs1, c2)"
    by (cases "session envs (Suc k) segs' c1")
  have "c' = c2"
    using message(3) session_message [where envs = envs, OF message(1) h s] by simp
  then show ?case
    using handle_evolves [OF h message(4)] message(2) [of c1 rs1] s gov_evolves_trans by blast
qed (simp add: session_end)

section \<open>Every message is answered\<close>

text \<open>The reference for a session: the messages one after the other, without frames and bytes.\<close>

fun serve :: "(nat \<Rightarrow> Env) \<Rightarrow> nat \<Rightarrow> (Msg \<times> bytes) list \<Rightarrow> Coord \<Rightarrow> (Msg \<times> bytes) list \<times> Coord" where
  "serve envs k [] c = ([], c)"
| "serve envs k ((type, payload) # ms) c =
    (case handle (envs k) type payload c of (r, c1) \<Rightarrow>
      (case serve envs (Suc k) ms c1 of (rs, c') \<Rightarrow> (answers r @ rs, c')))"

lemma reading_replies: "(\<And>x. fst (k x) \<noteq> Inr None) \<Longrightarrow> fst (reading r payload c k) \<noteq> Inr None"
  by (auto simp: reading_def split: sum.splits prod.splits)

lemma after_change_replies: "fst (after_change env st c) \<noteq> Inr None"
  by (auto simp: after_change_def split: prod.splits sum.splits)

lemma handle_replies: "fst (handle env type payload c) = Inr None \<longleftrightarrow> type = QUIT"
proof
  assume none: "fst (handle env type payload c) = Inr None"
  have "fst (handle_hello payload c) \<noteq> Inr None" "fst (handle_publish_price env payload c) \<noteq> Inr None"
    "fst (handle_record_attempt env payload c) \<noteq> Inr None" "fst (handle_request_eval env payload c) \<noteq> Inr None"
    "fst (handle_reserve payload c) \<noteq> Inr None" "fst (handle_settle type payload c) \<noteq> Inr None"
    "fst (handle_realize payload c) \<noteq> Inr None" "fst (handle_revalidate env payload c) \<noteq> Inr None"
    "fst (handle_get_state env c) \<noteq> Inr None"
    unfolding handle_hello_def handle_publish_price_def handle_record_attempt_def handle_request_eval_def
      handle_reserve_def handle_settle_def handle_realize_def handle_revalidate_def handle_get_state_def
    by (auto simp: Let_def after_change_replies intro!: reading_replies split: prod.splits sum.splits option.splits)
  then show "type = QUIT"
    using none by (cases type) (auto simp: handle_def)
qed (simp add: handle_def)

lemma serve_replies: "length (fst (serve envs k ms c)) = length (filter (\<lambda>m. fst m \<noteq> QUIT) ms)"
proof (induction ms arbitrary: k c)
  case (Cons m ms)
  obtain type payload where m: "m = (type, payload)"
    by (cases m)
  obtain r c1 where h: "handle (envs k) type payload c = (r, c1)"
    by (cases "handle (envs k) type payload c")
  have "length (answers r) = (if type = QUIT then 0 else 1)"
    using handle_replies [of "envs k" type payload c] h
    by (auto simp: answers_def split: sum.splits option.splits)
  then show ?case
    using Cons.IH [of "Suc k" c1] h by (cases "serve envs (Suc k) ms c1") (simp add: m)
qed simp

section \<open>A concrete session\<close>

definition sample_env :: Env where
  "sample_env = \<lparr>en_border = [mk_Id 1], en_iorder = [], en_save = good_save\<rparr>"

definition sample_messages :: "(Msg \<times> bytes) list" where
  "sample_messages = [(HELLO, Writer_u64 1 @ Writer_u64 10), (PING, []), (QUIT, [])]"

definition sample_coord :: Coord where
  "sample_coord = \<lparr>co_gov = sample_governor, co_reservations = [], co_last_decision = CostDecision_default,
    co_fs = Map.empty\<rparr>"

lemma sample_sent:
  "send_frames sample_messages [16, 16, 16, 16] =
    (True, concat (map (\<lambda>(t, p). frame_header t p @ p) sample_messages))"
  by (simp add: sample_messages_def send_frame_def kMaxPayload_def send_all_at_once Writer_u64_def)

section \<open>Properties\<close>

text \<open>
  C3: no sequence of bytes overspends a hard budget. Whatever a client sends, well formed or not, the
  session ends in a state in which every budget still has its limit, mode, generation and epoch, nothing
  that was spent is given back, and a hard budget that was within its limit is within its limit.
\<close>

theorem session_never_overspends:
  assumes "session envs k segs c = (rs, c')" and "table_ok c" and "find_budget (co_gov c) i = Some b"
  shows "\<exists>b'. find_budget (co_gov c') i = Some b' \<and> b_limit b' = b_limit b \<and> b_mode b' = b_mode b \<and>
    b_generation b' = b_generation b \<and> b_epoch b' = b_epoch b \<and> micros (b_consumed b) \<le> micros (b_consumed b') \<and>
    (b_mode b = BudgetMode.HARD \<and> micros (b_consumed b) \<le> micros (b_limit b) \<longrightarrow>
      micros (b_consumed b') \<le> micros (b_limit b))"
proof -
  have "gov_evolves (co_gov c) (co_gov c')"
    using session_evolves [OF assms(1, 2)] by blast
  then obtain b' where "g_budgets (co_gov c') i = Some b'" "budget_evolves b b'"
    using assms(3) unfolding gov_evolves_def find_budget_def by (metis domD domI)
  then show ?thesis
    by (auto simp: find_budget_def budget_evolves_def)
qed

theorem session_never_overspends_witness:
  "\<exists>rs c' b'. session (\<lambda>_. sample_env) 0 [[1, 2, 3], [4, 5]] sample_coord = (rs, c') \<and>
    find_budget (co_gov c') (mk_Id 1) = Some b' \<and> micros (b_consumed b') \<le> 10000000"
proof -
  obtain rs c' where s: "session (\<lambda>_. sample_env) 0 [[1, 2, 3], [4, 5]] sample_coord = (rs, c')"
    by (cases "session (\<lambda>_. sample_env) 0 [[1, 2, 3], [4, 5]] sample_coord")
  have "table_ok sample_coord"
    by (simp add: table_ok_def sample_coord_def smap_find_def)
  moreover have "find_budget (co_gov sample_coord) (mk_Id 1) = Some (sample_budget\<lparr>b_lifecycle := BudgetLifecycle.ACTIVE\<rparr>)"
    by (simp add: find_budget_def sample_coord_def sample_governor_budgets)
  ultimately show ?thesis
    using session_never_overspends [OF s] s by (fastforce simp: sample_budget_def Budget_default_def)
qed

text \<open>
  C5: every message is answered. When the messages have been sent without an error, the session that
  reads their bytes, cut into whatever non-empty segments, ends, behaves exactly like the handlers run on
  the messages in order, and sends one reply for each of them, a \<^verbatim>\<open>QUIT\<close> apart, also when a handler
  throws.
\<close>

theorem session_answers_all:
  assumes "list_all (\<lambda>(t, p). Msg_wf t) ms" and "send_frames ms ks = (True, w)"
    and "[] \<notin> set segs" and "concat segs = w"
  shows "session envs k segs c = serve envs k ms c \<and>
    length (fst (session envs k segs c)) = length (filter (\<lambda>m. fst m \<noteq> QUIT) ms)"
proof -
  have "session envs k segs c = serve envs k ms c"
    using assms
  proof (induction ms arbitrary: ks w segs k c)
    case Nil
    then have "segs = []"
      by (cases segs) auto
    then have "recv_frame segs = (Inr None, [])"
      by (simp add: recv_frame_def)
    then show ?case
      by (simp add: session_end)
  next
    case (Cons m ms)
    obtain t p where m: "m = (t, p)"
      by (cases m)
    obtain w1 ks1 w2 where sent: "send_frame t p ks = (Inr True, w1, ks1)" "send_frames ms ks1 = (True, w2)" "w = w1 @ w2"
      using Cons.prems(2) by (auto simp: m split: prod.splits sum.splits bool.splits)
    then have "concat segs = frame_header t p @ p @ w2" "length p \<le> kMaxPayload"
      using Cons.prems(4) send_frame_ok [OF sent(1)] by simp_all
    then obtain segs1 where segs1: "recv_frame segs = (Inr (Some (t, p)), segs1)" "concat segs1 = w2" "[] \<notin> set segs1"
      using recv_frame_parts [OF Cons.prems(3), of t p p w2] Cons.prems(1) by (auto simp: m codec_rules)
    obtain r c1 where h: "handle (envs k) t p c = (r, c1)"
      by (cases "handle (envs k) t p c")
    obtain rs c' where rest: "session envs (Suc k) segs1 c1 = (rs, c')"
      by (cases "session envs (Suc k) segs1 c1")
    have "serve envs (Suc k) ms c1 = (rs, c')"
      using Cons.IH [OF _ sent(2) segs1(3, 2), of "Suc k" c1] Cons.prems(1) rest by simp
    then show ?case
      using session_message [where envs = envs, OF segs1(1) h rest] h by (simp add: m)
  qed
  then show ?thesis
    by (simp add: serve_replies)
qed

theorem session_answers_all_witness:
  "\<exists>w. send_frames sample_messages [16, 16, 16, 16] = (True, w) \<and>
    length (fst (session (\<lambda>_. sample_env) 0 (map (\<lambda>b. [b]) w) sample_coord)) = 2"
proof -
  let ?w = "concat (map (\<lambda>(t, p). frame_header t p @ p) sample_messages)"
  have segs: "concat (map (\<lambda>b. [b]) bs) = bs" "[] \<notin> set (map (\<lambda>b. [b]) bs)" for bs :: bytes
    by (induction bs) auto
  have "list_all (\<lambda>(t, p). Msg_wf t) sample_messages"
    by (simp add: sample_messages_def Msg_wf_def enum_wf_def Msg_enumerators_def)
  moreover have "length (filter (\<lambda>m. fst m \<noteq> QUIT) sample_messages) = 2"
    by (simp add: sample_messages_def)
  ultimately have "length (fst (session (\<lambda>_. sample_env) 0 (map (\<lambda>b. [b]) ?w) sample_coord)) = 2"
    using session_answers_all [OF _ sample_sent segs(2) segs(1), of "\<lambda>_. sample_env" 0 sample_coord] by metis
  then show ?thesis
    using sample_sent by blast
qed

end
