(* ===== verification/Refinement.thy ===== *)
theory Refinement
  imports Sessions
begin

text \<open>
  The coordinator with its table of tokens implements the ledger: every message that it handles is a
  step of the ledger or none, so the conservation of money carries over to it.
\<close>

section \<open>Simulation\<close>

text \<open>An implementation whose steps are sequences of steps of an abstract system.\<close>

locale forward_simulation =
  fixes cstep :: "'c \<Rightarrow> 'c \<Rightarrow> bool"
    and astep :: "'s \<Rightarrow> 's \<Rightarrow> bool"
    and sim :: "'c \<Rightarrow> 's \<Rightarrow> bool"
  assumes sim_step: "sim c s \<Longrightarrow> cstep c c' \<Longrightarrow> \<exists>s'. astep\<^sup>*\<^sup>* s s' \<and> sim c' s'"
begin

lemma sim_run: "cstep\<^sup>*\<^sup>* c c' \<Longrightarrow> sim c s \<Longrightarrow> \<exists>s'. astep\<^sup>*\<^sup>* s s' \<and> sim c' s'"
proof (induction rule: rtranclp_induct)
  case (step d d')
  then obtain s1 where "astep\<^sup>*\<^sup>* s s1" "sim d s1"
    by blast
  moreover obtain s2 where "astep\<^sup>*\<^sup>* s1 s2" "sim d' s2"
    using sim_step [OF \<open>sim d s1\<close> step.hyps(2)] by blast
  ultimately show ?case
    by (meson rtranclp_trans)
qed blast

end

text \<open>An implementation of a safe system is a safe system.\<close>

locale safe_implementation =
  forward_simulation cstep astep sim + abstract: safe_system ainit astep ainv
  for cstep :: "'c \<Rightarrow> 'c \<Rightarrow> bool" and astep :: "'s \<Rightarrow> 's \<Rightarrow> bool" and sim :: "'c \<Rightarrow> 's \<Rightarrow> bool"
    and ainit :: "'s \<Rightarrow> bool" and ainv :: "'s \<Rightarrow> bool"

sublocale safe_implementation \<subseteq> concrete:
  safe_system "\<lambda>c. \<exists>s. ainit s \<and> sim c s" cstep "\<lambda>c. \<exists>s. ainv s \<and> sim c s"
proof
  fix c c'
  show "\<exists>s. ainv s \<and> sim c s" if "\<exists>s. ainit s \<and> sim c s"
    using that abstract.inv_initial by blast
  show "\<exists>s. ainv s \<and> sim c' s" if "\<exists>s. ainv s \<and> sim c s" "cstep c c'"
    using that sim_step abstract.inv_steps by blast
qed

section \<open>The coordinator and the ledger\<close>

text \<open>The messages, a commit or release that throws apart.\<close>

inductive coord_step :: "Coord \<Rightarrow> Coord \<Rightarrow> bool" where
  handled: "handle env type payload c = (Inr reply, c') \<Longrightarrow> coord_step c c'"
| thrown: "handle env type payload c = (Inl e, c') \<Longrightarrow> type \<noteq> COMMIT \<Longrightarrow> type \<noteq> RELEASE \<Longrightarrow> coord_step c c'"

text \<open>Every token of the table has a handle of the ledger of its own.\<close>

definition embeds :: "(u64 \<Rightarrow> nat) \<Rightarrow> (u64 \<times> BudgetReservation) list \<Rightarrow> BudgetReservation list \<Rightarrow> bool" where
  "embeds idx table hs \<longleftrightarrow> inj_on idx {t. smap_find table t \<noteq> None} \<and>
    (\<forall>t r. smap_find table t = Some r \<longrightarrow> idx t < length hs \<and> hs ! idx t = r)"

definition coord_sim :: "Coord \<Rightarrow> Ledger \<Rightarrow> bool" where
  "coord_sim c s \<longleftrightarrow> gov s = co_gov c \<and> direct s = (\<lambda>_. 0) \<and> (\<exists>idx. embeds idx (co_reservations c) (handles s))"

lemma embeds_new:
  assumes "embeds idx table hs"
  shows "embeds (idx(t := length hs)) (smap_put t r table) (hs @ [r])"
proof -
  have old: "idx u < length hs" "hs ! idx u = r'" if "smap_find table u = Some r'" for u r'
    using assms that by (auto simp: embeds_def)
  have "inj_on (idx(t := length hs)) {u. smap_find (smap_put t r table) u \<noteq> None}"
  proof (rule inj_onI)
    fix u v
    assume "u \<in> {u. smap_find (smap_put t r table) u \<noteq> None}" "v \<in> {u. smap_find (smap_put t r table) u \<noteq> None}"
      and eq: "(idx(t := length hs)) u = (idx(t := length hs)) v"
    then have "u = t \<or> smap_find table u \<noteq> None" "v = t \<or> smap_find table v \<noteq> None"
      by (auto simp: smap_find_put split: if_splits)
    then show "u = v"
      using eq old(1) assms unfolding embeds_def inj_on_def
      by (auto split: if_splits) (metis less_irrefl)+
  qed
  then show ?thesis
    using old by (auto simp: embeds_def smap_find_put nth_append intro: less_SucI split: if_splits)
qed

lemma embeds_update:
  assumes "embeds idx table hs" and "smap_find table t = Some r"
  shows "embeds idx (smap_put t r' table) (hs[idx t := r'])"
proof -
  have dom: "{u. smap_find (smap_put t r' table) u \<noteq> None} = {u. smap_find table u \<noteq> None}"
    using assms(2) by (auto simp: smap_find_put split: if_splits)
  have "idx t \<noteq> idx u" if "smap_find table u = Some r''" "u \<noteq> t" for u r''
    using assms that unfolding embeds_def inj_on_def by (metis (mono_tags) mem_Collect_eq option.distinct(1))
  then show ?thesis
    using assms dom by (fastforce simp: embeds_def smap_find_put split: if_splits)
qed

lemma reserve_throw_same: "reserve clk i gen epoch amount out g = (Inl e, r, g') \<Longrightarrow> g' = g"
  by (auto simp: reserve_def Let_def split: option.splits if_splits sum.splits)

text \<open>One message is at most one step of the ledger.\<close>

lemma sim_last_decision [simp]: "coord_sim (c\<lparr>co_last_decision := d\<rparr>) s \<longleftrightarrow> coord_sim c s"
  by (simp add: coord_sim_def)

lemma sim_gov:
  assumes "coord_sim c s" and "ledger_step s (s\<lparr>gov := g\<rparr>)" and "co_gov c' = g" and "co_reservations c' = co_reservations c"
  shows "\<exists>s'. ledger_step\<^sup>*\<^sup>* s s' \<and> coord_sim c' s'"
  using assms by (intro exI [of _ "s\<lparr>gov := g\<rparr>"]) (auto simp: coord_sim_def)

lemma sim_hello:
  assumes "coord_sim c s" and "handle_hello payload c = (res, c')"
  shows "\<exists>s'. ledger_step\<^sup>*\<^sup>* s s' \<and> coord_sim c' s'"
  using assms(2) unfolding handle_hello_def
proof (cases rule: reading_cases)
  case (2 x rest)
  obtain worker bt where x: "x = (worker, bt)"
    by (cases x)
  have "ledger_step s (s\<lparr>gov := set_worker_boot worker bt (co_gov c)\<rparr>)"
    using assms(1) boot [of s worker bt] by (simp add: coord_sim_def)
  moreover have "c' = c\<lparr>co_gov := set_worker_boot worker bt (co_gov c)\<rparr>"
    using 2 by (simp add: x Let_def)
  ultimately show ?thesis
    using sim_gov [OF assms(1)] by simp
qed (use assms(1) in blast)

lemma sim_publish_price:
  assumes "coord_sim c s" and "handle_publish_price env payload c = (res, c')"
  shows "\<exists>s'. ledger_step\<^sup>*\<^sup>* s s' \<and> coord_sim c' s'"
  using assms(2) unfolding handle_publish_price_def
proof (cases rule: reading_cases)
  case (2 p rest)
  obtain st g where g: "publish_price p (co_gov c) = (st, g)"
    by (cases "publish_price p (co_gov c)")
  then have "ledger_step s (s\<lparr>gov := g\<rparr>)"
    using assms(1) publish [of p s st g] by (simp add: coord_sim_def)
  then show ?thesis
    using 2 g after_change_gov [of env st "c\<lparr>co_gov := g\<rparr>" res c'] sim_gov [OF assms(1)] by simp
qed (use assms(1) in blast)

lemma sim_record_attempt:
  assumes "coord_sim c s" and "handle_record_attempt env payload c = (res, c')"
  shows "\<exists>s'. ledger_step\<^sup>*\<^sup>* s s' \<and> coord_sim c' s'"
  using assms(2) unfolding handle_record_attempt_def
proof (cases rule: reading_cases)
  case (2 e rest)
  obtain st g where g: "record_attempt e (co_gov c) = (st, g)"
    by (cases "record_attempt e (co_gov c)")
  then have "ledger_step s (s\<lparr>gov := g\<rparr>)"
    using assms(1) attempt [of e s st g] by (simp add: coord_sim_def)
  then show ?thesis
    using 2 g after_change_gov [of env st "c\<lparr>co_gov := g\<rparr>" res c'] sim_gov [OF assms(1)] by simp
qed (use assms(1) in blast)

lemma sim_realize:
  assumes "coord_sim c s" and "handle_realize payload c = (res, c')"
  shows "\<exists>s'. ledger_step\<^sup>*\<^sup>* s s' \<and> coord_sim c' s'"
  using assms(2) unfolding handle_realize_def
proof (cases rule: reading_cases)
  case (2 x rest)
  obtain req wl where x: "x = (req, wl)"
    by (cases x)
  obtain r g where g: "finalize_request coordinator_clock req wl (co_gov c) = (r, g)"
    by (cases "finalize_request coordinator_clock req wl (co_gov c)")
  then have "ledger_step s (s\<lparr>gov := g\<rparr>)"
    using assms(1) finalize [of coordinator_clock req wl s r g] by (simp add: coord_sim_def)
  moreover have "c' = c\<lparr>co_gov := g\<rparr>"
    using 2 g by (auto simp: x split: sum.splits)
  ultimately show ?thesis
    using sim_gov [OF assms(1)] by simp
qed (use assms(1) in blast)

lemma sim_reserve:
  assumes "coord_sim c s" and "handle_reserve payload c = (res, c')"
  shows "\<exists>s'. ledger_step\<^sup>*\<^sup>* s s' \<and> coord_sim c' s'"
  using assms(2) unfolding handle_reserve_def
proof (cases rule: reading_cases)
  case (2 x rest)
  obtain bid bg epch amt where x: "x = ((bid, bg), epch, amt)"
    by (metis prod.collapse)
  obtain st r g where op: "reserve coordinator_clock bid bg epch amt BudgetReservation_default (gov s) = (st, r, g)"
    by (metis prod.collapse)
  have gov: "co_gov c = gov s"
    using assms(1) by (simp add: coord_sim_def)
  show ?thesis
  proof (cases st)
    case (Inl e)
    then have "g = gov s"
      using reserve_throw_same op by blast
    then have "c' = c"
      using 2(2) op Inl by (auto simp: x gov [symmetric])
    then show ?thesis
      using assms(1) by blast
  next
    case (Inr status)
    show ?thesis
    proof (cases "status = Status.OK")
      case True
      obtain idx where "embeds idx (co_reservations c) (handles s)"
        using assms(1) by (auto simp: coord_sim_def)
      then have "embeds (idx(Id_value (r_id r) := length (handles s)))
          (smap_put (Id_value (r_id r)) r (co_reservations c)) (handles s @ [r])"
        by (rule embeds_new)
      moreover have "ledger_step s (s\<lparr>gov := g, handles := handles s @ [r]\<rparr>)"
        using op Inr True by (auto intro: reserve_ok)
      moreover have "c' = c\<lparr>co_gov := g, co_reservations := smap_put (Id_value (r_id r)) r (co_reservations c)\<rparr>"
        using 2(2) op Inr True by (auto simp: x gov)
      ultimately show ?thesis
        using assms(1) by (intro exI [of _ "s\<lparr>gov := g, handles := handles s @ [r]\<rparr>"]) (auto simp: coord_sim_def)
    next
      case False
      then have "ledger_step s (s\<lparr>gov := g\<rparr>)"
        using op Inr by (auto intro: reserve_refused)
      moreover have "co_gov c' = g" "co_reservations c' = co_reservations c"
        using 2(2) op Inr False by (auto simp: x gov)
      ultimately show ?thesis
        using sim_gov [OF assms(1)] by blast
    qed
  qed
qed (use assms(1) in blast)

lemma sim_settle:
  assumes "coord_sim c s" and "handle_settle type payload c = (Inr reply, c')" and "type = COMMIT \<or> type = RELEASE"
  shows "\<exists>s'. ledger_step\<^sup>*\<^sup>* s s' \<and> coord_sim c' s'"
  using assms(2) unfolding handle_settle_def
proof (cases rule: reading_cases)
  case (2 token rest)
  have gov: "co_gov c = gov s"
    using assms(1) by (simp add: coord_sim_def)
  obtain idx where idx: "embeds idx (co_reservations c) (handles s)"
    using assms(1) by (auto simp: coord_sim_def)
  show ?thesis
  proof (cases "smap_find (co_reservations c) token")
    case None
    then have "c' = c"
      using 2(2) by simp
    then show ?thesis
      using assms(1) by blast
  next
    case (Some r)
    then have k: "idx token < length (handles s)" "handles s ! idx token = r"
      using idx by (auto simp: embeds_def)
    obtain st r' g where op:
      "(if type = COMMIT then commit coordinator_clock r (co_gov c) else release r (co_gov c)) = (Inr st, r', g)"
      and c': "c' = c\<lparr>co_gov := g, co_reservations := smap_put token r' (co_reservations c)\<rparr>"
      using 2(2) Some by (auto split: prod.splits sum.splits)
    have "ledger_step s (s\<lparr>gov := g, handles := (handles s)[idx token := r']\<rparr>)"
      using op k assms(3) unfolding gov by (auto intro: commit release split: if_splits)
    then show ?thesis
      using embeds_update [OF idx Some, of r'] assms(1) c'
      by (intro exI [of _ "s\<lparr>gov := g, handles := (handles s)[idx token := r']\<rparr>"]) (auto simp: coord_sim_def)
  qed
qed simp

lemma sim_unchanged:
  assumes "coord_sim c s"
  shows "handle_request_eval env payload c = (res, c') \<Longrightarrow> coord_sim c' s"
    and "handle_revalidate env payload c = (res, c') \<Longrightarrow> coord_sim c' s"
  using assms unfolding handle_request_eval_def handle_revalidate_def
  by (auto elim!: reading_cases split: prod.splits sum.splits)

lemma coord_step_simulated:
  assumes "coord_sim c s" and "coord_step c c'"
  shows "\<exists>s'. ledger_step\<^sup>*\<^sup>* s s' \<and> coord_sim c' s'"
proof -
  obtain env type payload res where h: "handle env type payload c = (res, c')"
    and ok: "type = COMMIT \<or> type = RELEASE \<longrightarrow> (\<exists>reply. res = Inr reply)"
    using assms(2) by (auto elim!: coord_step.cases)
  have same: "\<exists>s'. ledger_step\<^sup>*\<^sup>* s s' \<and> coord_sim d s'" if "coord_sim d s" for d
    using that by blast
  show ?thesis
    using h ok assms(1)
    by (cases type)
      (auto simp: handle_def intro: sim_hello sim_publish_price sim_record_attempt sim_realize sim_reserve sim_settle
        same sim_unchanged dest: handle_get_state_same)
qed

text \<open>Ledgers without reservations and without money spent.\<close>

definition unspent_ledger :: "Ledger \<Rightarrow> bool" where
  "unspent_ledger s \<longleftrightarrow> handles s = [] \<and> direct s = (\<lambda>_. 0) \<and>
    (\<forall>i b. g_budgets (gov s) i = Some b \<longrightarrow> fresh_budget b \<and> 0 \<le> micros (b_limit b))"

lemma unspent_inv: "unspent_ledger s \<Longrightarrow> ledger_inv s"
  by (auto simp: unspent_ledger_def ledger_inv_def budget_inv_def balanced_def fresh_budget_def sums handle_sum_def)

interpretation coordinator: safe_implementation coord_step ledger_step coord_sim unspent_ledger ledger_inv
proof
  show "\<exists>s'. ledger_step\<^sup>*\<^sup>* s s' \<and> coord_sim c' s'" if "coord_sim c s" "coord_step c c'" for c c' s
    using that by (rule coord_step_simulated)
  show "ledger_inv s" if "unspent_ledger s" for s
    using that by (rule unspent_inv)
  show "ledger_inv s'" if "ledger_inv s" "ledger_step s s'" for s s'
    using that by (rule ledger.inv_step)
qed

lemma fresh_start_unspent:
  assumes "coordinator_start file io fs = Inr c" and "\<not> state_exists file fs"
  shows "\<exists>s. unspent_ledger s \<and> coord_sim c s"
proof -
  let ?s = "\<lparr>gov = co_gov c, handles = [], direct = \<lambda>_. 0\<rparr>"
  have "co_reservations c = []" "unspent_ledger ?s"
    using assms
    by (auto simp: coordinator_start_def Let_def unspent_ledger_def create_budget_def umap_emplace_def
        set_price_schedule_def set_policy_def set_state_path_def Impl_init_def coordinator_budget_def
        fresh_budget_def Budget_default_def from_units_def kMicrosPerUnit_def split: if_splits)
  then show ?thesis
    by (intro exI [of _ ?s]) (auto simp: coord_sim_def embeds_def smap_find_def inj_on_def)
qed

section \<open>Properties\<close>



end
