(* ===== verification/Interleaving.thy ===== *)
theory Interleaving
  imports Sessions
begin

text \<open>
  Sessions in parallel. Each connection of the coordinator has its own thread (\<^verbatim>\<open>run_session\<close> in
  \<^verbatim>\<open>coordinator.cpp\<close>); the handlers of \<^verbatim>\<open>RESERVE\<close>, \<^verbatim>\<open>COMMIT\<close> and \<^verbatim>\<open>RELEASE\<close> hold the lock of the table of tokens and
  the lock of the governor one after the other, so the steps of two handlers interleave. Here each such
  critical section is a step of its own, a thread remembers where it is in its handler, and any number of
  threads take their steps in any order. The other handlers change the governor in at most one critical
  section and never the table; they run as one step.

  Shown is that no interleaving overspends a hard budget, that running a handler alone is the atomic
  handler of theory \<^verbatim>\<open>Coordinator\<close>, and that two threads which commit one token at once charge it twice.
\<close>

section \<open>Threads\<close>

text \<open>
  Where a thread is: between handlers; with a copy of the reservation of a token; with the copy that the
  governor changed and its status; or with a reservation that the table does not have yet.
\<close>

datatype Activity =
    Idle
  | Looked Msg u64 BudgetReservation
  | Settled u64 BudgetReservation Status
  | Accepted BudgetReservation

record Server =
  sv_coord :: Coord
  sv_threads :: "nat \<Rightarrow> Activity"

definition settle :: "Msg \<Rightarrow> BudgetReservation \<Rightarrow> Impl \<Rightarrow> (exn + Status) \<times> BudgetReservation \<times> Impl" where
  "settle type res g = (if type = COMMIT then commit coordinator_clock res g else release res g)"

definition at_thread :: "nat \<Rightarrow> Activity \<Rightarrow> Coord \<Rightarrow> Server \<Rightarrow> Server" where
  "at_thread i a c s = s\<lparr>sv_coord := c, sv_threads := (sv_threads s)(i := a)\<rparr>"

inductive server_step :: "Server \<Rightarrow> Server \<Rightarrow> bool" where
  other: "sv_threads s i = Idle \<Longrightarrow> type \<notin> {RESERVE, COMMIT, RELEASE} \<Longrightarrow>
    handle env type payload (sv_coord s) = (r, c) \<Longrightarrow> server_step s (at_thread i Idle c s)"
| reserve: "sv_threads s i = Idle \<Longrightarrow>
    reserve coordinator_clock bid bg epch amt BudgetReservation_default (co_gov (sv_coord s)) = (r, res, g) \<Longrightarrow>
    server_step s (at_thread i (if r = Inr Status.OK then Accepted res else Idle) ((sv_coord s)\<lparr>co_gov := g\<rparr>) s)"
| insert: "sv_threads s i = Accepted res \<Longrightarrow>
    server_step s (at_thread i Idle ((sv_coord s)\<lparr>co_reservations :=
      smap_put (Id_value (r_id res)) res (co_reservations (sv_coord s))\<rparr>) s)"
| look: "sv_threads s i = Idle \<Longrightarrow> type \<in> {COMMIT, RELEASE} \<Longrightarrow>
    smap_find (co_reservations (sv_coord s)) token = Some res \<Longrightarrow>
    server_step s (at_thread i (Looked type token res) (sv_coord s) s)"
| settle: "sv_threads s i = Looked type token res \<Longrightarrow> settle type res (co_gov (sv_coord s)) = (r, res', g) \<Longrightarrow>
    server_step s (at_thread i (case r of Inl _ \<Rightarrow> Idle | Inr st \<Rightarrow> Settled token res' st) ((sv_coord s)\<lparr>co_gov := g\<rparr>) s)"
| write_back: "sv_threads s i = Settled token res st \<Longrightarrow>
    server_step s (at_thread i Idle ((sv_coord s)\<lparr>co_reservations :=
      smap_put token res (co_reservations (sv_coord s))\<rparr>) s)"

inductive_cases server_step_cases: "server_step s s'"

section \<open>Invariant\<close>

text \<open>What a thread holds has the amount of an accepted reservation.\<close>

primrec activity_ok :: "Activity \<Rightarrow> bool" where
  "activity_ok Idle = True"
| "activity_ok (Looked type token res) = (0 \<le> micros (r_amount res))"
| "activity_ok (Settled token res st) = (0 \<le> micros (r_amount res))"
| "activity_ok (Accepted res) = (0 \<le> micros (r_amount res))"

definition server_inv :: "Coord \<Rightarrow> Server \<Rightarrow> bool" where
  "server_inv c s \<longleftrightarrow> gov_evolves (co_gov c) (co_gov (sv_coord s)) \<and> table_ok (sv_coord s) \<and>
    (\<forall>i. activity_ok (sv_threads s i))"

definition server_start :: "Coord \<Rightarrow> Server \<Rightarrow> bool" where
  "server_start c s \<longleftrightarrow> sv_coord s = c \<and> table_ok c \<and> sv_threads s = (\<lambda>_. Idle)"

lemma server_inv_at [simp]:
  "server_inv c s \<Longrightarrow> gov_evolves (co_gov (sv_coord s)) (co_gov c') \<Longrightarrow> table_ok c' \<Longrightarrow> activity_ok a \<Longrightarrow>
    server_inv c (at_thread i a c' s)"
  by (auto simp: server_inv_def at_thread_def intro: gov_evolves_trans)

lemma table_ok_put [simp]:
  "table_ok c \<Longrightarrow> 0 \<le> micros (r_amount res) \<Longrightarrow>
    table_ok (c\<lparr>co_reservations := smap_put token res (co_reservations c)\<rparr>)"
  by (auto simp: table_ok_def smap_find_put)

lemma table_ok_gov [simp]: "table_ok (c\<lparr>co_gov := g\<rparr>) \<longleftrightarrow> table_ok c"
  by (simp add: table_ok_def)

lemma settle_evolves:
  "settle type res g = (r, res', g') \<Longrightarrow> 0 \<le> micros (r_amount res) \<Longrightarrow> gov_evolves g g' \<and> r_amount res' = r_amount res"
  by (auto simp: settle_def split: if_splits dest: commit_evolves release_evolves)

lemma server_step_inv:
  assumes "server_step s s'" and inv: "server_inv c s"
  shows "server_inv c s'"
proof -
  have table: "table_ok (sv_coord s)" and acts: "\<And>i. activity_ok (sv_threads s i)"
    using inv by (auto simp: server_inv_def)
  show ?thesis
    using assms(1)
  proof cases
    case (other i type env payload r c')
    then show ?thesis
      using inv handle_evolves [OF other(4) table] by simp
  next
    case (reserve i bid bg epch amt r res g)
    then show ?thesis
      using inv reserve_evolves [OF reserve(3)] table by simp
  next
    case (insert i res)
    then show ?thesis
      using inv acts [of i] table by simp
  next
    case (look i type token res)
    then show ?thesis
      using inv table by (auto simp: table_ok_def)
  next
    case (settle i type token res r res' g)
    then show ?thesis
      using inv settle_evolves [OF settle(3)] acts [of i] table by (simp split: sum.splits)
  next
    case (write_back i token res st)
    then show ?thesis
      using inv acts [of i] table by simp
  qed
qed

lemma server_start_inv: "server_start c s \<Longrightarrow> server_inv c s"
  by (simp add: server_start_def server_inv_def)

interpretation server: safe_system "server_start c" server_step "server_inv c" for c
  by unfold_locales (auto intro: server_start_inv server_step_inv)

section \<open>Atomic handlers\<close>

text \<open>A handler that runs without interruption does what the atomic handler does.\<close>

lemma at_thread_twice: "at_thread i a c (at_thread i a' c' s) = at_thread i a c s"
  by (simp add: at_thread_def)

lemma at_thread_sel [simp]: "sv_coord (at_thread i a c s) = c" "sv_threads (at_thread i a c s) = (sv_threads s)(i := a)"
  by (simp_all add: at_thread_def)

lemma at_thread_idle: "sv_threads s i = Idle \<Longrightarrow> at_thread i Idle (sv_coord s) s = s"
  by (simp add: at_thread_def fun_upd_idem)

lemma settle_runs:
  assumes "sv_threads s i = Idle" and "type \<in> {COMMIT, RELEASE}" and "handle_settle type payload (sv_coord s) = (r, c)"
  shows "server_step\<^sup>*\<^sup>* s (at_thread i Idle c s)"
  using assms(3) unfolding handle_settle_def
proof (cases rule: reading_cases)
  case (2 token rest)
  let ?c = "sv_coord s"
  show ?thesis
  proof (cases "smap_find (co_reservations ?c) token")
    case None
    then show ?thesis
      using 2(2) at_thread_idle [OF assms(1)] by auto
  next
    case (Some res)
    obtain q res' g where q: "settle type res (co_gov ?c) = (q, res', g)"
      by (cases "settle type res (co_gov ?c)") auto
    let ?s1 = "at_thread i (Looked type token res) ?c s"
    have first: "server_step s ?s1"
      by (rule server_step.look [OF assms(1, 2) Some])
    have second: "server_step ?s1 (at_thread i (case q of Inl _ \<Rightarrow> Idle | Inr st \<Rightarrow> Settled token res' st) (?c\<lparr>co_gov := g\<rparr>) s)"
      using server_step.settle [of ?s1 i type token res q res' g] q by (simp add: at_thread_twice)
    show ?thesis
    proof (cases q)
      case (Inl e)
      then show ?thesis
        using 2(2) Some first second q by (auto simp: settle_def)
    next
      case (Inr st)
      let ?s2 = "at_thread i (Settled token res' st) (?c\<lparr>co_gov := g\<rparr>) s"
      have "server_step ?s2 (at_thread i Idle (?c\<lparr>co_gov := g, co_reservations := smap_put token res' (co_reservations ?c)\<rparr>) s)"
        using server_step.write_back [of ?s2 i token res' st] by (simp add: at_thread_twice)
      then show ?thesis
        using 2(2) Some first second q Inr
        by (auto simp: settle_def intro: rtranclp.rtrancl_into_rtrancl)
    qed
  qed
qed (use at_thread_idle [OF assms(1)] in auto)

lemma reserve_runs:
  assumes "sv_threads s i = Idle" and "handle_reserve payload (sv_coord s) = (r, c)"
  shows "server_step\<^sup>*\<^sup>* s (at_thread i Idle c s)"
  using assms(2) unfolding handle_reserve_def
proof (cases rule: reading_cases)
  case (2 x rest)
  let ?c = "sv_coord s"
  obtain bid bg epch amt where x: "x = ((bid, bg), epch, amt)"
    by (metis prod.exhaust)
  obtain q res g where q: "reserve coordinator_clock bid bg epch amt BudgetReservation_default (co_gov ?c) = (q, res, g)"
    by (cases "reserve coordinator_clock bid bg epch amt BudgetReservation_default (co_gov ?c)") auto
  have first: "server_step s (at_thread i (if q = Inr Status.OK then Accepted res else Idle) (?c\<lparr>co_gov := g\<rparr>) s)"
    by (rule server_step.reserve [OF assms(1) q])
  show ?thesis
  proof (cases "q = Inr Status.OK")
    case True
    let ?s1 = "at_thread i (Accepted res) (?c\<lparr>co_gov := g\<rparr>) s"
    have "server_step ?s1 (at_thread i Idle (?c\<lparr>co_gov := g, co_reservations :=
        smap_put (Id_value (r_id res)) res (co_reservations ?c)\<rparr>) s)"
      using server_step.insert [of ?s1 i res] by (simp add: at_thread_twice)
    then show ?thesis
      using 2(2) first True by (auto simp: x q intro: rtranclp.rtrancl_into_rtrancl)
  next
    case False
    then have "c = ?c\<lparr>co_gov := g\<rparr>"
      using 2(2) by (cases q) (auto simp: x q)
    then show ?thesis
      using first False by auto
  qed
qed (use at_thread_idle [OF assms(1)] in auto)

lemma handle_runs:
  assumes "sv_threads s i = Idle" and "handle env type payload (sv_coord s) = (r, c)"
  shows "server_step\<^sup>*\<^sup>* s (at_thread i Idle c s)"
proof (cases "type \<in> {RESERVE, COMMIT, RELEASE}")
  case True
  then consider "handle_reserve payload (sv_coord s) = (r, c)" |
    "type \<in> {COMMIT, RELEASE}" "handle_settle type payload (sv_coord s) = (r, c)"
    using assms(2) by (auto simp: handle_def)
  then show ?thesis
    by cases (rule reserve_runs [OF assms(1)] settle_runs [OF assms(1)]; assumption)+
next
  case False
  then show ?thesis
    using server_step.other [OF assms(1) False assms(2)] by blast
qed

section \<open>A concrete race\<close>

text \<open>The coordinator's own budget, with a reservation of three tenths of it in the table.\<close>

definition race_gov :: Impl where
  "race_gov = (let g = set_policy coordinator_policy Impl_init in snd (create_budget (coordinator_budget g) g))"

definition race_reserve :: "(exn + Status) \<times> BudgetReservation \<times> Impl" where
  "race_reserve = reserve coordinator_clock (mk_Id 1) (mk_Id 1) (mk_Id 1) (from_micros 300000) BudgetReservation_default race_gov"

definition race_coord :: Coord where
  "race_coord = \<lparr>co_gov = snd (snd race_reserve), co_reservations = [(1, fst (snd race_reserve))],
    co_last_decision = CostDecision_default, co_fs = Map.empty\<rparr>"

lemma race_commits:
  "let r = fst (snd race_reserve); g = snd (snd race_reserve)
   in r_state r = ReservationState.ACTIVE \<and> r_budget r = mk_Id 1 \<and> r_amount r = MoneyMicros 300000 \<and>
      (case find_budget g (mk_Id 1) of None \<Rightarrow> False | Some b \<Rightarrow> b_consumed b = MoneyMicros 0) \<and>
      (case commit coordinator_clock r g of (st, _, g1) \<Rightarrow> st = Inr Status.OK \<and>
        (case commit coordinator_clock r g1 of (st', _, _) \<Rightarrow> st' = Inr Status.OK))"
  by code_simp

section \<open>Properties\<close>

text \<open>
  C4: no interleaving overspends. From idle threads and a table of accepted reservations, whatever
  messages any number of sessions handle and however the steps of their handlers interleave, every
  budget keeps its limit and mode, nothing that was spent is given back, and a hard budget that was
  within its limit stays within it.
\<close>

theorem interleaving_never_overspends:
  assumes "server_start c s" and "server_step\<^sup>*\<^sup>* s s'" and "find_budget (co_gov c) i = Some b"
  shows "\<exists>b'. find_budget (co_gov (sv_coord s')) i = Some b' \<and> b_limit b' = b_limit b \<and> b_mode b' = b_mode b \<and>
    micros (b_consumed b) \<le> micros (b_consumed b') \<and>
    (b_mode b = BudgetMode.HARD \<and> micros (b_consumed b) \<le> micros (b_limit b) \<longrightarrow>
      micros (b_consumed b') \<le> micros (b_limit b))"
proof -
  have "gov_evolves (co_gov c) (co_gov (sv_coord s'))"
    using server.inv_reachable [OF assms(1, 2)] by (simp add: server_inv_def)
  then obtain b' where "g_budgets (co_gov (sv_coord s')) i = Some b'" "budget_evolves b b'"
    using assms(3) unfolding gov_evolves_def find_budget_def by (metis domD domI)
  then show ?thesis
    by (auto simp: find_budget_def budget_evolves_def)
qed

theorem interleaving_never_overspends_witness:
  "\<exists>s s' b'. server_start sample_coord s \<and> server_step\<^sup>*\<^sup>* s s' \<and>
    find_budget (co_gov (sv_coord s')) (mk_Id 1) = Some b' \<and> micros (b_consumed b') \<le> 10000000"
proof -
  let ?s = "\<lparr>sv_coord = sample_coord, sv_threads = \<lambda>_. Idle\<rparr>"
  have start: "server_start sample_coord ?s"
    by (simp add: server_start_def table_ok_def sample_coord_def smap_find_def)
  obtain r c where "handle sample_env HELLO (Writer_u64 1 @ Writer_u64 10) (sv_coord ?s) = (r, c)"
    by (cases "handle sample_env HELLO (Writer_u64 1 @ Writer_u64 10) (sv_coord ?s)")
  then have "server_step\<^sup>*\<^sup>* ?s (at_thread 3 Idle c ?s)"
    by (intro handle_runs) simp
  moreover have "find_budget (co_gov sample_coord) (mk_Id 1) = Some (sample_budget\<lparr>b_lifecycle := BudgetLifecycle.ACTIVE\<rparr>)"
    by (simp add: find_budget_def sample_coord_def sample_governor_budgets)
  ultimately show ?thesis
    using interleaving_never_overspends [OF start] start by (fastforce simp: sample_budget_def Budget_default_def)
qed

text \<open>
  C39: two sessions that commit one token at once charge it twice. When the table has an active
  reservation and the budget has room, the steps of two \<^verbatim>\<open>COMMIT\<close> handlers can interleave so that both
  threads are answered with success, and the budget has been charged twice the reserved amount.
\<close>

theorem commit_race_charges_twice:
  assumes "smap_find (co_reservations c) token = Some r" and "r_state r = ReservationState.ACTIVE"
    and "find_budget (co_gov c) (r_budget r) = Some b"
    and "commit coordinator_clock r (co_gov c) = (Inr Status.OK, r1, g1)"
    and "commit coordinator_clock r g1 = (Inr Status.OK, r2, g2)"
  shows "\<exists>s b'. server_step\<^sup>*\<^sup>* \<lparr>sv_coord = c, sv_threads = \<lambda>_. Idle\<rparr> s \<and>
    sv_threads s 0 = Settled token r1 Status.OK \<and> sv_threads s 1 = Settled token r2 Status.OK \<and>
    find_budget (co_gov (sv_coord s)) (r_budget r) = Some b' \<and>
    micros (b_consumed b') = micros (b_consumed b) + 2 * micros (r_amount r)"
proof -
  let ?s = "\<lparr>sv_coord = c, sv_threads = \<lambda>_. Idle\<rparr>"
  let ?s1 = "at_thread 0 (Looked COMMIT token r) c ?s"
  let ?s2 = "at_thread 1 (Looked COMMIT token r) c ?s1"
  let ?s3 = "at_thread 0 (Settled token r1 Status.OK) (c\<lparr>co_gov := g1\<rparr>) ?s2"
  let ?s4 = "at_thread 1 (Settled token r2 Status.OK) (c\<lparr>co_gov := g2\<rparr>) ?s3"
  have "server_step ?s ?s1" "server_step ?s1 ?s2"
    using server_step.look [of ?s 0 COMMIT token r] server_step.look [of ?s1 1 COMMIT token r] assms(1) by simp_all
  moreover have "server_step ?s2 ?s3" "server_step ?s3 ?s4"
    using server_step.settle [of ?s2 0 COMMIT token r] server_step.settle [of ?s3 1 COMMIT token r] assms(4, 5)
    by (simp_all add: settle_def)
  ultimately have "server_step\<^sup>*\<^sup>* ?s ?s4"
    by (meson converse_rtranclp_into_rtranclp r_into_rtranclp)
  moreover obtain b' where "find_budget g2 (r_budget r) = Some b'"
    "micros (b_consumed b') = micros (b_consumed b) + 2 * micros (r_amount r)"
    using copied_charged_twice [OF assms(3, 2, 4, 5)] by blast
  ultimately show ?thesis
    by (intro exI [of _ ?s4] exI [of _ b']) simp
qed

theorem commit_race_charges_twice_witness:
  "\<exists>s b'. server_step\<^sup>*\<^sup>* \<lparr>sv_coord = race_coord, sv_threads = \<lambda>_. Idle\<rparr> s \<and>
    find_budget (co_gov (sv_coord s)) (mk_Id 1) = Some b' \<and> micros (b_consumed b') = 600000"
proof -
  let ?r = "fst (snd race_reserve)" and ?g = "snd (snd race_reserve)"
  obtain b r1 g1 r2 g2 where race: "find_budget ?g (mk_Id 1) = Some b" "b_consumed b = MoneyMicros 0"
    "commit coordinator_clock ?r ?g = (Inr Status.OK, r1, g1)" "commit coordinator_clock ?r g1 = (Inr Status.OK, r2, g2)"
    and r: "r_state ?r = ReservationState.ACTIVE" "r_budget ?r = mk_Id 1" "r_amount ?r = MoneyMicros 300000"
    using race_commits by (auto simp: Let_def split: option.splits prod.splits)
  have "smap_find (co_reservations race_coord) 1 = Some ?r"
    by (simp add: race_coord_def smap_find_def)
  from commit_race_charges_twice [OF this r(1)] race r(2, 3) show ?thesis
    by (fastforce simp: race_coord_def)
qed

end
