(* ===== verification/Workers.thy ===== *)
theory Workers
  imports Sessions
begin

text \<open>
  The worker process (\<^verbatim>\<open>worker.cpp\<close>): the messages that a worker sends after it has connected, and what
  a coordinator answers, freshly started or restarted. The two kinds of worker differ in their identity
  and their prices; the replies are read and not used.
\<close>

section \<open>The messages of a worker\<close>

definition worker_observation ::
  "PriceKind \<Rightarrow> DeviceId \<Rightarrow> MoneyMicros \<Rightarrow> WorkerBootId \<Rightarrow> WorkerId \<Rightarrow> i64 \<Rightarrow> PriceObservation"
where
  "worker_observation kind dev per_unit boot worker now =
    PriceObservation_default\<lparr>po_id := mk_Id (1000 + ucast (PriceKind_u8 kind) * 100 + Id_value dev),
      po_kind := kind, po_device := dev, po_amount := per_unit, po_currency := kDefaultCurrency,
      po_label := DataLabel.POLICY, po_provenance := Provenance.CONFIGURED_POLICY,
      po_observed_at_ms := now, po_epoch := mk_Id 1, po_worker := worker, po_boot := boot\<rparr>"

definition worker_boot_id :: "bool \<Rightarrow> u64 \<Rightarrow> WorkerBootId" where
  "worker_boot_id is_A boot_override =
    (if boot_override \<noteq> 0 then mk_Id boot_override else if is_A then mk_Id 10 else mk_Id 20)"

definition worker_number :: "bool \<Rightarrow> u64" where
  "worker_number is_A = (if is_A then 1 else 2)"

definition worker_prices :: "bool \<Rightarrow> (PriceKind \<times> MoneyMicros) list" where
  "worker_prices is_A =
    (if is_A
     then [(PriceKind.ACCELERATOR_TIME, from_micros 5000), (PriceKind.TRANSFER, from_micros 1000)]
     else [(PriceKind.ACCELERATOR_TIME, from_micros 1000), (PriceKind.TRANSFER, from_micros 10000)])"

definition worker_observations :: "bool \<Rightarrow> u64 \<Rightarrow> PriceObservation list" where
  "worker_observations is_A boot_override =
    map (\<lambda>(kind, price). worker_observation kind (mk_Id (worker_number is_A)) price
        (worker_boot_id is_A boot_override) (mk_Id (worker_number is_A)) kNow)
      (worker_prices is_A)"

definition worker_hello :: "bool \<Rightarrow> u64 \<Rightarrow> Msg \<times> bytes" where
  "worker_hello is_A boot_override =
    (HELLO, Writer_u64 (worker_number is_A) @ Writer_u64 (Id_value (worker_boot_id is_A boot_override)))"

fun publish_messages :: "PriceObservation list \<Rightarrow> exn + (Msg \<times> bytes) list" where
  "publish_messages [] = Inr []"
| "publish_messages (p # ps) =
    bindE (encode_price p) (\<lambda>bs. bindE (publish_messages ps) (\<lambda>ms. Inr ((PUBLISH_PRICE, bs) # ms)))"

definition worker_messages :: "bool \<Rightarrow> u64 \<Rightarrow> exn + (Msg \<times> bytes) list" where
  "worker_messages is_A boot_override =
    bindE (publish_messages (worker_observations is_A boot_override)) (\<lambda>ms. Inr (worker_hello is_A boot_override # ms))"

section \<open>What the coordinator answers\<close>

lemma worker_observation_ok:
  "kind = PriceKind.ACCELERATOR_TIME \<or> kind = PriceKind.TRANSFER \<Longrightarrow>
    obs_ok frame_stream (worker_observation kind dev price boot worker now)"
  by (auto simp: obs_ok_def worker_observation_def PriceObservation_default_def string_ok_def string_bound_def
      kDefaultCurrency_def enum_wf_def PriceKind_wf_def PriceKind_enumerators_def Provenance_wf_def
      Provenance_enumerators_def DataLabel_wf_def DataLabel_enumerators_def)

lemma worker_observations_ok: "list_all (obs_ok frame_stream) (worker_observations is_A boot_override)"
  by (auto simp: worker_observations_def worker_prices_def worker_observation_ok)

lemma handle_hello_put:
  "handle env HELLO (Writer_u64 w @ Writer_u64 b) c =
    (Inr (Some (PONG, Writer_u64 (Id_value (g_epoch (co_gov c))) @ Writer_u64 b)),
     c\<lparr>co_gov := set_worker_boot (mk_Id w) (mk_Id b) (co_gov c)\<rparr>)"
proof -
  have "Reader_u64 frame_stream (Writer_u64 b) = Inr (b, [])"
    using Reader_u64_put [of frame_stream b "[]"] by simp
  then show ?thesis
    by (simp add: handle_def handle_hello_def reading_def read_pair_def read_id_def codec_rules Let_def
        set_worker_boot_def)
qed

lemma handle_publish_put:
  assumes "obs_ok frame_stream p" and "encode_price p = Inr bs" and "publish_price p (co_gov c) = (st, g)"
  shows "handle env PUBLISH_PRICE bs c = after_change env st (c\<lparr>co_gov := g\<rparr>)"
proof -
  have "decode_price bs = Inr (p, [])"
    using price_codec.get_put [OF assms(1, 2), of "[]"] by simp
  then show ?thesis
    using assms(3) by (simp add: handle_def handle_publish_price_def reading_def)
qed

text \<open>Prices of another epoch than the coordinator's are refused one after the other.\<close>

lemma publish_refused:
  assumes "list_all (obs_ok frame_stream) ps" and "publish_messages ps = Inr ms"
    and "list_all (\<lambda>p. po_epoch p \<noteq> g_epoch (co_gov c)) ps"
  shows "serve envs k ms c = (replicate (length ps) (status_reply Status.STALE_AUTHORITY), c)"
  using assms
proof (induction ps arbitrary: ms k)
  case (Cons p ps)
  then obtain bs ms1 where ms: "encode_price p = Inr bs" "publish_messages ps = Inr ms1" "ms = (PUBLISH_PRICE, bs) # ms1"
    by (auto simp: bindE_eq_Inr)
  have "publish_price p (co_gov c) = (Status.STALE_AUTHORITY, co_gov c)"
    using Cons.prems(3) by (simp add: publish_price_def)
  then have "handle (envs k) PUBLISH_PRICE bs c = (Inr (Some (status_reply Status.STALE_AUTHORITY)), c)"
    using handle_publish_put [OF _ ms(1)] Cons.prems(1) by (simp add: after_change_def)
  then show ?case
    using Cons.IH [OF _ ms(2)] Cons.prems by (simp add: ms(3) answers_def)
qed simp

lemma worker_messages_sent:
  "\<exists>ms. publish_messages (worker_observations is_A b) = Inr ms \<and> worker_messages is_A b = Inr (worker_hello is_A b # ms)"
proof -
  have "\<exists>ms. publish_messages ps = Inr ms" if "list_all (obs_ok frame_stream) ps" for ps
    using that
  proof (induction ps)
    case (Cons p ps)
    then show ?case
      using price_codec.put_returns [of p] by auto
  qed simp
  then obtain ms where "publish_messages (worker_observations is_A b) = Inr ms"
    using worker_observations_ok by blast
  then show ?thesis
    by (simp add: worker_messages_def)
qed

lemma restarted_epoch:
  assumes "coordinator_start file io fs = Inr c" and "load_snapshot io file fs = Inr snap"
  shows "g_epoch (co_gov c) = Id_next (snap_epoch snap)"
proof -
  have "state_exists file fs"
    using assms(2) by (auto simp: state_exists_def state_file_exists_def load_snapshot_def throw_status_def split: option.splits)
  then show ?thesis
    using assms
    by (auto simp: coordinator_start_def Let_def load_def set_policy_def set_state_path_def advance_epoch_def)
qed

section \<open>Properties\<close>

text \<open>
  A worker cannot rejoin a restarted coordinator. A restart advances the epoch past the one of the
  state file, and a worker labels its prices with epoch 1 whatever the greeting answers; so for a state
  file of any epoch but 0, both prices of either kind of worker are refused as stale, and the restarted
  coordinator keeps the price schedule it recovered.
\<close>

lemma restart_refuses_worker:
  assumes "coordinator_start file io fs = Inr c" and "load_snapshot io file fs = Inr snap"
    and "snap_epoch snap \<noteq> mk_Id 0"
  shows "\<exists>ms rs c'. worker_messages is_A boot_override = Inr ms \<and> serve envs k ms c = (rs, c') \<and>
    tl rs = [status_reply Status.STALE_AUTHORITY, status_reply Status.STALE_AUTHORITY] \<and>
    g_schedule (co_gov c') = g_schedule (co_gov c)"
proof -
  obtain ms where ms: "publish_messages (worker_observations is_A boot_override) = Inr ms"
    "worker_messages is_A boot_override = Inr (worker_hello is_A boot_override # ms)"
    using worker_messages_sent by blast
  let ?w = "worker_number is_A" and ?b = "Id_value (worker_boot_id is_A boot_override)"
  let ?c1 = "c\<lparr>co_gov := set_worker_boot (mk_Id ?w) (mk_Id ?b) (co_gov c)\<rparr>"
  have "g_epoch (co_gov c) \<noteq> mk_Id 1"
    using restarted_epoch [OF assms(1, 2)] assms(3) by (cases "snap_epoch snap") (auto simp: Id_next_def)
  then have "list_all (\<lambda>p. po_epoch p \<noteq> g_epoch (co_gov ?c1)) (worker_observations is_A boot_override)"
    by (auto simp: worker_observations_def worker_prices_def worker_observation_def set_worker_boot_def)
  moreover have "length (worker_observations is_A boot_override) = 2"
    by (simp add: worker_observations_def worker_prices_def)
  ultimately have "serve envs (Suc k) ms ?c1 = (replicate 2 (status_reply Status.STALE_AUTHORITY), ?c1)"
    using publish_refused [OF worker_observations_ok ms(1)] by metis
  then show ?thesis
    using ms(2)
    by (simp add: worker_hello_def handle_hello_put answers_def numeral_2_eq_2 set_worker_boot_def)
qed

lemma restart_refuses_worker_witness:
  "\<exists>fs c ms rs c'. coordinator_start ''state'' good_load fs = Inr c \<and> worker_messages True 0 = Inr ms \<and>
    serve (\<lambda>_. sample_env) 0 ms c = (rs, c') \<and>
    tl rs = [status_reply Status.STALE_AUTHORITY, status_reply Status.STALE_AUTHORITY]"
proof -
  obtain fs where "persist good_save [mk_Id 1] [mk_Id 1] sample_persistent Map.empty = (Inr Status.OK, fs)"
    using sample_persist by blast
  then have snap: "load_snapshot good_load ''state'' fs = Inr (durable_snapshot [mk_Id 1] [mk_Id 1] sample_persistent)"
    using sample_persistent_durable
    by (intro save_loads) (auto simp: persist_def Let_def sample_persistent_sel good_load_def)
  then have "state_exists ''state'' fs"
    by (auto simp: state_exists_def state_file_exists_def load_snapshot_def throw_status_def split: option.splits)
  then obtain c where c: "coordinator_start ''state'' good_load fs = Inr c"
    using snap by (simp add: coordinator_start_def Let_def load_def set_policy_def set_state_path_def)
  have "snap_epoch (durable_snapshot [mk_Id 1] [mk_Id 1] sample_persistent) \<noteq> mk_Id 0"
    by (simp add: durable_snapshot_def sample_persistent_def propose_intervention_def Let_def sample_governor_budgets)
  then show ?thesis
    using restart_refuses_worker [OF c snap, of True 0 "\<lambda>_. sample_env" 0] c by blast
qed

end
