(* ===== verification/Processes.thy ===== *)
theory Processes
  imports Workers
begin

text \<open>
  How the processes of the distributed proof are started: the command lines that the runner gives to its
  children (\<^verbatim>\<open>spawn\<close> in \<^verbatim>\<open>proof_runner.cpp\<close>), and the \<^verbatim>\<open>main\<close> functions of the worker and the coordinator up
  to the point where they send or wait for messages. What the sockets answer is an argument.

  On Windows a child gets a command line, which its C runtime splits at blanks outside double quotes; on
  the other systems \<^verbatim>\<open>execlp\<close> gets all arguments as one.
\<close>

section \<open>Numbers in arguments\<close>

type_synonym i32 = "32 word"

definition is_space :: "char \<Rightarrow> bool" where
  "is_space c \<longleftrightarrow> of_char c = (32 :: nat) \<or> 9 \<le> (of_char c :: nat) \<and> of_char c \<le> (13 :: nat)"

definition is_digit :: "char \<Rightarrow> bool" where
  "is_digit c \<longleftrightarrow> 48 \<le> (of_char c :: nat) \<and> of_char c \<le> (57 :: nat)"

text \<open>The sign and the magnitude of the number that a string starts with.\<close>

definition c_number :: "string \<Rightarrow> bool \<times> int" where
  "c_number s =
    (let s1 = dropWhile is_space s;
         neg = take 1 s1 = ''-'';
         s2 = (if neg \<or> take 1 s1 = ''+'' then drop 1 s1 else s1)
     in (neg, foldl (\<lambda>n c. 10 * n + int (char_digit c)) 0 (takeWhile is_digit s2)))"

text \<open>For the numbers that an \<^verbatim>\<open>int\<close> holds; for others the C library leaves the result open.\<close>

definition atoi :: "string \<Rightarrow> i32" where
  "atoi s = (case c_number s of (neg, n) \<Rightarrow> word_of_int (if neg then - n else n))"

definition strtoull :: "string \<Rightarrow> u64" where
  "strtoull s = (case c_number s of (neg, n) \<Rightarrow>
    if n > 2 ^ 64 - 1 then -1 else word_of_int (if neg then - n else n))"

section \<open>Command lines\<close>

datatype Platform = Windows | Posix

fun split_args :: "bool \<Rightarrow> string option \<Rightarrow> string \<Rightarrow> string list" where
  "split_args quoted acc [] = (case acc of None \<Rightarrow> [] | Some a \<Rightarrow> [a])"
| "split_args quoted acc (c # cs) =
    (let a = (case acc of None \<Rightarrow> [] | Some a \<Rightarrow> a)
     in if c = CHR 0x22 then split_args (\<not> quoted) (Some a) cs
        else if \<not> quoted \<and> (c = CHR 0x20 \<or> c = CHR 0x09)
          then (case acc of None \<Rightarrow> [] | Some a \<Rightarrow> [a]) @ split_args False None cs
        else split_args quoted (Some (a @ [c])) cs)"

definition spawn_argv :: "Platform \<Rightarrow> string \<Rightarrow> string \<Rightarrow> string list" where
  "spawn_argv platform exe args =
    (case platform of
       Windows \<Rightarrow> split_args False None (CHR 0x22 # exe @ [CHR 0x22, CHR 0x20] @ args)
     | Posix \<Rightarrow> [exe, args])"

text \<open>The directory of a runner: its first argument, or on Windows the one of its executable.\<close>

definition is_separator :: "char \<Rightarrow> bool" where
  "is_separator c \<longleftrightarrow> c = CHR 0x5C \<or> c = CHR 0x2F"

definition dir_of_self :: "Platform \<Rightarrow> string \<Rightarrow> string" where
  "dir_of_self platform module =
    (case platform of
       Windows \<Rightarrow> if list_ex is_separator module
         then rev (tl (dropWhile (\<lambda>c. \<not> is_separator c) (rev module))) else ''.''
     | Posix \<Rightarrow> ''.'')"

definition runner_dir :: "Platform \<Rightarrow> string \<Rightarrow> string list \<Rightarrow> string" where
  "runner_dir platform module argv = (if length argv > 1 then argv ! 1 else dir_of_self platform module)"

section \<open>The worker\<close>

record WorkerArgs =
  wa_port :: i32
  wa_kind :: string
  wa_stay :: bool
  wa_boot_override :: u64

fun worker_options :: "string list \<Rightarrow> bool \<Rightarrow> u64 \<Rightarrow> bool \<times> u64" where
  "worker_options [] stay boot = (stay, boot)"
| "worker_options [a] stay boot = (stay \<or> a = ''--stay'', boot)"
| "worker_options (a # b # args) stay boot =
    (if a = ''--stay'' then worker_options (b # args) True boot
     else if a = ''--boot'' then worker_options args stay (strtoull b)
     else worker_options (b # args) stay boot)"

definition worker_args :: "string list \<Rightarrow> WorkerArgs" where
  "worker_args argv =
    (let (stay, boot) = worker_options (drop 3 argv) False 0
     in \<lparr>wa_port = (if length argv > 1 then atoi (argv ! 1) else 0),
         wa_kind = (if length argv > 2 then argv ! 2 else ''A''),
         wa_stay = stay, wa_boot_override = boot\<rparr>)"

text \<open>
  What a worker does on its connection: it greets, it publishes, and when it stays it sends
  \<^verbatim>\<open>PING\<close> again and again.
\<close>

datatype WorkerCall = Greet WorkerId WorkerBootId | Offer PriceObservation

definition worker_calls :: "bool \<Rightarrow> u64 \<Rightarrow> WorkerCall list" where
  "worker_calls is_A boot_override =
    Greet (mk_Id (worker_number is_A)) (worker_boot_id is_A boot_override) #
    map Offer (worker_observations is_A boot_override)"

text \<open>The exit code of a worker that gives up, or its calls and whether it stays.\<close>

definition worker_main :: "bool \<Rightarrow> string list \<Rightarrow> nat + WorkerCall list \<times> bool" where
  "worker_main connected argv =
    (let a = worker_args argv
     in if wa_port a = 0 then Inl 2
        else if \<not> connected then Inl 1
        else Inr (worker_calls (wa_kind a = ''A'') (wa_boot_override a), wa_stay a))"

section \<open>The coordinator\<close>

definition coordinator_args :: "string list \<Rightarrow> i32 \<times> string" where
  "coordinator_args argv =
    (if length argv > 1 then atoi (argv ! 1) else 0,
     if length argv > 2 then argv ! 2 else ''cg_dist_state.bin'')"

record ListenIO =
  socket_ok :: bool
  bind_ok :: bool
  listen_ok :: bool

text \<open>An exception of the start is not caught.\<close>

datatype Started = Exited nat | Terminated exn | Listening Coord

definition coordinator_main :: "ListenIO \<Rightarrow> LoadIO \<Rightarrow> string list \<Rightarrow> FileSystem \<Rightarrow> Started" where
  "coordinator_main sio io argv fs =
    (case coordinator_args argv of (port, state_file) \<Rightarrow>
      if port = 0 then Exited 2
      else (case coordinator_start state_file io fs of
         Inl e \<Rightarrow> Terminated e
       | Inr c \<Rightarrow>
           if \<not> socket_ok sio then Exited 4
           else if \<not> bind_ok sio then Exited 5
           else if \<not> listen_ok sio then Exited 6
           else Listening c))"

section \<open>Arguments that are read back\<close>

lemma digit_char_digit [simp]: "d < 10 \<Longrightarrow> is_digit (digit_char d)"
  by (simp add: is_digit_def digit_char_def)

lemma dec_digits_are_digits: "list_all is_digit (dec_digits n)"
  using dec_digits_chars [of n] digit_char_digit by (auto simp: list_all_iff)

lemma foldl_read_digits: "foldl (\<lambda>n c. 10 * n + int (char_digit c)) (int m) s =
    int (foldl (\<lambda>n c. 10 * n + char_digit c) m s)"
proof (induction s arbitrary: m)
  case (Cons c s)
  then show ?case
    using Cons [of "10 * m + char_digit c"] by simp
qed simp

lemma c_number_to_string:
  assumes "rest = [] \<or> \<not> is_digit (hd rest)"
  shows "c_number (dec_digits n @ rest) = (False, int n)"
proof -
  have digits: "\<And>c. c \<in> set (dec_digits n) \<Longrightarrow> is_digit c"
    using dec_digits_are_digits [of n] by (simp add: list_all_iff)
  obtain c s where cs: "dec_digits n = c # s"
    using dec_digits_nonempty [of n] by (cases "dec_digits n") simp_all
  then have c: "\<not> is_space c" "c \<noteq> CHR ''-''" "c \<noteq> CHR ''+''"
    using digits [of c] by (auto simp: is_digit_def is_space_def)
  have "takeWhile is_digit (dec_digits n @ rest) = dec_digits n"
    using digits assms by (cases rest) (simp_all add: takeWhile_append2)
  moreover have "foldl (\<lambda>n c. 10 * n + int (char_digit c)) 0 (dec_digits n) = int n"
    using foldl_read_digits [of 0 "dec_digits n"] read_dec_digits [of n] by (simp add: read_digits_def)
  ultimately show ?thesis
    using c cs by (simp add: c_number_def Let_def)
qed

lemma atoi_to_string:
  assumes "rest = [] \<or> \<not> is_digit (hd rest)"
  shows "atoi (dec_digits n @ rest) = of_nat n"
  by (simp add: atoi_def c_number_to_string [OF assms])

text \<open>The directory of an executable.\<close>

lemma dir_of_module:
  assumes "is_separator c" and "list_all (\<lambda>x. \<not> is_separator x) name"
  shows "dir_of_self Windows (dir @ c # name) = dir"
proof -
  have "\<And>x. x \<in> set (rev name) \<Longrightarrow> \<not> is_separator x"
    using assms(2) by (simp add: list_all_iff)
  then have "dropWhile (\<lambda>x. \<not> is_separator x) (rev name @ c # rev dir) = c # rev dir"
    using assms(1) by (subst dropWhile_append2) simp_all
  then show ?thesis
    using assms(1) by (simp add: dir_of_self_def)
qed

text \<open>Splitting a command line.\<close>

definition plain :: "string \<Rightarrow> bool" where
  "plain s \<longleftrightarrow> list_all (\<lambda>c. c \<noteq> CHR 0x22 \<and> c \<noteq> CHR 0x20 \<and> c \<noteq> CHR 0x09) s"

lemma split_args_plain: "plain w \<Longrightarrow> split_args False (Some a) (w @ r) = split_args False (Some (a @ w)) r"
  by (induction w arbitrary: a) (auto simp: plain_def)

lemma split_args_word: "plain w \<Longrightarrow> w \<noteq> [] \<Longrightarrow> split_args False None (w @ r) = split_args False (Some w) r"
  using split_args_plain [of "tl w" "[hd w]"] by (cases w) (auto simp: plain_def)

lemma split_args_quoted:
  "CHR 0x22 \<notin> set w \<Longrightarrow> split_args True (Some a) (w @ CHR 0x22 # r) = split_args False (Some (a @ w)) r"
  by (induction w arbitrary: a) auto

lemma plain_dec_digits: "plain (dec_digits n)"
  using dec_digits_are_digits [of n] by (auto simp: plain_def list_all_iff is_digit_def)

lemma windows_argv:
  assumes "CHR 0x22 \<notin> set exe"
  shows "spawn_argv Windows exe (dec_digits n @ CHR 0x20 # args) = exe # dec_digits n # split_args False None args"
  using split_args_quoted [OF assms, of "[]"] split_args_word [OF plain_dec_digits dec_digits_nonempty]
  by (simp add: spawn_argv_def)

lemma windows_quoted_argument:
  "CHR 0x22 \<notin> set state \<Longrightarrow> split_args False None (CHR 0x22 # state @ [CHR 0x22]) = [state]"
  using split_args_quoted [of state "[]" "[]"] by simp

lemma windows_coordinator_args:
  assumes "CHR 0x22 \<notin> set exe" and "CHR 0x22 \<notin> set state"
  shows "coordinator_args (spawn_argv Windows exe (dec_digits n @ [CHR 0x20, CHR 0x22] @ state @ [CHR 0x22])) = (of_nat n, state)"
  using windows_argv [OF assms(1), of n "CHR 0x22 # state @ [CHR 0x22]"] windows_quoted_argument [OF assms(2)]
    atoi_to_string [of "[]" n]
  by (simp add: coordinator_args_def)

lemma windows_worker_args:
  assumes "CHR 0x22 \<notin> set exe"
  shows "worker_args (spawn_argv Windows exe (dec_digits n @ CHR 0x20 # args)) =
    (let ws = split_args False None args; (stay, boot) = worker_options (drop 1 ws) False 0
     in \<lparr>wa_port = of_nat n, wa_kind = (if ws = [] then ''A'' else hd ws), wa_stay = stay, wa_boot_override = boot\<rparr>)"
  using windows_argv [OF assms, of n args] atoi_to_string [of "[]" n]
  by (cases "split_args False None args") (simp_all add: worker_args_def)

section \<open>Properties\<close>

text \<open>
  On other systems than Windows the children of the runner lose their arguments. Whatever follows the
  port in the command line, a worker takes itself for the worker A, does not stay and has its default
  incarnation, and a coordinator uses the default state file.
\<close>

lemma posix_arguments_lost:
  "worker_args (spawn_argv Posix exe (dec_digits n @ CHR 0x20 # args)) =
      \<lparr>wa_port = of_nat n, wa_kind = ''A'', wa_stay = False, wa_boot_override = 0\<rparr> \<and>
    coordinator_args (spawn_argv Posix exe (dec_digits n @ CHR 0x20 # args)) = (of_nat n, ''cg_dist_state.bin'')"
proof -
  have "\<not> is_digit (CHR 0x20)"
    by (simp add: is_digit_def)
  then show ?thesis
    using atoi_to_string [of "CHR 0x20 # args" n]
    by (simp add: worker_args_def coordinator_args_def spawn_argv_def)
qed

end
