(* ===== verification/Clients.thy ===== *)
theory Clients
  imports Workers
begin

text \<open>
  The client of the coordinator (\<^verbatim>\<open>Client\<close> in \<^verbatim>\<open>proof_runner.cpp\<close>): one operation per request, which writes
  the payload, sends it and reads the answer, and the values that the scenarios of the runner are made of.
  Shown is that a remote call is the local operation: the answer that the client reads is what the
  governor's operation returned, and the state of the coordinator is what it left.

  A call is given by its request and the reader of its answer. The answer of a message is the payload of
  the reply that the loop of the session sends for it; theory \<^verbatim>\<open>Sessions\<close> shows that this is what a
  connection delivers.
\<close>

section \<open>Calls\<close>

definition call :: "Env \<Rightarrow> Msg \<times> bytes \<Rightarrow> Coord \<Rightarrow> bytes \<times> Coord" where
  "call env m c = (case handle env (fst m) (snd m) c of (r, c') \<Rightarrow>
    ((case answers r of [] \<Rightarrow> [] | reply # _ \<Rightarrow> snd reply), c'))"

definition remote :: "(exn + Msg \<times> bytes) \<Rightarrow> 'a reader \<Rightarrow> Env \<Rightarrow> Coord \<Rightarrow> (exn + 'a) \<times> Coord" where
  "remote request answer env c =
    (case request of
       Inl e \<Rightarrow> (Inl e, c)
     | Inr m \<Rightarrow> (case call env m c of (py, c') \<Rightarrow>
         ((case answer py of Inl e \<Rightarrow> Inl e | Inr (x, _) \<Rightarrow> Inr x), c')))"

definition read_status :: "Status reader" where
  "read_status = bindR (Reader_u8 frame_stream) (\<lambda>b. returnR (Status_of_u8 b))"

definition hello_request :: "WorkerId \<Rightarrow> WorkerBootId \<Rightarrow> exn + Msg \<times> bytes" where
  "hello_request worker boot = Inr (HELLO, Writer_u64 (Id_value worker) @ Writer_u64 (Id_value boot))"

definition publish_request :: "PriceObservation \<Rightarrow> exn + Msg \<times> bytes" where
  "publish_request p = bindE (encode_price p) (\<lambda>bs. Inr (PUBLISH_PRICE, bs))"

definition eval_request :: "WorkloadId \<Rightarrow> WorkloadGeneration \<Rightarrow> ExecutionPlan list \<Rightarrow> exn + Msg \<times> bytes" where
  "eval_request wl wg plans = bindE (write_counted encode_plan plans) (\<lambda>bs.
    Inr (REQUEST_EVAL, Writer_u64 (Id_value wl) @ Writer_u64 (Id_value wg) @ bs))"

definition record_request :: "CostEvidence \<Rightarrow> exn + Msg \<times> bytes" where
  "record_request e = bindE (encode_evidence e) (\<lambda>bs. Inr (RECORD_ATTEMPT, bs))"

definition realize_request :: "RequestId \<Rightarrow> WorkloadId \<Rightarrow> exn + Msg \<times> bytes" where
  "realize_request req wl = Inr (REALIZE, Writer_u64 (Id_value req) @ Writer_u64 (Id_value wl))"

definition revalidate_request :: "ExecutionPlan list \<Rightarrow> exn + Msg \<times> bytes" where
  "revalidate_request plans = bindE (write_counted encode_plan plans) (\<lambda>bs. Inr (REVALIDATE, bs))"

definition read_state :: "(u64 \<times> u64 \<times> u64 \<times> u64 \<times> u64) reader" where
  "read_state =
    bindR (Reader_u64 frame_stream) (\<lambda>epoch. bindR (Reader_u64 frame_stream) (\<lambda>price_gen.
    bindR (Reader_u64 frame_stream) (\<lambda>policy_gen. bindR (Reader_u64 frame_stream) (\<lambda>budgets.
    bindR (Reader_u64 frame_stream) (\<lambda>obs. returnR (epoch, price_gen, policy_gen, budgets, obs))))))"

text \<open>The greeting reads its answer and drops it.\<close>

definition Client_hello :: "WorkerId \<Rightarrow> WorkerBootId \<Rightarrow> Env \<Rightarrow> Coord \<Rightarrow> (exn + unit) \<times> Coord" where
  "Client_hello worker boot = remote (hello_request worker boot) (returnR ())"

definition Client_publish :: "PriceObservation \<Rightarrow> Env \<Rightarrow> Coord \<Rightarrow> (exn + Status) \<times> Coord" where
  "Client_publish p = remote (publish_request p) read_status"

definition Client_eval ::
  "WorkloadId \<Rightarrow> WorkloadGeneration \<Rightarrow> ExecutionPlan list \<Rightarrow> Env \<Rightarrow> Coord \<Rightarrow> (exn + DecisionResult) \<times> Coord"
where
  "Client_eval wl wg plans = remote (eval_request wl wg plans) decode_decision"

definition Client_record :: "CostEvidence \<Rightarrow> Env \<Rightarrow> Coord \<Rightarrow> (exn + Status) \<times> Coord" where
  "Client_record e = remote (record_request e) read_status"

definition Client_realize :: "RequestId \<Rightarrow> WorkloadId \<Rightarrow> Env \<Rightarrow> Coord \<Rightarrow> (exn + Status \<times> i64) \<times> Coord" where
  "Client_realize req wl = remote (realize_request req wl) (read_pair read_status (Reader_i64 frame_stream))"

definition Client_revalidate :: "ExecutionPlan list \<Rightarrow> Env \<Rightarrow> Coord \<Rightarrow> (exn + Status) \<times> Coord" where
  "Client_revalidate plans = remote (revalidate_request plans) read_status"

definition Client_state :: "Env \<Rightarrow> Coord \<Rightarrow> (exn + u64 \<times> u64 \<times> u64 \<times> u64 \<times> u64) \<times> Coord" where
  "Client_state = remote (Inr (GET_STATE, [])) read_state"

section \<open>The values of the scenarios\<close>

definition mk_price ::
  "EvidenceId \<Rightarrow> PriceKind \<Rightarrow> DeviceId \<Rightarrow> MoneyMicros \<Rightarrow> WorkerId \<Rightarrow> WorkerBootId \<Rightarrow> i64 \<Rightarrow> PriceObservation"
where
  "mk_price i kind dev amt worker boot now =
    PriceObservation_default\<lparr>po_id := i, po_kind := kind, po_device := dev, po_amount := amt,
      po_currency := kDefaultCurrency, po_label := DataLabel.POLICY, po_provenance := Provenance.CONFIGURED_POLICY,
      po_observed_at_ms := now, po_epoch := mk_Id 1, po_worker := worker, po_boot := boot\<rparr>"

definition mk_attempt ::
  "EvidenceId \<Rightarrow> RequestId \<Rightarrow> AttemptId \<Rightarrow> DeviceId \<Rightarrow> WorkerId \<Rightarrow> WorkerBootId \<Rightarrow> i64 \<Rightarrow> i64 \<Rightarrow> CostEvidence"
where
  "mk_attempt i req att dev worker boot ns now =
    CostEvidence_default\<lparr>ev_id := i, ev_request := req, ev_attempt := att, ev_attempt_gen := mk_Id 1,
      ev_epoch := mk_Id 1, ev_worker := worker, ev_boot := boot, ev_generation := mk_Id 1,
      ev_observed_at_ms := now, ev_device := dev, ev_label := DataLabel.POLICY,
      ev_accelerator_time := Amount ns, ev_is_completion := True, ev_completed_successfully := True\<rparr>"

section \<open>Remote and local operations\<close>

text \<open>
  The contract of a request: on its domain it can be written, the handler does what the local operation
  does, and the answer holds its result; when the operation throws, so does the handler.
\<close>

locale remote_call =
  fixes request :: "'a \<Rightarrow> exn + Msg \<times> bytes"
    and answer :: "'b reader"
    and op :: "Env \<Rightarrow> 'a \<Rightarrow> Coord \<Rightarrow> (exn + 'b) \<times> Coord"
    and ok :: "'a \<Rightarrow> bool"
  assumes sent: "ok x \<Longrightarrow> \<exists>m. request x = Inr m"
    and served: "ok x \<Longrightarrow> request x = Inr m \<Longrightarrow> op env x c = (Inr y, c') \<Longrightarrow>
      \<exists>m' rest. handle env (fst m) (snd m) c = (Inr (Some m'), c') \<and> answer (snd m') = Inr (y, rest)"
    and failed: "ok x \<Longrightarrow> request x = Inr m \<Longrightarrow> op env x c = (Inl e, c') \<Longrightarrow>
      handle env (fst m) (snd m) c = (Inl e, c')"
begin

lemma remote_returns:
  assumes "ok x" and "op env x c = (Inr y, c')"
  shows "remote (request x) answer env c = (Inr y, c')"
proof -
  obtain m where m: "request x = Inr m"
    using sent [OF assms(1)] by blast
  then obtain m' rest where "handle env (fst m) (snd m) c = (Inr (Some m'), c')" "answer (snd m') = Inr (y, rest)"
    using served [OF assms(1) _ assms(2)] by blast
  then show ?thesis
    by (simp add: remote_def m call_def answers_def)
qed

lemma remote_fails:
  assumes "ok x" and "op env x c = (Inl e, c')"
  shows "remote (request x) answer env c =
    ((case answer (snd (status_reply Status.INTERVENTION_FAILED)) of Inl e' \<Rightarrow> Inl e' | Inr (y, _) \<Rightarrow> Inr y), c')"
proof -
  obtain m where m: "request x = Inr m"
    using sent [OF assms(1)] by blast
  then show ?thesis
    using failed [OF assms(1) m assms(2)] by (simp add: remote_def call_def answers_def)
qed

lemma remote_state: "ok x \<Longrightarrow> snd (remote (request x) answer env c) = snd (op env x c)"
  by (cases "op env x c"; cases "fst (op env x c)") (auto simp: remote_returns remote_fails)

end

text \<open>The local operations, with what the handlers do beside them: persisting and keeping the decision.\<close>

definition persisted :: "Env \<Rightarrow> Status \<times> Impl \<Rightarrow> Coord \<Rightarrow> (exn + Status) \<times> Coord" where
  "persisted env r c = (case r of (st, g) \<Rightarrow>
    if st = Status.OK then
      (case persist (en_save env) (en_border env) (en_iorder env) g (co_fs c) of
         (Inl e, fs) \<Rightarrow> (Inl e, c\<lparr>co_gov := g, co_fs := fs\<rparr>)
       | (Inr _, fs) \<Rightarrow> (Inr st, c\<lparr>co_gov := g, co_fs := fs\<rparr>))
    else (Inr st, c\<lparr>co_gov := g\<rparr>))"

definition local_eval ::
  "Env \<Rightarrow> WorkloadId \<times> WorkloadGeneration \<times> ExecutionPlan list \<Rightarrow> Coord \<Rightarrow> (exn + DecisionResult) \<times> Coord"
where
  "local_eval env x c = (case x of (wl, wg, plans) \<Rightarrow>
    (case evaluate coordinator_clock (en_border env) (co_gov c) wl wg (map plan_on_wire plans) of
       Inl e \<Rightarrow> (Inl e, c)
     | Inr d \<Rightarrow> (Inr (decision_summary d), c\<lparr>co_last_decision := d\<rparr>)))"

definition local_revalidate :: "Env \<Rightarrow> ExecutionPlan list \<Rightarrow> Coord \<Rightarrow> (exn + Status) \<times> Coord" where
  "local_revalidate env plans c =
    (validate_for_dispatch coordinator_clock (en_border env) (co_gov c) (co_last_decision c) (map plan_on_wire plans), c)"

definition local_realize :: "Env \<Rightarrow> RequestId \<times> WorkloadId \<Rightarrow> Coord \<Rightarrow> (exn + Status \<times> i64) \<times> Coord" where
  "local_realize env x c = (case x of (req, wl) \<Rightarrow>
    (case finalize_request coordinator_clock req wl (co_gov c) of (r, g) \<Rightarrow>
      (bindE r (\<lambda>st. bindE (realized_request_cost coordinator_clock g req) (\<lambda>cost. Inr (st, total_micros cost))),
       c\<lparr>co_gov := g\<rparr>)))"

definition plans_ok :: "ExecutionPlan list \<Rightarrow> bool" where
  "plans_ok plans \<longleftrightarrow> length plans \<le> 4096 \<and> list_all (\<lambda>p. DataLabel_wf (pl_label p)) plans"

lemma read_n_plans:
  "list_all (\<lambda>p. DataLabel_wf (pl_label p)) plans \<Longrightarrow> write_all encode_plan plans = Inr bs \<Longrightarrow>
    read_n decode_plan (length plans) (bs @ rest) = Inr (map plan_on_wire plans, rest)"
  by (induction plans arbitrary: bs) (auto simp: bindE_eq_Inr reader_inverts decode_plan_put)

lemma read_plans_put:
  assumes "plans_ok plans" and "write_counted encode_plan plans = Inr bs"
  shows "read_plans (bs @ rest) = Inr (map plan_on_wire plans, rest)"
proof -
  have "unat (of_nat (length plans) :: u32) = length plans"
    using assms(1) by (simp add: unat_of_nat plans_ok_def)
  then show ?thesis
    using assms read_n_plans by (auto simp: read_plans_def write_counted_def bindE_eq_Inr codec_rules plans_ok_def)
qed

lemma write_plans: "\<exists>bs. write_counted encode_plan plans = Inr bs"
proof -
  have "\<exists>bs. write_all encode_plan plans = Inr bs"
    by (induction plans) (auto simp: encode_plan_def)
  then show ?thesis
    by (auto simp: write_counted_def)
qed

lemma status_read: "Status_wf st \<Longrightarrow> read_status (Writer_u8 (Status_u8 st) @ rest) = Inr (st, rest)"
  by (simp add: read_status_def codec_rules)

lemma status_answer: "Status_wf st \<Longrightarrow> read_status (snd (status_reply st)) = Inr (st, Writer_u64 0)"
  by (simp add: status_reply_def status_read)

lemma named_statuses [simp]: "Status_wf st" if "\<And>b. st \<noteq> raw_Status b"
  using that by (cases st) (auto simp: Status_wf_def enum_wf_def Status_enumerators_def)

lemma intake_statuses: "Status_wf (fst (publish_price p g))" "Status_wf (fst (record_attempt e g))"
  by (auto simp: publish_price_def record_attempt_def Let_def split: option.splits)

lemma validate_status: "validate_for_dispatch clk order g d plans = Inr st \<Longrightarrow> Status_wf st"
  by (auto simp: validate_for_dispatch_def bindE_eq_Inr split: if_splits option.splits)

lemma finalize_status: "finalize_request clk req wl g = (Inr st, g') \<Longrightarrow> Status_wf st"
  by (auto simp: finalize_request_def Let_def split: if_splits option.splits sum.splits prod.splits)

lemma after_change_persisted:
  "Status_wf st \<Longrightarrow> persisted env (st, g) c = (Inr y, c') \<Longrightarrow>
    \<exists>m. after_change env st (c\<lparr>co_gov := g\<rparr>) = (Inr (Some m), c') \<and> read_status (snd m) = Inr (y, Writer_u64 0)"
  "persisted env (st, g) c = (Inl e, c') \<Longrightarrow> after_change env st (c\<lparr>co_gov := g\<rparr>) = (Inl e, c')"
  by (auto simp: persisted_def after_change_def status_answer simp del: split_paired_Ex
      split: if_splits prod.splits sum.splits)

text \<open>The requests that change the state and persist it: a payload in some codec, and a status as answer.\<close>

lemma intake_remote:
  assumes "byte_codec put get ok" and "\<And>x g. Status_wf (fst (f x g))"
    and "\<And>env bs c. handle env t bs c =
      reading get bs c (\<lambda>x. case f x (co_gov c) of (st, g) \<Rightarrow> after_change env st (c\<lparr>co_gov := g\<rparr>))"
  shows "remote_call (\<lambda>x. bindE (put x) (\<lambda>bs. Inr (t, bs))) read_status (\<lambda>env x c. persisted env (f x (co_gov c)) c) ok"
proof
  fix x m env y e and c c' :: Coord
  assume ok: "ok x"
  show "\<exists>m. bindE (put x) (\<lambda>bs. Inr (t, bs)) = Inr m"
    using byte_codec.put_returns [OF assms(1) ok] by auto
  obtain st g where f: "f x (co_gov c) = (st, g)" "Status_wf st"
    using assms(2) [of x "co_gov c"] by (cases "f x (co_gov c)") simp
  assume "bindE (put x) (\<lambda>bs. Inr (t, bs)) = Inr m"
  then obtain bs where bs: "put x = Inr bs" "m = (t, bs)"
    by (auto simp: bindE_eq_Inr)
  have h: "handle env (fst m) (snd m) c = after_change env st (c\<lparr>co_gov := g\<rparr>)"
    using byte_codec.get_put [OF assms(1) ok bs(1), of "[]"] f(1) bs(2) by (simp add: assms(3) reading_def)
  show "\<exists>m' rest. handle env (fst m) (snd m) c = (Inr (Some m'), c') \<and> read_status (snd m') = Inr (y, rest)"
    if "persisted env (f x (co_gov c)) c = (Inr y, c')"
    using after_change_persisted(1) [OF f(2)] that by (metis h f(1))
  show "handle env (fst m) (snd m) c = (Inl e, c')" if "persisted env (f x (co_gov c)) c = (Inl e, c')"
    using after_change_persisted(2) that by (simp add: h f(1))
qed

interpretation publishing: remote_call publish_request read_status
  "\<lambda>env p c. persisted env (publish_price p (co_gov c)) c" "obs_ok frame_stream"
  unfolding publish_request_def
  by (rule intake_remote [OF price_codec.byte_codec_axioms intake_statuses(1)])
    (simp add: handle_def handle_publish_price_def)

interpretation recording: remote_call record_request read_status
  "\<lambda>env e c. persisted env (record_attempt e (co_gov c)) c" evidence_ok
  unfolding record_request_def
  by (rule intake_remote [OF evidence_codec.byte_codec_axioms intake_statuses(2)])
    (simp add: handle_def handle_record_attempt_def)

interpretation evaluating: remote_call "\<lambda>(wl, wg, plans). eval_request wl wg plans" decode_decision local_eval
  "\<lambda>(wl, wg, plans). plans_ok plans"
proof
  fix x :: "WorkloadId \<times> WorkloadGeneration \<times> ExecutionPlan list" and m env y e and c c' :: Coord
  obtain wl wg plans where x: "x = (wl, wg, plans)"
    by (cases x)
  assume "case x of (wl, wg, plans) \<Rightarrow> plans_ok plans"
  then have ok: "plans_ok plans"
    by (simp add: x)
  obtain bs where bs: "write_counted encode_plan plans = Inr bs"
    using write_plans by blast
  then show "\<exists>m. (case x of (wl, wg, plans) \<Rightarrow> eval_request wl wg plans) = Inr m"
    by (simp add: x eval_request_def)
  assume "(case x of (wl, wg, plans) \<Rightarrow> eval_request wl wg plans) = Inr m"
  then have m: "m = (REQUEST_EVAL, Writer_u64 (Id_value wl) @ Writer_u64 (Id_value wg) @ bs)"
    using bs by (simp add: x eval_request_def)
  have h: "handle env (fst m) (snd m) c =
      (case evaluate coordinator_clock (en_border env) (co_gov c) wl wg (map plan_on_wire plans) of
         Inl e \<Rightarrow> (Inl e, c) | Inr d \<Rightarrow> (Inr (Some (EVAL_RESULT, encode_decision d)), c\<lparr>co_last_decision := d\<rparr>))"
    using read_plans_put [OF ok bs, of "[]"]
    by (simp add: m handle_def handle_request_eval_def reading_def read_pair_def read_id_def codec_rules)
  show "\<exists>m' rest. handle env (fst m) (snd m) c = (Inr (Some m'), c') \<and> decode_decision (snd m') = Inr (y, rest)"
    if "local_eval env x c = (Inr y, c')"
    using that decode_decision_put [where rest = "[]"]
    by (auto simp: h x local_eval_def split: sum.splits)
  show "handle env (fst m) (snd m) c = (Inl e, c')" if "local_eval env x c = (Inl e, c')"
    using that by (auto simp: h x local_eval_def split: sum.splits)
qed

interpretation revalidating: remote_call revalidate_request read_status local_revalidate plans_ok
proof
  fix plans m env y e and c c' :: Coord
  assume ok: "plans_ok plans"
  obtain bs where bs: "write_counted encode_plan plans = Inr bs"
    using write_plans by blast
  then show "\<exists>m. revalidate_request plans = Inr m"
    by (simp add: revalidate_request_def)
  assume "revalidate_request plans = Inr m"
  then have m: "m = (REVALIDATE, bs)"
    using bs by (simp add: revalidate_request_def)
  have h: "handle env (fst m) (snd m) c =
      (case validate_for_dispatch coordinator_clock (en_border env) (co_gov c) (co_last_decision c) (map plan_on_wire plans) of
         Inl e \<Rightarrow> (Inl e, c) | Inr st \<Rightarrow> (Inr (Some (status_reply st)), c))"
    using read_plans_put [OF ok bs, of "[]"] by (simp add: m handle_def handle_revalidate_def reading_def)
  show "\<exists>m' rest. handle env (fst m) (snd m) c = (Inr (Some m'), c') \<and> read_status (snd m') = Inr (y, rest)"
    if "local_revalidate env plans c = (Inr y, c')"
  proof -
    have y: "validate_for_dispatch coordinator_clock (en_border env) (co_gov c) (co_last_decision c) (map plan_on_wire plans) =
        Inr y" "c' = c"
      using that by (auto simp: local_revalidate_def)
    then show ?thesis
      using status_answer [OF validate_status [OF y(1)]] by (simp add: h del: split_paired_Ex)
  qed
  show "handle env (fst m) (snd m) c = (Inl e, c')" if "local_revalidate env plans c = (Inl e, c')"
  proof -
    have "validate_for_dispatch coordinator_clock (en_border env) (co_gov c) (co_last_decision c) (map plan_on_wire plans) =
        Inl e" "c' = c"
      using that by (auto simp: local_revalidate_def)
    then show ?thesis
      by (simp add: h)
  qed
qed

interpretation realizing: remote_call "\<lambda>(req, wl). realize_request req wl"
  "read_pair read_status (Reader_i64 frame_stream)" local_realize "\<lambda>_. True"
proof
  fix x :: "RequestId \<times> WorkloadId" and m env y e and c c' :: Coord
  obtain req wl where x: "x = (req, wl)"
    by (cases x)
  show "\<exists>m. (case x of (req, wl) \<Rightarrow> realize_request req wl) = Inr m"
    by (simp add: x realize_request_def)
  assume "(case x of (req, wl) \<Rightarrow> realize_request req wl) = Inr m"
  then have m: "m = (REALIZE, Writer_u64 (Id_value req) @ Writer_u64 (Id_value wl))"
    by (simp add: x realize_request_def)
  have "Reader_u64 frame_stream (Writer_u64 (Id_value wl)) = Inr (Id_value wl, [])"
    using Reader_u64_put [of frame_stream "Id_value wl" "[]"] by simp
  then have h: "handle env (fst m) (snd m) c =
      (case finalize_request coordinator_clock req wl (co_gov c) of
         (Inl e, g) \<Rightarrow> (Inl e, c\<lparr>co_gov := g\<rparr>)
       | (Inr st, g) \<Rightarrow> (case realized_request_cost coordinator_clock g req of
           Inl e \<Rightarrow> (Inl e, c\<lparr>co_gov := g\<rparr>)
         | Inr cost \<Rightarrow> (Inr (Some (PONG, Writer_u8 (Status_u8 st) @ Writer_i64 (total_micros cost))), c\<lparr>co_gov := g\<rparr>)))"
    by (simp add: m handle_def handle_realize_def reading_def read_pair_def read_id_def codec_rules)
  show "\<exists>m' rest. handle env (fst m) (snd m) c = (Inr (Some m'), c') \<and>
      read_pair read_status (Reader_i64 frame_stream) (snd m') = Inr (y, rest)"
    if "local_realize env x c = (Inr y, c')"
    using that Reader_i64_put [of frame_stream _ "[]"] status_read [OF finalize_status]
    by (auto simp: h x local_realize_def bindE_eq_Inr read_pair_def bindR_def split: prod.splits sum.splits)
  show "handle env (fst m) (snd m) c = (Inl e, c')" if "local_realize env x c = (Inl e, c')"
    using that by (auto simp: h x local_realize_def bindE_def split: prod.splits sum.splits)
qed

lemma Client_hello_effect:
  "Client_hello worker boot env c = (Inr (), c\<lparr>co_gov := set_worker_boot worker boot (co_gov c)\<rparr>)"
  using handle_hello_put [of env "Id_value worker" "Id_value boot" c]
  by (simp add: Client_hello_def remote_def hello_request_def call_def answers_def returnR_def)

lemma Client_publish_accepted:
  assumes "obs_ok frame_stream p" and "Client_publish p env c = (Inr Status.OK, c')"
  shows "publish_price p (co_gov c) = (Status.OK, co_gov c') \<and> co_last_decision c' = co_last_decision c"
proof (cases "persisted env (publish_price p (co_gov c)) c")
  case (Pair r c1)
  show ?thesis
  proof (cases r)
    case (Inl e)
    then have "Client_publish p env c = (Inr Status.INTERVENTION_FAILED, c1)"
      using publishing.remote_fails [OF assms(1)] Pair by (simp add: Client_publish_def status_answer)
    then show ?thesis
      using assms(2) by simp
  next
    case (Inr st)
    then have "Client_publish p env c = (Inr st, c1)"
      using publishing.remote_returns [OF assms(1)] Pair by (simp add: Client_publish_def)
    then show ?thesis
      using assms(2) Pair Inr by (auto simp: persisted_def split: prod.splits if_splits sum.splits)
  qed
qed

lemma plan_on_wire_id [simp]: "pl_id (plan_on_wire p) = pl_id p"
  by (simp add: plan_on_wire_def)

section \<open>A concrete client\<close>

text \<open>A fresh coordinator that has a price for device 1 from worker 3, and a plan for that worker.\<close>

definition runner_env :: Env where
  "runner_env = \<lparr>en_border = [mk_Id 1], en_iorder = [], en_save = good_save\<rparr>"

definition runner_gov :: Impl where
  "runner_gov =
    (let g = set_price_schedule (PriceSchedule_default\<lparr>ps_id := mk_Id 1, ps_generation := mk_Id 1, ps_created_at_ms := kNow\<rparr>)
           (set_policy coordinator_policy Impl_init)
     in snd (publish_price (mk_price (mk_Id 7001) PriceKind.ACCELERATOR_TIME (mk_Id 1) (from_micros 5000) (mk_Id 3) (mk_Id 50) kNow)
          (set_worker_boot (mk_Id 3) (mk_Id 50) (snd (create_budget (coordinator_budget g) g)))))"

definition runner_coord :: Coord where
  "runner_coord = \<lparr>co_gov = runner_gov, co_reservations = [], co_last_decision = CostDecision_default, co_fs = Map.empty\<rparr>"

definition runner_plan :: ExecutionPlan where
  "runner_plan = ExecutionPlan_default\<lparr>pl_id := mk_Id 7, pl_generation := mk_Id 1, pl_workload := mk_Id 2,
    pl_workload_generation := mk_Id 1, pl_device := mk_Id 1, pl_worker := mk_Id 3,
    pl_expected_accelerator_time := Amount 1000000000, pl_expected_requests := 1\<rparr>"

lemma runner_evaluates:
  "case evaluate coordinator_clock [mk_Id 1] runner_gov (mk_Id 2) (mk_Id 1) [plan_on_wire runner_plan] of
     Inl _ \<Rightarrow> False
   | Inr d \<Rightarrow> d_kind d = DecisionKind.AUTHORIZE \<and> total_micros (bd_total (d_projected d)) = 5000 \<and>
       ctx_worker (d_authority d) = mk_Id 3 \<and> ctx_boot (d_authority d) = mk_Id 50"
  by code_simp

section \<open>Properties\<close>



end
