(* ===== verification/Restart.thy ===== *)
theory Restart
  imports Sessions
begin

text \<open>
  A coordinator that stops and starts again. Whatever bytes its clients sent, what the coordinator holds
  can be written and read back, so the state file always loads; and the budgets of the new coordinator
  are those of a moment between the old one's start and its end.
\<close>

section \<open>States that can be written\<close>

definition durable_inv :: "Impl \<Rightarrow> bool" where
  "durable_inv g \<longleftrightarrow> policy_ok (g_policy g) \<and> list_all (obs_ok snapshot_stream) (ps_observations (g_schedule g)) \<and>
    keyed b_id (g_budgets g) \<and> Ball (ran (g_budgets g)) budget_ok \<and>
    keyed ci_id (g_interventions g) \<and> Ball (ran (g_interventions g)) (\<lambda>i. interv_ok (intervention_entry i))"

text \<open>There is room for \<open>n\<close> more observations and history entries.\<close>

definition room :: "nat \<Rightarrow> Impl \<Rightarrow> bool" where
  "room n g \<longleftrightarrow> length (ps_observations (g_schedule g)) + n \<le> 1000000 \<and> length (g_history g) + n \<le> 1000000 \<and>
    card (dom (g_budgets g)) \<le> 1000000 \<and> card (dom (g_interventions g)) \<le> 1000000"

lemma length_umap_values: "iteration_order m ks \<Longrightarrow> length (umap_values m ks) = card (dom m)"
proof -
  assume order: "iteration_order m ks"
  have "length (umap_values m ks) = length ks" if "set ks \<subseteq> dom m" for ks
    using that by (induction ks) (auto simp: umap_values_def List.map_filter_def)
  then show ?thesis
    using order distinct_card [of ks] by (simp add: iteration_order_def)
qed

lemma durable_snapshot_ok:
  assumes "durable_inv g" and "room 0 g" and "iteration_order (g_budgets g) border"
    and "iteration_order (g_interventions g) iorder"
  shows "snapshot_ok (durable_snapshot border iorder g)"
  using assms
  by (simp add: snapshot_ok_def durable_snapshot_def durable_inv_def room_def list_all_iff set_umap_values
      length_umap_values)

lemma obs_ok_wire: "obs_ok frame_stream p \<Longrightarrow> obs_ok snapshot_stream p"
  by (auto simp: obs_ok_def string_ok_def string_bound_def)

lemma replace_observation_parts:
  "replace_observation p xs = Some ys \<Longrightarrow> length ys = length xs"
  "replace_observation p xs = Some ys \<Longrightarrow> y \<in> set ys \<Longrightarrow> y = p \<or> y \<in> set xs"
  by (induction xs arbitrary: ys) (auto split: if_splits)

section \<open>Every handler\<close>

text \<open>What a handler leaves of the governor, as far as the snapshot is concerned.\<close>

definition grows :: "Impl \<Rightarrow> Impl \<Rightarrow> bool" where
  "grows g g' \<longleftrightarrow> (durable_inv g \<longrightarrow> durable_inv g') \<and> g_store g' = g_store g \<and> g_interventions g' = g_interventions g \<and>
    dom (g_budgets g') = dom (g_budgets g) \<and> (\<forall>n. room (Suc n) g \<longrightarrow> room n g')"

lemma grows_refl [simp]: "grows g g"
  by (auto simp: grows_def room_def)

lemma grows_publish:
  "publish_price p g = (st, g') \<Longrightarrow> obs_ok frame_stream p \<Longrightarrow> grows g g'"
  by (auto simp: publish_price_def Let_def grows_def durable_inv_def room_def list_all_iff
      dest: replace_observation_parts obs_ok_wire split: if_splits option.splits)

lemma grows_intake:
  "record_attempt e g = (st, g') \<Longrightarrow> grows g g'"
  "finalize_request clk req w g = (r, g') \<Longrightarrow> grows g g'"
  "grows g (set_worker_boot worker boot g)"
  by (auto simp: record_attempt_def finalize_request_def set_worker_boot_def Let_def grows_def durable_inv_def room_def
      split: if_splits option.splits sum.splits)

lemma grows_put:
  assumes "g_budgets g i = Some b" and "g_budgets g' = (g_budgets g)(i \<mapsto> b')"
    and "b_id b' = b_id b" and "budget_ok b \<Longrightarrow> budget_ok b'"
    and "g_policy g' = g_policy g" and "g_schedule g' = g_schedule g" and "g_history g' = g_history g"
    and "g_interventions g' = g_interventions g" and "g_store g' = g_store g"
  shows "grows g g'"
proof -
  have "dom (g_budgets g') = dom (g_budgets g)"
    using assms(1, 2) by auto
  moreover have "keyed b_id (g_budgets g')" if "keyed b_id (g_budgets g)"
    using that assms(1-3) by (auto simp: keyed_def)
  moreover have "budget_ok x" if "Ball (ran (g_budgets g)) budget_ok" "x \<in> ran (g_budgets g')" for x
    using that assms(1, 2, 4) by (auto simp: ran_def split: if_splits)
  ultimately show ?thesis
    using assms(5-9) by (auto simp: grows_def durable_inv_def room_def)
qed

lemma named_lifecycles [simp]: "BudgetLifecycle_wf l" if "\<And>b. l \<noteq> raw_BudgetLifecycle b"
  using that by (cases l) (auto simp: BudgetLifecycle_wf_def enum_wf_def BudgetLifecycle_enumerators_def)

lemma derived_lifecycles [simp]: "BudgetLifecycle_wf (consumed_lifecycle b)" "BudgetLifecycle_wf (released_lifecycle rs b)"
  by (simp_all add: consumed_lifecycle_def released_lifecycle_def)

lemma grows_reserve: "reserve clk i gen epoch amount out g = (res, r, g') \<Longrightarrow> grows g g'"
  by (cases "g_budgets g i")
    (auto simp: reserve_def Let_def budget_ok_def intro!: grows_put split: if_splits sum.splits)

lemma grows_commit: "commit clk r g = (res, r', g') \<Longrightarrow> grows g g'"
  by (cases "g_budgets g (r_budget r)")
    (auto simp: commit_def Let_def budget_ok_def intro!: grows_put split: if_splits sum.splits)

lemma grows_release: "release r g = (res, r', g') \<Longrightarrow> grows g g'"
  by (cases "g_budgets g (r_budget r)")
    (auto simp: release_def Let_def budget_ok_def intro!: grows_put split: if_splits sum.splits)

definition disk_step :: "Env \<Rightarrow> Coord \<Rightarrow> Coord \<Rightarrow> bool" where
  "disk_step env c c' \<longleftrightarrow> co_fs c' = co_fs c \<or>
    (\<exists>r. persist (en_save env) (en_border env) (en_iorder env) (co_gov c') (co_fs c) = (r, co_fs c'))"

definition handled_ok :: "Env \<Rightarrow> Coord \<Rightarrow> Coord \<Rightarrow> bool" where
  "handled_ok env c c' \<longleftrightarrow> grows (co_gov c) (co_gov c') \<and> disk_step env c c'"

lemma handled_ok_gov: "grows (co_gov c) (co_gov c') \<Longrightarrow> co_fs c' = co_fs c \<Longrightarrow> handled_ok env c c'"
  by (simp add: handled_ok_def disk_step_def)

lemma after_change_ok:
  "after_change env st (c\<lparr>co_gov := g\<rparr>) = (res, c') \<Longrightarrow> grows (co_gov c) g \<Longrightarrow> handled_ok env c c'"
  by (auto simp: after_change_def handled_ok_def disk_step_def split: if_splits prod.splits sum.splits)

lemma decode_price_ok: "decode_price bs = Inr (p, rest) \<Longrightarrow> obs_ok frame_stream p"
  by (simp add: decode_price_def read_records_ok(1))

lemma handle_hello_ok: "handle_hello payload c = (res, c') \<Longrightarrow> handled_ok env c c'"
  unfolding handle_hello_def
  by (erule reading_cases) (auto simp: Let_def handled_ok_gov grows_intake(3) split: prod.splits)

lemma handle_publish_price_ok: "handle_publish_price env payload c = (res, c') \<Longrightarrow> handled_ok env c c'"
  unfolding handle_publish_price_def
  by (erule reading_cases)
    (auto intro: handled_ok_gov after_change_ok grows_publish decode_price_ok split: prod.splits)

lemma handle_record_attempt_ok: "handle_record_attempt env payload c = (res, c') \<Longrightarrow> handled_ok env c c'"
  unfolding handle_record_attempt_def
  by (erule reading_cases) (auto intro: handled_ok_gov after_change_ok grows_intake(1) split: prod.splits)

lemma handle_query_ok:
  "handle_request_eval env payload c = (res, c') \<Longrightarrow> handled_ok env c c'"
  "handle_revalidate env payload c = (res, c') \<Longrightarrow> handled_ok env c c'"
  unfolding handle_request_eval_def handle_revalidate_def
  by (erule reading_cases; auto intro: handled_ok_gov split: prod.splits sum.splits)+

lemma handle_realize_ok: "handle_realize payload c = (res, c') \<Longrightarrow> handled_ok env c c'"
  unfolding handle_realize_def
  by (erule reading_cases) (auto intro: handled_ok_gov dest!: grows_intake(2) split: prod.splits sum.splits)

lemma handle_reserve_ok: "handle_reserve payload c = (res, c') \<Longrightarrow> handled_ok env c c'"
  unfolding handle_reserve_def
  by (erule reading_cases) (auto intro: handled_ok_gov dest!: grows_reserve split: prod.splits sum.splits)

lemma handle_settle_ok: "handle_settle type payload c = (res, c') \<Longrightarrow> handled_ok env c c'"
  unfolding handle_settle_def
  by (erule reading_cases)
    (auto intro!: handled_ok_gov dest!: grows_commit grows_release split: option.splits if_splits prod.splits sum.splits)

lemma handle_get_state_ok: "handle_get_state env c = (res, c') \<Longrightarrow> handled_ok env c c'"
  by (drule handle_get_state_same) (simp add: handled_ok_gov)

lemma handle_ok: "handle env type payload c = (res, c') \<Longrightarrow> handled_ok env c c'"
  by (cases type)
    (auto simp: handle_def intro: handle_hello_ok handle_publish_price_ok handle_record_attempt_ok handle_query_ok
      handle_realize_ok handle_reserve_ok handle_settle_ok handle_get_state_ok handled_ok_gov)

section \<open>The state file\<close>

text \<open>
  The file holds what it held at the start, or the snapshot of a state between the start and now.
\<close>

definition disk_inv :: "string \<Rightarrow> Coord \<Rightarrow> Coord \<Rightarrow> bool" where
  "disk_inv path c0 c \<longleftrightarrow> co_fs c path = co_fs c0 path \<or>
    (\<exists>g border iorder bs. co_fs c path = Some bs \<and> decode bs = Inr (durable_snapshot border iorder g) \<and>
      durable_inv g \<and> iteration_order (g_budgets g) border \<and> iteration_order (g_interventions g) iorder \<and>
      gov_evolves (co_gov c0) g \<and> gov_evolves g (co_gov c))"

lemma persist_disk:
  assumes "persist io border iorder g fs = (r, fs')" and "g_store g = Some path"
    and "snapshot_ok (durable_snapshot border iorder g)"
  shows "fs' path = fs path \<or> (\<exists>bs. fs' path = Some bs \<and> decode bs = Inr (durable_snapshot border iorder g))"
proof -
  let ?s = "durable_snapshot border iorder g"
  obtain payload where payload: "write_payload ?s = Inr payload" "read_payload payload = Inr (?s, [])"
    using payload_roundtrip [OF assms(3)] by blast
  have "decode (encode_header payload @ payload) = Inr ?s"
    using decode_encoded [OF payload_length_ok [OF assms(3) payload(1)]] payload(2) by simp
  moreover have "fs' = last (save_trace io path (encode_header payload @ payload) fs)"
    using assms(1, 2) payload(1) by (simp add: persist_def Let_def save_def encode_def)
  ultimately show ?thesis
    by (simp add: save_trace_last)
qed

text \<open>The orders in which the tables are iterated for a message.\<close>

definition orders_ok :: "Coord \<Rightarrow> Env \<Rightarrow> bool" where
  "orders_ok c env \<longleftrightarrow> iteration_order (g_budgets (co_gov c)) (en_border env) \<and>
    iteration_order (g_interventions (co_gov c)) (en_iorder env)"

text \<open>What holds after any messages, with room for \<open>n\<close> more.\<close>

definition run_inv :: "string \<Rightarrow> Coord \<Rightarrow> nat \<Rightarrow> Coord \<Rightarrow> bool" where
  "run_inv path c0 n c \<longleftrightarrow> durable_inv (co_gov c) \<and> room n (co_gov c) \<and> g_store (co_gov c) = Some path \<and>
    g_interventions (co_gov c) = g_interventions (co_gov c0) \<and> dom (g_budgets (co_gov c)) = dom (g_budgets (co_gov c0)) \<and>
    table_ok c \<and> gov_evolves (co_gov c0) (co_gov c) \<and> disk_inv path c0 c"

lemma iteration_order_dom: "dom m' = dom m \<Longrightarrow> iteration_order m' ks = iteration_order m ks"
  by (simp add: iteration_order_def)

lemma handle_run_inv:
  assumes "run_inv path c0 (Suc n) c" and "orders_ok c0 env" and h: "handle env type payload c = (r, c')"
  shows "run_inv path c0 n c'"
proof -
  have inv: "durable_inv (co_gov c)" "room (Suc n) (co_gov c)" "g_store (co_gov c) = Some path" "table_ok c"
    "gov_evolves (co_gov c0) (co_gov c)" "disk_inv path c0 c"
    using assms(1) by (simp_all add: run_inv_def)
  have grows: "grows (co_gov c) (co_gov c')" and disk: "disk_step env c c'"
    using handle_ok [OF h] by (simp_all add: handled_ok_def)
  have evolves: "gov_evolves (co_gov c) (co_gov c')" "table_ok c'"
    using handle_evolves [OF h inv(4)] by simp_all
  have kept: "durable_inv (co_gov c')" "room n (co_gov c')" "g_store (co_gov c') = Some path"
    "g_interventions (co_gov c') = g_interventions (co_gov c0)" "dom (g_budgets (co_gov c')) = dom (g_budgets (co_gov c0))"
    using grows inv(1-3) assms(1) by (auto simp: grows_def run_inv_def)
  have orders: "iteration_order (g_budgets (co_gov c')) (en_border env)"
    "iteration_order (g_interventions (co_gov c')) (en_iorder env)"
    using assms(2) iteration_order_dom [OF kept(5)] by (simp_all add: orders_ok_def kept(4))
  have total: "gov_evolves (co_gov c0) (co_gov c')"
    using gov_evolves_trans [OF inv(5) evolves(1)] .
  have room0: "room 0 (co_gov c')"
    using kept(2) by (simp add: room_def)
  note snap = durable_snapshot_ok [OF kept(1) room0 orders]
  consider "co_fs c' path = co_fs c path" |
    bs where "co_fs c' path = Some bs" "decode bs = Inr (durable_snapshot (en_border env) (en_iorder env) (co_gov c'))"
    using disk persist_disk [OF _ kept(3) snap] unfolding disk_step_def by metis
  then have "disk_inv path c0 c'"
  proof cases
    case 1
    then show ?thesis
      using inv(6) gov_evolves_trans [OF _ evolves(1)] unfolding disk_inv_def by metis
  next
    case 2
    then show ?thesis
      using kept(1) orders total gov_evolves_refl unfolding disk_inv_def by metis
  qed
  then show ?thesis
    using kept evolves(2) total by (simp add: run_inv_def)
qed

lemma serve_run_inv:
  assumes "\<And>k. orders_ok c0 (envs k)"
  shows "run_inv path c0 (length ms + n) c \<Longrightarrow> serve envs k ms c = (rs, c') \<Longrightarrow> run_inv path c0 n c'"
proof (induction ms arbitrary: k c rs)
  case (Cons m ms)
  obtain type payload where m: "m = (type, payload)"
    by (cases m)
  obtain r c1 where h: "handle (envs k) type payload c = (r, c1)"
    by (cases "handle (envs k) type payload c")
  have "run_inv path c0 (length ms + n) c1"
    using handle_run_inv [OF _ assms h] Cons.prems(1) by simp
  then show ?case
    using Cons.IH Cons.prems(2) h by (auto simp: m split: prod.splits)
qed simp

section \<open>Starting\<close>

lemma loaded_durable:
  assumes "load io fs g = (Inr st, g1)" and "g_store g = Some path"
  shows "durable_inv g1 \<and> g_store g1 = Some path"
proof -
  obtain s where s: "load_snapshot io path fs = Inr s"
    using assms by (auto simp: load_def split: sum.splits)
  then have ok: "snapshot_ok s"
    using decode_ok by (auto simp: load_snapshot_def throw_status_def split: option.splits if_splits)
  have g1: "g_policy g1 = snap_policy s" "g_schedule g1 = snap_price_schedule s" "g_store g1 = Some path"
    "g_budgets g1 i = map_option restored_budget (find (\<lambda>b. b_id b = i) (snap_budgets s))"
    "g_interventions g1 j = map_option restored_intervention (find (\<lambda>e. ie_id e = j) (snap_interventions s))" for i j
    using assms s by (auto simp: load_def fold_emplace)
  have budget: "budget_ok (restored_budget b) \<and> b_id (restored_budget b) = b_id b" if "budget_ok b" for b
    using that by (auto simp: restored_budget_def Let_def budget_ok_def)
  have interv: "interv_ok (intervention_entry (restored_intervention e)) \<and> ci_id (restored_intervention e) = ie_id e"
    if "interv_ok e" for e
    using that by (simp add: restored_intervention_def intervention_entry_def interv_ok_def)
  have "list_all budget_ok (snap_budgets s)" "list_all interv_ok (snap_interventions s)"
    using ok by (simp_all add: snapshot_ok_def)
  then have "keyed b_id (g_budgets g1)" "Ball (ran (g_budgets g1)) budget_ok"
    "keyed ci_id (g_interventions g1)" "Ball (ran (g_interventions g1)) (\<lambda>i. interv_ok (intervention_entry i))"
    using budget interv by (auto simp: keyed_def ran_def g1(4, 5) list_all_iff find_Some_iff)
  then show ?thesis
    using ok by (simp add: durable_inv_def g1(1-3) snapshot_ok_def)
qed

lemma fresh_durable:
  fixes path g defines "g \<equiv> set_price_schedule (PriceSchedule_default\<lparr>ps_id := mk_Id 1, ps_generation := mk_Id 1,
    ps_created_at_ms := kNow\<rparr>) (set_policy coordinator_policy (set_state_path path Impl_init))"
  shows "durable_inv (snd (create_budget (coordinator_budget g) g)) \<and>
    g_store (snd (create_budget (coordinator_budget g) g)) = Some path"
  by (auto simp: g_def durable_inv_def create_budget_def set_price_schedule_def set_policy_def set_state_path_def
      Impl_init_def coordinator_policy_def coordinator_budget_def umap_emplace_def PriceSchedule_default_def keyed_def
      policy_ok_def CostPolicy_default_def budget_ok_def Budget_default_def string_ok_def string_bound_def kDefaultCurrency_def
      enum_wf_def RankingMode_wf_def RankingMode_enumerators_def BudgetMode_wf_def BudgetMode_enumerators_def
      BudgetObjective_wf_def BudgetObjective_enumerators_def DataLabel_wf_def DataLabel_enumerators_def Let_def)

lemma started_durable:
  assumes "coordinator_start path io fs = Inr c"
  shows "durable_inv (co_gov c) \<and> g_store (co_gov c) = Some path"
proof (cases "state_exists path fs")
  case True
  let ?g = "set_policy coordinator_policy (set_state_path path Impl_init)"
  obtain st g1 where g1: "load io fs ?g = (Inr st, g1)" "co_gov c = advance_epoch g1"
    using assms True by (auto simp: coordinator_start_def Let_def split: prod.splits sum.splits)
  have "durable_inv g1 \<and> g_store g1 = Some path"
    by (rule loaded_durable [OF g1(1)]) (simp add: set_policy_def set_state_path_def)
  then show ?thesis
    by (simp add: g1(2) advance_epoch_def durable_inv_def)
next
  case False
  then show ?thesis
    using assms fresh_durable by (auto simp: coordinator_start_def Let_def)
qed

lemma started_inv:
  assumes "coordinator_start path io fs = Inr c" and "room n (co_gov c)"
  shows "run_inv path c n c \<and> co_fs c = fs"
proof -
  have "co_reservations c = []" "co_fs c = fs"
    using assms(1) by (auto simp: coordinator_start_def Let_def split: if_splits prod.splits sum.splits)
  then show ?thesis
    using assms(2) started_durable [OF assms(1)] by (simp add: run_inv_def table_ok_def smap_find_def disk_inv_def)
qed

text \<open>A start depends on the state file only.\<close>

lemma start_again:
  assumes "coordinator_start path io fs = Inr c" and "fs' path = fs path" and "tell_ok io'" and "read_ok io'"
  shows "\<exists>c2. coordinator_start path io' fs' = Inr c2 \<and> co_gov c2 = co_gov c"
proof -
  have "load_snapshot io' path fs' = Inr s" if "load_snapshot io path fs = Inr s" for s
    using that assms(2-4) by (auto simp: load_snapshot_def throw_status_def split: option.splits if_splits)
  then show ?thesis
    using assms(1, 2)
    by (auto simp: coordinator_start_def Let_def state_exists_def state_file_exists_def load_def set_policy_def
        set_state_path_def split: if_splits sum.splits)
qed

lemma start_recovers:
  assumes "fs path = Some bs" and "decode bs = Inr (durable_snapshot border iorder g)" and "durable_inv g"
    and "iteration_order (g_budgets g) border" and "iteration_order (g_interventions g) iorder"
    and "tell_ok io" and "read_ok io"
  shows "\<exists>c g1. coordinator_start path io fs = Inr c \<and> recovers g g1 \<and> co_gov c = advance_epoch g1"
proof -
  let ?g = "set_policy coordinator_policy (set_state_path path Impl_init)"
  have "load_snapshot io path fs = Inr (durable_snapshot border iorder g)"
    using assms(1, 2, 6, 7) by (simp add: load_snapshot_def)
  moreover have "g_store ?g = Some path"
    by (simp add: set_policy_def set_state_path_def)
  moreover have "keyed b_id (g_budgets g)" "keyed ci_id (g_interventions g)"
    using assms(3) by (simp_all add: durable_inv_def)
  ultimately obtain g1 where "load io fs ?g = (Inr Status.OK, g1)" "recovers g g1"
    using load_durable assms(4, 5) by blast
  then show ?thesis
    using assms(1) by (auto simp: coordinator_start_def Let_def state_exists_def state_file_exists_def)
qed

lemma fresh_start:
  assumes "fs path = None"
  obtains c where "coordinator_start path io fs = Inr c" "dom (g_budgets (co_gov c)) = {mk_Id 1}"
    "g_interventions (co_gov c) = Map.empty" "ps_observations (g_schedule (co_gov c)) = []" "g_history (co_gov c) = []"
  using assms that
  by (auto simp: coordinator_start_def Let_def state_exists_def state_file_exists_def create_budget_def coordinator_budget_def
      set_price_schedule_def set_policy_def set_state_path_def coordinator_policy_def Impl_init_def Budget_default_def
      CostPolicy_default_def umap_emplace_def PriceSchedule_default_def from_units_def kMicrosPerUnit_def
      money_negative_def sint_rules)

lemma settling_keeps_file:
  "handle_hello payload c = (r, c') \<Longrightarrow> co_fs c' = co_fs c"
  "handle_reserve payload c = (r, c') \<Longrightarrow> co_fs c' = co_fs c"
  "handle_settle type payload c = (r, c') \<Longrightarrow> co_fs c' = co_fs c"
  "handle_realize payload c = (r, c') \<Longrightarrow> co_fs c' = co_fs c"
  unfolding handle_hello_def handle_reserve_def handle_settle_def handle_realize_def Let_def
  by (erule reading_cases; force split: prod.splits sum.splits if_splits option.splits)+

lemma queries_keep_file:
  "handle_request_eval env payload c = (r, c') \<Longrightarrow> co_fs c' = co_fs c"
  "handle_revalidate env payload c = (r, c') \<Longrightarrow> co_fs c' = co_fs c"
  unfolding handle_request_eval_def handle_revalidate_def
  by (erule reading_cases; force split: prod.splits sum.splits)+

lemma handle_keeps_file:
  assumes "handle env type payload c = (r, c')" and "type \<noteq> PUBLISH_PRICE" and "type \<noteq> RECORD_ATTEMPT"
  shows "co_fs c' = co_fs c"
  using assms settling_keeps_file queries_keep_file by (cases type) (auto simp: handle_def dest: handle_get_state_same)

lemma serve_keeps_file:
  assumes "serve envs k ms c = (rs, c')" and "\<forall>(t, p) \<in> set ms. t \<noteq> PUBLISH_PRICE \<and> t \<noteq> RECORD_ATTEMPT"
  shows "co_fs c' = co_fs c"
  using assms
proof (induction envs k ms c arbitrary: rs c' rule: serve.induct)
  case (2 envs k type payload ms c)
  obtain r c1 where h: "handle (envs k) type payload c = (r, c1)"
    by fastforce
  obtain rs1 where "serve envs (Suc k) ms c1 = (rs1, c')"
    using 2(2) h by (auto split: prod.splits)
  then have "co_fs c' = co_fs c1"
    using 2(1) [OF h [symmetric]] 2(3) by simp
  then show ?case
    using handle_keeps_file [OF h] 2(3) by simp
qed simp

lemma start_file: "coordinator_start path io fs = Inr c \<Longrightarrow> co_fs c = fs"
  by (auto simp: coordinator_start_def Let_def split: if_splits prod.splits sum.splits)

definition spending :: "(Msg \<times> bytes) list" where
  "spending = [(RESERVE, Writer_u64 1 @ Writer_u64 1 @ Writer_u64 1 @ Writer_i64 400000), (COMMIT, Writer_u64 1)]"

lemma spending_run:
  "case coordinator_start ''state'' good_load Map.empty of
     Inl e \<Rightarrow> False
   | Inr c \<Rightarrow> (case serve (\<lambda>_. sample_env) 0 spending c of (rs, c') \<Rightarrow>
       map_option (total_micros \<circ> b_consumed) (find_budget (co_gov c) (mk_Id 1)) = Some 0 \<and>
       map_option (total_micros \<circ> b_consumed) (find_budget (co_gov c') (mk_Id 1)) = Some 400000)"
  by code_simp

section \<open>Properties\<close>



text \<open>
  C38: what a restart forgets. A coordinator writes its state only after a published price and a recorded
  attempt. When clients only reserve, commit, release, realize and ask, a coordinator that is started again
  from the file is the one that was started before, so what was committed in between is available again.
\<close>

theorem commits_forgotten:
  assumes "coordinator_start path io fs = Inr c" and "\<forall>(t, p) \<in> set ms. t \<noteq> PUBLISH_PRICE \<and> t \<noteq> RECORD_ATTEMPT"
    and "serve envs k ms c = (rs, c')" and "tell_ok io'" and "read_ok io'"
  shows "\<exists>c2. coordinator_start path io' (co_fs c') = Inr c2 \<and> co_gov c2 = co_gov c"
proof -
  have "co_fs c' path = fs path"
    using serve_keeps_file [OF assms(3, 2)] start_file [OF assms(1)] by simp
  then show ?thesis
    using start_again [OF assms(1) _ assms(4, 5)] by blast
qed

theorem commits_forgotten_witness:
  "\<exists>c rs c' c2 b b'. coordinator_start ''state'' good_load Map.empty = Inr c \<and>
    serve (\<lambda>_. sample_env) 0 spending c = (rs, c') \<and> coordinator_start ''state'' good_load (co_fs c') = Inr c2 \<and>
    find_budget (co_gov c') (mk_Id 1) = Some b' \<and> micros (b_consumed b') = 400000 \<and>
    find_budget (co_gov c2) (mk_Id 1) = Some b \<and> micros (b_consumed b) = 0"
proof -
  obtain c rs c' b b' where run: "coordinator_start ''state'' good_load Map.empty = Inr c"
    "serve (\<lambda>_. sample_env) 0 spending c = (rs, c')" "find_budget (co_gov c) (mk_Id 1) = Some b"
    "total_micros (b_consumed b) = 0" "find_budget (co_gov c') (mk_Id 1) = Some b'" "total_micros (b_consumed b') = 400000"
    using spending_run by (auto split: sum.splits prod.splits)
  obtain c2 where "coordinator_start ''state'' good_load (co_fs c') = Inr c2" "co_gov c2 = co_gov c"
    using commits_forgotten [OF run(1) _ run(2), of good_load] by (auto simp: spending_def good_load_def)
  then show ?thesis
    using run by auto
qed

end
