(* ===== verification/Cli.thy ===== *)
theory Cli
  imports CostStates Recovery
begin

text \<open>
  The command line tool (\<^verbatim>\<open>tools/cg_cli.cpp\<close>): the governor and the plans it is run on, and the lines that
  each command prints. An exception that no command catches is the result of the program; reading an
  empty optional, which the language leaves undefined, is an exception here. The iteration orders of the
  governor's tables, the file system and the answers of the operating system are arguments.
\<close>

section \<open>The scenario\<close>

definition cli_now :: i64 where
  "cli_now = 1000000000"

definition cli_observation :: "EvidenceId \<Rightarrow> PriceKind \<Rightarrow> MoneyMicros \<Rightarrow> PriceObservation" where
  "cli_observation i k amt =
    PriceObservation_default\<lparr>po_id := i, po_kind := k, po_amount := amt, po_currency := kDefaultCurrency,
      po_label := DataLabel.POLICY, po_provenance := Provenance.CONFIGURED_POLICY, po_observed_at_ms := cli_now,
      po_epoch := mk_Id 1, po_worker := mk_Id 1, po_boot := mk_Id 1\<rparr>"

definition make_gov :: Impl where
  "make_gov =
    (let p = CostPolicy_default\<lparr>pol_currency := kDefaultCurrency, pol_epoch := mk_Id 1, pol_generation := mk_Id 1,
           pol_max_evidence_age_ms := 30000, pol_price_schedule_max_age_ms := 30000, pol_allow_policy := True,
           pol_allow_measured := True, pol_allow_synthetic := True\<rparr>;
         g1 = set_worker_boot (mk_Id 1) (mk_Id 1) (set_policy p Impl_init);
         s = PriceSchedule_default\<lparr>ps_id := mk_Id 1, ps_generation := mk_Id 1, ps_created_at_ms := cli_now,
           ps_observations :=
             [cli_observation (mk_Id 1) PriceKind.ACCELERATOR_TIME (from_micros 1000),
              cli_observation (mk_Id 2) PriceKind.TRANSFER (from_micros 10000)]\<rparr>;
         b = Budget_default\<lparr>b_id := mk_Id 1, b_generation := mk_Id 1, b_policy_generation := mk_Id 1,
           b_epoch := mk_Id 1, b_limit := from_units 100000, b_mode := BudgetMode.HARD\<rparr>
     in snd (create_budget b (set_price_schedule s g1)))"

definition two_plans :: "ExecutionPlan list" where
  "two_plans =
    [ExecutionPlan_default\<lparr>pl_id := mk_Id 1, pl_generation := mk_Id 1, pl_workload := mk_Id 1,
       pl_workload_generation := mk_Id 1, pl_expected_accelerator_time := Amount 2000000000,
       pl_expected_requests := 1\<rparr>,
     ExecutionPlan_default\<lparr>pl_id := mk_Id 2, pl_generation := mk_Id 1, pl_workload := mk_Id 1,
       pl_workload_generation := mk_Id 1, pl_expected_accelerator_time := Amount 1000000000,
       pl_expected_transfer := Amount 5000000000, pl_expected_requests := 1\<rparr>]"

section \<open>Printing\<close>

definition i64_to_string :: "i64 \<Rightarrow> string" where
  "i64_to_string x = (if x <s 0 then ''-'' @ dec_digits (unat (- x)) else dec_digits (unat x))"

definition component_labels :: "string list" where
  "component_labels = [''accelerator_time'', ''energy'', ''transfer'', ''memory'', ''residency'', ''storage'', ''retry'',
    ''recovery'', ''recomputation'', ''other'']"

definition print_breakdown :: "CostBreakdown \<Rightarrow> string list" where
  "print_breakdown bd =
    map (\<lambda>i. ''  '' @ component_labels ! i @ '': '' @
        (if cv_known (bd_components bd ! i) then money_to_string (cv_value (bd_components bd ! i)) else ''UNKNOWN'') @
        '' '' @ bd_currency bd) [0..<kCostComponentCount] @
    [''  total: '' @ money_to_string (bd_total bd) @ '' '' @ bd_currency bd]"

section \<open>Commands\<close>

record CliEnv =
  cli_order :: "BudgetId list"
  cli_order2 :: "BudgetId list"
  cli_save :: SaveIO
  cli_load :: LoadIO
  cli_fs :: FileSystem

definition show_policy :: "string list" where
  "show_policy =
    (let p = g_policy make_gov
     in [''currency: '' @ pol_currency p, ''ranking: '' @ ranking_mode_name (pol_ranking p),
         ''max_evidence_age_ms: '' @ i64_to_string (pol_max_evidence_age_ms p),
         ''near_budget_percent: '' @ i64_to_string (pol_near_budget_percent p) @
         '' at_risk_percent: '' @ i64_to_string (pol_at_risk_percent p)])"

definition cli_decision :: "BudgetId list \<Rightarrow> exn + CostDecision" where
  "cli_decision order = evaluate (\<lambda>_. cli_now) order make_gov (mk_Id 1) (mk_Id 1) two_plans"

definition evaluate_command :: "BudgetId list \<Rightarrow> exn + string list" where
  "evaluate_command order = bindE (cli_decision order) (\<lambda>d.
    Inr ([''decision: '' @ decision_kind_name (d_kind d),
          ''selected plan: '' @ dec_digits (unat (Id_value (d_selected_plan d))),
          ''state: '' @ cost_state_name (d_state d)] @ print_breakdown (d_projected d)))"

definition show_budget :: "exn + string list" where
  "show_budget =
    (case reserve (\<lambda>_. cli_now) (mk_Id 1) (mk_Id 1) (mk_Id 1) (from_units 30) BudgetReservation_default make_gov of
       (Inl e, _, _) \<Rightarrow> Inl e
     | (Inr st, _, g) \<Rightarrow>
         (case find_budget g (mk_Id 1) of
            None \<Rightarrow> Inl (runtime_error ''empty optional'')
          | Some b \<Rightarrow>
              Inr [''reserve: '' @ status_name st,
                   ''limit: '' @ money_to_string (b_limit b) @ '' reserved: '' @ money_to_string (b_reserved b) @
                   '' consumed: '' @ money_to_string (b_consumed b)]))"

definition show_breakdown :: "exn + string list" where
  "show_breakdown =
    bindE (project (g_schedule make_gov)
        [CostEvidence_default\<lparr>ev_id := mk_Id 1, ev_request := mk_Id 1, ev_epoch := mk_Id 1, ev_boot := mk_Id 1,
           ev_accelerator_time := Amount 2000000000, ev_transfer := Amount 1000000000\<rparr>]
        (pol_currency (g_policy make_gov)) 1000000000) (\<lambda>bd. Inr (print_breakdown bd))"

definition show_what_would_change :: "BudgetId list \<Rightarrow> exn + string list" where
  "show_what_would_change order = bindE (cli_decision order) (\<lambda>d.
    Inr (map (\<lambda>alt. alt_name alt @ '' applicable='' @ (if alt_applicable alt then ''1'' else ''0'') @
        '' projected='' @ money_to_string (alt_projected_cost alt)) (ex_what_would_change (d_explanation d))))"

definition inspect_history :: "string list" where
  "inspect_history = [''history entries: '' @ dec_digits (length (history make_gov))]"

text \<open>The second governor is fresh, with a clock that loading never reads.\<close>

definition validate_state :: "CliEnv \<Rightarrow> exn + string list" where
  "validate_state env =
    (case persist (cli_save env) (cli_order env) [] (set_state_path ''cg_state.bin'' make_gov) (cli_fs env) of
       (Inl e, _) \<Rightarrow> Inl e
     | (Inr saved, fs) \<Rightarrow>
         (case load (cli_load env) fs (set_state_path ''cg_state.bin'' Impl_init) of
            (Inl e, _) \<Rightarrow> Inl e
          | (Inr loaded, g2) \<Rightarrow>
              Inr [''persist: '' @ status_name saved, ''load: '' @ status_name loaded,
                   ''loadable budgets: '' @ dec_digits (length (budgets (cli_order2 env) g2))]))"

definition replay_decision :: "CliEnv \<Rightarrow> exn + string list" where
  "replay_decision env =
    bindE (cli_decision (cli_order env)) (\<lambda>a. bindE (cli_decision (cli_order2 env)) (\<lambda>b.
      Inr [''replay identical: '' @
        (if d_selected_plan a = d_selected_plan b \<and> bd_total (d_projected a) = bd_total (d_projected b)
         then ''YES'' else ''NO'')]))"

text \<open>The exit code and the lines printed; the usage message goes to the error output.\<close>

definition cg_main :: "string list \<Rightarrow> CliEnv \<Rightarrow> exn + nat \<times> string list" where
  "cg_main args env =
    (let cmd = (case args of [] \<Rightarrow> ''evaluate'' | a # _ \<Rightarrow> a);
         run = (\<lambda>lines. bindE lines (\<lambda>ls. Inr (0, ls)))
     in if cmd = ''show-policy'' then run (Inr show_policy)
        else if cmd = ''evaluate'' \<or> cmd = ''compare-plans'' then run (evaluate_command (cli_order env))
        else if cmd = ''show-budget'' then run show_budget
        else if cmd = ''show-breakdown'' then run show_breakdown
        else if cmd = ''show-what-would-change'' then run (show_what_would_change (cli_order env))
        else if cmd = ''inspect-history'' then run (Inr inspect_history)
        else if cmd = ''validate-state'' then run (validate_state env)
        else if cmd = ''replay-decision'' then run (replay_decision env)
        else Inr (2, []))"

section \<open>Evaluation\<close>

text \<open>Printing in binary integers, for the evaluation of large numbers.\<close>

function dec_int :: "int \<Rightarrow> string" where
  "dec_int k = (if k < 10 then [digit_char (nat k)] else dec_int (k div 10) @ [digit_char (nat (k mod 10))])"
  by pat_completeness auto
termination
  by (relation "measure nat") auto

declare dec_int.simps [simp del]

lemma dec_int_nat: "dec_int (int n) = dec_digits n"
proof (induction n rule: dec_digits.induct)
  case (1 n)
  have "int n div 10 = int (n div 10)" "int n mod 10 = int (n mod 10)"
    by (simp_all add: zdiv_int zmod_int)
  then show ?case
    using 1 by (simp add: dec_int.simps [of "int n"] dec_digits.simps [of n])
qed

lemma dec_digits_word [code_unfold]: "dec_digits (Word.the_nat w) = dec_int (Word.the_int w)"
  using dec_int_nat [of "unat w"] by (simp add: Word.the_nat_def Word.the_int_def)

section \<open>What the commands print\<close>

lemma make_gov_sel:
  "g_budgets make_gov = [mk_Id 1 \<mapsto> Budget_default\<lparr>b_id := mk_Id 1, b_generation := mk_Id 1, b_policy_generation := mk_Id 1,
     b_epoch := mk_Id 1, b_limit := from_units 100000, b_mode := BudgetMode.HARD, b_lifecycle := BudgetLifecycle.ACTIVE\<rparr>]"
  "g_interventions make_gov = Map.empty" "g_history make_gov = []"
  by (simp_all add: make_gov_def Let_def set_price_schedule_def set_worker_boot_def set_policy_def create_budget_def
      umap_emplace_def Impl_init_def Budget_default_def from_units_def kMicrosPerUnit_def sint_rules)

lemma cli_iteration_order: "iteration_order (g_budgets make_gov) order \<Longrightarrow> order = [mk_Id 1]"
  by (cases order; cases "tl order") (auto simp: iteration_order_def make_gov_sel)

lemma show_policy_prints:
  "show_policy = [''currency: USD'', ''ranking: LEXICOGRAPHIC'', ''max_evidence_age_ms: 30000'',
    ''near_budget_percent: 80 at_risk_percent: 90'']"
  by code_simp

lemma evaluate_command_prints:
  "evaluate_command [mk_Id 1] = Inr
    [''decision: AUTHORIZE'', ''selected plan: 1'', ''state: WITHIN_BUDGET'',
     ''  accelerator_time: 0.002000 USD'', ''  energy: UNKNOWN USD'', ''  transfer: UNKNOWN USD'',
     ''  memory: UNKNOWN USD'', ''  residency: UNKNOWN USD'', ''  storage: UNKNOWN USD'', ''  retry: UNKNOWN USD'',
     ''  recovery: UNKNOWN USD'', ''  recomputation: UNKNOWN USD'', ''  other: UNKNOWN USD'', ''  total: 0.002000 USD'']"
  by code_simp

lemma show_budget_prints:
  "show_budget = Inr [''reserve: OK'', ''limit: 100000.000000 reserved: 30.000000 consumed: 0.000000'']"
  by code_simp

lemma show_breakdown_prints:
  "show_breakdown = Inr
    [''  accelerator_time: 0.002000 USD'', ''  energy: UNKNOWN USD'', ''  transfer: 0.010000 USD'',
     ''  memory: UNKNOWN USD'', ''  residency: UNKNOWN USD'', ''  storage: UNKNOWN USD'', ''  retry: UNKNOWN USD'',
     ''  recovery: UNKNOWN USD'', ''  recomputation: UNKNOWN USD'', ''  other: UNKNOWN USD'', ''  total: 0.012000 USD'']"
  by code_simp

lemma show_what_would_change_prints:
  "show_what_would_change [mk_Id 1] = Inr [''BUDGET_INCREASES applicable=0 projected=0.002000'']"
  by code_simp

lemma replay_prints:
  assumes "cli_order env = [mk_Id 1]" and "cli_order2 env = [mk_Id 1]"
  shows "replay_decision env = Inr [''replay identical: YES'']"
proof -
  obtain d where "cli_decision [mk_Id 1] = Inr d"
    using evaluate_command_prints by (auto simp: evaluate_command_def bindE_eq_Inr)
  then show ?thesis
    using assms by (simp add: replay_decision_def)
qed

lemma cli_snapshot_ok: "snapshot_ok (durable_snapshot [mk_Id 1] [] (set_state_path ''cg_state.bin'' make_gov))"
proof -
  have "policy_ok (g_policy make_gov)" "list_all (obs_ok snapshot_stream) (ps_observations (g_schedule make_gov))"
    "length (ps_observations (g_schedule make_gov)) = 2"
    by (simp_all add: make_gov_def Let_def set_price_schedule_def set_worker_boot_def set_policy_def create_budget_def
        umap_emplace_def Impl_init_def policy_ok_def obs_ok_def cli_observation_def PriceObservation_default_def
        CostPolicy_default_def string_ok_def string_bound_def kDefaultCurrency_def enum_wf_def
        PriceKind_wf_def PriceKind_enumerators_def Provenance_wf_def Provenance_enumerators_def
        DataLabel_wf_def DataLabel_enumerators_def RankingMode_wf_def RankingMode_enumerators_def)
  then show ?thesis
    by (simp add: snapshot_ok_def durable_snapshot_def set_state_path_def make_gov_sel umap_values_def
        List.map_filter_def budget_ok_def Budget_default_def string_ok_def string_bound_def kDefaultCurrency_def
        enum_wf_def BudgetMode_wf_def BudgetMode_enumerators_def BudgetObjective_wf_def BudgetObjective_enumerators_def
        BudgetLifecycle_wf_def BudgetLifecycle_enumerators_def DataLabel_wf_def DataLabel_enumerators_def)
qed

lemma validate_state_prints:
  assumes "cli_order env = [mk_Id 1]" and "cli_order2 env = [mk_Id 1]" and "save_status (cli_save env) = Status.OK"
    and "tell_ok (cli_load env)" and "read_ok (cli_load env)"
  shows "validate_state env = Inr [''persist: OK'', ''load: OK'', ''loadable budgets: 1'']"
proof -
  let ?g = "set_state_path ''cg_state.bin'' make_gov" and ?empty = "set_state_path ''cg_state.bin'' Impl_init"
  let ?snap = "durable_snapshot [mk_Id 1] [] ?g"
  have tables: "g_budgets ?g = g_budgets make_gov" "g_interventions ?g = Map.empty" "g_store ?g = Some ''cg_state.bin''"
    "g_store ?empty = Some ''cg_state.bin''"
    by (simp_all add: set_state_path_def make_gov_sel)
  obtain fs where fs: "save (cli_save env) ''cg_state.bin'' ?snap (cli_fs env) = (Inr Status.OK, fs)"
    using payload_roundtrip [OF cli_snapshot_ok] assms(3) by (auto simp: save_def encode_def)
  have "\<exists>g1. load (cli_load env) fs ?empty = (Inr Status.OK, g1) \<and> recovers ?g g1 \<and>
      g_next_intervention g1 = g_next_intervention ?empty"
    by (rule load_durable [OF tables(4) save_loads [OF fs cli_snapshot_ok assms(4, 5)]])
      (simp_all add: tables iteration_order_def keyed_def make_gov_sel)
  then obtain g1 where g1: "load (cli_load env) fs ?empty = (Inr Status.OK, g1)" "recovers ?g g1"
    by blast
  have "g_budgets g1 (mk_Id 1) \<noteq> None"
    using g1(2) by (simp add: recovers_def find_budget_def tables make_gov_sel)
  then have "length (budgets [mk_Id 1] g1) = 1"
    by (auto simp: budgets_def umap_values_def List.map_filter_def)
  moreover have "dec_digits 1 = ''1''"
    by code_simp
  moreover have "persist (cli_save env) [mk_Id 1] [] ?g (cli_fs env) = (Inr Status.OK, fs)"
    using fs by (simp add: persist_def Let_def tables)
  ultimately show ?thesis
    using g1(1) assms(1, 2) by (simp add: validate_state_def)
qed

lemmas cli_prints = evaluate_command_prints show_budget_prints show_breakdown_prints show_what_would_change_prints
  validate_state_prints replay_prints

section \<open>Properties\<close>



end
