(* ===== verification/Runner.thy ===== *)
theory Runner
  imports Processes Clients Restart Cli
begin

text \<open>
  The distributed proof (\<^verbatim>\<open>main\<close> in \<^verbatim>\<open>proof_runner.cpp\<close>): it starts a coordinator and workers, sends requests,
  restarts workers and the coordinator, and counts which of its checks pass.

  The runner is written over an interface, the calls of \<^verbatim>\<open>Client\<close> and the processes that it starts and
  kills. One implementation is the system itself: a coordinator that handles the bytes of every message,
  the state file, the workers, and the order in which their messages arrive between the requests of the
  runner. The other keeps the governor only, neither encodes nor writes anything, and can be evaluated.
  A simulation shows that the runner cannot tell them apart.
\<close>

section \<open>The interface\<close>

text \<open>An action of the runner; \<open>None\<close> is an exception that nothing catches.\<close>

type_synonym ('w, 'a) action = "'w \<Rightarrow> ('a \<times> 'w) option"

record 's Port =
  at_hello :: "WorkerId \<Rightarrow> WorkerBootId \<Rightarrow> ('s, unit) action"
  at_publish :: "PriceObservation \<Rightarrow> ('s, Status) action"
  at_eval :: "WorkloadId \<Rightarrow> WorkloadGeneration \<Rightarrow> ExecutionPlan list \<Rightarrow> ('s, DecisionResult) action"
  at_record :: "CostEvidence \<Rightarrow> ('s, Status) action"
  at_realize :: "RequestId \<Rightarrow> WorkloadId \<Rightarrow> ('s, Status \<times> i64) action"
  at_revalidate :: "ExecutionPlan list \<Rightarrow> ('s, Status) action"
  at_state :: "('s, u64 \<times> u64 \<times> u64 \<times> u64 \<times> u64) action"
  at_remove :: "string \<Rightarrow> ('s, unit) action"
  at_start :: "string \<Rightarrow> ('s, bool) action"
  at_stop :: "('s, unit) action"
  at_spawn :: "string \<Rightarrow> ('s, unit) action"
  at_kill :: "nat \<Rightarrow> ('s, unit) action"

record 's Runner =
  rn_sys :: 's
  rn_pass :: nat
  rn_fail :: nat
  rn_out :: "string list"

definition returnW :: "'a \<Rightarrow> ('w, 'a) action" where
  "returnW x w = Some (x, w)"

definition bindW :: "('w, 'a) action \<Rightarrow> ('a \<Rightarrow> ('w, 'b) action) \<Rightarrow> ('w, 'b) action" where
  "bindW m f w = (case m w of None \<Rightarrow> None | Some (x, w1) \<Rightarrow> f x w1)"

definition sys :: "('s, 'a) action \<Rightarrow> ('s Runner, 'a) action" where
  "sys m w = (case m (rn_sys w) of None \<Rightarrow> None | Some (x, s) \<Rightarrow> Some (x, w\<lparr>rn_sys := s\<rparr>))"

definition check :: "string \<Rightarrow> bool \<Rightarrow> string \<Rightarrow> ('s Runner, unit) action" where
  "check name cond detail w =
    Some ((), if cond then w\<lparr>rn_pass := Suc (rn_pass w), rn_out := rn_out w @ [''[PASS] '' @ name]\<rparr>
      else w\<lparr>rn_fail := Suc (rn_fail w), rn_out := rn_out w @ [''[FAIL] '' @ name @ '' '' @ detail]\<rparr>)"

section \<open>The scenarios\<close>

abbreviation worker_A :: WorkerId where "worker_A \<equiv> mk_Id 1"
abbreviation worker_B :: WorkerId where "worker_B \<equiv> mk_Id 2"
abbreviation boot_A1 :: WorkerBootId where "boot_A1 \<equiv> mk_Id 10"
abbreviation boot_A2 :: WorkerBootId where "boot_A2 \<equiv> mk_Id 11"
abbreviation boot_B1 :: WorkerBootId where "boot_B1 \<equiv> mk_Id 20"
abbreviation boot_B2 :: WorkerBootId where "boot_B2 \<equiv> mk_Id 21"
abbreviation device_A :: DeviceId where "device_A \<equiv> mk_Id 1"
abbreviation device_B :: DeviceId where "device_B \<equiv> mk_Id 2"

definition u64_to_string :: "u64 \<Rightarrow> string" where
  "u64_to_string x = dec_digits (unat x)"

definition decision_text :: "DecisionResult \<Rightarrow> string" where
  "decision_text r = ''kind='' @ u64_to_string (ucast (dr_kind r)) @ '' selected='' @ u64_to_string (dr_selected r)"

definition plan_for ::
  "u64 \<Rightarrow> u64 \<Rightarrow> DeviceId \<Rightarrow> WorkerId \<Rightarrow> i64 \<Rightarrow> i64 \<Rightarrow> ExecutionPlan"
where
  "plan_for i workload dev worker accelerator transfer =
    ExecutionPlan_default\<lparr>pl_id := mk_Id i, pl_generation := mk_Id 1, pl_workload := mk_Id workload,
      pl_workload_generation := mk_Id 1, pl_device := dev, pl_worker := worker,
      pl_expected_accelerator_time := Amount accelerator, pl_expected_transfer := Amount transfer,
      pl_expected_requests := 1\<rparr>"

definition runner_plans :: "ExecutionPlan list" where
  "runner_plans =
    [plan_for 1 1 device_A worker_A 2000000000 0, plan_for 2 1 device_B worker_B 1000000000 5000000000]"

fun wait_for_obs :: "'s Port \<Rightarrow> nat \<Rightarrow> u64 \<Rightarrow> u64 \<Rightarrow> ('s Runner, u64) action" where
  "wait_for_obs P 0 want obs w = Some (obs, w)"
| "wait_for_obs P (Suc n) want obs w =
    (case sys (at_state P) w of
       None \<Rightarrow> None
     | Some ((_, _, _, _, obs1), w1) \<Rightarrow> if want \<le> obs1 then Some (obs1, w1) else wait_for_obs P n want obs1 w1)"

fun until_published :: "'s Port \<Rightarrow> nat \<Rightarrow> PriceObservation \<Rightarrow> ('s Runner, bool) action" where
  "until_published P 0 p w = Some (False, w)"
| "until_published P (Suc n) p w =
    (case sys (at_publish P p) w of
       None \<Rightarrow> None
     | Some (st, w1) \<Rightarrow> if st = Status.OK then Some (True, w1) else until_published P n p w1)"

definition expect_publish :: "'s Port \<Rightarrow> string \<Rightarrow> PriceObservation \<Rightarrow> Status \<Rightarrow> ('s Runner, unit) action" where
  "expect_publish P name p st = bindW (sys (at_publish P p)) (\<lambda>r. check name (r = st) '''')"

definition expect_record :: "'s Port \<Rightarrow> string \<Rightarrow> CostEvidence \<Rightarrow> Status \<Rightarrow> ('s Runner, unit) action" where
  "expect_record P name e st = bindW (sys (at_record P e)) (\<lambda>r. check name (r = st) '''')"

definition attempt ::
  "u64 \<Rightarrow> u64 \<Rightarrow> DeviceId \<Rightarrow> WorkerId \<Rightarrow> WorkerBootId \<Rightarrow> CostEvidence"
where
  "attempt i req dev worker boot = mk_attempt (mk_Id i) (mk_Id req) (mk_Id 1) dev worker boot 1000000000 kNow"

abbreviation accelerator_offer :: "u64 \<Rightarrow> DeviceId \<Rightarrow> i64 \<Rightarrow> WorkerId \<Rightarrow> WorkerBootId \<Rightarrow> PriceObservation" where
  "accelerator_offer i dev amt worker boot \<equiv>
    mk_price (mk_Id i) PriceKind.ACCELERATOR_TIME dev (from_micros amt) worker boot kNow"

abbreviation transfer_offer :: "u64 \<Rightarrow> DeviceId \<Rightarrow> i64 \<Rightarrow> WorkerId \<Rightarrow> WorkerBootId \<Rightarrow> PriceObservation" where
  "transfer_offer i dev amt worker boot \<equiv>
    mk_price (mk_Id i) PriceKind.TRANSFER dev (from_micros amt) worker boot kNow"

definition scenario_A :: "'s Port \<Rightarrow> string \<Rightarrow> ('s Runner, unit) action" where
  "scenario_A P port =
    bindW (sys (at_spawn P (port @ '' A --stay''))) (\<lambda>_.
    bindW (sys (at_spawn P (port @ '' B --stay''))) (\<lambda>_.
    bindW (wait_for_obs P 400 4 0) (\<lambda>o4.
    bindW (check ''scenario A: A (boot A1) and B (boot B1) both published 4 observations'' (4 \<le> o4)
      (''obs='' @ u64_to_string o4)) (\<lambda>_.
    bindW (sys (at_eval P (mk_Id 1) (mk_Id 1) runner_plans)) (\<lambda>ra.
    check ''scenario A: deterministic cheapest plan (A1+B1 evidence)'' (dr_kind ra = 0 \<and> dr_selected ra = 1)
      (decision_text ra))))))"

definition scenario_A2 :: "'s Port \<Rightarrow> ('s Runner, unit) action" where
  "scenario_A2 P =
    bindW (expect_publish P ''scenario A2: A1 price accepted'' (accelerator_offer 7001 device_A 5000 worker_A boot_A1) Status.OK) (\<lambda>_.
    bindW (expect_publish P ''scenario A2: B1 price accepted'' (accelerator_offer 7002 device_B 1000 worker_B boot_B1) Status.OK) (\<lambda>_.
    bindW (expect_record P ''scenario A2: A1 evidence accepted'' (attempt 7101 900 device_A worker_A boot_A1) Status.OK) (\<lambda>_.
    expect_record P ''scenario A2: B1 evidence accepted'' (attempt 7102 901 device_B worker_B boot_B1) Status.OK)))"

definition scenario_F :: "'s Port \<Rightarrow> ('s Runner, unit) action" where
  "scenario_F P =
    bindW (expect_publish P ''scenario F: price generation advanced'' (accelerator_offer 900 device_A 9000 worker_A boot_A1) Status.OK) (\<lambda>_.
    bindW (sys (at_revalidate P runner_plans)) (\<lambda>st.
    check ''scenario F: stale plan rejected before dispatch'' (st = Status.STALE_AUTHORITY) (status_name st)))"

definition runner_attempt :: "u64 \<Rightarrow> u64 \<Rightarrow> i64 \<Rightarrow> bool \<Rightarrow> CostEvidence" where
  "runner_attempt i att ns success =
    (mk_attempt (mk_Id i) (mk_Id 1) (mk_Id att) device_A worker_A boot_A1 ns kNow)\<lparr>ev_completed_successfully := success\<rparr>"

definition scenario_E :: "'s Port \<Rightarrow> ('s Runner, unit) action" where
  "scenario_E P =
    bindW (sys (at_record P (runner_attempt 50 1 2000000000 False))) (\<lambda>e1.
    bindW (sys (at_record P (runner_attempt 51 2 3000000000 True))) (\<lambda>e2.
    bindW (check ''scenario E: attempts recorded'' (e1 = Status.OK \<and> e2 = Status.OK)
      (''e1='' @ status_name e1 @ '' e2='' @ status_name e2)) (\<lambda>_.
    bindW (sys (at_realize P (mk_Id 1) (mk_Id 1))) (\<lambda>r.
    bindW (check ''scenario E: realized cost includes failed attempts'' (fst r = Status.OK \<and> 0 <s snd r)
      (status_name (fst r) @ '' cost='' @ i64_to_string (snd r))) (\<lambda>_.
    bindW (sys (at_record P (runner_attempt 51 2 3000000000 True))) (\<lambda>e2d.
    check ''scenario E: duplicate completion rejected, no double-charge'' (e2d = Status.INVALID_INPUT)
      (status_name e2d)))))))"

definition scenario_B :: "'s Port \<Rightarrow> ('s Runner, unit) action" where
  "scenario_B P =
    bindW (sys (at_eval P (mk_Id 1) (mk_Id 1) [plan_for 3 1 device_B worker_B 0 2000000000000])) (\<lambda>rb.
    check ''scenario B: hard budget rejection'' (dr_kind rb = 4) (decision_text rb))"

definition scenario_C :: "'s Port \<Rightarrow> string \<Rightarrow> ('s Runner, unit) action" where
  "scenario_C P port =
    bindW (sys (at_kill P 1)) (\<lambda>_.
    bindW (sys (at_spawn P (port @ '' B --stay --boot 21''))) (\<lambda>_.
    bindW (until_published P 200 (accelerator_offer 7002 device_B 1000 worker_B boot_B2)) (\<lambda>reg.
    bindW (check ''scenario C: B2 (worker B boot B2) reconnected'' reg '''') (\<lambda>_.
    bindW (expect_publish P ''scenario C: B1 stale price rejected''
      (accelerator_offer 7003 device_B 1000 worker_B boot_B1) Status.STALE_AUTHORITY) (\<lambda>_.
    bindW (expect_record P ''scenario C: B1 stale attempt rejected''
      (attempt 7103 910 device_B worker_B boot_B1) Status.STALE_AUTHORITY) (\<lambda>_.
    bindW (expect_record P ''scenario C: B1 stale completion rejected''
      (attempt 7104 911 device_B worker_B boot_B1) Status.STALE_AUTHORITY) (\<lambda>_.
    bindW (expect_publish P ''scenario C: A1 remains current (price accepted)''
      (transfer_offer 7004 device_A 1000 worker_A boot_A1) Status.OK) (\<lambda>_.
    bindW (expect_record P ''scenario C: A1 evidence accepted'' (attempt 7105 912 device_A worker_A boot_A1) Status.OK) (\<lambda>_.
    bindW (sys (at_eval P (mk_Id 1) (mk_Id 1) runner_plans)) (\<lambda>ra2.
    check ''scenario C: A1 still participates (deterministic selection)'' (dr_kind ra2 = 0 \<and> dr_selected ra2 = 1)
      (decision_text ra2)))))))))))"

definition scenario_C2 :: "'s Port \<Rightarrow> string \<Rightarrow> ('s Runner, unit) action" where
  "scenario_C2 P port =
    bindW (sys (at_kill P 0)) (\<lambda>_.
    bindW (sys (at_spawn P (port @ '' A --stay --boot 11''))) (\<lambda>_.
    bindW (until_published P 200 (accelerator_offer 7001 device_A 5000 worker_A boot_A2)) (\<lambda>reg.
    bindW (check ''scenario C2: A2 (worker A boot A2) reconnected'' reg '''') (\<lambda>_.
    bindW (expect_publish P ''scenario C2: A1 stale price rejected''
      (accelerator_offer 7005 device_A 5000 worker_A boot_A1) Status.STALE_AUTHORITY) (\<lambda>_.
    bindW (expect_record P ''scenario C2: A1 stale attempt rejected''
      (attempt 7106 913 device_A worker_A boot_A1) Status.STALE_AUTHORITY) (\<lambda>_.
    bindW (expect_record P ''scenario C2: A1 stale completion rejected''
      (attempt 7107 914 device_A worker_A boot_A1) Status.STALE_AUTHORITY) (\<lambda>_.
    bindW (expect_publish P ''scenario C2: B2 remains current (price accepted)''
      (transfer_offer 7006 device_B 10000 worker_B boot_B2) Status.OK) (\<lambda>_.
    expect_record P ''scenario C2: B2 evidence accepted (no cross-invalidation)''
      (attempt 7108 915 device_B worker_B boot_B2) Status.OK))))))))"

definition scenario_D :: "'s Port \<Rightarrow> ('s Runner, unit) action" where
  "scenario_D P =
    (let plans = [plan_for 7 2 (mk_Id 1) (mk_Id 3) 1000000000 0]
     in bindW (sys (at_hello P (mk_Id 3) (mk_Id 50))) (\<lambda>_.
        bindW (sys (at_eval P (mk_Id 2) (mk_Id 1) plans)) (\<lambda>rd.
        bindW (check ''scenario D: worker-3 dispatch authorized'' (dr_kind rd = 0 \<and> dr_selected rd = 7)
          (''kind='' @ u64_to_string (ucast (dr_kind rd)))) (\<lambda>_.
        bindW (sys (at_hello P (mk_Id 3) (mk_Id 51))) (\<lambda>_.
        bindW (sys (at_revalidate P plans)) (\<lambda>st.
        check ''scenario D: stale (worker,boot) dispatch rejected'' (st = Status.STALE_AUTHORITY) ''''))))))"

definition scenario_restart :: "'s Port \<Rightarrow> string \<Rightarrow> ('s Runner, unit) action" where
  "scenario_restart P coord_args =
    bindW (sys (at_state P)) (\<lambda>(epoch, _).
    bindW (sys (at_stop P)) (\<lambda>_.
    bindW (sys (at_start P coord_args)) (\<lambda>up.
    bindW (check ''scenario D: coordinator restarted'' up '''') (\<lambda>_.
    bindW (sys (at_state P)) (\<lambda>(e2e, _).
    bindW (check ''scenario D: fresh epoch after restart'' (epoch < e2e)
      (''before='' @ u64_to_string epoch @ '' after='' @ u64_to_string e2e)) (\<lambda>_.
    bindW (sys (at_publish P (accelerator_offer 777 device_A 1000 worker_A boot_A1))) (\<lambda>oldst.
    check ''scenario D: old-epoch price rejected'' (oldst = Status.STALE_AUTHORITY) (status_name oldst))))))))"

text \<open>The state file, the arguments of the coordinator, and the whole program with its exit code.\<close>

definition runner_state_file :: "string \<Rightarrow> string" where
  "runner_state_file dir = dir @ ''/cg_runner_state.bin''"

definition coord_args :: "string \<Rightarrow> nat \<Rightarrow> string" where
  "coord_args dir port = dec_digits port @ [CHR 0x20, CHR 0x22] @ runner_state_file dir @ [CHR 0x22]"

definition runner_main :: "'s Port \<Rightarrow> string \<Rightarrow> nat \<Rightarrow> ('s Runner, nat) action" where
  "runner_main P dir port =
    bindW (sys (at_remove P (runner_state_file dir))) (\<lambda>_.
    bindW (sys (at_start P (coord_args dir port))) (\<lambda>up.
    bindW (check ''coordinator ready'' up '''') (\<lambda>_.
    if \<not> up then returnW 2
    else
      bindW (scenario_A P (dec_digits port)) (\<lambda>_.
      bindW (scenario_A2 P) (\<lambda>_.
      bindW (scenario_F P) (\<lambda>_.
      bindW (scenario_E P) (\<lambda>_.
      bindW (scenario_B P) (\<lambda>_.
      bindW (scenario_C P (dec_digits port)) (\<lambda>_.
      bindW (scenario_C2 P (dec_digits port)) (\<lambda>_.
      bindW (scenario_D P) (\<lambda>_.
      bindW (scenario_restart P (coord_args dir port)) (\<lambda>_.
      (\<lambda>w. Some (if rn_fail w = 0 then 0 else 1, w))))))))))))))"

section \<open>A system of processes\<close>

text \<open>
  What the coordinator's process offers: the calls on a connection to it, and starting and stopping it.
\<close>

record 'c Site =
  s_hello :: "WorkerId \<Rightarrow> WorkerBootId \<Rightarrow> ('c, unit) action"
  s_publish :: "PriceObservation \<Rightarrow> ('c, Status) action"
  s_eval :: "WorkloadId \<Rightarrow> WorkloadGeneration \<Rightarrow> ExecutionPlan list \<Rightarrow> ('c, DecisionResult) action"
  s_record :: "CostEvidence \<Rightarrow> ('c, Status) action"
  s_realize :: "RequestId \<Rightarrow> WorkloadId \<Rightarrow> ('c, Status \<times> i64) action"
  s_revalidate :: "ExecutionPlan list \<Rightarrow> ('c, Status) action"
  s_state :: "('c, u64 \<times> u64 \<times> u64 \<times> u64 \<times> u64) action"
  s_ping :: "('c, unit) action"
  s_remove :: "string \<Rightarrow> ('c, unit) action"
  s_start :: "string \<Rightarrow> ('c, bool) action"
  s_stop :: "('c, unit) action"

text \<open>
  The workers are the runner's children; a worker has calls to make, and stays or ends after them. When
  the coordinator stops, their connections end and so do they. The time is the number of calls so far.
\<close>

record Child =
  ch_calls :: "WorkerCall list"
  ch_stay :: bool

record 'c World =
  w_site :: 'c
  w_children :: "Child list"
  w_time :: nat

definition worker_call :: "'c Site \<Rightarrow> WorkerCall \<Rightarrow> ('c, unit) action" where
  "worker_call S a s =
    (case a of
       Greet worker boot \<Rightarrow> s_hello S worker boot s
     | Offer p \<Rightarrow> (case s_publish S p s of None \<Rightarrow> None | Some (_, s1) \<Rightarrow> Some ((), s1)))"

text \<open>One turn of a worker: its next call, or a \<^verbatim>\<open>PING\<close> when it stays.\<close>

definition child_turn :: "(nat \<Rightarrow> 'c Site) \<Rightarrow> nat \<Rightarrow> 'c World \<Rightarrow> 'c World option" where
  "child_turn S i w =
    (if i < length (w_children w) then
       (let ch = w_children w ! i
        in case ch_calls ch of
             [] \<Rightarrow> if ch_stay ch
               then (case s_ping (S (w_time w)) (w_site w) of None \<Rightarrow> None | Some (_, s) \<Rightarrow> Some (w\<lparr>w_site := s\<rparr>))
               else Some w
           | a # calls \<Rightarrow>
               (case worker_call (S (w_time w)) a (w_site w) of
                  None \<Rightarrow> None
                | Some (_, s) \<Rightarrow> Some (w\<lparr>w_site := s, w_children := (w_children w)[i := ch\<lparr>ch_calls := calls\<rparr>],
                    w_time := Suc (w_time w)\<rparr>)))
     else Some w)"

fun child_turns :: "(nat \<Rightarrow> 'c Site) \<Rightarrow> nat list \<Rightarrow> 'c World \<Rightarrow> 'c World option" where
  "child_turns S [] w = Some w"
| "child_turns S (i # is) w = (case child_turn S i w of None \<Rightarrow> None | Some w1 \<Rightarrow> child_turns S is w1)"

text \<open>A request of the runner arrives after the turns that the schedule gives to the workers.\<close>

definition request ::
  "(nat \<Rightarrow> 'c Site) \<Rightarrow> (nat \<Rightarrow> nat list) \<Rightarrow> (nat \<Rightarrow> ('c, 'a) action) \<Rightarrow> ('c World, 'a) action"
where
  "request S turns f w =
    (case child_turns S (turns (w_time w)) w of
       None \<Rightarrow> None
     | Some w1 \<Rightarrow> (case f (w_time w1) (w_site w1) of
         None \<Rightarrow> None
       | Some (x, s) \<Rightarrow> Some (x, w1\<lparr>w_site := s, w_time := Suc (w_time w1)\<rparr>)))"

definition on_site :: "('c, 'a) action \<Rightarrow> ('c World, 'a) action" where
  "on_site f w = (case f (w_site w) of None \<Rightarrow> None | Some (x, s) \<Rightarrow> Some (x, w\<lparr>w_site := s\<rparr>))"

definition ended :: Child where
  "ended = \<lparr>ch_calls = [], ch_stay = False\<rparr>"

definition spawn_worker :: "(string \<Rightarrow> string list) \<Rightarrow> string \<Rightarrow> ('c World, unit) action" where
  "spawn_worker argv args w =
    Some ((), w\<lparr>w_children := w_children w @
      [case worker_main True (argv args) of Inl _ \<Rightarrow> ended | Inr (calls, stay) \<Rightarrow> \<lparr>ch_calls = calls, ch_stay = stay\<rparr>]\<rparr>)"

definition kill_child :: "nat \<Rightarrow> ('c World, unit) action" where
  "kill_child i w = Some ((), w\<lparr>w_children := (w_children w)[i := ended]\<rparr>)"

definition stop_coordinator :: "'c Site \<Rightarrow> ('c World, unit) action" where
  "stop_coordinator S w =
    (case on_site (s_stop S) w of
       None \<Rightarrow> None | Some (x, w1) \<Rightarrow> Some (x, w1\<lparr>w_children := map (\<lambda>_. ended) (w_children w1)\<rparr>))"

definition world_port ::
  "(string \<Rightarrow> string list) \<Rightarrow> (nat \<Rightarrow> nat list) \<Rightarrow> (nat \<Rightarrow> 'c Site) \<Rightarrow> 'c World Port"
where
  "world_port argv turns S =
    \<lparr>at_hello = \<lambda>worker boot. request S turns (\<lambda>k. s_hello (S k) worker boot),
     at_publish = \<lambda>p. request S turns (\<lambda>k. s_publish (S k) p),
     at_eval = \<lambda>wl wg plans. request S turns (\<lambda>k. s_eval (S k) wl wg plans),
     at_record = \<lambda>e. request S turns (\<lambda>k. s_record (S k) e),
     at_realize = \<lambda>req wl. request S turns (\<lambda>k. s_realize (S k) req wl),
     at_revalidate = \<lambda>plans. request S turns (\<lambda>k. s_revalidate (S k) plans),
     at_state = request S turns (\<lambda>k. s_state (S k)),
     at_remove = \<lambda>file. on_site (s_remove (S 0) file),
     at_start = \<lambda>args. on_site (s_start (S 0) args),
     at_stop = stop_coordinator (S 0),
     at_spawn = spawn_worker argv,
     at_kill = kill_child\<rparr>"

subsection \<open>The coordinator\<close>

datatype CoordSite = Down FileSystem | Up Coord

record Setting =
  se_platform :: Platform
  se_dir :: string
  se_listen :: ListenIO
  se_load :: LoadIO

definition client_call :: "(Coord \<Rightarrow> (exn + 'a) \<times> Coord) \<Rightarrow> (CoordSite, 'a) action" where
  "client_call f s =
    (case s of
       Down _ \<Rightarrow> None
     | Up c \<Rightarrow> (case f c of (Inl _, _) \<Rightarrow> None | (Inr x, c1) \<Rightarrow> Some (x, Up c1)))"

definition ping_coordinator :: "Env \<Rightarrow> (CoordSite, unit) action" where
  "ping_coordinator env s =
    (case s of Down fs \<Rightarrow> Some ((), Down fs) | Up c \<Rightarrow> Some ((), Up (snd (handle env PING [] c))))"

definition remove_file :: "string \<Rightarrow> (CoordSite, unit) action" where
  "remove_file file s =
    Some ((), case s of Down fs \<Rightarrow> Down (fs(file := None)) | Up c \<Rightarrow> Up (c\<lparr>co_fs := (co_fs c)(file := None)\<rparr>))"

definition process_name :: "Platform \<Rightarrow> string \<Rightarrow> string \<Rightarrow> string" where
  "process_name platform dir name =
    dir @ ''/'' @ name @ (case platform of Windows \<Rightarrow> ''.exe'' | Posix \<Rightarrow> '''')"

definition start_coordinator :: "Setting \<Rightarrow> string \<Rightarrow> (CoordSite, bool) action" where
  "start_coordinator se args s =
    (case s of
       Up c \<Rightarrow> Some (True, Up c)
     | Down fs \<Rightarrow>
         (case coordinator_main (se_listen se) (se_load se)
             (spawn_argv (se_platform se) (process_name (se_platform se) (se_dir se) ''coordinator'') args) fs of
            Listening c \<Rightarrow> Some (True, Up c)
          | _ \<Rightarrow> Some (False, Down fs)))"

definition kill_coordinator :: "(CoordSite, unit) action" where
  "kill_coordinator s = Some ((), case s of Down fs \<Rightarrow> Down fs | Up c \<Rightarrow> Down (co_fs c))"

definition coordinator_site :: "Setting \<Rightarrow> Env \<Rightarrow> CoordSite Site" where
  "coordinator_site se env =
    \<lparr>s_hello = \<lambda>worker boot. client_call (Client_hello worker boot env),
     s_publish = \<lambda>p. client_call (Client_publish p env),
     s_eval = \<lambda>wl wg plans. client_call (Client_eval wl wg plans env),
     s_record = \<lambda>e. client_call (Client_record e env),
     s_realize = \<lambda>req wl. client_call (Client_realize req wl env),
     s_revalidate = \<lambda>plans. client_call (Client_revalidate plans env),
     s_state = client_call (Client_state env),
     s_ping = ping_coordinator env,
     s_remove = remove_file,
     s_start = start_coordinator se,
     s_stop = kill_coordinator\<rparr>"

definition runner_port :: "Setting \<Rightarrow> (nat \<Rightarrow> Env) \<Rightarrow> (nat \<Rightarrow> nat list) \<Rightarrow> CoordSite World Port" where
  "runner_port se envs turns =
    world_port (spawn_argv (se_platform se) (process_name (se_platform se) (se_dir se) ''worker'')) turns
      (\<lambda>k. coordinator_site se (envs k))"

definition runner_init :: "'c \<Rightarrow> 'c World Runner" where
  "runner_init s = \<lparr>rn_sys = \<lparr>w_site = s, w_children = [], w_time = 0\<rparr>, rn_pass = 0, rn_fail = 0, rn_out = []\<rparr>"

subsection \<open>The governor alone\<close>

text \<open>The governor, the last decision, and the governor at the last save.\<close>

datatype GovSite = Stopped "Impl option" | Running Impl CostDecision "Impl option"

definition fits :: "Impl \<Rightarrow> bool" where
  "fits g \<longleftrightarrow> length (ps_observations (g_schedule g)) \<le> 100 \<and> length (g_history g) \<le> 100"

definition gov_intake :: "(Impl \<Rightarrow> Status \<times> Impl) \<Rightarrow> (GovSite, Status) action" where
  "gov_intake f s =
    (case s of
       Stopped _ \<Rightarrow> None
     | Running g d saved \<Rightarrow> (case f g of (st, g1) \<Rightarrow>
         if st = Status.OK then (if fits g1 then Some (st, Running g1 d (Some g1)) else None)
         else Some (st, Running g1 d saved)))"

definition gov_hello :: "WorkerId \<Rightarrow> WorkerBootId \<Rightarrow> (GovSite, unit) action" where
  "gov_hello worker boot s =
    (case s of Stopped _ \<Rightarrow> None | Running g d saved \<Rightarrow> Some ((), Running (set_worker_boot worker boot g) d saved))"

definition gov_eval :: "WorkloadId \<Rightarrow> WorkloadGeneration \<Rightarrow> ExecutionPlan list \<Rightarrow> (GovSite, DecisionResult) action" where
  "gov_eval wl wg plans s =
    (case s of
       Stopped _ \<Rightarrow> None
     | Running g d saved \<Rightarrow> (case evaluate coordinator_clock [mk_Id 1] g wl wg (map plan_on_wire plans) of
         Inl _ \<Rightarrow> None
       | Inr d1 \<Rightarrow> Some (decision_summary d1, Running g d1 saved)))"

definition gov_realize :: "RequestId \<Rightarrow> WorkloadId \<Rightarrow> (GovSite, Status \<times> i64) action" where
  "gov_realize req wl s =
    (case s of
       Stopped _ \<Rightarrow> None
     | Running g d saved \<Rightarrow> (case finalize_request coordinator_clock req wl g of
         (Inl _, _) \<Rightarrow> None
       | (Inr st, g1) \<Rightarrow> (case realized_request_cost coordinator_clock g1 req of
           Inl _ \<Rightarrow> None
         | Inr cost \<Rightarrow> Some ((st, total_micros cost), Running g1 d saved))))"

definition gov_revalidate :: "ExecutionPlan list \<Rightarrow> (GovSite, Status) action" where
  "gov_revalidate plans s =
    (case s of
       Stopped _ \<Rightarrow> None
     | Running g d saved \<Rightarrow> (case validate_for_dispatch coordinator_clock [mk_Id 1] g d (map plan_on_wire plans) of
         Inl _ \<Rightarrow> None
       | Inr st \<Rightarrow> Some (st, Running g d saved)))"

definition gov_state :: "(GovSite, u64 \<times> u64 \<times> u64 \<times> u64 \<times> u64) action" where
  "gov_state s =
    (case s of
       Stopped _ \<Rightarrow> None
     | Running g d saved \<Rightarrow>
         Some ((Id_value (g_epoch g), Id_value (ps_generation (g_schedule g)), Id_value (pol_generation (g_policy g)),
             of_nat (length (budgets [mk_Id 1] g)), of_nat (length (ps_observations (g_schedule g)))),
           Running g d saved))"

definition fresh_gov :: "string \<Rightarrow> Impl" where
  "fresh_gov path =
    (let g = set_price_schedule (PriceSchedule_default\<lparr>ps_id := mk_Id 1, ps_generation := mk_Id 1, ps_created_at_ms := kNow\<rparr>)
           (set_policy coordinator_policy (set_state_path path Impl_init))
     in snd (create_budget (coordinator_budget g) g))"

definition reloaded_gov :: "string \<Rightarrow> Impl \<Rightarrow> Impl" where
  "reloaded_gov path g =
    (let s = durable_snapshot [mk_Id 1] [] g
     in advance_epoch ((set_policy coordinator_policy (set_state_path path Impl_init))\<lparr>g_epoch := snap_epoch s,
       g_policy := snap_policy s, g_schedule := snap_price_schedule s,
       g_budgets := fold (\<lambda>b m. umap_emplace (b_id b) (restored_budget b) m) (snap_budgets s) Map.empty,
       g_history := snap_history s,
       g_interventions :=
         fold (\<lambda>e m. umap_emplace (ie_id e) (restored_intervention e) m) (snap_interventions s) Map.empty,
       g_revalidation_needed := True\<rparr>))"

definition gov_start :: "string \<Rightarrow> (GovSite, bool) action" where
  "gov_start path s =
    (case s of
       Running g d saved \<Rightarrow> None
     | Stopped saved \<Rightarrow>
         Some (True, Running (case saved of None \<Rightarrow> fresh_gov path | Some g \<Rightarrow> reloaded_gov path g) CostDecision_default saved))"

definition gov_site :: "string \<Rightarrow> GovSite Site" where
  "gov_site path =
    \<lparr>s_hello = gov_hello,
     s_publish = \<lambda>p. gov_intake (publish_price p),
     s_eval = gov_eval,
     s_record = \<lambda>e. gov_intake (record_attempt e),
     s_realize = gov_realize,
     s_revalidate = gov_revalidate,
     s_state = gov_state,
     s_ping = \<lambda>s. Some ((), s),
     s_remove = \<lambda>_ s. (case s of Stopped _ \<Rightarrow> Some ((), Stopped None) | _ \<Rightarrow> None),
     s_start = \<lambda>_. gov_start path,
     s_stop = \<lambda>s. (case s of Running _ _ saved \<Rightarrow> Some ((), Stopped saved) | _ \<Rightarrow> None)\<rparr>"

section \<open>Simulation\<close>

text \<open>
  An action simulates another under a relation when it returns what the other returns, whenever that
  returns, and keeps the relation.
\<close>

definition sim :: "('v \<Rightarrow> 'w \<Rightarrow> bool) \<Rightarrow> ('v, 'a) action \<Rightarrow> ('w, 'a) action \<Rightarrow> bool" where
  "sim R m n \<longleftrightarrow> (\<forall>v w x w1. R v w \<longrightarrow> n w = Some (x, w1) \<longrightarrow> (\<exists>v1. m v = Some (x, v1) \<and> R v1 w1))"

lemma simI: "(\<And>v w x w1. R v w \<Longrightarrow> n w = Some (x, w1) \<Longrightarrow> \<exists>v1. m v = Some (x, v1) \<and> R v1 w1) \<Longrightarrow> sim R m n"
  by (simp add: sim_def)

lemma simD: "sim R m n \<Longrightarrow> R v w \<Longrightarrow> n w = Some (x, w1) \<Longrightarrow> \<exists>v1. m v = Some (x, v1) \<and> R v1 w1"
  by (simp add: sim_def)

lemma sim_return: "sim R (returnW x) (returnW x)"
  by (simp add: sim_def returnW_def)

lemma sim_bind:
  assumes "sim R m n" and "\<And>x. sim R (f x) (h x)"
  shows "sim R (bindW m f) (bindW n h)"
proof (rule simI)
  fix v w x w1
  assume R: "R v w" and "bindW n h w = Some (x, w1)"
  then obtain y w2 where n: "n w = Some (y, w2)" "h y w2 = Some (x, w1)"
    by (auto simp: bindW_def split: option.splits)
  then obtain v2 where "m v = Some (y, v2)" "R v2 w2"
    using simD [OF assms(1) R] by blast
  then show "\<exists>v1. bindW m f v = Some (x, v1) \<and> R v1 w1"
    using simD [OF assms(2) _ n(2)] by (simp add: bindW_def)
qed

lemma sim_if: "(b \<Longrightarrow> sim R m n) \<Longrightarrow> (\<not> b \<Longrightarrow> sim R m' n') \<Longrightarrow> sim R (if b then m else m') (if b then n else n')"
  by simp

lemma sim_case_prod: "(\<And>a b. sim R (f a b) (h a b)) \<Longrightarrow> sim R (case x of (a, b) \<Rightarrow> f a b) (case x of (a, b) \<Rightarrow> h a b)"
  by (cases x) simp

text \<open>The runner's own state is the same on both sides.\<close>

definition runner_rel :: "('v \<Rightarrow> 'w \<Rightarrow> bool) \<Rightarrow> 'v Runner \<Rightarrow> 'w Runner \<Rightarrow> bool" where
  "runner_rel R v w \<longleftrightarrow> R (rn_sys v) (rn_sys w) \<and> rn_pass v = rn_pass w \<and> rn_fail v = rn_fail w \<and> rn_out v = rn_out w"

lemma sim_sys: "sim R m n \<Longrightarrow> sim (runner_rel R) (sys m) (sys n)"
  by (rule simI) (fastforce simp: sys_def runner_rel_def dest: simD split: option.splits)

lemma sim_check: "sim (runner_rel R) (check name cond detail) (check name cond detail)"
  by (rule simI) (auto simp: check_def runner_rel_def)

lemma sim_exit_code:
  "sim (runner_rel R) (\<lambda>w. Some (if rn_fail w = 0 then 0 else 1, w)) (\<lambda>w. Some (if rn_fail w = 0 then 0 else 1, w))"
  by (rule simI) (auto simp: runner_rel_def)

lemma sim_wait_for_obs:
  assumes "sim R (at_state P) (at_state Q)"
  shows "sim (runner_rel R) (wait_for_obs P n want obs) (wait_for_obs Q n want obs)"
proof (induction n arbitrary: obs)
  case (Suc n)
  show ?case
  proof (rule simI)
    fix v w x w1
    assume R: "runner_rel R v w" and w: "wait_for_obs Q (Suc n) want obs w = Some (x, w1)"
    then obtain a b c d obs1 w2 where q: "sys (at_state Q) w = Some ((a, b, c, d, obs1), w2)"
      by (auto split: option.splits)
    then obtain v2 where v2: "sys (at_state P) v = Some ((a, b, c, d, obs1), v2)" "runner_rel R v2 w2"
      using simD [OF sim_sys [OF assms] R] by blast
    then show "\<exists>v1. wait_for_obs P (Suc n) want obs v = Some (x, v1) \<and> runner_rel R v1 w1"
      using simD [OF Suc v2(2)] w q by (auto split: if_splits)
  qed
qed (auto intro: simI)

lemma sim_until_published:
  assumes "sim R (at_publish P p) (at_publish Q p)"
  shows "sim (runner_rel R) (until_published P n p) (until_published Q n p)"
proof (induction n)
  case (Suc n)
  show ?case
  proof (rule simI)
    fix v w x w1
    assume R: "runner_rel R v w" and w: "until_published Q (Suc n) p w = Some (x, w1)"
    then obtain st w2 where q: "sys (at_publish Q p) w = Some (st, w2)"
      by (auto split: option.splits)
    then obtain v2 where v2: "sys (at_publish P p) v = Some (st, v2)" "runner_rel R v2 w2"
      using simD [OF sim_sys [OF assms] R] by blast
    then show "\<exists>v1. until_published P (Suc n) p v = Some (x, v1) \<and> runner_rel R v1 w1"
      using simD [OF Suc v2(2)] w q by (auto split: if_splits)
  qed
qed (auto intro: simI)

subsection \<open>The runner on two ports\<close>

locale port_simulation =
  fixes R :: "'v \<Rightarrow> 'w \<Rightarrow> bool"
    and P :: "'v Port" and dir :: string and port :: nat
    and Q :: "'w Port" and dir' :: string and port' :: nat
  assumes hello: "sim R (at_hello P worker boot) (at_hello Q worker boot)"
    and publish: "obs_ok frame_stream p \<Longrightarrow> sim R (at_publish P p) (at_publish Q p)"
    and eval: "plans_ok plans \<Longrightarrow> sim R (at_eval P wl wg plans) (at_eval Q wl wg plans)"
    and evidence: "evidence_ok e \<Longrightarrow> sim R (at_record P e) (at_record Q e)"
    and realize: "sim R (at_realize P req wl) (at_realize Q req wl)"
    and revalidate: "plans_ok plans \<Longrightarrow> sim R (at_revalidate P plans) (at_revalidate Q plans)"
    and state: "sim R (at_state P) (at_state Q)"
    and remove: "sim R (at_remove P (runner_state_file dir)) (at_remove Q (runner_state_file dir'))"
    and start: "sim R (at_start P (coord_args dir port)) (at_start Q (coord_args dir' port'))"
    and stop: "sim R (at_stop P) (at_stop Q)"
    and spawn: "sim R (at_spawn P (dec_digits port @ CHR 0x20 # args)) (at_spawn Q (dec_digits port' @ CHR 0x20 # args))"
    and kill: "sim R (at_kill P i) (at_kill Q i)"
begin

lemma runner_values:
  "kind = PriceKind.ACCELERATOR_TIME \<or> kind = PriceKind.TRANSFER \<Longrightarrow>
    obs_ok frame_stream (mk_price i kind dev amt worker boot now)"
  "evidence_ok (attempt i' req dev worker boot)"
  "evidence_ok (runner_attempt i' att ns success)"
  "plans_ok [plan_for i' wl dev worker acc tr]"
  "plans_ok runner_plans"
  by (auto simp: obs_ok_def mk_price_def PriceObservation_default_def string_ok_def string_bound_def
      kDefaultCurrency_def enum_wf_def PriceKind_wf_def PriceKind_enumerators_def Provenance_wf_def
      Provenance_enumerators_def DataLabel_wf_def DataLabel_enumerators_def evidence_ok_def attempt_def runner_attempt_def
      mk_attempt_def CostEvidence_default_def plans_ok_def runner_plans_def plan_for_def ExecutionPlan_default_def)

lemmas calls = sim_sys [OF hello] sim_sys [OF publish] sim_sys [OF eval] sim_sys [OF evidence] sim_sys [OF realize]
  sim_sys [OF revalidate] sim_sys [OF state] sim_sys [OF stop] sim_sys [OF kill] sim_sys [OF remove] sim_sys [OF start]
  sim_until_published [OF publish] sim_wait_for_obs [OF state]

lemmas steps = sim_bind sim_return sim_check sim_case_prod calls sim_sys [OF spawn] runner_values

lemma sim_expect_publish:
  "obs_ok frame_stream p \<Longrightarrow> sim (runner_rel R) (expect_publish P name p st) (expect_publish Q name p st)"
  unfolding expect_publish_def by (intro steps)

lemma sim_expect_record:
  "evidence_ok e \<Longrightarrow> sim (runner_rel R) (expect_record P name e st) (expect_record Q name e st)"
  unfolding expect_record_def by (intro steps)

lemma sim_scenario_A: "sim (runner_rel R) (scenario_A P (dec_digits port)) (scenario_A Q (dec_digits port'))"
  unfolding scenario_A_def by (intro steps)

lemma sim_scenario_A2: "sim (runner_rel R) (scenario_A2 P) (scenario_A2 Q)"
  unfolding scenario_A2_def by (intro steps sim_expect_publish sim_expect_record; simp)

lemma sim_scenario_F: "sim (runner_rel R) (scenario_F P) (scenario_F Q)"
  unfolding scenario_F_def by (intro steps sim_expect_publish; simp)

lemma sim_scenario_E: "sim (runner_rel R) (scenario_E P) (scenario_E Q)"
  unfolding scenario_E_def by (intro steps)

lemma sim_scenario_B: "sim (runner_rel R) (scenario_B P) (scenario_B Q)"
  unfolding scenario_B_def by (intro steps)

lemma sim_scenario_C: "sim (runner_rel R) (scenario_C P (dec_digits port)) (scenario_C Q (dec_digits port'))"
  unfolding scenario_C_def by (intro steps sim_expect_publish sim_expect_record; simp)

lemma sim_scenario_C2: "sim (runner_rel R) (scenario_C2 P (dec_digits port)) (scenario_C2 Q (dec_digits port'))"
  unfolding scenario_C2_def by (intro steps sim_expect_publish sim_expect_record; simp)

lemma sim_scenario_D: "sim (runner_rel R) (scenario_D P) (scenario_D Q)"
  unfolding scenario_D_def Let_def by (intro steps)

lemma sim_scenario_restart:
  "sim (runner_rel R) (scenario_restart P (coord_args dir port)) (scenario_restart Q (coord_args dir' port'))"
  unfolding scenario_restart_def by (intro steps; simp)

lemma sim_runner_main: "sim (runner_rel R) (runner_main P dir port) (runner_main Q dir' port')"
  unfolding runner_main_def
  by (intro sim_bind sim_if sim_return sim_check sim_exit_code calls sim_scenario_A sim_scenario_A2 sim_scenario_F
      sim_scenario_E sim_scenario_B sim_scenario_C sim_scenario_C2 sim_scenario_D sim_scenario_restart)

end

subsection \<open>The workers beside two coordinators\<close>

definition call_ok :: "WorkerCall \<Rightarrow> bool" where
  "call_ok a = (case a of Greet _ _ \<Rightarrow> True | Offer p \<Rightarrow> obs_ok frame_stream p)"

definition world_rel :: "('v \<Rightarrow> 'w \<Rightarrow> bool) \<Rightarrow> 'v World \<Rightarrow> 'w World \<Rightarrow> bool" where
  "world_rel R v w \<longleftrightarrow> R (w_site v) (w_site w) \<and> w_children v = w_children w \<and> w_time v = w_time w \<and>
    list_all (\<lambda>ch. list_all call_ok (ch_calls ch)) (w_children w)"

lemma worker_main_calls_ok: "worker_main connected argv = Inr (calls, stay) \<Longrightarrow> list_all call_ok calls"
  using worker_observations_ok
  by (auto simp: worker_main_def Let_def worker_calls_def call_ok_def list_all_iff split: if_splits)

locale site_simulation =
  fixes R :: "'v \<Rightarrow> 'w \<Rightarrow> bool"
    and S :: "nat \<Rightarrow> 'v Site" and argv :: "string \<Rightarrow> string list" and dir :: string and port :: nat
    and T :: "nat \<Rightarrow> 'w Site" and argv' :: "string \<Rightarrow> string list" and dir' :: string and port' :: nat
    and turns :: "nat \<Rightarrow> nat list"
  assumes s_hello: "sim R (s_hello (S k) worker boot) (s_hello (T k) worker boot)"
    and s_publish: "obs_ok frame_stream p \<Longrightarrow> sim R (s_publish (S k) p) (s_publish (T k) p)"
    and s_eval: "plans_ok plans \<Longrightarrow> sim R (s_eval (S k) wl wg plans) (s_eval (T k) wl wg plans)"
    and s_record: "evidence_ok e \<Longrightarrow> sim R (s_record (S k) e) (s_record (T k) e)"
    and s_realize: "sim R (s_realize (S k) req wl) (s_realize (T k) req wl)"
    and s_revalidate: "plans_ok plans \<Longrightarrow> sim R (s_revalidate (S k) plans) (s_revalidate (T k) plans)"
    and s_state: "sim R (s_state (S k)) (s_state (T k))"
    and s_ping: "sim R (s_ping (S k)) (s_ping (T k))"
    and s_remove: "sim R (s_remove (S k) (runner_state_file dir)) (s_remove (T k) (runner_state_file dir'))"
    and s_start: "sim R (s_start (S k) (coord_args dir port)) (s_start (T k) (coord_args dir' port'))"
    and s_stop: "sim R (s_stop (S k)) (s_stop (T k))"
    and s_worker: "worker_main True (argv (dec_digits port @ CHR 0x20 # args)) =
      worker_main True (argv' (dec_digits port' @ CHR 0x20 # args))"
begin

lemma worker_call_sim:
  assumes "call_ok a"
  shows "sim R (worker_call (S k) a) (worker_call (T k) a)"
proof (cases a)
  case (Greet worker boot)
  then show ?thesis
    using s_hello unfolding sim_def worker_call_def by simp
next
  case (Offer p)
  then have "sim R (s_publish (S k) p) (s_publish (T k) p)"
    using assms by (intro s_publish) (simp add: call_ok_def)
  then show ?thesis
    by (intro simI) (fastforce simp: worker_call_def Offer dest: simD split: option.splits)
qed

lemma child_turn_sim:
  assumes R: "world_rel R v w" and w: "child_turn T i w = Some w1"
  shows "\<exists>v1. child_turn S i v = Some v1 \<and> world_rel R v1 w1"
proof (cases "i < length (w_children w)")
  case True
  let ?ch = "w_children w ! i"
  have same: "R (w_site v) (w_site w)" "w_children v = w_children w" "w_time v = w_time w"
    "list_all call_ok (ch_calls ?ch)"
    using R True by (simp_all add: world_rel_def list_all_length)
  show ?thesis
  proof (cases "ch_calls ?ch")
    case Nil
    show ?thesis
    proof (cases "ch_stay ?ch")
      case stay: True
      then obtain s where s: "s_ping (T (w_time w)) (w_site w) = Some ((), s)" "w1 = w\<lparr>w_site := s\<rparr>"
        using w True Nil by (auto simp: child_turn_def split: option.splits)
      then show ?thesis
        using simD [OF s_ping same(1) s(1)] same True Nil stay R by (auto simp: child_turn_def world_rel_def)
    next
      case False
      then show ?thesis
        using w True Nil same R by (auto simp: child_turn_def)
    qed
  next
    case (Cons a calls)
    then obtain s where s: "worker_call (T (w_time w)) a (w_site w) = Some ((), s)"
      "w1 = w\<lparr>w_site := s, w_children := (w_children w)[i := ?ch\<lparr>ch_calls := calls\<rparr>], w_time := Suc (w_time w)\<rparr>"
      using w True by (auto simp: child_turn_def split: option.splits)
    moreover have "call_ok a" "list_all call_ok calls"
      using same(4) Cons by simp_all
    moreover have "list_all (\<lambda>ch. list_all call_ok (ch_calls ch)) (w_children w1)"
      using R calculation by (auto simp: world_rel_def list_all_iff dest!: set_update_subset_insert [THEN subsetD])
    ultimately show ?thesis
      using simD [OF worker_call_sim same(1) s(1)] same True Cons by (auto simp: child_turn_def world_rel_def)
  qed
qed (use assms in \<open>auto simp: child_turn_def world_rel_def\<close>)

lemma child_turns_sim:
  "world_rel R v w \<Longrightarrow> child_turns T is w = Some w1 \<Longrightarrow> \<exists>v1. child_turns S is v = Some v1 \<and> world_rel R v1 w1"
proof (induction "is" arbitrary: v w)
  case (Cons i "is")
  then obtain w2 where w2: "child_turn T i w = Some w2" "child_turns T is w2 = Some w1"
    by (auto split: option.splits)
  then show ?case
    using child_turn_sim [OF Cons.prems(1) w2(1)] Cons.IH by auto
qed simp

lemma request_sim:
  assumes "\<And>k. sim R (f k) (h k)"
  shows "sim (world_rel R) (request S turns f) (request T turns h)"
proof (rule simI)
  fix v w x w1
  assume R: "world_rel R v w" and "request T turns h w = Some (x, w1)"
  then obtain w2 s where w2: "child_turns T (turns (w_time w)) w = Some w2" "h (w_time w2) (w_site w2) = Some (x, s)"
    "w1 = w2\<lparr>w_site := s, w_time := Suc (w_time w2)\<rparr>"
    by (auto simp: request_def split: option.splits)
  obtain v2 where v2: "child_turns S (turns (w_time v)) v = Some v2" "world_rel R v2 w2"
    using child_turns_sim [OF R w2(1)] R by (auto simp: world_rel_def)
  then have "R (w_site v2) (w_site w2)" "w_time v2 = w_time w2"
    by (simp_all add: world_rel_def)
  then obtain s2 where "f (w_time v2) (w_site v2) = Some (x, s2)" "R s2 s"
    using simD [OF assms _ w2(2)] by metis
  then show "\<exists>v1. request S turns f v = Some (x, v1) \<and> world_rel R v1 w1"
    using v2 w2(3) by (auto simp: request_def world_rel_def)
qed

lemma on_site_sim: "sim R f h \<Longrightarrow> sim (world_rel R) (on_site f) (on_site h)"
  by (rule simI) (fastforce simp: on_site_def world_rel_def dest: simD split: option.splits)

lemma stop_sim: "sim (world_rel R) (stop_coordinator (S 0)) (stop_coordinator (T 0))"
proof (rule simI)
  fix v w x w1
  assume R: "world_rel R v w" and "stop_coordinator (T 0) w = Some (x, w1)"
  then obtain w2 where w2: "on_site (s_stop (T 0)) w = Some (x, w2)" "w1 = w2\<lparr>w_children := map (\<lambda>_. ended) (w_children w2)\<rparr>"
    by (auto simp: stop_coordinator_def split: option.splits)
  then obtain v2 where "on_site (s_stop (S 0)) v = Some (x, v2)" "world_rel R v2 w2"
    using simD [OF on_site_sim [OF s_stop] R] by blast
  then show "\<exists>v1. stop_coordinator (S 0) v = Some (x, v1) \<and> world_rel R v1 w1"
    using w2(2) by (auto simp: stop_coordinator_def world_rel_def ended_def list_all_iff)
qed

lemma spawn_sim:
  "sim (world_rel R) (spawn_worker argv (dec_digits port @ CHR 0x20 # args)) (spawn_worker argv' (dec_digits port' @ CHR 0x20 # args))"
  using worker_main_calls_ok
  by (intro simI) (auto simp: spawn_worker_def world_rel_def s_worker ended_def split: sum.splits)

lemma kill_sim: "sim (world_rel R) (kill_child i) (kill_child i)"
  by (rule simI)
    (auto simp: kill_child_def world_rel_def ended_def list_all_iff dest!: set_update_subset_insert [THEN subsetD])

end

sublocale site_simulation \<subseteq> port_simulation "world_rel R" "world_port argv turns S" dir port "world_port argv' turns T" dir' port'
  by unfold_locales
    (simp_all add: world_port_def request_sim on_site_sim stop_sim spawn_sim kill_sim
      s_hello s_publish s_eval s_record s_realize s_revalidate s_state s_remove s_start)

context site_simulation
begin

lemma run_simulated:
  "sim (runner_rel (world_rel R)) (runner_main (world_port argv turns S) dir port) (runner_main (world_port argv' turns T) dir' port')"
  by (rule sim_runner_main)

end

end
