(* ===== verification/Runs.thy ===== *)
theory Runs
  imports Runner
begin

text \<open>
  The run of the distributed proof: the system with a coordinator that reads, writes and persists simulates
  the one that keeps the governor alone, and the runner on the latter is evaluated.
\<close>

section \<open>The relation\<close>

definition run_ok :: "string \<Rightarrow> Impl \<Rightarrow> bool" where
  "run_ok path g \<longleftrightarrow> durable_inv g \<and> g_store g = Some path \<and> dom (g_budgets g) = {mk_Id 1} \<and> g_interventions g = Map.empty"

definition file_holds :: "string \<Rightarrow> Impl option \<Rightarrow> FileSystem \<Rightarrow> bool" where
  "file_holds path saved fs =
    (case saved of
       None \<Rightarrow> fs path = None
     | Some g \<Rightarrow> run_ok path g \<and> (\<exists>bs. fs path = Some bs \<and> decode bs = Inr (durable_snapshot [mk_Id 1] [] g)))"

definition site_rel :: "string \<Rightarrow> CoordSite \<Rightarrow> GovSite \<Rightarrow> bool" where
  "site_rel path s l =
    (case s of
       Down fs \<Rightarrow> (\<exists>saved. l = Stopped saved \<and> file_holds path saved fs)
     | Up c \<Rightarrow> (\<exists>saved. l = Running (co_gov c) (co_last_decision c) saved \<and> run_ok path (co_gov c) \<and>
         file_holds path saved (co_fs c)))"

text \<open>The tables have one budget and no intervention, and saves succeed.\<close>

definition env_ok :: "Env \<Rightarrow> bool" where
  "env_ok env \<longleftrightarrow> en_border env = [mk_Id 1] \<and> en_iorder env = [] \<and> save_status (en_save env) = Status.OK"

lemma grows_run_ok: "grows g g' \<Longrightarrow> run_ok path g \<Longrightarrow> run_ok path g'"
  by (simp add: grows_def run_ok_def)

lemma run_ok_snapshot:
  assumes "run_ok path g" and "fits g"
  shows "snapshot_ok (durable_snapshot [mk_Id 1] [] g)"
  using assms
  by (intro durable_snapshot_ok) (simp_all add: run_ok_def room_def fits_def iteration_order_def)

lemma persist_holds:
  assumes "run_ok path g" and "fits g" and "env_ok env"
  shows "\<exists>fs'. persist (en_save env) (en_border env) (en_iorder env) g fs = (Inr Status.OK, fs') \<and> file_holds path (Some g) fs'"
proof -
  let ?s = "durable_snapshot [mk_Id 1] [] g"
  obtain payload where payload: "write_payload ?s = Inr payload" "read_payload payload = Inr (?s, [])"
    using payload_roundtrip [OF run_ok_snapshot [OF assms(1, 2)]] by blast
  have "decode (encode_header payload @ payload) = Inr ?s"
    using decode_encoded [OF payload_length_ok [OF run_ok_snapshot [OF assms(1, 2)] payload(1)]] payload(2) by simp
  then show ?thesis
    using assms(1, 3) payload(1)
    by (auto simp: persist_def Let_def save_def encode_def run_ok_def env_ok_def file_holds_def save_trace_last)
qed

section \<open>The calls\<close>

lemma intake_sim:
  assumes "\<And>c y c'. persisted env (f (co_gov c)) c = (Inr y, c') \<Longrightarrow> op c = (Inr y, c')"
    and "\<And>g st g'. f g = (st, g') \<Longrightarrow> grows g g'" and "env_ok env"
  shows "sim (site_rel path) (client_call op) (gov_intake f)"
proof (rule simI)
  fix s l st l1
  assume R: "site_rel path s l" and l: "gov_intake f l = Some (st, l1)"
  then obtain c saved where c: "s = Up c" "l = Running (co_gov c) (co_last_decision c) saved"
    "run_ok path (co_gov c)" "file_holds path saved (co_fs c)"
    by (auto simp: site_rel_def gov_intake_def split: CoordSite.splits)
  obtain g1 where g1: "f (co_gov c) = (st, g1)"
    using l c(2) by (auto simp: gov_intake_def split: prod.splits if_splits)
  have ok: "run_ok path g1"
    using grows_run_ok [OF assms(2) [OF g1] c(3)] .
  show "\<exists>s1. client_call op s = Some (st, s1) \<and> site_rel path s1 l1"
  proof (cases "st = Status.OK")
    case True
    then have fits: "fits g1" "l1 = Running g1 (co_last_decision c) (Some g1)"
      using l c(2) g1 by (auto simp: gov_intake_def split: if_splits)
    obtain fs where "persist (en_save env) (en_border env) (en_iorder env) g1 (co_fs c) = (Inr Status.OK, fs)"
      "file_holds path (Some g1) fs"
      using persist_holds [OF ok fits(1) assms(3)] by blast
    then show ?thesis
      using assms(1) [of c] True ok fits(2) by (auto simp: c(1) g1 persisted_def client_call_def site_rel_def)
  next
    case False
    then show ?thesis
      using assms(1) [of c] l c ok g1 by (auto simp: persisted_def client_call_def site_rel_def gov_intake_def)
  qed
qed

lemma Client_state_answer:
  "Client_state env c = (Inr (Id_value (g_epoch (co_gov c)), Id_value (ps_generation (g_schedule (co_gov c))),
    Id_value (pol_generation (g_policy (co_gov c))), of_nat (length (budgets (en_border env) (co_gov c))),
    of_nat (length (ps_observations (g_schedule (co_gov c))))), c)"
proof -
  have "Reader_u64 frame_stream (Writer_u64 x) = Inr (x, [])" for x
    using Reader_u64_put [of frame_stream x "[]"] by simp
  then show ?thesis
    by (simp add: Client_state_def remote_def call_def handle_def handle_get_state_def Let_def answers_def read_state_def
        codec_rules)
qed

lemma call_sims:
  assumes "env_ok env"
  shows "sim (site_rel path) (client_call (Client_hello worker boot env)) (gov_hello worker boot)"
    and "plans_ok plans \<Longrightarrow> sim (site_rel path) (client_call (Client_eval wl wg plans env)) (gov_eval wl wg plans)"
    and "plans_ok plans \<Longrightarrow> sim (site_rel path) (client_call (Client_revalidate plans env)) (gov_revalidate plans)"
    and "sim (site_rel path) (client_call (Client_state env)) gov_state"
    and "sim (site_rel path) (client_call (Client_realize req wl env)) (gov_realize req wl)"
proof -
  show "sim (site_rel path) (client_call (Client_hello worker boot env)) (gov_hello worker boot)"
    by (rule simI)
      (auto simp: site_rel_def gov_hello_def client_call_def Client_hello_effect grows_run_ok [OF grows_intake(3)]
        split: CoordSite.splits)
  show "sim (site_rel path) (client_call (Client_eval wl wg plans env)) (gov_eval wl wg plans)" if "plans_ok plans"
    using that evaluating.remote_returns [of "(wl, wg, plans)" env] assms
    by (intro simI)
      (fastforce simp: site_rel_def gov_eval_def client_call_def Client_eval_def local_eval_def env_ok_def
        split: CoordSite.splits sum.splits)
  show "sim (site_rel path) (client_call (Client_revalidate plans env)) (gov_revalidate plans)" if "plans_ok plans"
    using revalidating.remote_returns [OF that, of env] assms
    by (intro simI)
      (fastforce simp: site_rel_def gov_revalidate_def client_call_def Client_revalidate_def local_revalidate_def env_ok_def
        split: CoordSite.splits sum.splits)
  show "sim (site_rel path) (client_call (Client_state env)) gov_state"
    using assms
    by (intro simI)
      (auto simp: site_rel_def gov_state_def client_call_def Client_state_answer env_ok_def split: CoordSite.splits)
  show "sim (site_rel path) (client_call (Client_realize req wl env)) (gov_realize req wl)"
    using realizing.remote_returns [where x = "(req, wl)" and env = env]
    by (intro simI)
      (fastforce simp: site_rel_def gov_realize_def client_call_def Client_realize_def local_realize_def
        dest: grows_run_ok [OF grows_intake(2)] split: CoordSite.splits sum.splits prod.splits)
qed

section \<open>Starting and stopping\<close>

lemma process_sims:
  shows "sim (site_rel path) (ping_coordinator env) (\<lambda>s. Some ((), s))"
    and "sim (site_rel path) kill_coordinator (\<lambda>s. case s of Running _ _ saved \<Rightarrow> Some ((), Stopped saved) | _ \<Rightarrow> None)"
    and "sim (site_rel path) (remove_file path) (\<lambda>s. case s of Stopped _ \<Rightarrow> Some ((), Stopped None) | _ \<Rightarrow> None)"
  by (auto intro!: simI simp: site_rel_def ping_coordinator_def handle_def kill_coordinator_def remove_file_def file_holds_def
      split: CoordSite.splits)

lemma fresh_starts:
  assumes "fs path = None"
  shows "\<exists>c. coordinator_start path io fs = Inr c \<and> co_gov c = fresh_gov path \<and> co_last_decision c = CostDecision_default \<and>
    co_fs c = fs \<and> run_ok path (fresh_gov path)"
proof -
  have "run_ok path (fresh_gov path)"
    using fresh_durable [of path]
    by (auto simp: run_ok_def fresh_gov_def Let_def create_budget_def coordinator_budget_def set_price_schedule_def
        set_policy_def set_state_path_def coordinator_policy_def Impl_init_def Budget_default_def CostPolicy_default_def
        umap_emplace_def from_units_def kMicrosPerUnit_def money_negative_def sint_rules)
  then show ?thesis
    using assms by (simp add: coordinator_start_def Let_def state_exists_def state_file_exists_def fresh_gov_def)
qed

lemma reloaded_starts:
  assumes "file_holds path (Some g) fs" and "tell_ok io" and "read_ok io"
  shows "\<exists>c. coordinator_start path io fs = Inr c \<and> co_gov c = reloaded_gov path g \<and> co_last_decision c = CostDecision_default \<and>
    co_fs c = fs \<and> run_ok path (reloaded_gov path g)"
proof -
  let ?g = "set_policy coordinator_policy (set_state_path path Impl_init)"
  obtain bs where bs: "fs path = Some bs" "decode bs = Inr (durable_snapshot [mk_Id 1] [] g)" and g: "run_ok path g"
    using assms(1) by (auto simp: file_holds_def)
  have orders: "durable_inv g" "iteration_order (g_budgets g) [mk_Id 1]" "iteration_order (g_interventions g) []"
    using g by (simp_all add: run_ok_def iteration_order_def)
  obtain c g1 where c: "coordinator_start path io fs = Inr c" "recovers g g1" "co_gov c = advance_epoch g1"
    using start_recovers [of fs path, OF bs orders assms(2, 3)] by blast
  have "load_snapshot io path fs = Inr (durable_snapshot [mk_Id 1] [] g)"
    using bs assms(2, 3) by (simp add: load_snapshot_def)
  then have parts: "co_gov c = reloaded_gov path g" "co_last_decision c = CostDecision_default" "co_fs c = fs"
    using c(1) bs(1)
    by (auto simp: coordinator_start_def Let_def state_exists_def state_file_exists_def load_def set_policy_def
        set_state_path_def reloaded_gov_def)
  have "g_budgets g1 = (\<lambda>i. map_option restored_budget (g_budgets g i))" "g_interventions g1 = Map.empty"
    using c(2) g by (auto simp: recovers_def run_ok_def find_budget_def)
  then have "dom (g_budgets (co_gov c)) = {mk_Id 1}" "g_interventions (co_gov c) = Map.empty"
    using g by (simp_all add: c(3) advance_epoch_def run_ok_def dom_map_option)
  moreover have "durable_inv (co_gov c) \<and> g_store (co_gov c) = Some path"
    using started_durable [OF c(1)] .
  ultimately show ?thesis
    using c(1) parts by (simp add: run_ok_def)
qed

lemma start_sim:
  assumes "coordinator_args (spawn_argv (se_platform se) (process_name (se_platform se) (se_dir se) ''coordinator'') args) = (n, path)"
    and "n \<noteq> 0" and "socket_ok (se_listen se)" "bind_ok (se_listen se)" "listen_ok (se_listen se)"
    and "tell_ok (se_load se)" "read_ok (se_load se)"
  shows "sim (site_rel path) (start_coordinator se args) (gov_start path)"
proof (rule simI)
  fix s l x l1
  assume R: "site_rel path s l" and l: "gov_start path l = Some (x, l1)"
  then obtain fs saved where s: "s = Down fs" "l = Stopped saved" "file_holds path saved fs"
    by (auto simp: site_rel_def gov_start_def split: CoordSite.splits)
  let ?g = "case saved of None \<Rightarrow> fresh_gov path | Some g \<Rightarrow> reloaded_gov path g"
  have l1: "x = True" "l1 = Running ?g CostDecision_default saved"
    using l s(2) by (auto simp: gov_start_def)
  obtain c where c: "coordinator_start path (se_load se) fs = Inr c" "co_gov c = ?g" "co_last_decision c = CostDecision_default"
    "co_fs c = fs" "run_ok path ?g"
  proof (cases saved)
    case None
    then show ?thesis
      using that fresh_starts [of fs path "se_load se"] s(3) by (auto simp: file_holds_def)
  next
    case (Some g)
    then show ?thesis
      using that reloaded_starts [of path g fs, OF _ assms(6, 7)] s(3) by auto
  qed
  then have "start_coordinator se args s = Some (True, Up c)"
    using assms(1-5) by (simp add: start_coordinator_def s(1) coordinator_main_def)
  then show "\<exists>s1. start_coordinator se args s = Some (x, s1) \<and> site_rel path s1 l1"
    using c s(3) l1 by (simp add: site_rel_def)
qed

section \<open>The whole system\<close>

text \<open>A runner in its own directory, on a system that grants what it asks for.\<close>

definition setting_ok :: "Setting \<Rightarrow> nat \<Rightarrow> bool" where
  "setting_ok se port \<longleftrightarrow> se_platform se = Windows \<and> CHR 0x22 \<notin> set (se_dir se) \<and> 0 < port \<and> port < 65536 \<and>
    socket_ok (se_listen se) \<and> bind_ok (se_listen se) \<and> listen_ok (se_listen se) \<and>
    tell_ok (se_load se) \<and> read_ok (se_load se)"

lemma port_nonzero: "0 < port \<Longrightarrow> port < 65536 \<Longrightarrow> (of_nat port :: i32) \<noteq> 0"
  by (simp add: word_of_nat_eq_0_iff nat_dvd_not_less)

lemma worker_started:
  assumes "CHR 0x22 \<notin> set exe" and "0 < port" and "port < 65536"
  shows "worker_main True (spawn_argv Windows exe (dec_digits port @ CHR 0x20 # args)) =
    worker_main True (spawn_argv Windows ''./worker.exe'' (dec_digits 7 @ CHR 0x20 # args))"
  using windows_worker_args [OF assms(1), of port args] windows_worker_args [of "''./worker.exe''" 7 args]
    port_nonzero [OF assms(2, 3)]
  by (cases "worker_options (drop 1 (split_args False None args)) False 0") (simp add: worker_main_def Let_def)

lemma runner_simulation:
  assumes "setting_ok se port" and "\<And>k. env_ok (envs k)"
  shows "site_simulation (site_rel (runner_state_file (se_dir se))) (\<lambda>k. coordinator_site se (envs k))
    (spawn_argv Windows (process_name Windows (se_dir se) ''worker'')) (se_dir se) port
    (\<lambda>_. gov_site (runner_state_file (se_dir se))) (spawn_argv Windows ''./worker.exe'') ''.'' 7"
proof
  let ?path = "runner_state_file (se_dir se)"
  have names: "CHR 0x22 \<notin> set ?path" "CHR 0x22 \<notin> set (process_name Windows (se_dir se) name)" if "CHR 0x22 \<notin> set name" for name
    using assms(1) that by (auto simp: setting_ok_def runner_state_file_def process_name_def)
  have start: "coordinator_args (spawn_argv (se_platform se) (process_name (se_platform se) (se_dir se) ''coordinator'')
      (coord_args (se_dir se) port)) = (of_nat port, ?path)"
    using windows_coordinator_args [OF names(2) names(1), of "''coordinator''" "[]" port] assms(1)
    by (simp add: setting_ok_def coord_args_def)
  fix k i j args e
  show "worker_main True (spawn_argv Windows (process_name Windows (se_dir se) ''worker'') (dec_digits port @ CHR 0x20 # args)) =
      worker_main True (spawn_argv Windows ''./worker.exe'' (dec_digits 7 @ CHR 0x20 # args))"
    using assms(1) names(2) [of "''worker''"] by (intro worker_started) (simp_all add: setting_ok_def)
  show "sim (site_rel ?path) (s_start (coordinator_site se (envs k)) (coord_args (se_dir se) port))
      (s_start (gov_site ?path) (coord_args ''.'' 7))"
    using start_sim [OF start port_nonzero] assms(1) by (simp add: setting_ok_def coordinator_site_def gov_site_def)
  show "sim (site_rel ?path) (s_publish (coordinator_site se (envs k)) p) (s_publish (gov_site ?path) p)" if "obs_ok frame_stream p" for p
    unfolding coordinator_site_def gov_site_def Client_publish_def Site.simps
    by (rule intake_sim [OF publishing.remote_returns [OF that] grows_publish [OF _ that] assms(2)])
  show "sim (site_rel ?path) (s_record (coordinator_site se (envs k)) e) (s_record (gov_site ?path) e)" if "evidence_ok e" for e
    unfolding coordinator_site_def gov_site_def Client_record_def Site.simps
    by (rule intake_sim [OF recording.remote_returns [OF that] grows_intake(1) assms(2)])
qed (simp_all add: coordinator_site_def gov_site_def call_sims [OF assms(2)] process_sims)

text \<open>A schedule in which every worker has made its calls before the runner's next request.\<close>

definition eager :: "nat \<Rightarrow> nat list" where
  "eager k = [0, 0, 0, 1, 1, 1, 2, 2, 2, 3, 3, 3]"

lemma gov_runs:
  "case runner_main (world_port (spawn_argv Windows ''./worker.exe'') eager (\<lambda>_. gov_site path)) ''.'' 7
      (runner_init (Stopped None)) of
     None \<Rightarrow> False
   | Some (code, w) \<Rightarrow> code = 0 \<and> rn_pass w = 31 \<and> rn_fail w = 0"
  by code_simp

text \<open>What the state file holds at the start does not matter: it is removed first.\<close>

lemma runner_removes:
  "runner_main (runner_port se envs turns) dir port (runner_init (Down fs)) =
    runner_main (runner_port se envs turns) dir port (runner_init (Down (fs(runner_state_file dir := None))))"
  by (simp add: runner_main_def bindW_def sys_def runner_port_def world_port_def on_site_def coordinator_site_def
      remove_file_def runner_init_def)

definition sample_setting :: Setting where
  "sample_setting = \<lparr>se_platform = Windows, se_dir = ''.'',
    se_listen = \<lparr>socket_ok = True, bind_ok = True, listen_ok = True\<rparr>, se_load = good_load\<rparr>"

lemma sample_setting_ok: "setting_ok sample_setting 7" "env_ok runner_env"
  by (simp_all add: setting_ok_def sample_setting_def good_load_def env_ok_def runner_env_def good_save_def save_status_def)

interpretation sample_run: site_simulation "site_rel (runner_state_file (se_dir sample_setting))"
  "\<lambda>k. coordinator_site sample_setting runner_env" "spawn_argv Windows (process_name Windows (se_dir sample_setting) ''worker'')"
  "se_dir sample_setting" 7 "\<lambda>_. gov_site (runner_state_file (se_dir sample_setting))" "spawn_argv Windows ''./worker.exe''" "''.''" 7
  eager
  using runner_simulation [OF sample_setting_ok(1)] sample_setting_ok(2) .

section \<open>Properties\<close>



end
