(* ===== verification/Examples.thy ===== *)
theory Examples
  imports Cli
begin

text \<open>
  The example programs (\<^verbatim>\<open>examples/\<close>), each as the lines it prints: the model evaluated on the scenarios that
  the repository documents itself with. An exception that a program does not catch is its result, and so
  is reading an empty optional or the front of an empty list. The iteration order of a table is an
  argument where a program iterates one.
\<close>

section \<open>Common scenario\<close>

definition ex_now :: i64 where
  "ex_now = 1000000000"

definition ex_clock :: Clock where
  "ex_clock = (\<lambda>_. ex_now)"

definition ex_gov :: Impl where
  "ex_gov = set_worker_boot (mk_Id 1) (mk_Id 1) (set_policy
    (CostPolicy_default\<lparr>pol_currency := kDefaultCurrency, pol_epoch := mk_Id 1, pol_generation := mk_Id 1,
       pol_max_evidence_age_ms := 30000, pol_price_schedule_max_age_ms := 30000, pol_allow_policy := True,
       pol_allow_measured := True, pol_allow_synthetic := True\<rparr>) Impl_init)"

definition ex_observation :: "EvidenceId \<Rightarrow> PriceKind \<Rightarrow> i64 \<Rightarrow> PriceObservation" where
  "ex_observation i kind price = PriceObservation_default\<lparr>po_id := i, po_kind := kind, po_amount := from_micros price,
    po_currency := kDefaultCurrency, po_label := DataLabel.POLICY, po_provenance := Provenance.CONFIGURED_POLICY,
    po_observed_at_ms := ex_now, po_epoch := mk_Id 1, po_worker := mk_Id 1, po_boot := mk_Id 1\<rparr>"

definition accel_price :: "i64 \<Rightarrow> Impl \<Rightarrow> Impl" where
  "accel_price micros_per_sec = set_price_schedule
    (PriceSchedule_default\<lparr>ps_id := mk_Id 1, ps_generation := mk_Id 1, ps_created_at_ms := ex_now,
       ps_observations := [ex_observation (mk_Id 1) PriceKind.ACCELERATOR_TIME micros_per_sec]\<rparr>)"

definition transfer_price :: "i64 \<Rightarrow> Impl \<Rightarrow> Impl" where
  "transfer_price micros_per_gb g =
    (let s = g_schedule g
     in set_price_schedule (s\<lparr>ps_observations := ps_observations s @
          [ex_observation (mk_Id 2) PriceKind.TRANSFER micros_per_gb]\<rparr>) g)"

definition ex_plan :: "PlanId \<Rightarrow> i64 \<Rightarrow> ExecutionPlan" where
  "ex_plan i ns = ExecutionPlan_default\<lparr>pl_id := i, pl_generation := mk_Id 1, pl_workload := mk_Id 1,
    pl_workload_generation := mk_Id 1, pl_expected_accelerator_time := Amount ns, pl_expected_requests := 1\<rparr>"

definition ex_budget :: "MoneyMicros \<Rightarrow> Budget" where
  "ex_budget limit = Budget_default\<lparr>b_id := mk_Id 1, b_generation := mk_Id 1, b_policy_generation := mk_Id 1,
    b_epoch := mk_Id 1, b_limit := limit, b_mode := BudgetMode.HARD\<rparr>"

section \<open>Programs\<close>

text \<open>The rest of a program after an accounting operation, and after reading an optional.\<close>

definition after_op :: "(exn + 'a) \<times> 'r \<times> 's \<Rightarrow> ('a \<Rightarrow> 'r \<Rightarrow> 's \<Rightarrow> exn + 'b) \<Rightarrow> exn + 'b" where
  "after_op r k = (case r of (x, y, z) \<Rightarrow> bindE x (\<lambda>st. k st y z))"

definition the_value :: "'a option \<Rightarrow> exn + 'a" where
  "the_value x = (case x of None \<Rightarrow> Inl (runtime_error ''empty optional'') | Some y \<Rightarrow> Inr y)"

definition example_basic_budget :: "exn + string list" where
  "example_basic_budget =
    (case create_budget (ex_budget (from_units 100)) ex_gov of (st1, g1) \<Rightarrow>
     after_op (reserve ex_clock (mk_Id 1) (mk_Id 1) (mk_Id 1) (from_units 40) BudgetReservation_default g1) (\<lambda>st2 r2 g2.
     after_op (commit ex_clock r2 g2) (\<lambda>st3 r3 g3.
     bindE (the_value (find_budget g3 (mk_Id 1))) (\<lambda>after.
     bindE (remaining after) (\<lambda>rest.
     after_op (commit ex_clock r3 g3) (\<lambda>st4 _ _. Inr
       [''create_budget: '' @ status_name st1, ''reserve 40.00: '' @ status_name st2, ''commit: '' @ status_name st3,
        ''consumed='' @ money_to_string (b_consumed after) @ '' reserved='' @ money_to_string (b_reserved after),
        ''remaining='' @ money_to_string rest @ '' lifecycle='' @ budget_lifecycle_name (b_lifecycle after),
        ''release after commit is idempotent (no double-charge): '' @ status_name st4]))))))"

definition example_hard_budget_rejection :: "BudgetId list \<Rightarrow> exn + string list" where
  "example_hard_budget_rejection order =
    (let g = snd (create_budget (ex_budget (from_micros 2000)) (accel_price 1000 ex_gov))
     in bindE (evaluate ex_clock order g (mk_Id 1) (mk_Id 1) [ex_plan (mk_Id 1) 3000000000]) (\<lambda>d.
        Inr ([''decision: '' @ decision_kind_name (d_kind d)] @
          (if d_kind d = DecisionKind.NO_FEASIBLE_PLAN
           then [''hard budget exceeded; no feasible plan. binding constraint: '' @
             feasibility_reason_name (d_binding_constraint d)]
           else []))))"

definition known_or_unknown :: "ComponentValue \<Rightarrow> string" where
  "known_or_unknown v = (if cv_known v then money_to_string (cv_value v) else ''UNKNOWN'')"

definition example_plan_economics :: "BudgetId list \<Rightarrow> exn + string list" where
  "example_plan_economics order =
    (let g = snd (create_budget (ex_budget (from_units 100000)) (transfer_price 10000 (accel_price 1000 ex_gov)));
         plans = [ex_plan (mk_Id 1) 2000000000, (ex_plan (mk_Id 2) 1000000000)\<lparr>pl_expected_transfer := Amount 5000000000\<rparr>]
     in bindE (evaluate ex_clock order g (mk_Id 1) (mk_Id 1) plans) (\<lambda>d. Inr
          [''decision: '' @ decision_kind_name (d_kind d),
           ''selected plan: '' @ dec_digits (unat (Id_value (d_selected_plan d))),
           ''projected total: '' @ money_to_string (bd_total (d_projected d)),
           ''accelerator_time: '' @ known_or_unknown (breakdown_get (d_projected d) CostComponent.ACCELERATOR_TIME),
           ''transfer: '' @ known_or_unknown (breakdown_get (d_projected d) CostComponent.TRANSFER),
           ''state: '' @ cost_state_name (d_state d)]))"

definition example_post_action_verification :: "InterventionId list \<Rightarrow> exn + string list" where
  "example_post_action_verification order =
    (case propose_intervention ex_clock
         (CostIntervention_default\<lparr>ci_kind := InterventionKind.SELECT_CHEAPER_PLAN, ci_detail := ''select cheaper plan''\<rparr>)
         (accel_price 1000 ex_gov) of (proposed, i, g1) \<Rightarrow>
     case authorize_intervention (ci_id i) (ci_generation i) g1 of (authorized, g2) \<Rightarrow>
     case acknowledge_intervention ex_clock (ci_id i) (ci_generation i) g2 of (acknowledged, g3) \<Rightarrow>
     case verify_intervention ex_clock (ci_id i) (ci_generation i)
         [CostEvidence_default\<lparr>ev_id := mk_Id 1, ev_request := mk_Id 1, ev_epoch := mk_Id 1, ev_boot := mk_Id 1,
            ev_accelerator_time := Amount 1000000000\<rparr>] g3 of (v, g4) \<Rightarrow>
     case interventions order g4 of
       [] \<Rightarrow> Inl (runtime_error ''front of an empty vector'')
     | front # _ \<Rightarrow> Inr
         [''propose: '' @ status_name proposed, ''authorize: '' @ status_name authorized,
          ''acknowledge: '' @ status_name acknowledged, ''verify: '' @ verification_outcome_name v,
          ''intervention lifecycle: '' @ intervention_lifecycle_name (ci_lifecycle front)])"

definition ex_attempt :: "EvidenceId \<Rightarrow> AttemptId \<Rightarrow> i64 \<Rightarrow> bool \<Rightarrow> CostEvidence" where
  "ex_attempt i att ns success = CostEvidence_default\<lparr>ev_id := i, ev_request := mk_Id 1, ev_attempt := att,
    ev_attempt_gen := mk_Id 1, ev_epoch := mk_Id 1, ev_worker := mk_Id 1, ev_boot := mk_Id 1, ev_generation := mk_Id 1,
    ev_observed_at_ms := 1000, ev_label := DataLabel.POLICY, ev_accelerator_time := Amount ns,
    ev_is_completion := True, ev_completed_successfully := success\<rparr>"

definition example_retry_cost :: "exn + string list" where
  "example_retry_cost =
    (let g = accel_price 1000 ex_gov in
     case record_attempt (ex_attempt (mk_Id 10) (mk_Id 1) 2000000000 False) g of (st1, g1) \<Rightarrow>
     case record_attempt (ex_attempt (mk_Id 11) (mk_Id 2) 1000000000 False) g1 of (st2, g2) \<Rightarrow>
     case record_attempt (ex_attempt (mk_Id 12) (mk_Id 3) 3000000000 True) g2 of (st3, g3) \<Rightarrow>
     bindE (project (g_schedule g3) (attempts g3 (mk_Id 1)) kDefaultCurrency 1000) (\<lambda>bd.
     case record_attempt (ex_attempt (mk_Id 12) (mk_Id 3) 3000000000 True) g3 of (st4, g4) \<Rightarrow>
     bindE (realized_request_cost ex_clock g4 (mk_Id 1)) (\<lambda>cost. Inr
       [''attempt 1 (fail, 2s): '' @ status_name st1, ''attempt 2 (fail, 1s): '' @ status_name st2,
        ''attempt 3 (ok, 3s):  '' @ status_name st3,
        ''realized request cost: '' @ money_to_string (bd_total bd) @ '' (includes all attempts)'',
        ''accelerator_time component: '' @ money_to_string (cv_value (breakdown_get bd CostComponent.ACCELERATOR_TIME)),
        ''retry component (failed attempts only): '' @ money_to_string (cv_value (breakdown_get bd CostComponent.RETRY)),
        ''duplicate attempt 3 rejected: '' @ status_name st4,
        ''realized cost unchanged: '' @ money_to_string cost])))"

definition example_stale_plan_revalidation :: "BudgetId list \<Rightarrow> exn + string list" where
  "example_stale_plan_revalidation order =
    (let g = snd (create_budget (ex_budget (from_units 100)) (accel_price 1000 ex_gov));
         plans = [ex_plan (mk_Id 1) 1000000000]
     in bindE (evaluate ex_clock order g (mk_Id 1) (mk_Id 1) plans) (\<lambda>d.
        bindE (validate_for_dispatch ex_clock order g d plans) (\<lambda>unchanged.
        let s = g_schedule g;
            g' = set_price_schedule (s\<lparr>ps_generation := mk_Id (Id_value (ps_generation s) + 1)\<rparr>) g
        in bindE (validate_for_dispatch ex_clock order g' d plans) (\<lambda>changed. Inr
             [''authorized under price generation: '' @ dec_digits (unat (Id_value (ctx_price_generation (d_authority d)))),
              ''pre-dispatch check (unchanged): '' @ status_name unchanged,
              ''pre-dispatch check (price changed): '' @ status_name changed]))))"

section \<open>What the programs print\<close>

lemma example_basic_budget_prints:
  "example_basic_budget = Inr
    [''create_budget: OK'', ''reserve 40.00: OK'', ''commit: OK'', ''consumed=40.000000 reserved=0.000000'',
     ''remaining=60.000000 lifecycle=PARTIALLY_CONSUMED'', ''release after commit is idempotent (no double-charge): OK'']"
  by code_simp

lemma example_hard_budget_rejection_prints:
  "example_hard_budget_rejection [mk_Id 1] = Inr
    [''decision: NO_FEASIBLE_PLAN'',
     ''hard budget exceeded; no feasible plan. binding constraint: HARD_BUDGET_EXCEEDED'']"
  by code_simp

lemma example_plan_economics_prints:
  "example_plan_economics [mk_Id 1] = Inr
    [''decision: AUTHORIZE'', ''selected plan: 1'', ''projected total: 0.002000'', ''accelerator_time: 0.002000'',
     ''transfer: UNKNOWN'', ''state: WITHIN_BUDGET'']"
  by code_simp

lemma example_post_action_verification_prints:
  "example_post_action_verification [mk_Id 1] = Inr
    [''propose: OK'', ''authorize: OK'', ''acknowledge: OK'', ''verify: EFFECTIVE'', ''intervention lifecycle: EFFECTIVE'']"
  by code_simp

lemma example_retry_cost_prints:
  "example_retry_cost = Inr
    [''attempt 1 (fail, 2s): OK'', ''attempt 2 (fail, 1s): OK'', ''attempt 3 (ok, 3s):  OK'',
     ''realized request cost: 0.006000 (includes all attempts)'', ''accelerator_time component: 0.006000'',
     ''retry component (failed attempts only): 0.003000'', ''duplicate attempt 3 rejected: INVALID_INPUT'',
     ''realized cost unchanged: 0.006000'']"
  by code_simp

lemma example_stale_plan_revalidation_prints:
  "example_stale_plan_revalidation [mk_Id 1] = Inr
    [''authorized under price generation: 1'', ''pre-dispatch check (unchanged): OK'',
     ''pre-dispatch check (price changed): STALE_AUTHORITY'']"
  by code_simp

end
