(* ===== verification/Sockets.thy ===== *)
theory Sockets
  imports Prelude
begin

text \<open>
  Who owns a socket: the class \<^verbatim>\<open>Sock\<close> of \<^verbatim>\<open>chan.hpp\<close>, whose objects are moved and never copied, and
  \<^verbatim>\<open>connect_to\<close> of the worker and the runner, which makes them. A handle is a number of the operating system;
  the state has the handles that are open, the live objects with the handle of each, and a count of the
  \<^verbatim>\<open>close\<close> calls on handles that were not open. Shown is that no such call happens, and that an attempt
  to connect that fails leaves its handle open and without an owner.
\<close>

section \<open>Objects and handles\<close>

type_synonym SockHandle = int

definition kInvalid :: SockHandle where
  "kInvalid = -1"

record Socks =
  so_open :: "SockHandle set"
  so_objs :: "nat \<rightharpoonup> SockHandle"
  so_bad_closes :: nat

definition Sock_new :: "nat \<Rightarrow> Socks \<Rightarrow> Socks" where
  "Sock_new x s = s\<lparr>so_objs := (so_objs s)(x \<mapsto> kInvalid)\<rparr>"

definition Sock_of :: "nat \<Rightarrow> SockHandle \<Rightarrow> Socks \<Rightarrow> Socks" where
  "Sock_of x h s = s\<lparr>so_objs := (so_objs s)(x \<mapsto> h)\<rparr>"

definition handle_of :: "Socks \<Rightarrow> nat \<Rightarrow> SockHandle" where
  "handle_of s x = (case so_objs s x of None \<Rightarrow> kInvalid | Some h \<Rightarrow> h)"

definition Sock_valid :: "Socks \<Rightarrow> nat \<Rightarrow> bool" where
  "Sock_valid s x \<longleftrightarrow> handle_of s x \<noteq> kInvalid"

text \<open>The call of the operating system.\<close>

definition close_handle :: "SockHandle \<Rightarrow> Socks \<Rightarrow> Socks" where
  "close_handle h s =
    (if h \<in> so_open s then s\<lparr>so_open := so_open s - {h}\<rparr> else s\<lparr>so_bad_closes := Suc (so_bad_closes s)\<rparr>)"

definition Sock_close :: "nat \<Rightarrow> Socks \<Rightarrow> Socks" where
  "Sock_close x s =
    (if Sock_valid s x then Sock_of x kInvalid (close_handle (handle_of s x) s) else s)"

definition Sock_destroy :: "nat \<Rightarrow> Socks \<Rightarrow> Socks" where
  "Sock_destroy x s = (let s1 = Sock_close x s in s1\<lparr>so_objs := (so_objs s1)(x := None)\<rparr>)"

definition Sock_move :: "nat \<Rightarrow> nat \<Rightarrow> Socks \<Rightarrow> Socks" where
  "Sock_move x y s = Sock_of y kInvalid (Sock_of x (handle_of s y) s)"

definition Sock_move_assign :: "nat \<Rightarrow> nat \<Rightarrow> Socks \<Rightarrow> Socks" where
  "Sock_move_assign x y s =
    (if x \<noteq> y then let s1 = Sock_close x s in Sock_of y kInvalid (Sock_of x (handle_of s1 y) s1) else s)"

section \<open>Connecting\<close>

text \<open>What the system answers to one attempt: a new handle, if any, and whether it could connect.\<close>

record ConnectIO =
  ci_socket :: "SockHandle option"
  ci_connect_ok :: bool

text \<open>The object \<open>x\<close> is the result; the object \<open>y\<close> is the temporary that is moved into it.\<close>

definition connect_to :: "nat \<Rightarrow> nat \<Rightarrow> ConnectIO \<Rightarrow> Socks \<Rightarrow> bool \<times> Socks" where
  "connect_to x y io s =
    (case ci_socket io of
       None \<Rightarrow> (False, s)
     | Some h \<Rightarrow>
         (let s1 = s\<lparr>so_open := insert h (so_open s)\<rparr>
          in if \<not> ci_connect_ok io then (False, s1)
             else (True, Sock_destroy y (Sock_move_assign x y (Sock_of y h s1)))))"

text \<open>The loop of the worker: at most as many attempts as there are answers, then whether it is connected.\<close>

fun connect_loop :: "nat \<Rightarrow> nat \<Rightarrow> ConnectIO list \<Rightarrow> Socks \<Rightarrow> Socks" where
  "connect_loop x y [] s = s"
| "connect_loop x y (io # ios) s = (case connect_to x y io s of (ok, s1) \<Rightarrow> if ok then s1 else connect_loop x y ios s1)"

definition connected :: "nat \<Rightarrow> nat \<Rightarrow> (nat \<Rightarrow> ConnectIO) \<Rightarrow> Socks \<Rightarrow> bool \<times> Socks" where
  "connected x y ios s = (let s1 = connect_loop x y (map ios [0..<200]) (Sock_new x s) in (Sock_valid s1 x, s1))"

text \<open>The client of the runner connects through a local object \<open>y\<close>, with the temporary \<open>z\<close>, into its endpoint \<open>x\<close>.\<close>

definition Client_connected :: "nat \<Rightarrow> nat \<Rightarrow> nat \<Rightarrow> ConnectIO \<Rightarrow> Socks \<Rightarrow> bool \<times> Socks" where
  "Client_connected x y z io s =
    (case connect_to y z io (Sock_new y s) of (ok, s1) \<Rightarrow>
      (ok, Sock_destroy y (if ok then Sock_move_assign x y s1 else s1)))"

text \<open>
  The coordinator serves the handles that \<^verbatim>\<open>accept\<close> returns until one is invalid. For each, an object is made
  of it, moved into the state of a thread, into the parameter of \<^verbatim>\<open>run_session\<close> and into the endpoint of the
  session; at the end of the session all of them are destroyed.
\<close>

definition accepted :: "SockHandle list \<Rightarrow> SockHandle list" where
  "accepted hs = takeWhile (\<lambda>h. h \<noteq> kInvalid) hs"

definition session_socket :: "SockHandle \<Rightarrow> Socks \<Rightarrow> Socks" where
  "session_socket h s =
    (let started = Sock_move 2 1 (Sock_destroy 0 (Sock_move 1 0 (Sock_of 0 h (s\<lparr>so_open := insert h (so_open s)\<rparr>))))
     in if Sock_valid started 2 then Sock_destroy 1 (Sock_destroy 2 (Sock_destroy 3 (Sock_move 3 2 started)))
        else Sock_destroy 1 (Sock_destroy 2 started))"

section \<open>Ownership\<close>

text \<open>
  The steps of a program that gets a handle from the system for a new object, moves its objects and
  destroys them.
\<close>

inductive sock_step :: "Socks \<Rightarrow> Socks \<Rightarrow> bool" where
  fresh: "so_objs s x = None \<Longrightarrow> sock_step s (Sock_new x s)"
| adopt: "so_objs s x = None \<Longrightarrow> h \<notin> so_open s \<Longrightarrow> h \<noteq> kInvalid \<Longrightarrow>
    sock_step s (Sock_of x h (s\<lparr>so_open := insert h (so_open s)\<rparr>))"
| lose: "h \<notin> so_open s \<Longrightarrow> h \<noteq> kInvalid \<Longrightarrow> sock_step s (s\<lparr>so_open := insert h (so_open s)\<rparr>)"
| move: "so_objs s x = None \<Longrightarrow> so_objs s y = Some h \<Longrightarrow> sock_step s (Sock_move x y s)"
| move_assign: "so_objs s x = Some h \<Longrightarrow> so_objs s y = Some k \<Longrightarrow> sock_step s (Sock_move_assign x y s)"
| close: "so_objs s x = Some h \<Longrightarrow> sock_step s (Sock_close x s)"
| destroy: "so_objs s x = Some h \<Longrightarrow> sock_step s (Sock_destroy x s)"

definition owns :: "Socks \<Rightarrow> nat \<Rightarrow> SockHandle \<Rightarrow> bool" where
  "owns s x h \<longleftrightarrow> so_objs s x = Some h \<and> h \<noteq> kInvalid"

definition socks_inv :: "Socks \<Rightarrow> bool" where
  "socks_inv s \<longleftrightarrow> so_bad_closes s = 0 \<and> (\<forall>x h. owns s x h \<longrightarrow> h \<in> so_open s) \<and>
    (\<forall>x y h. owns s x h \<longrightarrow> owns s y h \<longrightarrow> x = y)"

lemmas sock_defs = Sock_new_def Sock_of_def Sock_move_def handle_of_def Sock_valid_def close_handle_def owns_def

lemma close_inv: "socks_inv s \<Longrightarrow> socks_inv (Sock_close x s)"
  by (auto simp: socks_inv_def Sock_close_def sock_defs split: option.splits if_splits)

lemma close_objs: "so_objs (Sock_close x s) = (if Sock_valid s x then (so_objs s)(x \<mapsto> kInvalid) else so_objs s)"
  by (simp add: Sock_close_def Sock_of_def close_handle_def)

lemma of_invalid_inv: "socks_inv s \<Longrightarrow> socks_inv (Sock_of x kInvalid s)"
  by (auto simp: socks_inv_def sock_defs split: if_splits)

text \<open>Passing a handle on: the receiver has none, and the giver keeps none.\<close>

lemma pass_on_inv:
  assumes "socks_inv s" and "x \<noteq> y" and "\<And>h. \<not> owns s x h"
  shows "socks_inv (Sock_of y kInvalid (Sock_of x (handle_of s y) s))"
  using assms by (auto simp: socks_inv_def sock_defs split: if_splits option.splits)

lemma sock_step_inv: "sock_step s s' \<Longrightarrow> socks_inv s \<Longrightarrow> socks_inv s'"
proof (induction rule: sock_step.induct)
  case (adopt s x h)
  then show ?case
    by (auto simp: socks_inv_def sock_defs split: if_splits)
next
  case (move s x y h)
  then show ?case
    using pass_on_inv [of s x y] by (cases "x = y") (auto simp: Sock_move_def owns_def)
next
  case (move_assign s x h y k)
  have "\<not> owns (Sock_close x s) x j" for j
    by (auto simp: owns_def close_objs Sock_valid_def handle_of_def split: if_splits option.splits)
  then show ?case
    using pass_on_inv [OF close_inv [OF move_assign.prems]] move_assign.prems
    by (simp add: Sock_move_assign_def Let_def)
next
  case (destroy s x h)
  then show ?case
    using close_inv [OF destroy.prems, of x] by (auto simp: Sock_destroy_def Let_def socks_inv_def owns_def split: if_splits)
next
  case (close s x h)
  then show ?case
    by (simp add: close_inv)
qed (auto simp: socks_inv_def sock_defs split: if_splits)

interpretation ownership: safe_system "\<lambda>s. s = \<lparr>so_open = {}, so_objs = Map.empty, so_bad_closes = 0\<rparr>" sock_step socks_inv
  by unfold_locales (simp add: socks_inv_def owns_def, rule sock_step_inv)

text \<open>A session closes the handle of its connection, and closes it once.\<close>

lemma session_closes_once:
  assumes "h \<noteq> kInvalid" and "h \<notin> so_open s" and "\<And>x. x < 4 \<Longrightarrow> so_objs s x = None"
  shows "session_socket h s = s"
proof -
  have "(so_objs s)(0 := None, Suc 0 := None, 2 := None, 3 := None) = so_objs s"
    using assms(3) [of 0] assms(3) [of 1] assms(3) [of 2] assms(3) [of 3] by auto
  then show ?thesis
    using assms(1, 2)
    by (simp add: session_socket_def Let_def Sock_destroy_def Sock_close_def sock_defs fun_upd_twist)
qed

lemma client_connects:
  assumes "distinct [x, y, z]" and "ci_socket io = Some h" and "ci_connect_ok io" and "h \<noteq> kInvalid"
  shows "fst (Client_connected x y z io s) \<and> handle_of (snd (Client_connected x y z io s)) x = h"
  using assms
  by (auto simp: Client_connected_def connect_to_def Let_def Sock_destroy_def Sock_move_assign_def Sock_close_def sock_defs
      split: option.splits)

section \<open>Properties\<close>

text \<open>
  C27: sockets have one owner. However a program creates, moves, assigns, closes and destroys its socket
  objects, an assignment of an object to itself included, every open handle has at most one owner, an
  object that has a handle can use it, and the system is never asked to close a handle that is not open.
\<close>

theorem sock_owned_once:
  assumes "sock_step\<^sup>*\<^sup>* \<lparr>so_open = {}, so_objs = Map.empty, so_bad_closes = 0\<rparr> s"
  shows "so_bad_closes s = 0 \<and> (\<forall>x. Sock_valid s x \<longrightarrow> handle_of s x \<in> so_open s) \<and>
    (\<forall>x y. Sock_valid s x \<longrightarrow> handle_of s x = handle_of s y \<longrightarrow> x = y)"
proof -
  have "socks_inv s"
    using ownership.inv_reachable [OF refl assms] .
  then show ?thesis
    by (force simp: socks_inv_def owns_def Sock_valid_def handle_of_def split: option.splits)
qed

theorem sock_owned_once_witness:
  "\<exists>s. sock_step\<^sup>*\<^sup>* \<lparr>so_open = {}, so_objs = Map.empty, so_bad_closes = 0\<rparr> s \<and> Sock_valid s 0 \<and> handle_of s 0 \<in> so_open s \<and>
    so_bad_closes s = 0"
proof -
  let ?s0 = "\<lparr>so_open = {}, so_objs = Map.empty, so_bad_closes = 0\<rparr> :: Socks"
  let ?s1 = "Sock_of 0 5 (?s0\<lparr>so_open := insert 5 (so_open ?s0)\<rparr>)"
  have step: "sock_step\<^sup>*\<^sup>* ?s0 ?s1"
    by (intro r_into_rtranclp sock_step.adopt) (simp_all add: kInvalid_def)
  have valid: "Sock_valid ?s1 0"
    by (simp add: Sock_valid_def handle_of_def Sock_of_def kInvalid_def)
  show ?thesis
    using sock_owned_once [OF step] step valid by blast
qed

text \<open>
  A failed attempt to connect loses a handle. After any number of attempts in which the system gave a
  handle and then refused the connection, all of these handles are open and no object has one of
  them, so nothing in the program can close them; an endpoint that was waited for stays without a connection.
\<close>

lemma failed_connects_leak:
  assumes "list_all (\<lambda>io. \<not> ci_connect_ok io) ios" and "map ci_socket ios = map Some hs"
    and "socks_inv s" and "set hs \<inter> so_open s = {}" and "kInvalid \<notin> set hs"
  shows "so_open (connect_loop x y ios s) = so_open s \<union> set hs \<and>
    (\<forall>z. handle_of (connect_loop x y ios s) z \<notin> set hs) \<and> Sock_valid (connect_loop x y ios s) x = Sock_valid s x"
proof -
  have loop: "so_open (connect_loop x y ios s) = so_open s \<union> set hs \<and> so_objs (connect_loop x y ios s) = so_objs s"
    using assms(1, 2)
    by (induction ios arbitrary: hs s) (auto simp: connect_to_def)
  moreover have "handle_of s z \<notin> set hs" for z
    using assms(3-5) by (auto simp: handle_of_def socks_inv_def owns_def split: option.splits)
  ultimately show ?thesis
    by (simp add: handle_of_def Sock_valid_def)
qed

lemma failed_connects_leak_witness:
  "so_open (connect_loop 0 1 [\<lparr>ci_socket = Some 5, ci_connect_ok = False\<rparr>, \<lparr>ci_socket = Some 6, ci_connect_ok = False\<rparr>]
      \<lparr>so_open = {}, so_objs = [0 \<mapsto> kInvalid], so_bad_closes = 0\<rparr>) = {5, 6}"
  using failed_connects_leak [of "[\<lparr>ci_socket = Some 5, ci_connect_ok = False\<rparr>, \<lparr>ci_socket = Some 6, ci_connect_ok = False\<rparr>]"
      "[5, 6]" "\<lparr>so_open = {}, so_objs = [0 \<mapsto> kInvalid], so_bad_closes = 0\<rparr>" 0 1]
  by (simp add: socks_inv_def owns_def kInvalid_def)

end
