(* ===== verification/Benchmark.thy ===== *)
theory Benchmark
  imports Ledger Dispatch
begin

text \<open>
  The benchmark (\<^verbatim>\<open>bench/benchmark.cpp\<close>): the governor and the plans that it measures, and the loops that it
  times, as what they do to the governor. Times and rates are not modelled; the system clock is an argument.
\<close>

section \<open>The governor and the plans\<close>

definition bench_policy :: CostPolicy where
  "bench_policy = CostPolicy_default\<lparr>pol_currency := kDefaultCurrency, pol_max_evidence_age_ms := 300000,
    pol_price_schedule_max_age_ms := 300000, pol_allow_policy := True, pol_allow_measured := True,
    pol_allow_synthetic := True\<rparr>"

definition bench_observation :: "nat \<Rightarrow> PriceObservation" where
  "bench_observation i = PriceObservation_default\<lparr>po_id := mk_Id (of_nat i), po_kind := PriceKind.ACCELERATOR_TIME,
    po_amount := from_micros 1000, po_currency := kDefaultCurrency, po_label := DataLabel.POLICY,
    po_observed_at_ms := 1, po_epoch := mk_Id 1, po_worker := mk_Id 1, po_boot := mk_Id 1\<rparr>"

definition bench_gov :: Impl where
  "bench_gov =
    (let g1 = set_worker_boot (mk_Id 1) (mk_Id 1) (set_policy bench_policy Impl_init);
         s = PriceSchedule_default\<lparr>ps_id := mk_Id 1, ps_generation := mk_Id 1, ps_created_at_ms := 1,
           ps_observations := map bench_observation [1..<11]\<rparr>;
         b = Budget_default\<lparr>b_id := mk_Id 1, b_generation := mk_Id 1, b_policy_generation := mk_Id 1,
           b_epoch := mk_Id 1, b_limit := from_units 1000000000, b_mode := BudgetMode.HARD\<rparr>
     in snd (create_budget b (set_price_schedule s g1)))"

definition make_plan :: "i64 \<Rightarrow> ExecutionPlan" where
  "make_plan i = ExecutionPlan_default\<lparr>pl_id := mk_Id i, pl_generation := mk_Id 1, pl_workload := mk_Id 1,
    pl_workload_generation := mk_Id 1, pl_expected_accelerator_time := Amount (2000000000 * (1 + i64_mod i 5)),
    pl_expected_requests := 1, pl_expected_tokens := 500\<rparr>"

definition bench_plans :: "ExecutionPlan list" where
  "bench_plans = map make_plan [1, 2, 3, 4]"

section \<open>The loops\<close>

definition bench_evidence :: "nat \<Rightarrow> CostEvidence" where
  "bench_evidence i = CostEvidence_default\<lparr>ev_id := mk_Id (1000 + of_nat i), ev_request := mk_Id (of_nat i + 1),
    ev_attempt := mk_Id 1, ev_attempt_gen := mk_Id 1, ev_epoch := mk_Id 1, ev_worker := mk_Id 1, ev_boot := mk_Id 1,
    ev_generation := mk_Id 1, ev_observed_at_ms := 1, ev_accelerator_time := Amount 1000000\<rparr>"

text \<open>Each loop keeps what its calls returned; the source drops it.\<close>

fun evidence_ingest :: "nat \<Rightarrow> Impl \<Rightarrow> Status list \<times> Impl" where
  "evidence_ingest 0 g = ([], g)"
| "evidence_ingest (Suc i) g =
    (case evidence_ingest i g of (sts, g1) \<Rightarrow>
     case record_attempt (bench_evidence i) g1 of (st, g2) \<Rightarrow> (sts @ [st], g2))"

definition plan_eval :: "(nat \<Rightarrow> Clock) \<Rightarrow> BudgetId list \<Rightarrow> nat \<Rightarrow> Impl \<Rightarrow> (exn + CostDecision) list" where
  "plan_eval clks order n g = map (\<lambda>i. evaluate (clks i) order g (mk_Id 1) (mk_Id 1) bench_plans) [0..<n]"

definition reserve_release :: "Clock \<Rightarrow> Impl \<Rightarrow> (exn + Status) \<times> Impl" where
  "reserve_release clk g =
    (case reserve clk (mk_Id 1) (mk_Id 1) (mk_Id 1) (from_micros 1) BudgetReservation_default g of
       (Inl e, _, g1) \<Rightarrow> (Inl e, g1)
     | (Inr st, r, g1) \<Rightarrow>
         if st = Status.OK then (case release r g1 of (Inl e, _, g2) \<Rightarrow> (Inl e, g2) | (Inr _, _, g2) \<Rightarrow> (Inr st, g2))
         else (Inr st, g1))"

fun budget_reserve_release :: "(nat \<Rightarrow> Clock) \<Rightarrow> nat \<Rightarrow> Impl \<Rightarrow> (exn + Status) list \<times> Impl" where
  "budget_reserve_release clks 0 g = ([], g)"
| "budget_reserve_release clks (Suc i) g =
    (case budget_reserve_release clks i g of (sts, g1) \<Rightarrow>
     case reserve_release (clks i) g1 of (st, g2) \<Rightarrow> (sts @ [st], g2))"

text \<open>The threads of the last measurement share the governor and read it only.\<close>

definition concurrent_eval :: "(nat \<Rightarrow> nat \<Rightarrow> Clock) \<Rightarrow> BudgetId list \<Rightarrow> Impl \<Rightarrow> (exn + CostDecision) list list" where
  "concurrent_eval clks order g = map (\<lambda>t. plan_eval (clks t) order 10000 g) [0..<8]"

text \<open>The names and counts that are reported; the first loop stops after a count above 100000.\<close>

fun ingest_reports :: "nat list \<Rightarrow> (string \<times> nat) list" where
  "ingest_reports [] = []"
| "ingest_reports (scale # scales) =
    (''evidence_ingest'', scale) # (if 100000 < scale then [] else ingest_reports scales)"

definition bench_reports :: "(string \<times> nat) list" where
  "bench_reports = ingest_reports [100, 1000, 10000, 100000, 1000000] @
    map (Pair ''plan_eval'') [100, 1000, 10000, 100000] @
    map (Pair ''budget_reserve_release'') [100, 1000, 10000, 100000] @
    [(''persist'', 100), (''concurrent_eval'', 8 * 10000)]"

section \<open>What the loops measure\<close>

lemma bench_gov_sel: "g_epoch bench_gov = Id_none" "g_budgets bench_gov = Map.empty" "g_revalidation_needed bench_gov = False"
  "g_policy bench_gov = bench_policy" "ps_created_at_ms (g_schedule bench_gov) = 1"
  by (simp_all add: bench_gov_def Let_def set_worker_boot_def set_policy_def set_price_schedule_def create_budget_def
      bench_policy_def CostPolicy_default_def Impl_init_def Budget_default_def Id_none_def PriceSchedule_default_def)

lemma ingest_refused: "evidence_ingest n bench_gov = (replicate n Status.STALE_AUTHORITY, bench_gov)"
proof (induction n)
  case (Suc n)
  have "record_attempt (bench_evidence n) bench_gov = (Status.STALE_AUTHORITY, bench_gov)"
    by (simp add: record_attempt_def bench_evidence_def bench_gov_sel Id_none_def)
  then show ?case
    using Suc by (simp add: replicate_append_same)
qed simp

lemma reserve_refused:
  "budget_reserve_release clks n bench_gov = (replicate n (Inr Status.INVALID_INPUT), bench_gov)"
  by (induction n) (simp_all add: reserve_release_def reserve_def bench_gov_sel replicate_append_same)

text \<open>The price schedule is from the first millisecond that the system clock counts.\<close>

lemma bench_plan_times: "p \<in> set bench_plans \<Longrightarrow> count (pl_expected_accelerator_time p) \<noteq> 0"
  by (auto simp: bench_plans_def make_plan_def i64_mod_def signed_modulo_int_def signed_divide_int_def)

lemma bench_price_stale:
  assumes "300001 <s t" and "p \<in> set bench_plans"
  shows "\<exists>f r. check_components bench_gov t p priced_components = Some (f, r) \<and> f \<noteq> Feasibility.FEASIBLE"
proof -
  let ?pc = "\<lambda>dev res. check_price (g_schedule bench_gov) PriceKind.ACCELERATOR_TIME kDefaultCurrency t bench_policy dev res"
  have "300000 <s t - 1"
    using assms(1) in_i64_sint [of t] by (auto simp: sless_sint sint_diff in_i64_def)
  then have "pc_present (?pc dev res) \<Longrightarrow> pc_stale (?pc dev res)" for dev res
    by (auto simp: check_price_def Let_def bench_gov_sel bench_policy_def sless_sint sint_rules split: option.splits)
  moreover have "amount_present p CostComponent.ACCELERATOR_TIME"
    using bench_plan_times [OF assms(2)] by (simp add: amount_present_def)
  moreover have "pol_currency (g_policy bench_gov) = kDefaultCurrency"
    by (simp add: bench_gov_sel bench_policy_def)
  ultimately show ?thesis
    by (simp add: priced_components_def Let_def bench_gov_sel kind_for_check_def)
qed

lemma bench_never_authorised:
  assumes "\<And>i. 300001 <s clk i" and "evaluate clk order bench_gov wl wg bench_plans = Inr d"
  shows "d_kind d \<noteq> DecisionKind.AUTHORIZE"
proof
  assume "d_kind d = DecisionKind.AUTHORIZE"
  then obtain k es where "selects clk order bench_gov bench_plans d k es"
    using evaluate_authorize [OF assms(2)] by blast
  then obtain e where k: "bench_plans ! k \<in> set bench_plans" "pe_feasible e = Feasibility.FEASIBLE"
    "evaluate_plan_locked (clk k) order bench_gov (bench_plans ! k) = Inr e"
    by (auto simp: selects_def)
  obtain f r where "check_components bench_gov (clk k) (bench_plans ! k) priced_components = Some (f, r)" "f \<noteq> Feasibility.FEASIBLE"
    using bench_price_stale [OF assms(1) k(1)] by blast
  then show False
    using k(2, 3) by (auto simp: evaluate_plan_locked_def Let_def verdict_def bench_gov_sel split: if_splits)
qed

text \<open>The test in the first loop comes after the last count, so it cuts nothing off.\<close>

lemma ingest_all_reported:
  "ingest_reports [100, 1000, 10000, 100000, 1000000] = map (Pair ''evidence_ingest'') [100, 1000, 10000, 100000, 1000000]"
  by simp

section \<open>Properties\<close>

text \<open>
  C40: the benchmark times refusals only. Its policy leaves the epoch unset, so the governor is in epoch 0 while
  the evidence and the budget carry epoch 1: whatever the number of rounds, every attempt is refused as
  stale, every reservation as one of an unknown budget, and the governor never changes; and since
  its prices are from 1970, no evaluation at a later time authorises a plan.
\<close>

theorem benchmark_times_refusals:
  assumes "\<forall>i j. 300001 <s clks i j"
  shows "evidence_ingest n bench_gov = (replicate n Status.STALE_AUTHORITY, bench_gov) \<and>
    budget_reserve_release clks n bench_gov = (replicate n (Inr Status.INVALID_INPUT), bench_gov) \<and>
    (\<forall>d. Inr d \<in> set (plan_eval clks order n bench_gov) \<longrightarrow> d_kind d \<noteq> DecisionKind.AUTHORIZE)"
proof (intro conjI allI impI)
  fix d
  assume "Inr d \<in> set (plan_eval clks order n bench_gov)"
  then obtain i where "evaluate (clks i) order bench_gov (mk_Id 1) (mk_Id 1) bench_plans = Inr d"
    by (auto simp: plan_eval_def)
  then show "d_kind d \<noteq> DecisionKind.AUTHORIZE"
    using bench_never_authorised assms by blast
qed (simp_all add: ingest_refused reserve_refused)

lemma bench_evaluates:
  "case evaluate (\<lambda>_. 1700000000000) [] bench_gov (mk_Id 1) (mk_Id 1) bench_plans of Inl _ \<Rightarrow> False | Inr _ \<Rightarrow> True"
  by code_simp

theorem benchmark_times_refusals_witness:
  "evidence_ingest 2 bench_gov = ([Status.STALE_AUTHORITY, Status.STALE_AUTHORITY], bench_gov) \<and>
    (\<exists>d. evaluate (\<lambda>_. 1700000000000) [] bench_gov (mk_Id 1) (mk_Id 1) bench_plans = Inr d \<and> d_kind d \<noteq> DecisionKind.AUTHORIZE)"
proof -
  obtain d where d: "evaluate (\<lambda>_. 1700000000000) [] bench_gov (mk_Id 1) (mk_Id 1) bench_plans = Inr d"
    using bench_evaluates by (auto split: sum.splits)
  then have "Inr d \<in> set (plan_eval (\<lambda>_ _. 1700000000000) [] 2 bench_gov)"
    by (simp add: plan_eval_def upt_rec)
  moreover have "300001 <s (1700000000000 :: i64)"
    by code_simp
  ultimately show ?thesis
    using benchmark_times_refusals [of "\<lambda>_ _. 1700000000000" 2 "[]"] d by (auto simp: numeral_2_eq_2)
qed

end
