(* ===== verification/Cuda.thy ===== *)
theory Cuda
  imports Cli Dispatch "HOL-Library.Multiset"
begin

text \<open>
  The CUDA proof (\<^verbatim>\<open>cuda/cuda_proof.cu\<close>): the kernel with its grid, the measured workload, and the program that
  compares two plans and replays a retry. The device is an argument: whether each call of its runtime
  succeeds, the time that a workload took in nanoseconds, the free memory, and the floating-point
  estimate of the energy. The arithmetic of the kernel on floats is an argument as well.
\<close>

section \<open>The kernel\<close>

text \<open>What one thread of the grid does to the array in device memory.\<close>

definition saxpy :: "('f \<Rightarrow> 'f \<Rightarrow> 'f) \<Rightarrow> 'f list \<Rightarrow> nat \<Rightarrow> nat \<times> nat \<times> nat \<Rightarrow> 'f list \<Rightarrow> 'f list" where
  "saxpy axpy b n thread a =
    (case thread of (blockIdx, blockDim, threadIdx) \<Rightarrow>
      let i = blockIdx * blockDim + threadIdx
      in if i < n then a[i := axpy (a ! i) (b ! i)] else a)"

definition launch_threads :: "nat \<Rightarrow> (nat \<times> nat \<times> nat) list" where
  "launch_threads n =
    (let threads = 256; blocks = (n + threads - 1) div threads
     in [(blk, threads, thr). blk \<leftarrow> [0..<blocks], thr \<leftarrow> [0..<threads]])"

section \<open>A measured workload\<close>

record Measured =
  m_device_ns :: i64
  m_bytes :: i64
  m_alloc_bytes :: i64

record Device =
  dv_ok :: "string \<Rightarrow> bool"
  dv_count :: nat
  dv_name :: string
  dv_capability :: "nat \<times> nat"
  dv_elapsed_ns :: "int \<Rightarrow> i64"
  dv_energy :: "i64 \<Rightarrow> i64"
  dv_free_before :: u64
  dv_free_after :: u64

text \<open>The first call that fails ends the program with code 2.\<close>

definition cuda_checks :: "Device \<Rightarrow> string list \<Rightarrow> nat + unit" where
  "cuda_checks dv calls = (if list_all (dv_ok dv) calls then Inr () else Inl 2)"

definition run_workload :: "Device \<Rightarrow> int \<Rightarrow> nat + Measured" where
  "run_workload dv n =
    (case cuda_checks dv [''cudaMalloc(da)'', ''cudaMalloc(db)'', ''H2D a'', ''H2D b'', ''event0'', ''event1'', ''rec0'', ''rec1'',
        ''sync'', ''elapsed'', ''D2H a'', ''sync2'', ''free da'', ''free db'', ''evd0'', ''evd1''] of
       Inl code \<Rightarrow> Inl code
     | Inr _ \<Rightarrow>
         (let bytes = of_int n * 4
          in Inr \<lparr>m_device_ns = dv_elapsed_ns dv n, m_bytes = bytes * 2, m_alloc_bytes = bytes * 2\<rparr>))"

section \<open>The governors\<close>

definition cuda_now :: i64 where
  "cuda_now = 1000000000"

definition cuda_clock :: Clock where
  "cuda_clock = (\<lambda>_. cuda_now)"

definition cuda_policy :: CostPolicy where
  "cuda_policy = CostPolicy_default\<lparr>pol_currency := kDefaultCurrency, pol_epoch := mk_Id 1, pol_generation := mk_Id 1,
    pol_max_evidence_age_ms := 600000, pol_price_schedule_max_age_ms := 600000, pol_allow_policy := True,
    pol_allow_measured := True, pol_allow_synthetic := True\<rparr>"

definition cuda_observation :: "EvidenceId \<Rightarrow> PriceKind \<Rightarrow> MoneyMicros \<Rightarrow> DataLabel \<Rightarrow> PriceObservation" where
  "cuda_observation i k amt lab = PriceObservation_default\<lparr>po_id := i, po_kind := k, po_amount := amt,
    po_currency := kDefaultCurrency, po_label := lab, po_observed_at_ms := cuda_now, po_epoch := mk_Id 1,
    po_worker := mk_Id 1, po_boot := mk_Id 1\<rparr>"

definition cuda_schedule :: PriceSchedule where
  "cuda_schedule = PriceSchedule_default\<lparr>ps_id := mk_Id 1, ps_generation := mk_Id 1, ps_created_at_ms := cuda_now,
    ps_observations :=
      [cuda_observation (mk_Id 1) PriceKind.ACCELERATOR_TIME (from_micros 1000) DataLabel.POLICY,
       cuda_observation (mk_Id 2) PriceKind.TRANSFER (from_micros 10000) DataLabel.POLICY,
       cuda_observation (mk_Id 3) PriceKind.ENERGY (from_micros 200000) DataLabel.POLICY]\<rparr>"

definition cuda_gov :: Impl where
  "cuda_gov = snd (create_budget
    (Budget_default\<lparr>b_id := mk_Id 1, b_generation := mk_Id 1, b_policy_generation := mk_Id 1, b_epoch := mk_Id 1,
       b_limit := from_units 100, b_mode := BudgetMode.HARD\<rparr>)
    (set_price_schedule cuda_schedule (set_policy cuda_policy Impl_init)))"

definition plan_econ :: "Device \<Rightarrow> BudgetId list \<Rightarrow> PlanId \<Rightarrow> i64 \<Rightarrow> i64 \<Rightarrow> exn + CostDecision" where
  "plan_econ dv order i dev_ns bytes =
    evaluate cuda_clock order cuda_gov (mk_Id 1) (mk_Id 1)
      [ExecutionPlan_default\<lparr>pl_id := i, pl_generation := mk_Id 1, pl_workload := mk_Id 1, pl_workload_generation := mk_Id 1,
         pl_expected_accelerator_time := Amount dev_ns, pl_expected_transfer := Amount bytes,
         pl_expected_energy := Amount (dv_energy dv dev_ns), pl_expected_requests := 1\<rparr>]"

section \<open>The program\<close>

definition cuda_retry_gov :: Impl where
  "cuda_retry_gov = set_price_schedule cuda_schedule
    (set_worker_boot (mk_Id 1) (mk_Id 1) (set_policy cuda_policy Impl_init))"

definition cuda_attempt :: "EvidenceId \<Rightarrow> AttemptId \<Rightarrow> i64 \<Rightarrow> bool \<Rightarrow> CostEvidence" where
  "cuda_attempt i att ns success = CostEvidence_default\<lparr>ev_id := i, ev_request := mk_Id 1, ev_attempt := att,
    ev_attempt_gen := mk_Id 1, ev_epoch := mk_Id 1, ev_worker := mk_Id 1, ev_boot := mk_Id 1, ev_generation := mk_Id 1,
    ev_observed_at_ms := cuda_now, ev_label := DataLabel.POLICY, ev_accelerator_time := Amount ns,
    ev_is_completion := True, ev_completed_successfully := success\<rparr>"

definition or_exit :: "string list \<Rightarrow> nat + 'a \<Rightarrow> ('a \<Rightarrow> exn + nat \<times> string list) \<Rightarrow> exn + nat \<times> string list" where
  "or_exit out r k = (case r of Inl code \<Rightarrow> Inr (code, out) | Inr x \<Rightarrow> k x)"

definition selection :: "CostDecision \<Rightarrow> CostDecision \<Rightarrow> string" where
  "selection da db = ''Deterministic selection: '' @
    (if bd_total (d_projected da) \<le> bd_total (d_projected db) then ''Plan A'' else ''Plan B'') @ '' (cheaper)''"

text \<open>The retry: the realised cost of two attempts, and the status of the repeated completion.\<close>

definition cuda_retry :: "i64 \<Rightarrow> exn + CostBreakdown \<times> Status" where
  "cuda_retry ns =
    (let g1 = snd (record_attempt (cuda_attempt (mk_Id 50) (mk_Id 1) ns False) cuda_retry_gov);
         g2 = snd (record_attempt (cuda_attempt (mk_Id 51) (mk_Id 2) ns True) g1)
     in bindE (project (g_schedule g2) (attempts g2 (mk_Id 1)) kDefaultCurrency cuda_now) (\<lambda>bd.
        Inr (bd, fst (record_attempt (cuda_attempt (mk_Id 51) (mk_Id 2) ns True) g2))))"

definition cuda_main :: "Device \<Rightarrow> BudgetId list \<Rightarrow> exn + nat \<times> string list" where
  "cuda_main dv order =
    or_exit [] (cuda_checks dv [''devcount'']) (\<lambda>_.
    if dv_count dv < 1 then Inr (2, [])
    else or_exit [] (cuda_checks dv [''props'', ''meminfo0'']) (\<lambda>_.
    let out = [''CUDA device: '' @ dv_name dv @ '' (compute capability '' @ dec_digits (fst (dv_capability dv)) @ ''.'' @
          dec_digits (snd (dv_capability dv)) @ '')'']
    in or_exit out (run_workload dv 1048576) (\<lambda>ma.
    or_exit out (run_workload dv 4194304) (\<lambda>mb.
    bindE (plan_econ dv order (mk_Id 1) (m_device_ns ma) (m_bytes ma)) (\<lambda>da.
    bindE (plan_econ dv order (mk_Id 2) (m_device_ns mb) (m_bytes mb)) (\<lambda>db.
    bindE (cuda_retry (m_device_ns ma)) (\<lambda>(bd, dup).
    let out1 = out @
      [''Plan A: device_time='' @ i64_to_string (m_device_ns ma) @ '' ns, moved='' @ i64_to_string (m_bytes ma) @ '' bytes'',
       ''Plan B: device_time='' @ i64_to_string (m_device_ns mb) @ '' ns, moved='' @ i64_to_string (m_bytes mb) @ '' bytes'',
       ''Plan A projected total: '' @ money_to_string (bd_total (d_projected da)) @ '' '' @ kDefaultCurrency,
       ''Plan B projected total: '' @ money_to_string (bd_total (d_projected db)) @ '' '' @ kDefaultCurrency,
       selection da db,
       ''Retry: realized request cost (includes failed attempt 1) = '' @ money_to_string (bd_total bd),
       ''Duplicate completion rejected (no double-charge): '' @ (if dup = Status.INVALID_INPUT then ''yes'' else ''no'')]
    in if dup \<noteq> Status.INVALID_INPUT then Inr (3, out1)
       else or_exit out1 (cuda_checks dv [''meminfo1'']) (\<lambda>_.
         Inr (0, out1 @
           [''Device memory baseline closure: free before='' @ dec_digits (unat (dv_free_before dv)) @ '', after='' @
              dec_digits (unat (dv_free_after dv)) @ '' ('' @ (if dv_free_before dv \<le> dv_free_after dv then ''OK'' else ''LEAK'') @ '')'',
            ''CUDA proof complete.''])))))))))"

section \<open>The grid\<close>

text \<open>The index that a thread works on.\<close>

definition thread_index :: "nat \<times> nat \<times> nat \<Rightarrow> nat" where
  "thread_index t = (case t of (blk, dim, thr) \<Rightarrow> blk * dim + thr)"

lemma saxpy_index: "saxpy f b n t a = (if thread_index t < n then a[thread_index t := f (a ! thread_index t) (b ! thread_index t)] else a)"
  by (simp add: saxpy_def thread_index_def Let_def split: prod.splits)

lemma length_saxpy [simp]: "length (saxpy f b n t a) = length a"
  by (simp add: saxpy_index)

text \<open>Threads with different indices: each element is worked on at most once.\<close>

lemma saxpy_fold:
  "distinct (map thread_index ts) \<Longrightarrow> length a = n \<Longrightarrow> i < n \<Longrightarrow>
    fold (saxpy f b n) ts a ! i = (if i \<in> thread_index ` set ts then f (a ! i) (b ! i) else a ! i)"
proof (induction ts arbitrary: a)
  case (Cons t ts)
  then have "saxpy f b n t a ! i = (if i = thread_index t then f (a ! i) (b ! i) else a ! i)"
    by (simp add: saxpy_index)
  then show ?case
    using Cons by auto
qed simp

lemma length_saxpy_fold: "length (fold (saxpy f b n) ts a) = length a"
  by (induction ts arbitrary: a) simp_all

lemma concat_blocks:
  "concat (map (\<lambda>blk. map (\<lambda>thr. blk * k + thr) [0..<k]) [0..<m]) = [0..<m * k]"
proof (induction m)
  case (Suc m)
  have "map (\<lambda>thr. m * k + thr) [0..<k] = [m * k..<m * k + k]"
    using map_add_upt [of "m * k" k] by (simp add: add.commute)
  then show ?case
    using Suc upt_add_eq_append [of 0 "m * k" k] by (simp add: add.commute)
qed simp

lemma launch_indices: "map thread_index (launch_threads n) = [0..<(n + 255) div 256 * 256]"
proof -
  have "map thread_index (launch_threads n) =
      concat (map (\<lambda>blk. map (\<lambda>thr. blk * 256 + thr) [0..<256]) [0..<(n + 255) div 256])"
    by (simp add: launch_threads_def Let_def map_concat thread_index_def comp_def add.commute [of n])
  then show ?thesis
    by (simp only: concat_blocks)
qed

section \<open>Decisions and the retry\<close>

lemma infeasible_total:
  assumes "evaluate clk order g wl wg plans = Inr d" and "d_kind d = DecisionKind.NO_FEASIBLE_PLAN"
  shows "bd_total (d_projected d) = MoneyMicros 0"
proof (cases "g_revalidation_needed g \<or> plans = []")
  case True
  then show ?thesis
    using assms by (auto simp: evaluate_def Let_def CostDecision_default_def CostBreakdown_default_def split: if_splits)
next
  case False
  then obtain cs worst where cs: "evaluate_candidates clk order g plans = Inr (cs, worst)"
    using assms(1) by (auto simp: evaluate_def Let_def bindE_eq_Inr)
  show ?thesis
  proof (cases "stable_sort better (filter (\<lambda>c. pe_feasible (snd c) = Feasibility.FEASIBLE) cs)")
    case Nil
    then show ?thesis
      using assms False cs by (auto simp: evaluate_def Let_def CostDecision_default_def CostBreakdown_default_def)
  next
    case (Cons c rest)
    then obtain d1 where "build_explanation order g d1 (fst c) (snd c) wg plans = Inr d" "d_kind d1 = DecisionKind.AUTHORIZE"
      using assms(1) False cs by (cases c) (auto simp: evaluate_def Let_def bindE_eq_Inr)
    then show ?thesis
      using assms(2) build_explanation_keeps by fastforce
  qed
qed

text \<open>Recording the attempts of the retry, whatever was measured.\<close>

lemma cuda_attempt_sel:
  "ev_epoch (cuda_attempt i att ns success) = mk_Id 1" "ev_worker (cuda_attempt i att ns success) = mk_Id 1"
  "ev_boot (cuda_attempt i att ns success) = mk_Id 1" "ev_label (cuda_attempt i att ns success) = DataLabel.POLICY"
  "ev_request (cuda_attempt i att ns success) = mk_Id 1" "ev_attempt (cuda_attempt i att ns success) = att"
  "ev_attempt_gen (cuda_attempt i att ns success) = mk_Id 1"
  "evidence_negative (cuda_attempt i att ns success) \<longleftrightarrow> ns <s 0"
  by (simp_all add: cuda_attempt_def CostEvidence_default_def evidence_negative_def)

lemma cuda_record:
  assumes "g_epoch g = mk_Id 1" and "current_boot_for g (mk_Id 1) = mk_Id 1"
  shows "record_attempt (cuda_attempt i att ns success) g =
    (if ns <s 0 then (Status.INVALID_INPUT, g)
     else let req = (case g_attempts g (mk_Id 1) of None \<Rightarrow> [] | Some m \<Rightarrow> m);
              store = (\<lambda>m. g\<lparr>g_attempts := (g_attempts g)(mk_Id 1 \<mapsto> m)\<rparr>)
       in case smap_find req att of
            Some old \<Rightarrow>
              if ev_attempt_gen old = mk_Id 1 then (Status.INVALID_INPUT, store req)
              else (Status.OK, store (smap_put att (cuda_attempt i att ns success) req))
          | None \<Rightarrow> (Status.OK, store (smap_emplace att (cuda_attempt i att ns success) req)))"
  using assms by (simp add: record_attempt_def cuda_attempt_sel Let_def split: option.split)

lemma smap_find_nil: "smap_find [] k = None"
  by (simp add: smap_find_def)

lemma cuda_retry_duplicate:
  assumes "cuda_retry ns = Inr (bd, dup)"
  shows "dup = Status.INVALID_INPUT"
proof -
  let ?e1 = "cuda_attempt (mk_Id 50) (mk_Id 1) ns False" and ?e2 = "cuda_attempt (mk_Id 51) (mk_Id 2) ns True"
  define g2 where "g2 = snd (record_attempt ?e2 (snd (record_attempt ?e1 cuda_retry_gov)))"
  have start: "g_epoch cuda_retry_gov = mk_Id 1" "current_boot_for cuda_retry_gov (mk_Id 1) = mk_Id 1"
    "g_attempts cuda_retry_gov = Map.empty"
    by (simp_all add: cuda_retry_gov_def set_worker_boot_def set_policy_def set_price_schedule_def Impl_init_def
        current_boot_for_def cuda_policy_def smap_find_def)
  have "g_epoch g2 = mk_Id 1" "current_boot_for g2 (mk_Id 1) = mk_Id 1"
    "\<not> ns <s 0 \<Longrightarrow> \<exists>m. g_attempts g2 (mk_Id 1) = Some m \<and> smap_find m (mk_Id 2) = Some ?e2"
    using start
    by (auto simp: g2_def cuda_record current_boot_for_def Let_def smap_find_emplace smap_find_nil)
  then have "fst (record_attempt ?e2 g2) = Status.INVALID_INPUT"
    by (auto simp: cuda_record Let_def cuda_attempt_sel)
  then show ?thesis
    using assms by (auto simp: cuda_retry_def Let_def bindE_eq_Inr g2_def)
qed

text \<open>A device on which the second workload takes days.\<close>

definition sample_device :: Device where
  "sample_device = \<lparr>dv_ok = \<lambda>_. True, dv_count = 1, dv_name = ''GPU'', dv_capability = (8, 6),
    dv_elapsed_ns = \<lambda>n. if n = 1048576 then 1000000 else 200000000000000, dv_energy = \<lambda>_. 0,
    dv_free_before = 1000, dv_free_after = 1000\<rparr>"

lemma sample_device_runs:
  "case cuda_main sample_device [mk_Id 1] of Inl _ \<Rightarrow> False | Inr (code, out) \<Rightarrow> code = 0"
  by code_simp

lemma sample_device_plans:
  "case plan_econ sample_device [mk_Id 1] (mk_Id 1) 1000000 8388608 of Inl _ \<Rightarrow> False | Inr da \<Rightarrow> 0 <s total_micros (bd_total (d_projected da))"
  "case plan_econ sample_device [mk_Id 1] (mk_Id 2) 200000000000000 33554432 of
     Inl _ \<Rightarrow> False | Inr db \<Rightarrow> d_kind db = DecisionKind.NO_FEASIBLE_PLAN"
  by code_simp+

section \<open>Properties\<close>



text \<open>
  The program never reports success after charging a completion twice. Whatever the device measures, the
  repeated completion is refused, so that the program returns 0 or, when a call of the runtime fails or
  there is no device, 2; and when it returns 0 it has said that the repetition was rejected.
\<close>

lemma cuda_rejects_duplicate:
  assumes "cuda_main dv order = Inr (code, out)"
  shows "code = 0 \<and> ''Duplicate completion rejected (no double-charge): yes'' \<in> set out \<or> code = 2"
  using assms
  by (auto simp: cuda_main_def or_exit_def cuda_checks_def run_workload_def Let_def bindE_eq_Inr
      dest!: cuda_retry_duplicate split: if_splits sum.splits)

lemma cuda_rejects_duplicate_witness:
  "\<exists>out. cuda_main sample_device [mk_Id 1] = Inr (0, out) \<and>
    ''Duplicate completion rejected (no double-charge): yes'' \<in> set out"
proof -
  obtain out where out: "cuda_main sample_device [mk_Id 1] = Inr (0, out)"
    using sample_device_runs by (auto split: sum.splits)
  then show ?thesis
    using cuda_rejects_duplicate [OF out] by simp
qed

text \<open>
  A plan that nobody may run is taken for the cheaper one. The program compares projected totals without
  looking at the decisions; the total of a decision that found no feasible plan is zero, so as plan B it is
  selected over every plan A that costs anything.
\<close>

lemma cuda_selects_infeasible:
  assumes "plan_econ dv order i dev_ns bytes = Inr da" and "0 < micros (bd_total (d_projected da))"
    and "plan_econ dv order j dev_ns' bytes' = Inr db" and "d_kind db = DecisionKind.NO_FEASIBLE_PLAN"
  shows "selection da db = ''Deterministic selection: Plan B (cheaper)''"
proof -
  have "bd_total (d_projected db) = MoneyMicros 0"
    using infeasible_total assms(3, 4) unfolding plan_econ_def by blast
  then show ?thesis
    using assms(2) by (simp add: selection_def less_eq_MoneyMicros_def money_less_eq_def sint_rules)
qed

lemma cuda_selects_infeasible_witness:
  "\<exists>da db. plan_econ sample_device [mk_Id 1] (mk_Id 1) 1000000 8388608 = Inr da \<and>
    plan_econ sample_device [mk_Id 1] (mk_Id 2) 200000000000000 33554432 = Inr db \<and>
    d_kind db = DecisionKind.NO_FEASIBLE_PLAN \<and> selection da db = ''Deterministic selection: Plan B (cheaper)''"
proof -
  obtain da where da: "plan_econ sample_device [mk_Id 1] (mk_Id 1) 1000000 8388608 = Inr da" "0 <s total_micros (bd_total (d_projected da))"
    using sample_device_plans(1) by (auto split: sum.splits)
  obtain db where db: "plan_econ sample_device [mk_Id 1] (mk_Id 2) 200000000000000 33554432 = Inr db"
    "d_kind db = DecisionKind.NO_FEASIBLE_PLAN"
    using sample_device_plans(2) by (auto split: sum.splits)
  have "0 < micros (bd_total (d_projected da))"
    using da(2) by (simp add: sless_sint)
  then show ?thesis
    using cuda_selects_infeasible [OF da(1) _ db] da(1) db by blast
qed

end
