(* ===== verification/Spec2Isabelle.thy ===== *)
theory Spec2Isabelle
  imports Refinement Interleaving Runs Examples Sockets Benchmark Cuda
begin

text \<open>
  A verification development for the Cost Governor runtime: exact cost accounting, budgets and
  cost-aware plan authorisation for accelerator workloads, with durable state and a small distributed
  coordinator. File names below are relative to \<^verbatim>\<open>src/\<close>.

  \<^bold>\<open>The program.\<close> The library (\<^verbatim>\<open>include/costgovernor/\<close>, \<^verbatim>\<open>src/\<close>) is one class, \<^verbatim>\<open>CostGovernor\<close>, over value
  types. Its state has a policy, a price schedule, budgets, recorded attempts, a history, interventions,
  worker incarnations and an epoch. Clients publish prices and record attempts; they ask for the
  evaluation of candidate plans, which projects the cost of each plan with \<^verbatim>\<open>CostCalculator\<close>, checks
  prices, objectives and budgets, ranks the feasible plans and returns a decision; they validate a
  decision before dispatch; and they reserve, commit, release and consume money of a budget. The state is
  saved to a file and recovered from it. A coordinator process offers these operations over framed
  messages, workers publish prices to it, and a client library calls it; a runner starts all of them and
  checks their answers. A command line tool, examples, a benchmark and a proof on a CUDA device use the library.

  \<^bold>\<open>Representation.\<close> \<^verbatim>\<open>std::int64_t\<close> and \<^verbatim>\<open>std::uint64_t\<close> are 64-bit words, read signed or unsigned by the
  operation; arithmetic wraps where the sources do not check it. Strongly typed ids are one type with a
  phantom tag. Scoped enumerations that are read from bytes have a constructor for the values without an
  enumerator. Code that throws returns a sum with the exception on the left, and beside it the state as
  it was changed up to the throw. A \<^verbatim>\<open>std::map\<close> is a sorted association list; a \<^verbatim>\<open>std::unordered_map\<close> is a
  partial function, and code that iterates one takes the order as an argument. The clock is the sequence
  of readings that an operation makes. What the operating system answers (opening, writing, renaming and
  reading a file, the segments that \<^verbatim>\<open>recv\<close> finds, the counts that \<^verbatim>\<open>send\<close> accepts, whether a socket
  listens or connects, when a process is scheduled) is an argument, and so is the CUDA device.

  \<^bold>\<open>Theories.\<close>

  \<^item> \<^verbatim>\<open>Prelude\<close>: types, exceptions, word lemmas, and the interfaces \<open>enum_class\<close> (a scoped enumeration and
    its underlying byte) and \<open>safe_system\<close> (a transition system with an invariant).
  \<^item> \<^verbatim>\<open>Identity\<close>, \<^verbatim>\<open>Money\<close>, \<^verbatim>\<open>Prices\<close>: \<^verbatim>\<open>identity.hpp\<close>, \<^verbatim>\<open>status.hpp\<close>, \<^verbatim>\<open>money.hpp\<close>, \<^verbatim>\<open>units.hpp\<close>, \<^verbatim>\<open>price.hpp\<close> and
    \<^verbatim>\<open>policy.hpp\<close>. The interface \<open>checked_i64\<close> gives exactness of checked arithmetic for money and for
    amounts; rounding division, and printing that can be read back.
  \<^item> \<^verbatim>\<open>Costs\<close> models \<^verbatim>\<open>cost.hpp\<close> and \<^verbatim>\<open>cost.cpp\<close>; \<^verbatim>\<open>Projection\<close> specifies \<^verbatim>\<open>CostCalculator::project\<close> by integer
    sums and shows that the code computes them, when it throws, and that the order of attempts does not
    matter; also the price lookup, rounding and the unit scales.
  \<^item> \<^verbatim>\<open>Containers\<close>: the two maps and the interface \<open>std_map\<close>.
  \<^item> \<^verbatim>\<open>Budgets\<close>, \<^verbatim>\<open>Plans\<close>, \<^verbatim>\<open>Decisions\<close>: the data of \<^verbatim>\<open>budget.hpp\<close>, \<^verbatim>\<open>plan.hpp\<close> and \<^verbatim>\<open>decision.hpp\<close>.
  \<^item> \<^verbatim>\<open>Governor\<close>, \<^verbatim>\<open>Accounting\<close>, \<^verbatim>\<open>Evaluation\<close>, \<^verbatim>\<open>Interventions\<close>: the state and the operations of \<^verbatim>\<open>governor.cpp\<close>, one
    definition for each function and each early return and throw a branch.
  \<^item> \<^verbatim>\<open>Ledger\<close>: the governor with the reservations of its callers as a transition system. Money is
    conserved, hard budgets are kept, settled reservations are inert, epochs fence, refusals change nothing.
  \<^item> \<^verbatim>\<open>Intake\<close>: on the same system, attempts and requests are counted once and stale evidence is refused.
  \<^item> \<^verbatim>\<open>Ranking\<close>, \<^verbatim>\<open>Dispatch\<close>, \<^verbatim>\<open>CostStates\<close>: the standard's stable sort on the ranking (interface
    \<open>keyed_order\<close>); soundness of a feasible verdict, optimality of the selected plan, validation before
    dispatch, and the meaning of the reported cost state.
  \<^item> \<^verbatim>\<open>Codec\<close>, \<^verbatim>\<open>Crc32\<close>, \<^verbatim>\<open>Snapshot\<close>, \<^verbatim>\<open>Persistence\<close>: the byte codecs of \<^verbatim>\<open>persistence.cpp\<close> and \<^verbatim>\<open>chan.hpp\<close> with the
    interface \<open>byte_codec\<close>, interpreted on every record; what the checksum detects; round trip, rejection
    of damage, and that whatever decodes is well formed.
  \<^item> \<^verbatim>\<open>Store\<close>, \<^verbatim>\<open>Recovery\<close>: \<^verbatim>\<open>StateStore\<close> with its temporary file and rename, and \<^verbatim>\<open>persist\<close> and \<^verbatim>\<open>load\<close> of the governor.
  \<^item> \<^verbatim>\<open>Frames\<close>, \<^verbatim>\<open>Msgs\<close>: the framed transport of \<^verbatim>\<open>distributed/chan.hpp\<close> and the payloads of
    \<^verbatim>\<open>distributed/msgs.hpp\<close>.
  \<^item> \<^verbatim>\<open>Coordinator\<close>, \<^verbatim>\<open>Sessions\<close>: start, handlers and session loop of \<^verbatim>\<open>distributed/coordinator.cpp\<close>; no bytes
    overspend a hard budget, and every message is answered.
  \<^item> \<^verbatim>\<open>Refinement\<close>: the coordinator as a step relation is simulated by the ledger (interfaces
    \<open>forward_simulation\<close> and \<open>safe_implementation\<close>), so it inherits the ledger's invariant.
  \<^item> \<^verbatim>\<open>Interleaving\<close>: the sessions of the coordinator in parallel, as a step relation over the critical
    sections of their handlers.
  \<^item> \<^verbatim>\<open>Workers\<close>, \<^verbatim>\<open>Clients\<close>: the messages of \<^verbatim>\<open>distributed/worker.cpp\<close> and the client in
    \<^verbatim>\<open>distributed/proof_runner.cpp\<close>; through the interface \<open>remote_call\<close> a call over the network is the local
    operation.
  \<^item> \<^verbatim>\<open>Restart\<close>: what a coordinator holds after any messages can be written and read back, so it can be
    started again; the budgets that it then has, and what is forgotten.
  \<^item> \<^verbatim>\<open>Processes\<close>: the command lines of the runner's children and the \<^verbatim>\<open>main\<close> functions of worker and
    coordinator with their arguments and exit codes. \<^verbatim>\<open>Sockets\<close>: ownership of handles by the objects of \<^verbatim>\<open>Sock\<close>,
    and connecting.
  \<^item> \<^verbatim>\<open>Runner\<close>, \<^verbatim>\<open>Runs\<close>: \<^verbatim>\<open>main\<close> of \<^verbatim>\<open>distributed/proof_runner.cpp\<close> over an interface of calls and processes. The
    interfaces \<open>port_simulation\<close> and \<open>site_simulation\<close> show that the runner cannot tell the coordinator that
    decodes, answers and persists from the governor alone; on the latter the whole program is evaluated.
  \<^item> \<^verbatim>\<open>Cli\<close>, \<^verbatim>\<open>Examples\<close>: \<^verbatim>\<open>tools/cg_cli.cpp\<close> and \<^verbatim>\<open>examples/\<close> as the lines they print, evaluated.
  \<^item> \<^verbatim>\<open>Benchmark\<close>: the governor and the loops of \<^verbatim>\<open>bench/benchmark.cpp\<close>, and what they measure. \<^verbatim>\<open>Cuda\<close>: the kernel,
    its grid and the program of \<^verbatim>\<open>cuda/cuda_proof.cu\<close>.

  \<^bold>\<open>Termination and bounds.\<close> No definition has fuel. The loops over buffers end because each round takes
  bytes from the input or a count from the list of accepted counts, the session loop because each frame
  takes at least its header. The bounds of the decoders (a million entries, 16 MiB strings and frames,
  4096 plans) are those of the sources. The waiting loops of the runner try as often as the sources do
  (400 and 200 times). The evaluated run of the runner never has more than a hundred observations or
  history entries, far below what the decoder accepts, and this is checked at every save.

  \<^bold>\<open>Concurrency.\<close> Every operation of the governor holds its one mutex from the first to the last access, so
  a concurrent execution is a sequence of operations, and the transition systems allow any sequence. The
  coordinator's handlers are atomic in \<^verbatim>\<open>Coordinator\<close>; \<^verbatim>\<open>Interleaving\<close> splits those of \<^verbatim>\<open>RESERVE\<close>, \<^verbatim>\<open>COMMIT\<close> and
  \<^verbatim>\<open>RELEASE\<close> into their critical sections and lets any number of sessions interleave. The limits of hard
  budgets hold for every interleaving; the exact balance of reservations holds for handlers that do not
  overlap on one token, and a run in which two of them charge a token twice is exhibited.

  \<^bold>\<open>Not modelled.\<close> What the operating system does: finding a free port, waiting, creating threads and processes,
  sockets below the byte stream; its answers are arguments. Logging. \<^verbatim>\<open>clock.cpp\<close>: reads the wall
  clock. The times and rates that the benchmark prints, and floating-point numbers: the kernel is shown for
  any operation on the elements, and the CUDA proof for any estimate of the energy.
  The branches for Windows, apart from the command lines of the runner. \<^verbatim>\<open>version.hpp\<close>,
  \<^verbatim>\<open>Amount::to_string\<close> and \<^verbatim>\<open>unit_name\<close>, which nothing reads. The run of the runner is
  evaluated for the schedule in which a worker is done before the runner's next request; the simulation holds for every schedule.
  Signed overflow, undefined in C++, wraps here, as the tests after it in the sources assume.
\<close>

end
